(* ===== verification/Prelude.thy ===== *)
theory Prelude
  imports Main "HOL-Library.Word" "HOL-Library.Multiset" "HOL-Library.AList" "HOL-Library.Sublist"
begin

text \<open>
  The prelude of the development: how the Go code of the repository is read in HOL.

  \<^item> A Go function that may touch the outside world is a value of \<open>('w, 'a) go\<close>: it takes the world,
    and gives an \<open>outcome\<close> and the new world. \<open>Return\<close> is a return with a nil error, \<open>Error\<close> a
    return with a non-nil error (the other results are then never used by the callers modelled
    here), \<open>Panic\<close> a run-time panic, \<open>Blocked\<close> a goroutine that waits forever.
  \<^item> \<open>go_bind\<close> is the pattern \<^verbatim>\<open>x, err := f(); if err != nil { return err }\<close> followed by the rest;
    \<open>go_try\<close> is a call whose error the caller inspects.
  \<^item> A \<^verbatim>\<open>map[string]string\<close> is an association list with distinct keys; reading an absent key gives the
    zero value. The order in which \<^verbatim>\<open>range\<close> visits a map is unspecified in Go: a definition that
    ranges over a map takes the order as an argument.
  \<^item> Go's \<^verbatim>\<open>int\<close>, \<^verbatim>\<open>uint\<close>, \<^verbatim>\<open>int32\<close> and \<^verbatim>\<open>int64\<close> are words of their width, and the conversions between
    them truncate or extend as Go's do.
  \<^item> A channel is nil or a way to hand a message over; sending on a nil channel blocks forever.
\<close>

section \<open>Collections of facts\<close>

named_theorems go_simps \<open>rewrite rules that run a Go program\<close>
named_theorems go_defs \<open>definitions of the operations of the model, to unfold in a proof about one operation\<close>

section \<open>Errors and outcomes\<close>

datatype go_error =
    ErrorString string          \<comment> \<open>errors.New, fmt.Errorf\<close>
  | Wrapped string go_error     \<comment> \<open>errors.Wrap of github.com/pkg/errors: message, cause\<close>
  | NotFound string             \<comment> \<open>Kubernetes status errors, with the object's name\<close>
  | AlreadyExists string
  | BadRequest string
  | SyntaxError                 \<comment> \<open>encoding/json: the text is not JSON\<close>
  | UnmarshalTypeError          \<comment> \<open>encoding/json: the JSON value does not fit the Go type\<close>
  | PathError string string string \<comment> \<open>package os: operation, path, reason\<close>
  | EOF

datatype 'a outcome = Return 'a | Error go_error | Panic string | Blocked

type_synonym ('w, 'a) go = "'w \<Rightarrow> 'a outcome \<times> 'w"

definition go_return :: "'a \<Rightarrow> ('w, 'a) go" where
  "go_return a w = (Return a, w)"

definition go_throw :: "go_error \<Rightarrow> ('w, 'a) go" where
  "go_throw e w = (Error e, w)"

definition go_panic :: "string \<Rightarrow> ('w, 'a) go" where
  "go_panic msg w = (Panic msg, w)"

definition go_bind :: "('w, 'a) go \<Rightarrow> ('a \<Rightarrow> ('w, 'b) go) \<Rightarrow> ('w, 'b) go" where
  "go_bind m k w = (case m w of
      (Return a, w') \<Rightarrow> k a w'
    | (Error e, w') \<Rightarrow> (Error e, w')
    | (Panic p, w') \<Rightarrow> (Panic p, w')
    | (Blocked, w') \<Rightarrow> (Blocked, w'))"

definition go_try :: "('w, 'a) go \<Rightarrow> ('w, go_error + 'a) go" where
  "go_try m w = (case m w of
      (Return a, w') \<Rightarrow> (Return (Inr a), w')
    | (Error e, w') \<Rightarrow> (Return (Inl e), w')
    | (Panic p, w') \<Rightarrow> (Panic p, w')
    | (Blocked, w') \<Rightarrow> (Blocked, w'))"

text \<open>A call of a pure function with an error result.\<close>

definition go_lift :: "go_error + 'a \<Rightarrow> ('w, 'a) go" where
  "go_lift r w = (case r of Inl e \<Rightarrow> (Error e, w) | Inr a \<Rightarrow> (Return a, w))"

text \<open>A pointer that is followed: nil panics.\<close>

definition deref :: "'a option \<Rightarrow> ('w, 'a) go" where
  "deref p = (case p of None \<Rightarrow> go_panic ''invalid memory address or nil pointer dereference'' | Some a \<Rightarrow> go_return a)"

lemma go_return_run [simp, go_simps]: "go_return a w = (Return a, w)"
  and go_throw_run [simp, go_simps]: "go_throw e w = (Error e, w)"
  and go_panic_run [simp, go_simps]: "go_panic p w = (Panic p, w)"
  by (simp_all add: go_return_def go_throw_def go_panic_def)

lemma go_lift_run [simp, go_simps]:
  "go_lift (Inl e) w = (Error e, w)"
  "go_lift (Inr a) w = (Return a, w)"
  by (simp_all add: go_lift_def)

lemma go_bind_run [go_simps]:
  "m w = (Return a, w') \<Longrightarrow> go_bind m k w = k a w'"
  "m w = (Error e, w') \<Longrightarrow> go_bind m k w = (Error e, w')"
  "m w = (Panic p, w') \<Longrightarrow> go_bind m k w = (Panic p, w')"
  "m w = (Blocked, w') \<Longrightarrow> go_bind m k w = (Blocked, w')"
  by (simp_all add: go_bind_def)

text \<open>The same for a boolean result, where the simplifier would turn the equation of the results into a literal.\<close>

lemma go_bind_bool [go_simps]:
  "m w = (Return True, w') \<Longrightarrow> go_bind m k w = k True w'"
  "m w = (Return False, w') \<Longrightarrow> go_bind m k w = k False w'"
  by (simp_all add: go_bind_def)

lemma go_try_run [go_simps]:
  "m w = (Return a, w') \<Longrightarrow> go_try m w = (Return (Inr a), w')"
  "m w = (Error e, w') \<Longrightarrow> go_try m w = (Return (Inl e), w')"
  "m w = (Panic p, w') \<Longrightarrow> go_try m w = (Panic p, w')"
  "m w = (Blocked, w') \<Longrightarrow> go_try m w = (Blocked, w')"
  by (simp_all add: go_try_def)

lemma go_bind_return_left [simp]: "go_bind (go_return a) k = k a"
  by (rule ext) (simp add: go_bind_def)

lemma go_bind_return_right [simp]: "go_bind m go_return = m"
  by (rule ext) (simp add: go_bind_def split: prod.split outcome.split)

lemma go_bind_throw [simp]: "go_bind (go_throw e) k = go_throw e"
  by (rule ext) (simp add: go_bind_def)

lemma go_bind_lift [simp]:
  "go_bind (go_lift (Inl e)) k = go_throw e"
  "go_bind (go_lift (Inr a)) k = k a"
  by (rule ext, simp add: go_bind_def)+

lemma go_bind_assoc: "go_bind (go_bind m k) l = go_bind m (\<lambda>a. go_bind (k a) l)"
  by (rule ext) (simp add: go_bind_def split: prod.split outcome.split)

text \<open>A run of a bind that returns comes from two runs that return.\<close>

lemma go_bind_ReturnE:
  assumes "go_bind m k w = (Return b, w'')"
  obtains a w' where "m w = (Return a, w')" and "k a w' = (Return b, w'')"
  using assms by (auto simp: go_bind_def split: prod.splits outcome.splits)

lemma go_bind_cases:
  "go_bind m k w = (r, w'') \<longleftrightarrow>
     (\<exists>a w'. m w = (Return a, w') \<and> k a w' = (r, w''))
     \<or> (\<exists>e. m w = (Error e, w'') \<and> r = Error e)
     \<or> (\<exists>p. m w = (Panic p, w'') \<and> r = Panic p)
     \<or> m w = (Blocked, w'') \<and> r = Blocked"
  by (auto simp: go_bind_def split: prod.splits outcome.splits)

text \<open>The call came back: with a result or with an error, without a panic and without blocking forever.\<close>

fun settled :: "'a outcome \<Rightarrow> bool" where
  "settled (Return a) = True"
| "settled (Error e) = True"
| "settled (Panic p) = False"
| "settled Blocked = False"

lemma settled_bind:
  assumes "settled (fst (m w))" and "\<And>a w'. m w = (Return a, w') \<Longrightarrow> settled (fst (k a w'))"
  shows "settled (fst (go_bind m k w))"
  using assms by (auto simp: go_bind_def split: prod.splits outcome.splits)

lemma settled_lift [simp]: "settled (fst (go_lift r w))"
  by (cases r) simp_all

lemma deref_run [simp, go_simps]:
  "deref (Some a) w = (Return a, w)"
  "deref None w = (Panic ''invalid memory address or nil pointer dereference'', w)"
  by (simp_all add: deref_def)

section \<open>Maps from strings to strings\<close>

type_synonym gomap = "(string \<times> string) list"

text \<open>\<^verbatim>\<open>m[k]\<close>: the zero value for an absent key.\<close>

definition map_index :: "gomap \<Rightarrow> string \<Rightarrow> string" where
  "map_index m k = (case map_of m k of None \<Rightarrow> '''' | Some v \<Rightarrow> v)"

text \<open>\<^verbatim>\<open>m[k] = v\<close>.\<close>

definition map_assign :: "string \<Rightarrow> string \<Rightarrow> gomap \<Rightarrow> gomap" where
  "map_assign k v m = AList.update k v m"

definition gomap_wf :: "gomap \<Rightarrow> bool" where
  "gomap_wf m \<longleftrightarrow> distinct (map fst m)"

text \<open>
  A map that may be nil, as a field of a decoded object is when the key is absent from the text:
  reading gives the zero value, assigning to it panics.
\<close>

type_synonym nilmap = "gomap option"

definition nilmap_index :: "nilmap \<Rightarrow> string \<Rightarrow> string" where
  "nilmap_index m k = (case m of None \<Rightarrow> '''' | Some m' \<Rightarrow> map_index m' k)"

definition nilmap_assign :: "string \<Rightarrow> string \<Rightarrow> nilmap \<Rightarrow> ('w, nilmap) go" where
  "nilmap_assign k v m = (case m of
      None \<Rightarrow> go_panic ''assignment to entry in nil map''
    | Some m' \<Rightarrow> go_return (Some (map_assign k v m')))"

lemma map_of_map_assign [simp]: "map_of (map_assign k v m) = (map_of m)(k \<mapsto> v)"
  by (simp add: map_assign_def update_conv')

lemma map_index_assign [simp]:
  "map_index (map_assign k v m) k' = (if k' = k then v else map_index m k')"
  by (simp add: map_index_def)

lemma map_index_Cons [simp]:
  "map_index ((k, v) # m) k' = (if k' = k then v else map_index m k')"
  "map_index [] k' = ''''"
  by (simp_all add: map_index_def)

lemma gomap_wf_assign [intro]: "gomap_wf m \<Longrightarrow> gomap_wf (map_assign k v m)"
  by (simp add: gomap_wf_def map_assign_def distinct_update)

lemma nilmap_index_simps [simp]:
  "nilmap_index None k = ''''"
  "nilmap_index (Some m) k = map_index m k"
  by (simp_all add: nilmap_index_def)

lemma nilmap_assign_run [simp, go_simps]:
  "nilmap_assign k v None w = (Panic ''assignment to entry in nil map'', w)"
  "nilmap_assign k v (Some m) w = (Return (Some (map_assign k v m)), w)"
  by (simp_all add: nilmap_assign_def)

text \<open>
  The order in which a \<^verbatim>\<open>range\<close> statement visits its map: every entry once, in an order the language
  leaves open.
\<close>

definition range_order :: "('a list \<Rightarrow> 'a list) \<Rightarrow> bool" where
  "range_order ord \<longleftrightarrow> (\<forall>xs. mset (ord xs) = mset xs)"

lemma range_order_mset: "range_order ord \<Longrightarrow> mset (ord xs) = mset xs"
  by (simp add: range_order_def)

lemma range_order_set: "range_order ord \<Longrightarrow> set (ord xs) = set xs"
  by (metis range_order_mset set_mset_mset)

lemma range_order_distinct: "range_order ord \<Longrightarrow> distinct (ord xs) = distinct xs"
  by (metis mset_eq_imp_distinct_iff range_order_mset)

lemma range_order_length: "range_order ord \<Longrightarrow> length (ord xs) = length xs"
  by (metis mset_eq_length range_order_mset)

lemma range_order_id: "range_order id"
  and range_order_rev: "range_order rev"
  by (simp_all add: range_order_def)

section \<open>Machine integers\<close>

type_synonym go_int = "64 word"
type_synonym go_uint = "64 word"
type_synonym int32 = "32 word"
type_synonym int64 = "64 word"

text \<open>\<^verbatim>\<open>int32(i)\<close> of an \<^verbatim>\<open>int\<close> or \<^verbatim>\<open>uint\<close>: the low 32 bits. \<^verbatim>\<open>int(i)\<close> of an \<^verbatim>\<open>int32\<close>: sign extension.\<close>

definition to_int32 :: "64 word \<Rightarrow> int32" where
  "to_int32 i = ucast i"

definition of_int32 :: "int32 \<Rightarrow> go_int" where
  "of_int32 i = scast i"

lemma sint_to_int32_fits:
  assumes "- (2 ^ 31) \<le> sint i" and "sint i < 2 ^ 31"
  shows "sint (to_int32 i) = sint i"
proof -
  have "sint (to_int32 i) = signed_take_bit 31 (uint i)"
    by (simp add: to_int32_def sint_uint unsigned_ucast_eq signed_take_bit_take_bit
        flip: take_bit_eq_mask)
  also have "\<dots> = signed_take_bit 31 (signed_take_bit 63 (uint i))"
    by (simp add: signed_take_bit_signed_take_bit)
  also have "\<dots> = signed_take_bit 31 (sint i)"
    by (simp add: sint_uint)
  also have "\<dots> = sint i"
    using assms by (simp add: signed_take_bit_int_eq_self)
  finally show ?thesis .
qed

lemma sint_of_int32: "sint (of_int32 i) = sint i"
proof -
  have "- (2 ^ 31) \<le> sint i" and "sint i < 2 ^ 31"
    using sint_ge [of i] sint_lt [of i] by simp_all
  then show ?thesis
    by (simp add: of_int32_def signed_scast_eq signed_take_bit_int_eq_self)
qed

section \<open>Channels\<close>

text \<open>
  A Go channel as its sender sees it. A nil channel blocks every sender forever; a send on a
  channel with a receiver hands the message over, which the world records.
\<close>

datatype ('m, 'w) chan = NilChan | Chan "'m \<Rightarrow> 'w \<Rightarrow> 'w"

fun chan_send :: "('m, 'w) chan \<Rightarrow> 'm \<Rightarrow> ('w, unit) go" where
  "chan_send NilChan m w = (Blocked, w)"
| "chan_send (Chan deliver) m w = (Return (), deliver m w)"

declare chan_send.simps [go_simps]

section \<open>Strings\<close>

text \<open>\<^verbatim>\<open>strings.Split\<close> at a separator of one character, and \<^verbatim>\<open>strings.Join\<close>.\<close>

fun split_on :: "char \<Rightarrow> string \<Rightarrow> string list" where
  "split_on c [] = [[]]"
| "split_on c (x # xs) = (if x = c then [] # split_on c xs
     else (case split_on c xs of [] \<Rightarrow> [[x]] | y # ys \<Rightarrow> (x # y) # ys))"

fun join_with :: "char \<Rightarrow> string list \<Rightarrow> string" where
  "join_with c [] = []"
| "join_with c [x] = x"
| "join_with c (x # xs) = x @ c # join_with c xs"

lemma split_on_nonempty [simp]: "split_on c s \<noteq> []"
  by (induction s) (auto split: list.split)

lemma join_split: "join_with c (split_on c s) = s"
proof (induction s)
  case (Cons x xs)
  then show ?case
    by (cases "split_on c xs"; cases "tl (split_on c xs)") auto
qed simp

lemma split_on_free: "c \<notin> set s \<Longrightarrow> split_on c s = [s]"
  by (induction s) auto

lemma split_on_parts: "s' \<in> set (split_on c s) \<Longrightarrow> c \<notin> set s'"
  by (induction s arbitrary: s') (auto split: list.splits if_splits)

lemma split_on_append: "c \<notin> set s \<Longrightarrow> split_on c (s @ c # t) = s # split_on c t"
  by (induction s) auto

section \<open>Lists\<close>

lemma filter_unique_key:
  "distinct (map f xs) \<Longrightarrow> x \<in> set xs \<Longrightarrow> filter (\<lambda>y. f y = f x) xs = [x]"
  by (induction xs) (auto simp: filter_empty_conv image_iff)

lemma distinct_map_single: "distinct (map f xs) \<Longrightarrow> set xs = {x} \<Longrightarrow> xs = [x]"
proof -
  assume "distinct (map f xs)" and xs: "set xs = {x}"
  then have "length xs = card (set xs)"
    by (metis distinct_card distinct_map)
  with xs have "length xs = Suc 0" by simp
  then obtain y where "xs = [y]" by (auto simp: length_Suc_conv)
  with xs show "xs = [x]" by simp
qed

lemma filter_mset_comm: "mset (filter P xs) = filter_mset P (mset xs)"
  by simp

end
