(* ===== verification/Go_Path.thy ===== *)
theory Go_Path
  imports Prelude
begin

text \<open>
  What the program uses of \<^verbatim>\<open>path/filepath\<close> on Unix: \<^verbatim>\<open>Clean\<close>, \<^verbatim>\<open>Join\<close> and \<^verbatim>\<open>Dir\<close>, which are lexical. A path is cleaned
  by its segments: empty ones and dots are dropped, a double dot takes away the segment before
  it, or stays at the front of a relative path, or is dropped at the root.

  The lemmas: the segments of a cleaned path, and when joining a name to a directory stays below it.
\<close>

section \<open>Definitions\<close>

definition segments :: "string \<Rightarrow> string list" where
  "segments p = split_on (CHR ''/'') p"

text \<open>\<open>acc\<close>: the segments kept so far, the last one first.\<close>

fun clean_segments :: "bool \<Rightarrow> string list \<Rightarrow> string list \<Rightarrow> string list" where
  "clean_segments rooted [] acc = rev acc"
| "clean_segments rooted (s # ss) acc =
     (if s = '''' \<or> s = ''.'' then clean_segments rooted ss acc
      else if s = ''..'' then
        (case acc of
           [] \<Rightarrow> if rooted then clean_segments rooted ss [] else clean_segments rooted ss [s]
         | a # as \<Rightarrow> if a = ''..'' then clean_segments rooted ss (s # acc) else clean_segments rooted ss as)
      else clean_segments rooted ss (s # acc))"

definition rooted :: "string \<Rightarrow> bool" where
  "rooted p \<longleftrightarrow> take 1 p = ''/''"

definition Clean :: "string \<Rightarrow> string" where
  "Clean p =
     (let ss = clean_segments (rooted p) (segments p) [] in
      if rooted p then CHR ''/'' # join_with (CHR ''/'') ss
      else if ss = [] then ''.'' else join_with (CHR ''/'') ss)"

fun Join :: "string list \<Rightarrow> string" where
  "Join [] = ''''"
| "Join (e # es) = (if e = '''' then Join es else Clean (join_with (CHR ''/'') (e # es)))"

text \<open>\<^verbatim>\<open>Dir\<close>: all but the last segment, cleaned.\<close>

definition Dir :: "string \<Rightarrow> string" where
  "Dir p = Clean (concat (map (\<lambda>s. s @ ''/'') (butlast (segments p))))"

section \<open>Segments\<close>

lemma split_on_snoc: "split_on c (s @ c # t) = split_on c s @ split_on c t"
proof (induction s)
  case (Cons x xs)
  then show ?case by (cases "split_on c xs") auto
qed simp

lemma join_split_on:
  "ss \<noteq> [] \<Longrightarrow> \<forall>s \<in> set ss. c \<notin> set s \<Longrightarrow> split_on c (join_with c ss) = ss"
  by (induction ss rule: join_with.induct) (simp_all add: split_on_free split_on_append)

text \<open>What a cleaned path consists of.\<close>

definition plain_segment :: "string \<Rightarrow> bool" where
  "plain_segment s \<longleftrightarrow> s \<notin> {'''', ''.'', ''..''} \<and> CHR ''/'' \<notin> set s"

lemma clean_plain:
  "list_all plain_segment ss \<Longrightarrow> clean_segments r (ss @ ts) acc = clean_segments r ts (rev ss @ acc)"
  by (induction ss arbitrary: acc) (auto simp: plain_segment_def)

lemma clean_plain_all: "list_all plain_segment ss \<Longrightarrow> clean_segments r ss [] = ss"
  using clean_plain [of ss r "[]" "[]"] by simp

lemma clean_slash_free:
  "\<forall>s \<in> set ss \<union> set acc. CHR ''/'' \<notin> set s \<Longrightarrow> s \<in> set (clean_segments r ss acc) \<Longrightarrow> CHR ''/'' \<notin> set s"
  by (induction r ss acc rule: clean_segments.induct) (auto split: if_splits list.splits)

lemma clean_rooted_plain:
  "list_all plain_segment acc \<Longrightarrow> \<forall>s \<in> set ss. CHR ''/'' \<notin> set s \<Longrightarrow> list_all plain_segment (clean_segments True ss acc)"
proof (induction "True" ss acc rule: clean_segments.induct)
  case (2 s ss acc)
  then show ?case by (cases acc) (auto simp: plain_segment_def)
qed (simp add: list_all_rev)

text \<open>A name that, read from left to right, never goes above where it started; \<open>d\<close> is the depth so far.\<close>

fun inside :: "nat \<Rightarrow> string list \<Rightarrow> bool" where
  "inside d [] = True"
| "inside d (s # ss) =
     (if s = '''' \<or> s = ''.'' then inside d ss
      else if s = ''..'' then d > 0 \<and> inside (d - 1) ss
      else inside (Suc d) ss)"

lemma clean_inside:
  assumes "inside (length acc) ss" and "list_all plain_segment acc" and "\<forall>s \<in> set ss. CHR ''/'' \<notin> set s"
  shows "clean_segments True ss (acc @ rev t) = t @ clean_segments True ss acc"
  using assms
proof (induction ss arbitrary: acc)
  case (Cons s ss)
  show ?case
    using Cons.prems Cons.IH [of acc] Cons.IH [of "s # acc"] Cons.IH [of "tl acc"]
    by (cases acc) (auto simp: plain_segment_def split: if_splits)
qed simp

text \<open>Absolute paths by their segments.\<close>

definition abs_path :: "string list \<Rightarrow> string" where
  "abs_path ss = CHR ''/'' # join_with (CHR ''/'') ss"

lemma rooted_abs_path [simp]: "rooted (abs_path ss)"
  by (simp add: rooted_def abs_path_def)

lemma segments_abs_path:
  "ss \<noteq> [] \<Longrightarrow> list_all plain_segment ss \<Longrightarrow> segments (abs_path ss) = '''' # ss"
  by (simp add: segments_def abs_path_def join_split_on list_all_iff plain_segment_def)

lemma Clean_abs_path: "list_all plain_segment ss \<Longrightarrow> Clean (abs_path ss) = abs_path ss"
proof (cases "ss = []")
  case True
  then show ?thesis by (simp add: Clean_def Let_def abs_path_def rooted_def segments_def)
next
  case False
  assume "list_all plain_segment ss"
  with False show ?thesis
    by (simp add: Clean_def Let_def segments_abs_path clean_plain_all abs_path_def [symmetric])
qed

text \<open>A name joined to a directory.\<close>

lemma Join_abs_path:
  assumes "list_all plain_segment t" and "t \<noteq> []"
  shows "Join [abs_path t, n] = abs_path (clean_segments True (segments n) (rev t))"
proof -
  have "segments (abs_path t @ CHR ''/'' # n) = '''' # t @ segments n"
    using segments_abs_path [OF assms(2,1)] by (simp add: segments_def split_on_snoc)
  moreover have "rooted (abs_path t @ CHR ''/'' # n)" by (simp add: rooted_def abs_path_def)
  moreover have "abs_path t \<noteq> ''''" by (simp add: abs_path_def)
  ultimately show ?thesis
    by (simp add: Clean_def Let_def clean_plain [OF assms(1)] abs_path_def [symmetric])
qed

lemma segments_slash_free: "s \<in> set (segments p) \<Longrightarrow> CHR ''/'' \<notin> set s"
  by (simp add: segments_def split_on_parts)

lemma Join_inside:
  assumes "list_all plain_segment t" and "t \<noteq> []" and "inside 0 (segments n)"
  shows "Join [abs_path t, n] = abs_path (t @ clean_segments True (segments n) [])"
  using clean_inside [of "[]" "segments n" t] assms segments_slash_free
  by (simp add: Join_abs_path del: Join.simps)

lemma Dir_abs_path:
  assumes "list_all plain_segment ss" and "ss \<noteq> []"
  shows "Dir (abs_path ss) = abs_path (butlast ss)"
proof -
  let ?p = "concat (map (\<lambda>s. s @ ''/'') ('''' # butlast ss))"
  have parts: "\<forall>s \<in> set (butlast ss). CHR ''/'' \<notin> set s"
    using assms(1) by (auto simp: list_all_iff plain_segment_def dest: in_set_butlastD)
  have "segments (concat (map (\<lambda>s. s @ ''/'') xs)) = xs @ ['''']" if "\<forall>s \<in> set xs. CHR ''/'' \<notin> set s" for xs
    using that by (induction xs) (simp_all add: segments_def split_on_append)
  from this [of "'''' # butlast ss"] parts have "segments ?p = '''' # butlast ss @ ['''']" by simp
  moreover have "list_all plain_segment (butlast ss)"
    using assms(1) by (auto simp: list_all_iff dest: in_set_butlastD)
  moreover have "rooted ?p" by (simp add: rooted_def)
  ultimately have "Clean ?p = abs_path (butlast ss)"
    by (simp add: Clean_def Let_def clean_plain abs_path_def [symmetric])
  moreover have "butlast ('''' # ss) = '''' # butlast ss" using assms(2) by simp
  ultimately show ?thesis
    using segments_abs_path [OF assms(2,1)] by (simp add: Dir_def)
qed

end
