(* ===== verification/Go_Os.thy ===== *)
theory Go_Os
  imports Go_Path
begin

unbundle bit_operations_syntax

text \<open>
  What the program uses of package \<^verbatim>\<open>os\<close>: the environment and the file system of its container. The file
  system maps the segments of a path to a file with its content or to a directory; the root is always there.
  Modes are permission bits (0x1ED is 0755 in octal, 0x1B6 is 0666, 0x1FF is 0777), a new node gets them less the
  mask of the process; they are not enforced, since the
  program runs as root. There are no symbolic links, so a path names what its cleaned segments name.

  The lemmas: which nodes each operation may change, and when it succeeds.
\<close>

section \<open>Definitions\<close>

datatype node = File string "32 word" | Directory "32 word"

record os_world =
  os_env :: gomap
  os_cwd :: "string list"
  os_umask :: "32 word"
  os_files :: "string list \<Rightarrow> node option"

definition os_Getenv :: "string \<Rightarrow> 'm os_world_scheme \<Rightarrow> string" where
  "os_Getenv k w = map_index (os_env w) k"

text \<open>A variable has a name without \<^verbatim>\<open>=\<close>, and neither it nor its value contains a NUL.\<close>

definition os_Setenv :: "string \<Rightarrow> string \<Rightarrow> ('m os_world_scheme, unit) go" where
  "os_Setenv k v w =
     (if k = '''' \<or> CHR ''='' \<in> set k \<or> CHR 0x00 \<in> set k \<or> CHR 0x00 \<in> set v
      then (Error (ErrorString ''setenv: invalid argument''), w)
      else (Return (), w\<lparr>os_env := map_assign k v (os_env w)\<rparr>))"

definition os_Environ :: "'m os_world_scheme \<Rightarrow> string list" where
  "os_Environ w = map (\<lambda>(k, v). k @ ''='' @ v) (os_env w)"

text \<open>The segments a path stands for.\<close>

definition resolve :: "'m os_world_scheme \<Rightarrow> string \<Rightarrow> string list" where
  "resolve w p = clean_segments True ((if rooted p then [] else os_cwd w) @ segments p) []"

definition node_at :: "'m os_world_scheme \<Rightarrow> string list \<Rightarrow> node option" where
  "node_at w ss = (if ss = [] then Some (Directory 0x1ED) else os_files w ss)"

definition set_node :: "string list \<Rightarrow> node \<Rightarrow> 'm os_world_scheme \<Rightarrow> 'm os_world_scheme" where
  "set_node ss n w = w\<lparr>os_files := (os_files w)(ss \<mapsto> n)\<rparr>"

text \<open>The way to a node leads through directories: the reason why it does not, from the directory \<open>d\<close> on.\<close>

fun blocked_at :: "'m os_world_scheme \<Rightarrow> string list \<Rightarrow> string list \<Rightarrow> string option" where
  "blocked_at w d [] = None"
| "blocked_at w d [s] = None"
| "blocked_at w d (s # ss) = (case node_at w (d @ [s]) of
      None \<Rightarrow> Some ''no such file or directory''
    | Some (File _ _) \<Rightarrow> Some ''not a directory''
    | Some (Directory _) \<Rightarrow> blocked_at w (d @ [s]) ss)"

text \<open>The node at a path, or the error of the system call.\<close>

definition open_node :: "string \<Rightarrow> string \<Rightarrow> 'm os_world_scheme \<Rightarrow> go_error + node option" where
  "open_node op p w = (case blocked_at w [] (resolve w p) of
      Some reason \<Rightarrow> Inl (PathError op p reason)
    | None \<Rightarrow> Inr (node_at w (resolve w p)))"

text \<open>
  \<^verbatim>\<open>os.Create\<close> makes or empties the file. The handle it returns is the place of the file.
\<close>

definition os_Create :: "string \<Rightarrow> ('m os_world_scheme, string list) go" where
  "os_Create p w = (case open_node ''open'' p w of
      Inl e \<Rightarrow> (Error e, w)
    | Inr (Some (Directory _)) \<Rightarrow> (Error (PathError ''open'' p ''is a directory''), w)
    | Inr (Some (File _ m)) \<Rightarrow> (Return (resolve w p), set_node (resolve w p) (File '''' m) w)
    | Inr None \<Rightarrow> (Return (resolve w p), set_node (resolve w p) (File '''' (0x1B6 AND NOT (os_umask w))) w))"

text \<open>A reader: what is left to read and the error that ends it, if any. Copying it into a file writes what there is.\<close>

record reader =
  rd_Rest :: string
  rd_Error :: "go_error option"

definition copy_to_file :: "string list \<Rightarrow> reader \<Rightarrow> ('m os_world_scheme, unit) go" where
  "copy_to_file h r w =
     (let w' = (case os_files w h of Some (File c m) \<Rightarrow> set_node h (File (c @ rd_Rest r) m) w | _ \<Rightarrow> w) in
      case rd_Error r of Some e \<Rightarrow> (Error e, w') | None \<Rightarrow> (Return (), w'))"

text \<open>\<^verbatim>\<open>os.MkdirAll\<close>: the missing directories on the way, from the directory \<open>d\<close> on.\<close>

fun mkdirs :: "32 word \<Rightarrow> string list \<Rightarrow> string list \<Rightarrow> ('m os_world_scheme, unit) go" where
  "mkdirs perm d [] w = (Return (), w)"
| "mkdirs perm d (s # ss) w = (case node_at w (d @ [s]) of
      Some (Directory _) \<Rightarrow> mkdirs perm (d @ [s]) ss w
    | Some (File _ _) \<Rightarrow> (Error (PathError ''mkdir'' (abs_path (d @ [s])) ''not a directory''), w)
    | None \<Rightarrow> mkdirs perm (d @ [s]) ss (set_node (d @ [s]) (Directory (perm AND 0x1FF AND NOT (os_umask w))) w))"

definition os_MkdirAll :: "string \<Rightarrow> 32 word \<Rightarrow> ('m os_world_scheme, unit) go" where
  "os_MkdirAll p perm w = mkdirs perm [] (resolve w p) w"

definition os_Chmod :: "string \<Rightarrow> 32 word \<Rightarrow> ('m os_world_scheme, unit) go" where
  "os_Chmod p mode w = (case open_node ''chmod'' p w of
      Inl e \<Rightarrow> (Error e, w)
    | Inr None \<Rightarrow> (Error (PathError ''chmod'' p ''no such file or directory''), w)
    | Inr (Some (File c _)) \<Rightarrow> (Return (), set_node (resolve w p) (File c (mode AND 0x1FF)) w)
    | Inr (Some (Directory _)) \<Rightarrow> (Return (), set_node (resolve w p) (Directory (mode AND 0x1FF)) w))"

text \<open>\<^verbatim>\<open>os.Open\<close>: a directory can be opened, and fails when it is read as a file.\<close>

definition os_Open :: "string \<Rightarrow> ('m os_world_scheme, reader) go" where
  "os_Open p w = (case open_node ''open'' p w of
      Inl e \<Rightarrow> (Error e, w)
    | Inr None \<Rightarrow> (Error (PathError ''open'' p ''no such file or directory''), w)
    | Inr (Some (File c _)) \<Rightarrow> (Return \<lparr>rd_Rest = c, rd_Error = None\<rparr>, w)
    | Inr (Some (Directory _)) \<Rightarrow> (Return \<lparr>rd_Rest = '''', rd_Error = Some (PathError ''read'' p ''is a directory'')\<rparr>, w))"

definition ioutil_ReadFile :: "string \<Rightarrow> ('m os_world_scheme, string) go" where
  "ioutil_ReadFile p =
     go_bind (os_Open p) (\<lambda>r. case rd_Error r of Some e \<Rightarrow> go_throw e | None \<Rightarrow> go_return (rd_Rest r))"

section \<open>Absolute paths\<close>

lemma resolve_abs_path [simp]: "list_all plain_segment q \<Longrightarrow> resolve w (abs_path q) = q"
proof (cases "q = []")
  case True
  then show ?thesis by (simp add: resolve_def abs_path_def segments_def rooted_def)
next
  case False
  assume "list_all plain_segment q"
  with False show ?thesis by (simp add: resolve_def segments_abs_path clean_plain_all)
qed

lemma os_files_set_node [simp]: "os_files (set_node q n w) = (os_files w)(q \<mapsto> n)"
  by (simp add: set_node_def)

lemma node_at_nonempty [simp]: "q \<noteq> [] \<Longrightarrow> node_at w q = os_files w q"
  by (simp add: node_at_def)

section \<open>What the operations change\<close>

text \<open>
  \<open>grows w w' q\<close>: from \<open>w\<close> to \<open>w'\<close> nothing has changed but that directories have appeared on the way to \<open>q\<close>, itself included.
\<close>

definition grows :: "'m os_world_scheme \<Rightarrow> 'm os_world_scheme \<Rightarrow> string list \<Rightarrow> bool" where
  "grows w w' q \<longleftrightarrow> (\<forall>p. os_files w' p \<noteq> os_files w p \<longrightarrow>
     p \<noteq> [] \<and> prefix p q \<and> os_files w p = None \<and> (\<exists>m. os_files w' p = Some (Directory m)))"

lemma grows_refl [simp]: "grows w w q"
  by (simp add: grows_def)

lemma mkdirs_grows: "mkdirs perm d ss w = (r, w') \<Longrightarrow> grows w w' (d @ ss)"
proof (induction perm d ss w arbitrary: r w' rule: mkdirs.induct)
  case (2 perm d s ss w)
  show ?case
  proof (cases "os_files w (d @ [s])")
    case None
    with 2 have G: "grows (set_node (d @ [s]) (Directory (perm AND 0x1FF AND NOT (os_umask w))) w) w' ((d @ [s]) @ ss)" by simp
    have IH: "os_files w' p = (if p = d @ [s] then Some (Directory (perm AND 0x1FF AND NOT (os_umask w))) else os_files w p)
        \<or> p \<noteq> [] \<and> p \<noteq> d @ [s] \<and> prefix p (d @ s # ss) \<and> os_files w p = None \<and> (\<exists>m. os_files w' p = Some (Directory m))" for p
      using G [unfolded grows_def, rule_format, of p] by (cases "p = d @ [s]") auto
    show ?thesis unfolding grows_def
    proof (intro allI impI)
      fix p
      assume "os_files w' p \<noteq> os_files w p"
      then show "p \<noteq> [] \<and> prefix p (d @ s # ss) \<and> os_files w p = None \<and> (\<exists>m. os_files w' p = Some (Directory m))"
        using IH [of p] None by (cases "p = d @ [s]") simp_all
    qed
  next
    case (Some n)
    with 2 show ?thesis by (cases n) auto
  qed
qed simp

lemma mkdirs_run:
  assumes "\<And>p c m. prefix p (d @ ss) \<Longrightarrow> length d < length p \<Longrightarrow> os_files w p \<noteq> Some (File c m)"
  shows "\<exists>w'. mkdirs perm d ss w = (Return (), w')
    \<and> (\<forall>p. prefix p (d @ ss) \<longrightarrow> length d < length p \<longrightarrow> (\<exists>m. os_files w' p = Some (Directory m)))"
  using assms
proof (induction perm d ss w rule: mkdirs.induct)
  case (2 perm d s ss w)
  have first: "p = d @ [s]" if "prefix p (d @ s # ss)" "length d < length p" "\<not> length (d @ [s]) < length p" for p
  proof -
    from that(1) obtain zs where "(d @ [s]) @ ss = p @ zs" by (auto simp: prefix_def)
    moreover have "length (d @ [s]) = length p" using that(2,3) by simp
    ultimately show "p = d @ [s]" using append_eq_append_conv by blast
  qed
  have step: "prefix p ((d @ [s]) @ ss) \<Longrightarrow> length (d @ [s]) < length p \<Longrightarrow> os_files w p \<noteq> Some (File c m)" for p c m
    using 2(3) [of p c m] by simp
  show ?case
  proof (cases "os_files w (d @ [s])")
    case None
    let ?w = "set_node (d @ [s]) (Directory (perm AND 0x1FF AND NOT (os_umask w))) w"
    have "os_files ?w p \<noteq> Some (File c m)" if "prefix p ((d @ [s]) @ ss)" "length (d @ [s]) < length p" for p c m
      using step [OF that] by simp
    with 2(1) None obtain w' where w': "mkdirs perm (d @ [s]) ss ?w = (Return (), w')"
      "\<And>p. prefix p (d @ s # ss) \<Longrightarrow> Suc (length d) < length p \<Longrightarrow> \<exists>m. os_files w' p = Some (Directory m)"
      by auto
    have "grows ?w w' ((d @ [s]) @ ss)" using mkdirs_grows [OF w'(1)] .
    then have "\<exists>m. os_files w' (d @ [s]) = Some (Directory m)" unfolding grows_def by (metis fun_upd_same os_files_set_node)
    with w'(2) first have "\<exists>m. os_files w' p = Some (Directory m)" if "prefix p (d @ s # ss)" "length d < length p" for p
      using that by (cases "Suc (length d) < length p") auto
    with w'(1) None show ?thesis by simp
  next
    case (Some n)
    then obtain m where n: "n = Directory m" using 2(3) [of "d @ [s]"] by (cases n) auto
    obtain w' where w': "mkdirs perm (d @ [s]) ss w = (Return (), w')"
      "\<And>p. prefix p (d @ s # ss) \<Longrightarrow> Suc (length d) < length p \<Longrightarrow> \<exists>m. os_files w' p = Some (Directory m)"
      using 2(2) [of n m] Some n step by auto
    have "grows w w' ((d @ [s]) @ ss)" using mkdirs_grows [OF w'(1)] .
    then have "os_files w' (d @ [s]) = Some (Directory m)" using Some n unfolding grows_def by (metis option.distinct(1))
    with w'(2) first have "\<exists>m. os_files w' p = Some (Directory m)" if "prefix p (d @ s # ss)" "length d < length p" for p
      using that by (cases "Suc (length d) < length p") auto
    with w'(1) Some n show ?thesis by simp
  qed
qed (auto dest: prefix_length_le)

text \<open>The way to a node whose parents are directories is free.\<close>

lemma blocked_at_free:
  "(\<And>p. strict_prefix p (d @ ss) \<Longrightarrow> length d < length p \<Longrightarrow> \<exists>m. os_files w p = Some (Directory m)) \<Longrightarrow> blocked_at w d ss = None"
proof (induction w d ss rule: blocked_at.induct)
  case (3 w d s s' ss)
  from 3(2) [of "d @ [s]"] obtain m where "os_files w (d @ [s]) = Some (Directory m)" by (auto simp: strict_prefix_def)
  moreover have "blocked_at w (d @ [s]) (s' # ss) = None" if "os_files w (d @ [s]) = Some (Directory m)"
    using 3(1) [of "Directory m" m] that 3(2) by simp
  ultimately show ?case by simp
qed simp_all

text \<open>The single calls, on an absolute path with a free way.\<close>

lemma open_node_free:
  assumes "list_all plain_segment q" and "\<And>p. p \<noteq> [] \<Longrightarrow> strict_prefix p q \<Longrightarrow> \<exists>m. os_files w p = Some (Directory m)"
  shows "open_node op (abs_path q) w = Inr (node_at w q)"
  using blocked_at_free [of "[]" q w] assms by (simp add: open_node_def)

lemma os_Create_changes:
  assumes "list_all plain_segment q" and "os_Create (abs_path q) w = (r, w')"
  shows "(\<forall>p. p \<noteq> q \<longrightarrow> os_files w' p = os_files w p) \<and> (\<forall>m. node_at w q = Some (Directory m) \<longrightarrow> w' = w \<and> (\<forall>h. r \<noteq> Return h))
    \<and> (\<forall>h. r = Return h \<longrightarrow> h = q)"
  using assms by (auto simp: os_Create_def split: sum.splits option.splits node.splits) (auto simp: open_node_def split: option.splits)

lemma copy_to_file_changes:
  assumes "copy_to_file q rd w = (r, w')" and "p \<noteq> q"
  shows "os_files w' p = os_files w p"
  using assms by (auto simp: copy_to_file_def Let_def split: option.splits node.splits)

lemma os_Chmod_changes:
  assumes "list_all plain_segment q" and "os_Chmod (abs_path q) mode w = (r, w')" and "p \<noteq> q"
  shows "os_files w' p = os_files w p"
  using assms by (auto simp: os_Chmod_def split: sum.splits option.splits node.splits)

text \<open>Creating, filling and marking a file.\<close>

definition write_file :: "string \<Rightarrow> reader \<Rightarrow> 32 word \<Rightarrow> ('m os_world_scheme, unit) go" where
  "write_file p rd mode =
     go_bind (os_Create p) (\<lambda>h. go_bind (copy_to_file h rd) (\<lambda>_. os_Chmod p mode))"

lemma write_file_changes:
  assumes "list_all plain_segment q" and "write_file (abs_path q) rd mode w = (r, w')"
  shows "(\<forall>p. p \<noteq> q \<longrightarrow> os_files w' p = os_files w p) \<and> (\<forall>m. node_at w q = Some (Directory m) \<longrightarrow> w' = w)"
proof -
  obtain r1 w1 where w1: "os_Create (abs_path q) w = (r1, w1)" by (cases "os_Create (abs_path q) w")
  note create = os_Create_changes [OF assms(1) w1]
  show ?thesis
  proof (cases r1)
    case (Return h)
    obtain r2 w2 where w2: "copy_to_file h rd w1 = (r2, w2)" by (cases "copy_to_file h rd w1")
    obtain r3 w3 where w3: "os_Chmod (abs_path q) mode w2 = (r3, w3)" by (cases "os_Chmod (abs_path q) mode w2")
    have "w' = w2 \<or> w' = w3"
      using assms(2) w1 w2 w3 Return by (cases r2) (simp_all add: write_file_def go_simps)
    then show ?thesis
      using create Return copy_to_file_changes [OF w2] os_Chmod_changes [OF assms(1) w3] by auto
  qed (use assms(2) w1 create in \<open>simp_all add: write_file_def go_simps\<close>)
qed

lemma write_file_run:
  assumes "list_all plain_segment q" and "q \<noteq> []" and "\<And>p. p \<noteq> [] \<Longrightarrow> strict_prefix p q \<Longrightarrow> \<exists>m. os_files w p = Some (Directory m)"
    and "\<And>m. os_files w q \<noteq> Some (Directory m)" and "rd_Error rd = None"
  shows "\<exists>w'. write_file (abs_path q) rd mode w = (Return (), w') \<and> os_files w' = (os_files w)(q \<mapsto> File (rd_Rest rd) (mode AND 0x1FF))"
proof -
  obtain m where w1: "os_Create (abs_path q) w = (Return q, set_node q (File '''' m) w)"
    using open_node_free [OF assms(1,3)] assms(1,2,4)
    by (cases "the (os_files w q)"; cases "os_files w q") (auto simp: os_Create_def)
  let ?w = "set_node q (File (rd_Rest rd) m) w"
  have "copy_to_file q rd (set_node q (File '''' m) w) = (Return (), ?w)"
    using assms(5) by (simp add: copy_to_file_def set_node_def)
  moreover have "open_node ''chmod'' (abs_path q) ?w = Inr (Some (File (rd_Rest rd) m))"
    using open_node_free [of q ?w] assms(1-3) by (auto simp: strict_prefix_def)
  ultimately show ?thesis
    using w1 assms(1) by (simp add: write_file_def os_Chmod_def go_simps)
qed

end
