(* ===== verification/Unzipper.thy ===== *)
theory Unzipper
  imports Go_Os
begin

unbundle bit_operations_syntax

text \<open>
  The archive extractor of the staging recipe: \<^verbatim>\<open>recipe/unzip.go\<close>. What the zip library makes of an archive is an
  argument: the list of its entries, each with its name, its mode and what can be read of it.

  The lemmas: what the extraction of an entry changes, that an archive without conflicting names is unpacked
  completely, and that names which stay inside the target directory leave everything else alone.
\<close>

section \<open>Definitions\<close>

record zip_file =
  zf_Name :: string
  zf_Mode :: "32 word"
  zf_Open :: "go_error + reader"

text \<open>\<^verbatim>\<open>os.ModeDir\<close> is the highest bit of a mode.\<close>

definition zf_IsDir :: "zip_file \<Rightarrow> bool" where
  "zf_IsDir f = bit (zf_Mode f) 31"

definition extractFile :: "zip_file \<Rightarrow> string \<Rightarrow> ('m os_world_scheme, unit) go" where
  "extractFile src destPath =
     (let parentDir = Dir destPath in
      go_bind (os_MkdirAll parentDir 0x1ED) (\<lambda>_.
      go_bind (go_lift (zf_Open src)) (\<lambda>reader.
      go_bind (os_Create destPath) (\<lambda>destFile.
      go_bind (copy_to_file destFile reader) (\<lambda>_.
      os_Chmod destPath (zf_Mode src))))))"

text \<open>The body of the loop over the entries, and the loop.\<close>

definition extract_one :: "zip_file \<Rightarrow> string \<Rightarrow> ('m os_world_scheme, unit) go" where
  "extract_one f destPath = (if zf_IsDir f then os_MkdirAll destPath (zf_Mode f) else extractFile f destPath)"

fun extract_files :: "string \<Rightarrow> zip_file list \<Rightarrow> ('m os_world_scheme, unit) go" where
  "extract_files targetDir [] = go_return ()"
| "extract_files targetDir (f # fs) =
     (let destPath = Join [targetDir, zf_Name f] in
      go_bind (extract_one f destPath) (\<lambda>_.
      extract_files targetDir fs))"

definition Unzipper_Extract :: "(string \<Rightarrow> go_error + zip_file list) \<Rightarrow> string \<Rightarrow> string \<Rightarrow> ('m os_world_scheme, unit) go" where
  "Unzipper_Extract unzip src targetDir =
     (if targetDir = '''' then go_throw (ErrorString ''target directory cannot be empty'')
      else
        go_bind (ioutil_ReadFile src) (\<lambda>archive.
        go_bind (go_lift (unzip archive)) (\<lambda>files.
        extract_files targetDir files)))"

section \<open>One entry\<close>

text \<open>The places of the entries below the directory \<open>t\<close>.\<close>

definition dest :: "string list \<Rightarrow> zip_file \<Rightarrow> string list" where
  "dest t f = t @ clean_segments True (segments (zf_Name f)) []"

lemma extractFile_eq:
  assumes "list_all plain_segment q" and "q \<noteq> []"
  shows "extractFile f (abs_path q) = go_bind (mkdirs 0x1ED [] (butlast q)) (\<lambda>_. go_bind (go_lift (zf_Open f)) (\<lambda>rd. write_file (abs_path q) rd (zf_Mode f)))"
proof -
  have "list_all plain_segment (butlast q)" using assms(1) by (auto simp: list_all_iff dest: in_set_butlastD)
  then have "os_MkdirAll (Dir (abs_path q)) 0x1ED w = mkdirs 0x1ED [] (butlast q) w" for w :: "'a os_world_scheme"
    by (simp add: os_MkdirAll_def Dir_abs_path assms)
  then have "os_MkdirAll (Dir (abs_path q)) 0x1ED = (mkdirs 0x1ED [] (butlast q) :: ('a os_world_scheme, unit) go)" by blast
  then show ?thesis by (simp add: extractFile_def write_file_def)
qed

lemma butlast_prefix: "q \<noteq> [] \<Longrightarrow> prefix p (butlast q) \<longleftrightarrow> strict_prefix p q"
  by (cases q rule: rev_cases) (auto simp: strict_prefix_def)

text \<open>Whatever happens, only the destination and missing directories on the way to it change.\<close>

lemma extract_one_changes:
  assumes "list_all plain_segment q" and "q \<noteq> []" and "extract_one f (abs_path q) w = (r, w')" and "os_files w' p \<noteq> os_files w p"
  shows "p \<noteq> [] \<and> prefix p q \<and> (os_files w p = None \<or> p = q) \<and> (\<forall>m. os_files w p \<noteq> Some (Directory m))"
proof (cases "zf_IsDir f")
  case True
  then have "mkdirs (zf_Mode f) [] q w = (r, w')" using assms(1,3) by (simp add: extract_one_def os_MkdirAll_def)
  then show ?thesis using mkdirs_grows [of "zf_Mode f" "[]" q w r w'] assms(4) by (force simp: grows_def)
next
  case False
  obtain r1 w1 where w1: "mkdirs 0x1ED [] (butlast q) w = (r1, w1)" by (cases "mkdirs 0x1ED [] (butlast q) w")
  then have g: "os_files w1 p \<noteq> os_files w p \<Longrightarrow> p \<noteq> [] \<and> prefix p (butlast q) \<and> os_files w p = None" for p
    using mkdirs_grows [OF w1] by (simp add: grows_def)
  then have same: "os_files w1 q = os_files w q" using butlast_prefix [OF assms(2), of q] by blast
  have "w' = w1 \<or> (\<exists>rd. write_file (abs_path q) rd (zf_Mode f) w1 = (r, w'))"
    using assms(3) False w1 by (cases r1; cases "zf_Open f") (auto simp: extract_one_def extractFile_eq assms(1,2) go_simps)
  then have "(\<forall>p. p \<noteq> q \<longrightarrow> os_files w' p = os_files w1 p) \<and> (\<forall>m. os_files w1 q = Some (Directory m) \<longrightarrow> w' = w1)"
    using write_file_changes [OF assms(1)] assms(2) by (metis node_at_nonempty)
  then show ?thesis
    using g [of p] same assms(4) butlast_prefix [OF assms(2), of p] assms(2) by (cases "p = q") (auto simp: strict_prefix_def)
qed

lemma extract_one_run:
  assumes "list_all plain_segment q" and "q \<noteq> []" and "\<And>p c m. strict_prefix p q \<Longrightarrow> os_files w p \<noteq> Some (File c m)"
    and "if zf_IsDir f then \<forall>c m. os_files w q \<noteq> Some (File c m)
      else (\<forall>m. os_files w q \<noteq> Some (Directory m)) \<and> zf_Open f = Inr \<lparr>rd_Rest = content, rd_Error = None\<rparr>"
  shows "\<exists>w'. extract_one f (abs_path q) w = (Return (), w')
    \<and> (if zf_IsDir f then \<exists>m. os_files w' q = Some (Directory m) else os_files w' q = Some (File content (zf_Mode f AND 0x1FF)))
    \<and> (\<forall>p. p \<noteq> q \<longrightarrow> os_files w' p = os_files w p \<or> (strict_prefix p q \<and> (\<exists>m. os_files w' p = Some (Directory m))))"
proof (cases "zf_IsDir f")
  case True
  have "os_files w p \<noteq> Some (File c m)" if "prefix p q" for p c m
    using assms(3,4) True that by (cases "p = q") (auto simp: strict_prefix_def)
  then obtain w' where w': "mkdirs (zf_Mode f) [] q w = (Return (), w')" "\<And>p. prefix p q \<Longrightarrow> p \<noteq> [] \<Longrightarrow> \<exists>m. os_files w' p = Some (Directory m)"
    using mkdirs_run [of "[]" q w "zf_Mode f"] by auto
  then show ?thesis
    using mkdirs_grows [OF w'(1)] True assms(1,2) by (auto simp: extract_one_def os_MkdirAll_def grows_def strict_prefix_def)
next
  case False
  obtain w1 where w1: "mkdirs 0x1ED [] (butlast q) w = (Return (), w1)"
    "\<And>p. strict_prefix p q \<Longrightarrow> p \<noteq> [] \<Longrightarrow> \<exists>m. os_files w1 p = Some (Directory m)"
    using mkdirs_run [of "[]" "butlast q" w "0x1ED"] assms(3) butlast_prefix [OF assms(2)] by auto
  have g: "os_files w1 p \<noteq> os_files w p \<Longrightarrow> strict_prefix p q" for p
    using mkdirs_grows [OF w1(1)] butlast_prefix [OF assms(2)] by (simp add: grows_def)
  then have "os_files w1 q = os_files w q" by blast
  then obtain w' where "write_file (abs_path q) \<lparr>rd_Rest = content, rd_Error = None\<rparr> (zf_Mode f) w1 = (Return (), w')"
    "os_files w' = (os_files w1)(q \<mapsto> File content (zf_Mode f AND 0x1FF))"
    using write_file_run [OF assms(1,2), of w1 "\<lparr>rd_Rest = content, rd_Error = None\<rparr>" "zf_Mode f"] w1(2) assms(4) False by auto
  then show ?thesis
    using False w1(1) assms(4) g mkdirs_grows [OF w1(1)] by (auto simp: extract_one_def extractFile_eq assms(1,2) go_simps grows_def)
qed

section \<open>The loop\<close>

lemma dest_path:
  assumes "list_all plain_segment t" and "t \<noteq> []" and "inside 0 (segments (zf_Name f))"
  shows "Join [abs_path t, zf_Name f] = abs_path (dest t f)" "list_all plain_segment (dest t f)" "dest t f \<noteq> []" "prefix t (dest t f)"
  using assms Join_inside [OF assms] clean_rooted_plain [of "[]" "segments (zf_Name f)"] segments_slash_free
  by (auto simp: dest_def simp del: Join.simps)

text \<open>The target is a directory that can be reached.\<close>

definition directory :: "'m os_world_scheme \<Rightarrow> string list \<Rightarrow> bool" where
  "directory w t \<longleftrightarrow> (\<forall>p. p \<noteq> [] \<longrightarrow> prefix p t \<longrightarrow> (\<exists>m. os_files w p = Some (Directory m)))"

lemma extract_files_inside:
  assumes "list_all plain_segment t" and "t \<noteq> []" and "\<forall>f \<in> set fs. inside 0 (segments (zf_Name f))"
    and "directory w t" and "extract_files (abs_path t) fs w = (r, w')" and "\<not> strict_prefix t p"
  shows "os_files w' p = os_files w p"
  using assms(3-5)
proof (induction fs arbitrary: w)
  case (Cons f fs)
  note d = dest_path [OF assms(1,2), of f]
  obtain r1 w1 where w1: "extract_one f (abs_path (dest t f)) w = (r1, w1)" by (cases "extract_one f (abs_path (dest t f)) w")
  have same: "os_files w1 p = os_files w p" if "\<not> strict_prefix t p" for p
  proof (rule ccontr)
    assume "os_files w1 p \<noteq> os_files w p"
    then have p: "p \<noteq> []" "prefix p (dest t f)" "\<forall>m. os_files w p \<noteq> Some (Directory m)"
      using extract_one_changes [OF d(2,3) w1] Cons.prems(1) by auto
    have "prefix p t" using that prefix_same_cases [OF p(2) d(4)] Cons.prems(1) by (auto simp: strict_prefix_def)
    then show False using Cons.prems(2) p(1,3) by (auto simp: directory_def)
  qed
  have "directory w1 t"
    using Cons.prems(2) same by (auto simp: directory_def strict_prefix_def prefix_order.dual_order.antisym)
  then show ?case
    using Cons w1 same [OF assms(6)] d(1) by (cases r1) (auto simp: go_simps simp del: Join.simps)
qed simp

text \<open>
  An archive that fits into a file system below \<open>t\<close>: the names stay inside, no file is in the way of another entry or
  of what is there already, and the files can be read.
\<close>

definition entry_fits :: "'m os_world_scheme \<Rightarrow> string list \<Rightarrow> zip_file \<Rightarrow> bool" where
  "entry_fits w t f \<longleftrightarrow> (\<forall>p c m. strict_prefix p (dest t f) \<longrightarrow> os_files w p \<noteq> Some (File c m))
     \<and> (if zf_IsDir f then \<forall>c m. os_files w (dest t f) \<noteq> Some (File c m)
        else (\<forall>m. os_files w (dest t f) \<noteq> Some (Directory m)) \<and> (\<exists>c. zf_Open f = Inr \<lparr>rd_Rest = c, rd_Error = None\<rparr>))"

definition apart :: "string list \<Rightarrow> zip_file \<Rightarrow> zip_file \<Rightarrow> bool" where
  "apart t f g \<longleftrightarrow> (zf_IsDir f \<or> \<not> prefix (dest t f) (dest t g)) \<and> (zf_IsDir g \<or> \<not> prefix (dest t g) (dest t f))"

definition fits :: "'m os_world_scheme \<Rightarrow> string list \<Rightarrow> zip_file list \<Rightarrow> bool" where
  "fits w t fs \<longleftrightarrow> (\<forall>f \<in> set fs. inside 0 (segments (zf_Name f)) \<and> entry_fits w t f) \<and> sorted_wrt (apart t) fs"

definition placed :: "'m os_world_scheme \<Rightarrow> string list \<Rightarrow> zip_file \<Rightarrow> bool" where
  "placed w t f \<longleftrightarrow> (if zf_IsDir f then \<exists>m. os_files w (dest t f) = Some (Directory m)
     else \<exists>c. zf_Open f = Inr \<lparr>rd_Rest = c, rd_Error = None\<rparr> \<and> os_files w (dest t f) = Some (File c (zf_Mode f AND 0x1FF)))"

lemma entry_fits_step:
  assumes "entry_fits w t g" and "apart t f g"
    and "if zf_IsDir f then \<exists>m. os_files w' (dest t f) = Some (Directory m) else True"
    and "\<And>p. p \<noteq> dest t f \<Longrightarrow> os_files w' p = os_files w p \<or> (strict_prefix p (dest t f) \<and> (\<exists>m. os_files w' p = Some (Directory m)))"
  shows "entry_fits w' t g"
proof -
  have no_file: "os_files w' p \<noteq> Some (File c m)" if "prefix p (dest t g)" "os_files w p \<noteq> Some (File c m)" for p c m
    using assms(2,3) assms(4) [of p] that by (cases "p = dest t f") (auto simp: apart_def split: if_splits)
  have no_dir: "os_files w' (dest t g) \<noteq> Some (Directory m)"
    if "\<not> zf_IsDir g" "\<forall>m. os_files w (dest t g) \<noteq> Some (Directory m)" for m
    using assms(2) assms(4) [of "dest t g"] that by (cases "dest t g = dest t f") (auto simp: apart_def strict_prefix_def)
  show ?thesis
    using assms(1) no_file no_dir by (auto simp: entry_fits_def strict_prefix_def)
qed

lemma extract_files_run:
  assumes "list_all plain_segment t" and "t \<noteq> []" and "fits w t fs"
  shows "\<exists>w'. extract_files (abs_path t) fs w = (Return (), w') \<and> (\<forall>f \<in> set fs. placed w' t f)
    \<and> (\<forall>p. os_files w' p = os_files w p \<or> (\<exists>g \<in> set fs. prefix p (dest t g)
        \<and> ((\<exists>m. os_files w' p = Some (Directory m)) \<or> (\<not> zf_IsDir g \<and> p = dest t g))))"
  using assms(3)
proof (induction fs arbitrary: w)
  case (Cons f fs)
  let ?q = "dest t f"
  have ok: "inside 0 (segments (zf_Name f))" "entry_fits w t f" "\<forall>g \<in> set fs. apart t f g"
    using Cons.prems by (auto simp: fits_def)
  note d = dest_path [OF assms(1,2) ok(1)]
  obtain c where c: "zf_IsDir f \<or> zf_Open f = Inr \<lparr>rd_Rest = c, rd_Error = None\<rparr>"
    using ok(2) by (auto simp: entry_fits_def split: if_splits)
  obtain w1 where w1: "extract_one f (abs_path ?q) w = (Return (), w1)"
    "if zf_IsDir f then \<exists>m. os_files w1 ?q = Some (Directory m) else os_files w1 ?q = Some (File c (zf_Mode f AND 0x1FF))"
    "\<And>p. p \<noteq> ?q \<Longrightarrow> os_files w1 p = os_files w p \<or> (strict_prefix p ?q \<and> (\<exists>m. os_files w1 p = Some (Directory m)))"
    using extract_one_run [OF d(2,3), of w f c] ok(2) c by (auto simp: entry_fits_def split: if_splits)
  have "fits w1 t fs"
    using Cons.prems ok(3) entry_fits_step [OF _ _ _ w1(3)] w1(2) by (auto simp: fits_def split: if_splits)
  with Cons.IH obtain w' where w': "extract_files (abs_path t) fs w1 = (Return (), w')" "\<forall>f \<in> set fs. placed w' t f"
    "\<And>p. os_files w' p = os_files w1 p \<or> (\<exists>g \<in> set fs. prefix p (dest t g)
        \<and> ((\<exists>m. os_files w' p = Some (Directory m)) \<or> (\<not> zf_IsDir g \<and> p = dest t g)))"
    by blast
  have "placed w' t f"
    using w1(2) w'(3) [of ?q] ok(3) c by (auto simp: placed_def apart_def split: if_splits)
  moreover have "os_files w' p = os_files w p \<or> (\<exists>g \<in> set (f # fs). prefix p (dest t g)
      \<and> ((\<exists>m. os_files w' p = Some (Directory m)) \<or> (\<not> zf_IsDir g \<and> p = dest t g)))" for p
    using w'(3) [of p] w1(2) w1(3) [of p] by (cases "p = ?q") (auto simp: strict_prefix_def split: if_splits)
  ultimately show ?case
    using w1(1) w'(1,2) d(1) by (auto simp: go_simps simp del: Join.simps)
qed simp

section \<open>Properties\<close>

lemma Extract_run:
  assumes "ioutil_ReadFile src w = (Return archive, w)" and "unzip archive = Inr fs" and "targetDir \<noteq> ''''"
  shows "Unzipper_Extract unzip src targetDir w = extract_files targetDir fs w"
  using assms by (simp add: Unzipper_Extract_def go_simps)

lemma read_abs_path:
  assumes "list_all plain_segment q" and "q \<noteq> []" and "\<And>p. p \<noteq> [] \<Longrightarrow> strict_prefix p q \<Longrightarrow> \<exists>m. os_files w p = Some (Directory m)"
    and "os_files w q = Some (File c m)"
  shows "ioutil_ReadFile (abs_path q) w = (Return c, w)"
  using open_node_free [OF assms(1,3)] assms(2,4) by (simp add: ioutil_ReadFile_def os_Open_def go_simps)

text \<open>
  An archive whose names stay inside and do not conflict is unpacked completely: the call succeeds, each directory
  of the archive exists, each file is at its place below the target with its content and its permissions.
\<close>

theorem extract_unpacks:
  assumes "list_all plain_segment t" and "t \<noteq> []"
    and "ioutil_ReadFile src w = (Return archive, w)" and "unzip archive = Inr fs" and "fits w t fs"
  shows "\<exists>w'. Unzipper_Extract unzip src (abs_path t) w = (Return (), w') \<and> (\<forall>f \<in> set fs. placed w' t f)"
proof -
  have "abs_path t \<noteq> ''''" by (simp add: abs_path_def)
  then show ?thesis
    using extract_files_run [OF assms(1,2,5)] Extract_run [of src w archive unzip, OF assms(3,4)] by auto
qed

definition sample_disk :: os_world where
  "sample_disk = \<lparr>os_env = [], os_cwd = [], os_umask = 0x12, os_files = [[''workspace''] \<mapsto> Directory 0x1ED, [''workspace'', ''a.zip''] \<mapsto> File ''zip'' 0x1A4]\<rparr>"

definition sample_zip :: "string \<Rightarrow> zip_file list" where
  "sample_zip n = [\<lparr>zf_Name = ''bin/'', zf_Mode = 0x800001ED, zf_Open = Inl EOF\<rparr>,
     \<lparr>zf_Name = n, zf_Mode = 0x1ED, zf_Open = Inr \<lparr>rd_Rest = ''x'', rd_Error = None\<rparr>\<rparr>]"

lemma sample_disk_facts:
  "list_all plain_segment [''workspace'', ''a.zip'']" "list_all plain_segment [''workspace'']"
  "abs_path [''workspace''] = ''/workspace''" "abs_path [''workspace'', ''a.zip''] = ''/workspace/a.zip''"
  by code_simp+

lemma sample_disk_read: "ioutil_ReadFile ''/workspace/a.zip'' sample_disk = (Return ''zip'', sample_disk)"
proof -
  have "\<exists>m. os_files sample_disk p = Some (Directory m)" if "p \<noteq> []" "strict_prefix p [''workspace'', ''a.zip'']" for p
    using that by (auto simp: sample_disk_def strict_prefix_def prefix_Cons)
  then show ?thesis
    using read_abs_path [OF sample_disk_facts(1), of sample_disk "''zip''" "0x1A4"] sample_disk_facts(4) by (simp add: sample_disk_def)
qed

lemma sample_zip_facts:
  "map zf_IsDir (sample_zip n) = [True, False]"
  "dest [''workspace''] (sample_zip ''bin/run'' ! 0) = [''workspace'', ''bin'']"
  "dest [''workspace''] (sample_zip ''bin/run'' ! 1) = [''workspace'', ''bin'', ''run'']"
  "inside 0 (segments ''bin/'')" "inside 0 (segments ''bin/run'')"
  by (simp add: sample_zip_def zf_IsDir_def bit_simps) code_simp+

theorem extract_unpacks_witness:
  "\<exists>w'. Unzipper_Extract (\<lambda>_. Inr (sample_zip ''bin/run'')) ''/workspace/a.zip'' ''/workspace'' sample_disk = (Return (), w')
     \<and> os_files w' [''workspace'', ''bin'', ''run''] = Some (File ''x'' 0x1ED)"
proof -
  have "fits sample_disk [''workspace''] (sample_zip ''bin/run'')"
    using sample_zip_facts(1) [of "''bin/run''"] sample_zip_facts(2-)
    by (auto simp: fits_def entry_fits_def apart_def sample_zip_def sample_disk_def strict_prefix_def prefix_Cons)
  then show ?thesis
    using extract_unpacks [OF sample_disk_facts(2) _ sample_disk_read, of "\<lambda>_. Inr (sample_zip ''bin/run'')"] sample_disk_facts(3)
      sample_zip_facts(1) [of "''bin/run''"] sample_zip_facts(2-)
    by (auto simp: placed_def sample_zip_def)
qed

text \<open>
  C25. If no name of an archive climbs out of the target directory, extraction changes nothing outside it, whether it
  succeeds or fails half way.
\<close>

theorem extract_stays_inside:
  assumes "list_all plain_segment t" and "t \<noteq> []" and "directory w t"
    and "\<And>archive fs. unzip archive = Inr fs \<Longrightarrow> \<forall>f \<in> set fs. inside 0 (segments (zf_Name f))"
    and "Unzipper_Extract unzip src (abs_path t) w = (r, w')" and "\<not> strict_prefix t p"
  shows "os_files w' p = os_files w p"
proof -
  have read: "snd (ioutil_ReadFile src w) = w"
    by (auto simp: ioutil_ReadFile_def os_Open_def go_bind_def split: sum.splits option.splits node.splits)
  show ?thesis
  proof (cases "\<exists>archive fs. ioutil_ReadFile src w = (Return archive, w) \<and> unzip archive = Inr fs")
    case True
    then obtain archive fs where "ioutil_ReadFile src w = (Return archive, w)" "unzip archive = Inr fs" by blast
    moreover have "abs_path t \<noteq> ''''" by (simp add: abs_path_def)
    ultimately show ?thesis
      using assms(5) extract_files_inside [OF assms(1,2) assms(4) assms(3) _ assms(6)] by (simp add: Extract_run)
  next
    case False
    then have "w' = w"
      using assms(5) read by (cases "ioutil_ReadFile src w"; cases "fst (ioutil_ReadFile src w)")
        (auto simp: Unzipper_Extract_def go_bind_def go_lift_def split: sum.splits if_splits)
    then show ?thesis by simp
  qed
qed

theorem extract_stays_inside_witness:
  "os_files (snd (Unzipper_Extract (\<lambda>_. Inr (sample_zip ''bin/run'')) ''/workspace/a.zip'' ''/workspace'' sample_disk)) [''etc''] = None"
proof -
  have "directory sample_disk [''workspace'']"
    by (auto simp: directory_def sample_disk_def prefix_Cons)
  then have "os_files (snd (Unzipper_Extract (\<lambda>_. Inr (sample_zip ''bin/run'')) ''/workspace/a.zip'' (abs_path [''workspace'']) sample_disk)) [''etc'']
      = os_files sample_disk [''etc'']"
    using sample_zip_facts(1) [of "''bin/run''"] sample_zip_facts(2-) sample_disk_facts(2)
    by (intro extract_stays_inside [where unzip = "\<lambda>_. Inr (sample_zip ''bin/run'')", OF _ _ _ _ surjective_pairing])
      (auto simp: sample_zip_def strict_prefix_def)
  then show ?thesis by (simp add: sample_disk_facts sample_disk_def)
qed

text \<open>
  The names are not checked: the file of an archive with a name that starts with a double dot is written beside the
  target directory.
\<close>

theorem extract_escapes:
  "\<exists>w'. Unzipper_Extract (\<lambda>_. Inr (sample_zip ''../evil'')) ''/workspace/a.zip'' ''/workspace'' sample_disk = (Return (), w')
     \<and> os_files sample_disk [''evil''] = None \<and> os_files w' [''evil''] = Some (File ''x'' 0x1ED)"
proof -
  let ?r = "Unzipper_Extract (\<lambda>_. Inr (sample_zip ''../evil'')) ''/workspace/a.zip'' ''/workspace'' sample_disk"
  have "fst ?r = Return ()" "os_files sample_disk [''evil''] = None" "os_files (snd ?r) [''evil''] = Some (File ''x'' 0x1ED)"
    by code_simp+
  then show ?thesis by (metis prod.collapse)
qed

end
