(* ===== verification/Go_Json.thy ===== *)
theory Go_Json
  imports Prelude
begin

text \<open>
  The part of Go's \<^verbatim>\<open>encoding/json\<close> the repository uses, on byte strings (a \<open>char\<close> is a byte, as in a Go
  string): the grammar that \<^verbatim>\<open>Unmarshal\<close> and \<^verbatim>\<open>Decoder.Decode\<close> accept, the decoding of a JSON value into
  strings, lists and structs, and the text \<^verbatim>\<open>Marshal\<close> writes for strings and lists of strings.

  \<^item> \<open>parse_value\<close> is a recursive descent with a fuel argument; \<open>parse_value_fuel\<close> shows that any
    fuel above twice the length of the text gives the same result, so \<open>json_text\<close> and \<open>json_stream\<close> never
    run out.
  \<^item> A decoder turns a JSON value and the variable's old content into its new content and a flag that
    says whether some part did not fit the Go type: Go goes on after the first misfit and returns the
    error at the end.
  \<^item> \<open>unquote_quote\<close> is the round trip of \<^verbatim>\<open>Marshal\<close> and \<^verbatim>\<open>Unmarshal\<close> on strings of valid UTF-8, and
    \<open>unmarshal_marshal_strings\<close> the one on lists of strings.
\<close>

section \<open>Bytes and UTF-8\<close>

definition byte_of :: "char \<Rightarrow> nat" where
  "byte_of c = of_char c"

lemma byte_of_less: "byte_of c < 256"
  by (simp add: byte_of_def)

lemma byte_of_inject [simp]: "byte_of c = byte_of d \<longleftrightarrow> c = d"
  by (simp add: byte_of_def)

lemma char_of_byte_of [simp]: "char_of (byte_of c) = c"
  by (simp add: byte_of_def)

lemma byte_of_char_of: "n < 256 \<Longrightarrow> byte_of (char_of n) = n"
  by (simp add: byte_of_def)

text \<open>
  The ranges of the continuation bytes that the first byte of a rune asks for, \<open>None\<close> for a byte that
  starts no rune: the tables \<^verbatim>\<open>first\<close> and \<^verbatim>\<open>acceptRanges\<close> of \<^verbatim>\<open>unicode/utf8\<close>.
\<close>

definition rune_ranges :: "nat \<Rightarrow> (nat \<times> nat) list option" where
  "rune_ranges b =
     (if b < 128 then Some []
      else if b < 194 then None
      else if b < 224 then Some [(128, 191)]
      else if b = 224 then Some [(160, 191), (128, 191)]
      else if b = 237 then Some [(128, 159), (128, 191)]
      else if b < 240 then Some [(128, 191), (128, 191)]
      else if b = 240 then Some [(144, 191), (128, 191), (128, 191)]
      else if b < 244 then Some [(128, 191), (128, 191), (128, 191)]
      else if b = 244 then Some [(128, 143), (128, 191), (128, 191)]
      else None)"

fun in_ranges :: "(nat \<times> nat) list \<Rightarrow> string \<Rightarrow> bool" where
  "in_ranges [] s = True"
| "in_ranges (r # rs) [] = False"
| "in_ranges ((lo, hi) # rs) (c # cs) \<longleftrightarrow> lo \<le> byte_of c \<and> byte_of c \<le> hi \<and> in_ranges rs cs"

text \<open>
  The length in bytes of the rune at the head of a string, 0 where \<^verbatim>\<open>utf8.DecodeRune\<close> answers
  \<^verbatim>\<open>RuneError\<close> with size 1 (or the string is empty).
\<close>

fun utf8_len :: "string \<Rightarrow> nat" where
  "utf8_len [] = 0"
| "utf8_len (c # cs) = (case rune_ranges (byte_of c) of
      None \<Rightarrow> 0
    | Some rs \<Rightarrow> if in_ranges rs cs then Suc (length rs) else 0)"

text \<open>\<^verbatim>\<open>utf8.EncodeRune\<close>; a surrogate or a value out of range is written as U+FFFD.\<close>

definition encode_rune :: "nat \<Rightarrow> string" where
  "encode_rune r =
     (if r < 128 then [char_of r]
      else if r < 2048 then [char_of (192 + r div 64), char_of (128 + r mod 64)]
      else if 55296 \<le> r \<and> r \<le> 57343 \<or> 1114111 < r
        then [char_of (239::nat), char_of (191::nat), char_of (189::nat)]
      else if r < 65536
        then [char_of (224 + r div 4096), char_of (128 + r div 64 mod 64), char_of (128 + r mod 64)]
      else [char_of (240 + r div 262144), char_of (128 + r div 4096 mod 64),
            char_of (128 + r div 64 mod 64), char_of (128 + r mod 64)])"

text \<open>\<^verbatim>\<open>unicode.ReplacementChar\<close>.\<close>

definition replacement_char :: nat where
  "replacement_char = 65533"

fun utf8_valid :: "string \<Rightarrow> bool" where
  "utf8_valid [] = True"
| "utf8_valid (c # cs) =
     (case utf8_len (c # cs) of 0 \<Rightarrow> False | Suc k \<Rightarrow> utf8_valid (drop k cs))"

section \<open>The grammar\<close>

datatype json =
    JNull
  | JBool bool
  | JNumber string
  | JString string
  | JArray "json list"
  | JObject "(string \<times> json) list"

definition is_ws :: "char \<Rightarrow> bool" where
  "is_ws c \<longleftrightarrow> c = CHR '' '' \<or> c = CHR 0x09 \<or> c = CHR 0x0D \<or> c = CHR 0x0A"

definition skip_ws :: "string \<Rightarrow> string" where
  "skip_ws s = dropWhile is_ws s"

definition is_digit :: "char \<Rightarrow> bool" where
  "is_digit c \<longleftrightarrow> 48 \<le> byte_of c \<and> byte_of c \<le> 57"

fun hex_value :: "char \<Rightarrow> nat option" where
  "hex_value c = (let b = byte_of c in
     if 48 \<le> b \<and> b \<le> 57 then Some (b - 48)
     else if 97 \<le> b \<and> b \<le> 102 then Some (b - 87)
     else if 65 \<le> b \<and> b \<le> 70 then Some (b - 55)
     else None)"

definition getu4 :: "char \<Rightarrow> char \<Rightarrow> char \<Rightarrow> char \<Rightarrow> nat option" where
  "getu4 a b c d = (case (hex_value a, hex_value b, hex_value c, hex_value d) of
      (Some x, Some y, Some z, Some u) \<Rightarrow> Some (((x * 16 + y) * 16 + z) * 16 + u)
    | _ \<Rightarrow> None)"

fun simple_escape :: "char \<Rightarrow> char option" where
  "simple_escape c =
     (if c = CHR 0x22 \<or> c = CHR 0x5C \<or> c = CHR ''/'' then Some c
      else if c = CHR ''b'' then Some (CHR 0x08)
      else if c = CHR ''f'' then Some (CHR 0x0C)
      else if c = CHR ''n'' then Some (CHR 0x0A)
      else if c = CHR ''r'' then Some (CHR 0x0D)
      else if c = CHR ''t'' then Some (CHR 0x09)
      else None)"

definition cons_bytes :: "string \<Rightarrow> (string \<times> 'b) option \<Rightarrow> (string \<times> 'b) option" where
  "cons_bytes bs r = map_option (\<lambda>(s, rest). (bs @ s, rest)) r"

definition is_surrogate :: "nat \<Rightarrow> bool" where
  "is_surrogate r \<longleftrightarrow> 55296 \<le> r \<and> r \<le> 57343"

text \<open>\<^verbatim>\<open>utf16.DecodeRune\<close>: \<open>None\<close> where it answers the replacement character.\<close>

definition utf16_pair :: "nat \<Rightarrow> nat \<Rightarrow> nat option" where
  "utf16_pair hi lo =
     (if 55296 \<le> hi \<and> hi < 56320 \<and> 56320 \<le> lo \<and> lo < 57344
      then Some ((hi - 55296) * 1024 + (lo - 56320) + 65536) else None)"

text \<open>
  What follows a backslash inside a string literal: the bytes it stands for and the rest of the
  text; \<open>None\<close> for an escape Go refuses. A surrogate pair written as two escapes is one rune, a lone
  surrogate becomes U+FFFD.
\<close>

definition escape :: "string \<Rightarrow> (string \<times> string) option" where
  "escape s = (case s of
      [] \<Rightarrow> None
    | e # r \<Rightarrow>
        if e \<noteq> CHR ''u'' then map_option (\<lambda>ch. ([ch], r)) (simple_escape e)
        else (case r of
          h1 # h2 # h3 # h4 # r1 \<Rightarrow>
            (case getu4 h1 h2 h3 h4 of
               None \<Rightarrow> None
             | Some rr \<Rightarrow>
                 if \<not> is_surrogate rr then Some (encode_rune rr, r1)
                 else (case r1 of
                   bs # u # g1 # g2 # g3 # g4 # r2 \<Rightarrow>
                     (case (if bs = CHR 0x5C \<and> u = CHR ''u''
                            then Option.bind (getu4 g1 g2 g3 g4) (utf16_pair rr) else None) of
                        Some dec \<Rightarrow> Some (encode_rune dec, r2)
                      | None \<Rightarrow> Some (encode_rune replacement_char, r1))
                 | _ \<Rightarrow> Some (encode_rune replacement_char, r1)))
        | _ \<Rightarrow> None))"

lemma escape_length: "escape s = Some (bs, r) \<Longrightarrow> length r < length s"
  by (auto simp: escape_def split: list.splits if_splits option.splits)

text \<open>
  The body of a string literal, after the opening quote: the decoded bytes and what follows the
  closing quote. An unescaped control byte is a syntax error; invalid UTF-8 becomes U+FFFD.
\<close>

function unquote :: "string \<Rightarrow> (string \<times> string) option" where
  "unquote [] = None"
| "unquote (c # cs) =
     (if c = CHR 0x22 then Some ([], cs)
      else if c = CHR 0x5C then
        (case escape cs of None \<Rightarrow> None | Some (bs, r) \<Rightarrow> cons_bytes bs (unquote r))
      else if byte_of c < 32 then None
      else if byte_of c < 128 then cons_bytes [c] (unquote cs)
      else
        (case utf8_len (c # cs) of
           0 \<Rightarrow> cons_bytes (encode_rune replacement_char) (unquote cs)
         | Suc k \<Rightarrow> cons_bytes (c # take k cs) (unquote (drop k cs))))"
  by pat_completeness auto
termination
  by (relation "measure length") (auto dest: escape_length)

definition scan_int :: "string \<Rightarrow> (string \<times> string) option" where
  "scan_int s = (case s of
      [] \<Rightarrow> None
    | c # cs \<Rightarrow>
        if c = CHR ''0'' then Some ([c], cs)
        else if is_digit c then Some (takeWhile is_digit s, dropWhile is_digit s)
        else None)"

definition scan_frac :: "string \<Rightarrow> (string \<times> string) option" where
  "scan_frac s = (case s of
      [] \<Rightarrow> Some ([], [])
    | c # cs \<Rightarrow>
        if c = CHR ''.'' then
          (if takeWhile is_digit cs = [] then None
           else Some (c # takeWhile is_digit cs, dropWhile is_digit cs))
        else Some ([], s))"

definition scan_exp :: "string \<Rightarrow> (string \<times> string) option" where
  "scan_exp s = (case s of
      [] \<Rightarrow> Some ([], [])
    | c # cs \<Rightarrow>
        if c = CHR ''e'' \<or> c = CHR ''E'' then
          (let sg = (case cs of d # _ \<Rightarrow> if d = CHR ''+'' \<or> d = CHR ''-'' then [d] else [] | [] \<Rightarrow> []);
               ds = drop (length sg) cs
           in if takeWhile is_digit ds = [] then None
              else Some (c # sg @ takeWhile is_digit ds, dropWhile is_digit ds))
        else Some ([], s))"

definition scan_number :: "string \<Rightarrow> (string \<times> string) option" where
  "scan_number s =
     (let sg = (case s of d # _ \<Rightarrow> if d = CHR ''-'' then [d] else [] | [] \<Rightarrow> []) in
      case scan_int (drop (length sg) s) of
        None \<Rightarrow> None
      | Some (ip, s1) \<Rightarrow>
          (case scan_frac s1 of
             None \<Rightarrow> None
           | Some (fp, s2) \<Rightarrow>
               (case scan_exp s2 of
                  None \<Rightarrow> None
                | Some (ep, s3) \<Rightarrow> Some (sg @ ip @ fp @ ep, s3))))"

definition literal :: "string \<Rightarrow> json \<Rightarrow> string \<Rightarrow> (json \<times> string) option" where
  "literal lit v s = (if prefix lit s then Some (v, drop (length lit) s) else None)"

text \<open>
  One value, leading white space skipped: the value and the rest of the text. \<open>parse_elems\<close> reads the
  elements of an array after one was expected, \<open>parse_members\<close> the members of an object; both read up
  to and including the closing bracket.
\<close>

fun parse_value :: "nat \<Rightarrow> string \<Rightarrow> (json \<times> string) option"
  and parse_elems :: "nat \<Rightarrow> string \<Rightarrow> (json list \<times> string) option"
  and parse_members :: "nat \<Rightarrow> string \<Rightarrow> ((string \<times> json) list \<times> string) option"
where
  "parse_value 0 s = None"
| "parse_value (Suc n) s = (case skip_ws s of
      [] \<Rightarrow> None
    | c # cs \<Rightarrow>
        if c = CHR 0x22 then map_option (\<lambda>(b, r). (JString b, r)) (unquote cs)
        else if c = CHR ''['' then
          (case skip_ws cs of
             d # r \<Rightarrow> if d = CHR '']'' then Some (JArray [], r)
                     else map_option (\<lambda>(xs, r). (JArray xs, r)) (parse_elems n cs)
           | [] \<Rightarrow> None)
        else if c = CHR ''{'' then
          (case skip_ws cs of
             d # r \<Rightarrow> if d = CHR ''}'' then Some (JObject [], r)
                     else map_option (\<lambda>(xs, r). (JObject xs, r)) (parse_members n cs)
           | [] \<Rightarrow> None)
        else if c = CHR ''n'' then literal ''null'' JNull (c # cs)
        else if c = CHR ''t'' then literal ''true'' (JBool True) (c # cs)
        else if c = CHR ''f'' then literal ''false'' (JBool False) (c # cs)
        else map_option (\<lambda>(t, r). (JNumber t, r)) (scan_number (c # cs)))"
| "parse_elems 0 s = None"
| "parse_elems (Suc n) s = (case parse_value n s of
      None \<Rightarrow> None
    | Some (v, r) \<Rightarrow>
        (case skip_ws r of
           [] \<Rightarrow> None
         | d # r' \<Rightarrow>
             if d = CHR '']'' then Some ([v], r')
             else if d = CHR '','' then map_option (\<lambda>(xs, r). (v # xs, r)) (parse_elems n r')
             else None))"
| "parse_members 0 s = None"
| "parse_members (Suc n) s = (case skip_ws s of
      [] \<Rightarrow> None
    | q # cs \<Rightarrow>
        if q \<noteq> CHR 0x22 then None
        else (case unquote cs of
          None \<Rightarrow> None
        | Some (key, r) \<Rightarrow>
            (case skip_ws r of
               [] \<Rightarrow> None
             | colon # r1 \<Rightarrow>
                 if colon \<noteq> CHR '':'' then None
                 else (case parse_value n r1 of
                   None \<Rightarrow> None
                 | Some (v, r2) \<Rightarrow>
                     (case skip_ws r2 of
                        [] \<Rightarrow> None
                      | d # r3 \<Rightarrow>
                          if d = CHR ''}'' then Some ([(key, v)], r3)
                          else if d = CHR '',''
                            then map_option (\<lambda>(xs, r). ((key, v) # xs, r)) (parse_members n r3)
                          else None)))))"

text \<open>\<^verbatim>\<open>json.Unmarshal\<close> wants the whole text to be one value; \<^verbatim>\<open>Decoder.Decode\<close> reads the first value only.\<close>

definition json_text :: "string \<Rightarrow> go_error + json" where
  "json_text s = (case parse_value (Suc (2 * length s)) s of
      Some (v, r) \<Rightarrow> if skip_ws r = [] then Inr v else Inl SyntaxError
    | None \<Rightarrow> Inl SyntaxError)"

definition json_stream :: "string \<Rightarrow> go_error + json" where
  "json_stream s = (if skip_ws s = [] then Inl EOF
     else (case parse_value (Suc (2 * length s)) s of
        Some (v, r) \<Rightarrow> Inr v
      | None \<Rightarrow> Inl SyntaxError))"

section \<open>The parser consumes its text, and has enough fuel\<close>

declare utf8_len.simps [simp del] hex_value.simps [simp del] simple_escape.simps [simp del]

lemma length_skip_ws: "length (skip_ws s) \<le> length s"
  by (simp add: skip_ws_def length_dropWhile_le)

lemma skip_ws_Cons_length: "skip_ws s = c # cs \<Longrightarrow> length cs < length s"
  using length_skip_ws [of s] by simp

lemma cons_bytes_SomeE:
  assumes "cons_bytes bs m = Some (b, r)"
  obtains b' where "m = Some (b', r)" and "b = bs @ b'"
  using assms by (auto simp: cons_bytes_def)

lemma cons_bytes_Some [simp]: "cons_bytes bs (Some (b, r)) = Some (bs @ b, r)"
  by (simp add: cons_bytes_def)

lemma unquote_Cons_Some:
  assumes "unquote (c # cs) = Some (b, r)"
  shows "r = cs \<or> (\<exists>t b'. length t \<le> length cs \<and> unquote t = Some (b', r))"
  using assms
  by (auto split: if_splits option.splits nat.splits elim!: cons_bytes_SomeE
      dest: escape_length less_imp_le)

lemma unquote_length: "unquote s = Some (b, r) \<Longrightarrow> length r < length s"
proof (induction s arbitrary: b rule: length_induct)
  case (1 s)
  show ?case
  proof (cases s)
    case Nil
    with "1.prems" show ?thesis by simp
  next
    case (Cons c cs)
    with "1.prems" consider "r = cs"
      | t b' where "length t \<le> length cs" and "unquote t = Some (b', r)"
      using unquote_Cons_Some by blast
    then show ?thesis
      using "1.IH" Cons by cases (auto simp: less_Suc_eq_le intro: less_imp_le less_le_trans)
  qed
qed

lemma scan_int_length: "scan_int s = Some (t, r) \<Longrightarrow> length r < length s"
  by (auto simp: scan_int_def split: list.splits if_splits)
    (metis le_imp_less_Suc length_dropWhile_le)

lemma scan_frac_length: "scan_frac s = Some (t, r) \<Longrightarrow> length r \<le> length s"
  by (auto simp: scan_frac_def split: list.splits if_splits)
    (metis le_SucI length_dropWhile_le)

lemma scan_exp_length: "scan_exp s = Some (t, r) \<Longrightarrow> length r \<le> length s"
proof (cases s)
  case (Cons c cs)
  assume "scan_exp s = Some (t, r)"
  with Cons consider "r = s"
    | sg where "r = dropWhile is_digit (drop (length (sg :: string)) cs)"
    by (auto simp: scan_exp_def Let_def split: if_splits)
  then show ?thesis
  proof cases
    case (2 sg)
    have "length r \<le> length (drop (length sg) cs)"
      unfolding 2 by (rule length_dropWhile_le)
    with Cons show ?thesis by simp
  qed simp
qed (simp add: scan_exp_def)

lemma scan_number_length:
  assumes "scan_number s = Some (t, r)"
  shows "length r < length s"
proof -
  obtain sg ip s1 fp s2 ep where "scan_int (drop (length (sg :: string)) s) = Some (ip, s1)"
    and "scan_frac s1 = Some (fp, s2)" and "scan_exp s2 = Some (ep, r)"
    using assms by (auto simp: scan_number_def Let_def split: option.splits)
  then have "length s1 < length (drop (length sg) s)" and "length s2 \<le> length s1"
    and "length r \<le> length s2"
    by (auto dest: scan_int_length scan_frac_length scan_exp_length)
  then show ?thesis by simp
qed

lemma literal_length: "lit \<noteq> [] \<Longrightarrow> literal lit v s = Some (j, r) \<Longrightarrow> length r < length s"
  by (auto simp: literal_def prefix_def split: if_splits)

lemma parse_value_length: "parse_value n s = Some (v, r) \<Longrightarrow> length r < length s"
  and parse_elems_length: "parse_elems n s = Some (vs, r) \<Longrightarrow> length r < length s"
  and parse_members_length: "parse_members n s = Some (ms, r) \<Longrightarrow> length r < length s"
proof (induction n s and n s and n s arbitrary: v r and vs r and ms r
    rule: parse_value_parse_elems_parse_members.induct)
  case (2 n s)
  show ?case
    using "2.prems" "2.IH" skip_ws_Cons_length [of s] length_skip_ws [of s]
    apply (auto split: list.splits if_splits dest!: unquote_length scan_number_length
        skip_ws_Cons_length literal_length [rotated])
    apply (fastforce dest: less_trans)+
    done
next
  case (4 n s)
  then show ?case
    apply (auto split: list.splits if_splits option.splits dest!: skip_ws_Cons_length)
    apply (fastforce dest: less_trans)+
    done
next
  case (6 n s)
  then show ?case
    apply (auto split: list.splits if_splits option.splits dest!: skip_ws_Cons_length unquote_length)
    apply (fastforce dest: less_trans)+
    done
qed auto

declare parse_value.simps [simp del] parse_elems.simps [simp del] parse_members.simps [simp del]

lemma parse_fuel_step:
  "(\<forall>s. 2 * length s < n \<longrightarrow> parse_value (Suc n) s = parse_value n s)
   \<and> (\<forall>s. 2 * length s + 1 < n \<longrightarrow> parse_elems (Suc n) s = parse_elems n s)
   \<and> (\<forall>s. 2 * length s + 1 < n \<longrightarrow> parse_members (Suc n) s = parse_members n s)"
proof (induction n)
  case 0
  show ?case by simp
next
  case (Suc n)
  have V: "parse_value (Suc (Suc n)) s = parse_value (Suc n) s" if "2 * length s < Suc n" for s
  proof -
    have "parse_elems (Suc n) cs = parse_elems n cs \<and> parse_members (Suc n) cs = parse_members n cs"
      if "skip_ws s = c # cs" for c cs
      using skip_ws_Cons_length [OF that] \<open>2 * length s < Suc n\<close> Suc.IH by simp
    then show ?thesis
      unfolding parse_value.simps(2) [of "Suc n" s] parse_value.simps(2) [of n s]
      by (auto split: list.split)
  qed
  have E: "parse_elems (Suc (Suc n)) s = parse_elems (Suc n) s" if "2 * length s + 1 < Suc n" for s
  proof -
    have "parse_value (Suc n) s = parse_value n s"
      using that Suc.IH by simp
    moreover have "parse_elems (Suc n) r' = parse_elems n r'"
      if "parse_value n s = Some (v, r)" and "skip_ws r = d # r'" for v r d r'
      using parse_value_length [OF that(1)] skip_ws_Cons_length [OF that(2)]
        \<open>2 * length s + 1 < Suc n\<close> Suc.IH by simp
    ultimately show ?thesis
      unfolding parse_elems.simps(2) [of "Suc n" s] parse_elems.simps(2) [of n s]
      by (auto split: option.split list.split)
  qed
  have M: "parse_members (Suc (Suc n)) s = parse_members (Suc n) s"
    if "2 * length s + 1 < Suc n" for s
  proof -
    have less: "length r1 < length s"
      if "skip_ws s = q # cs" "unquote cs = Some (key, r)" "skip_ws r = colon # r1"
      for q cs key r colon r1
      using skip_ws_Cons_length [OF that(1)] unquote_length [OF that(2)]
        skip_ws_Cons_length [OF that(3)] by simp
    have "parse_value (Suc n) r1 = parse_value n r1" if "length r1 < length s" for r1
      using that \<open>2 * length s + 1 < Suc n\<close> Suc.IH by simp
    moreover have "parse_members (Suc n) r3 = parse_members n r3"
      if "length r1 < length s" "parse_value n r1 = Some (v, r2)" "skip_ws r2 = d # r3"
      for r1 v r2 d r3
      using that(1) parse_value_length [OF that(2)] skip_ws_Cons_length [OF that(3)]
        \<open>2 * length s + 1 < Suc n\<close> Suc.IH by simp
    ultimately show ?thesis
      unfolding parse_members.simps(2) [of "Suc n" s] parse_members.simps(2) [of n s]
      by (auto split: option.split list.split dest: less)
  qed
  from V E M show ?case by simp
qed

lemma parse_value_fuel: "2 * length s < n \<Longrightarrow> parse_value n s = parse_value (Suc (2 * length s)) s"
proof (induction n)
  case (Suc n)
  then show ?case
    using parse_fuel_step [of n] by (cases "2 * length s < n") (auto simp: less_Suc_eq)
qed simp

section \<open>Decoding into Go values\<close>

type_synonym 'a decoder = "json \<Rightarrow> 'a \<Rightarrow> 'a \<times> bool"

definition unmarshal :: "'a decoder \<Rightarrow> 'a \<Rightarrow> string \<Rightarrow> go_error + 'a" where
  "unmarshal d init s = (case json_text s of
      Inl e \<Rightarrow> Inl e
    | Inr j \<Rightarrow> (let (v, misfit) = d j init in if misfit then Inl UnmarshalTypeError else Inr v))"

definition decode_stream :: "'a decoder \<Rightarrow> 'a \<Rightarrow> string \<Rightarrow> go_error + 'a" where
  "decode_stream d init s = (case json_stream s of
      Inl e \<Rightarrow> Inl e
    | Inr j \<Rightarrow> (let (v, misfit) = d j init in if misfit then Inl UnmarshalTypeError else Inr v))"

text \<open>\<^verbatim>\<open>null\<close> leaves a string, a bool or a number as it was.\<close>

fun dec_string :: "string decoder" where
  "dec_string (JString s) old = (s, False)"
| "dec_string JNull old = (old, False)"
| "dec_string _ old = (old, True)"

fun dec_bool :: "bool decoder" where
  "dec_bool (JBool b) old = (b, False)"
| "dec_bool JNull old = (old, False)"
| "dec_bool _ old = (old, True)"

text \<open>A slice is nil (\<open>None\<close>) or has elements; an element of the old slice is decoded over.\<close>

fun dec_elems :: "'a decoder \<Rightarrow> 'a \<Rightarrow> json list \<Rightarrow> 'a list \<Rightarrow> 'a list \<times> bool" where
  "dec_elems d zero [] olds = ([], False)"
| "dec_elems d zero (j # js) olds =
     (let (v, b) = d j (case olds of [] \<Rightarrow> zero | x # _ \<Rightarrow> x);
          (vs, b') = dec_elems d zero js (drop 1 olds)
      in (v # vs, b \<or> b'))"

fun dec_list :: "'a decoder \<Rightarrow> 'a \<Rightarrow> 'a list option decoder" where
  "dec_list d zero JNull old = (None, False)"
| "dec_list d zero (JArray js) old =
     (let (vs, b) = dec_elems d zero js (case old of None \<Rightarrow> [] | Some xs \<Rightarrow> xs) in (Some vs, b))"
| "dec_list d zero _ old = (old, True)"

text \<open>\<^verbatim>\<open>map[string]string\<close>, nil as \<open>None\<close>.\<close>

fun dec_entries :: "(string \<times> json) list \<Rightarrow> gomap \<Rightarrow> gomap \<times> bool" where
  "dec_entries [] m = (m, False)"
| "dec_entries ((k, j) # kvs) m =
     (let (v, b) = dec_string j ''''; (m', b') = dec_entries kvs (map_assign k v m)
      in (m', b \<or> b'))"

fun dec_map :: "nilmap decoder" where
  "dec_map JNull old = (None, False)"
| "dec_map (JObject kvs) old =
     (let (m, b) = dec_entries kvs (case old of None \<Rightarrow> [] | Some m \<Rightarrow> m) in (Some m, b))"
| "dec_map _ old = (old, True)"

text \<open>
  A key of an object names a field when the two are equal up to case; Go's folding also takes the
  Kelvin sign for a \<^verbatim>\<open>k\<close> and the long s for an \<^verbatim>\<open>s\<close>.
\<close>

definition ascii_lower :: "char \<Rightarrow> char" where
  "ascii_lower c = (if 65 \<le> byte_of c \<and> byte_of c \<le> 90 then char_of (byte_of c + 32) else c)"

fun fold_key :: "string \<Rightarrow> string" where
  "fold_key [] = []"
| "fold_key (c # cs) =
     (if c = CHR 0xC5 \<and> take 1 cs = [CHR 0xBF] then CHR ''s'' # fold_key (drop 1 cs)
      else if c = CHR 0xE2 \<and> take 2 cs = [CHR 0x84, CHR 0xAA] then CHR ''k'' # fold_key (drop 2 cs)
      else ascii_lower c # fold_key cs)"

fun dec_fields :: "(string \<times> 's decoder) list \<Rightarrow> (string \<times> json) list \<Rightarrow> 's \<Rightarrow> 's \<times> bool" where
  "dec_fields fields [] s = (s, False)"
| "dec_fields fields ((k, j) # kvs) s =
     (let (s1, b) = (case find (\<lambda>(name, _). fold_key name = fold_key k) fields of
            None \<Rightarrow> (s, False)
          | Some (_, d) \<Rightarrow> d j s);
          (s2, b') = dec_fields fields kvs s1
      in (s2, b \<or> b'))"

fun dec_struct :: "(string \<times> 's decoder) list \<Rightarrow> 's decoder" where
  "dec_struct fields JNull s = (s, False)"
| "dec_struct fields (JObject kvs) s = dec_fields fields kvs s"
| "dec_struct fields _ s = (s, True)"

text \<open>A decoder of one field of a record, from a decoder of its value.\<close>

definition dec_field :: "('s \<Rightarrow> 'a) \<Rightarrow> (('a \<Rightarrow> 'a) \<Rightarrow> 's \<Rightarrow> 's) \<Rightarrow> 'a decoder \<Rightarrow> 's decoder" where
  "dec_field get upd d j s = (let (v, b) = d j (get s) in (upd (\<lambda>_. v) s, b))"

text \<open>Decoding the raw message again, as \<^verbatim>\<open>json.Unmarshal\<close> of its text does.\<close>

definition unmarshal_raw :: "'a decoder \<Rightarrow> 'a \<Rightarrow> json \<Rightarrow> go_error + 'a" where
  "unmarshal_raw d init j = (let (v, misfit) = d j init in if misfit then Inl UnmarshalTypeError else Inr v)"

text \<open>
  A pointer: \<^verbatim>\<open>null\<close> makes it nil, another value is decoded over what it points to, or over the zero value.
  A \<^verbatim>\<open>*json.RawMessage\<close> keeps the value that was read.
\<close>

fun dec_ptr :: "'a decoder \<Rightarrow> 'a \<Rightarrow> 'a option decoder" where
  "dec_ptr d zero JNull old = (None, False)"
| "dec_ptr d zero j old = (let (v, b) = d j (case old of None \<Rightarrow> zero | Some x \<Rightarrow> x) in (Some v, b))"

fun dec_raw :: "json option decoder" where
  "dec_raw JNull old = (None, False)"
| "dec_raw j old = (Some j, False)"

text \<open>\<^verbatim>\<open>map[string]*json.RawMessage\<close> behind a pointer.\<close>

fun dec_raw_map :: "(string \<times> json option) list option decoder" where
  "dec_raw_map JNull old = (None, False)"
| "dec_raw_map (JObject kvs) old =
     (Some (fold (\<lambda>(k, j). AList.update k (fst (dec_raw j None))) kvs (case old of None \<Rightarrow> [] | Some m \<Rightarrow> m)), False)"
| "dec_raw_map _ old = (old, True)"

section \<open>Integers\<close>

text \<open>\<^verbatim>\<open>strconv.Itoa\<close>, and the digits read by \<^verbatim>\<open>strconv.ParseInt\<close> and \<^verbatim>\<open>strconv.ParseUint\<close>.\<close>

definition digit_char :: "nat \<Rightarrow> char" where
  "digit_char n = char_of (48 + n)"

function show_nat :: "nat \<Rightarrow> string" where
  "show_nat n = (if n < 10 then [digit_char n] else show_nat (n div 10) @ [digit_char (n mod 10)])"
  by pat_completeness auto
termination
  by (relation "measure id") auto

declare show_nat.simps [simp del]

definition show_int :: "int \<Rightarrow> string" where
  "show_int i = (if i < 0 then CHR ''-'' # show_nat (nat (- i)) else show_nat (nat i))"

fun read_digits :: "string \<Rightarrow> nat \<Rightarrow> nat option" where
  "read_digits [] n = Some n"
| "read_digits (c # cs) n =
     (if is_digit c then read_digits cs (10 * n + (byte_of c - 48)) else None)"

definition parse_int :: "string \<Rightarrow> int option" where
  "parse_int s = (case s of
      [] \<Rightarrow> None
    | c # cs \<Rightarrow>
        if c = CHR ''-'' then (if cs = [] then None else map_option (\<lambda>n. - int n) (read_digits cs 0))
        else map_option int (read_digits s 0))"

text \<open>A number that is no integer of the field's range does not fit.\<close>

fun dec_int :: "int64 decoder" where
  "dec_int (JNumber t) old = (case parse_int t of
      Some i \<Rightarrow> if - (2 ^ 63) \<le> i \<and> i < 2 ^ 63 then (word_of_int i, False) else (old, True)
    | None \<Rightarrow> (old, True))"
| "dec_int JNull old = (old, False)"
| "dec_int _ old = (old, True)"

fun dec_uint :: "go_uint decoder" where
  "dec_uint (JNumber t) old = (if take 1 t = ''-'' then (old, True) else case parse_int t of
      Some i \<Rightarrow> if 0 \<le> i \<and> i < 2 ^ 64 then (word_of_int i, False) else (old, True)
    | None \<Rightarrow> (old, True))"
| "dec_uint JNull old = (old, False)"
| "dec_uint _ old = (old, True)"

text \<open>Integers of 32 bits: the same texts, in the range of the type.\<close>

fun dec_int32 :: "int32 decoder" where
  "dec_int32 (JNumber t) old = (case parse_int t of
      Some i \<Rightarrow> if - (2 ^ 31) \<le> i \<and> i < 2 ^ 31 then (word_of_int i, False) else (old, True)
    | None \<Rightarrow> (old, True))"
| "dec_int32 JNull old = (old, False)"
| "dec_int32 _ old = (old, True)"

fun dec_uint32 :: "32 word decoder" where
  "dec_uint32 (JNumber t) old = (if take 1 t = ''-'' then (old, True) else case parse_int t of
      Some i \<Rightarrow> if 0 \<le> i \<and> i < 2 ^ 32 then (word_of_int i, False) else (old, True)
    | None \<Rightarrow> (old, True))"
| "dec_uint32 JNull old = (old, False)"
| "dec_uint32 _ old = (old, True)"

lemma digit_char_digit: "n < 10 \<Longrightarrow> is_digit (digit_char n) \<and> byte_of (digit_char n) - 48 = n"
  by (simp add: is_digit_def digit_char_def byte_of_char_of)

lemma read_digits_append:
  "read_digits (s @ t) n = (case read_digits s n of None \<Rightarrow> None | Some m \<Rightarrow> read_digits t m)"
  by (induction s arbitrary: n) auto

lemma read_show_nat: "read_digits (show_nat n) 0 = Some n"
proof (induction n rule: show_nat.induct)
  case (1 n)
  show ?case
  proof (cases "n < 10")
    case True
    then show ?thesis using digit_char_digit [of n] by (simp add: show_nat.simps)
  next
    case False
    then have "show_nat n = show_nat (n div 10) @ [digit_char (n mod 10)]"
      by (simp add: show_nat.simps)
    with False 1 digit_char_digit [of "n mod 10"] show ?thesis
      by (simp add: read_digits_append)
  qed
qed

lemma show_nat_Cons:
  obtains c cs where "show_nat n = c # cs" and "is_digit c"
proof -
  have "\<exists>c cs. show_nat n = c # cs \<and> is_digit c"
  proof (induction n rule: show_nat.induct)
    case (1 n)
    then show ?case
      using digit_char_digit [of n] by (cases "n < 10") (auto simp: show_nat.simps [of n])
  qed
  then show thesis using that by blast
qed

lemma parse_show_int: "parse_int (show_int i) = Some i"
proof (cases "i < 0")
  case True
  obtain c cs where "show_nat (nat (- i)) = c # cs" by (rule show_nat_Cons)
  with True read_show_nat [of "nat (- i)"] show ?thesis
    by (simp add: parse_int_def show_int_def)
next
  case False
  obtain c cs where "show_nat (nat i) = c # cs" "is_digit c" by (rule show_nat_Cons)
  moreover from this(2) have "c \<noteq> CHR ''-''" by (auto simp: is_digit_def byte_of_def)
  ultimately show ?thesis
    using False read_show_nat [of "nat i"] by (simp add: parse_int_def show_int_def)
qed

section \<open>Encoding\<close>

definition hex_digit :: "nat \<Rightarrow> char" where
  "hex_digit n = (if n < 10 then char_of (48 + n) else char_of (87 + n))"

text \<open>
  The ASCII bytes \<^verbatim>\<open>Marshal\<close> copies: the printable ones, less the quote, the backslash and the three
  characters special in HTML.
\<close>

definition html_safe :: "char \<Rightarrow> bool" where
  "html_safe c \<longleftrightarrow> 32 \<le> byte_of c \<and> byte_of c < 128
     \<and> c \<notin> {CHR 0x22, CHR 0x26, CHR 0x3C, CHR 0x3E, CHR 0x5C}"

definition quote_ascii :: "char \<Rightarrow> string" where
  "quote_ascii c =
     (if html_safe c then [c]
      else if c = CHR 0x5C \<or> c = CHR 0x22 then [CHR 0x5C, c]
      else if c = CHR 0x0A then [CHR 0x5C, CHR ''n'']
      else if c = CHR 0x0D then [CHR 0x5C, CHR ''r'']
      else if c = CHR 0x09 then [CHR 0x5C, CHR ''t'']
      else [CHR 0x5C, CHR ''u'', CHR ''0'', CHR ''0'', hex_digit (byte_of c div 16),
            hex_digit (byte_of c mod 16)])"

text \<open>A rune of several bytes is copied, but for the line and paragraph separators of JavaScript.\<close>

definition quote_rune :: "string \<Rightarrow> string" where
  "quote_rune rune =
     (if rune = [CHR 0xE2, CHR 0x80, CHR 0xA8] then [CHR 0x5C] @ ''u2028''
      else if rune = [CHR 0xE2, CHR 0x80, CHR 0xA9] then [CHR 0x5C] @ ''u2029''
      else rune)"

fun quote_body :: "string \<Rightarrow> string" where
  "quote_body [] = []"
| "quote_body (c # cs) =
     (if byte_of c < 128 then quote_ascii c @ quote_body cs
      else (case utf8_len (c # cs) of
        0 \<Rightarrow> [CHR 0x5C] @ ''ufffd'' @ quote_body cs
      | Suc k \<Rightarrow> quote_rune (c # take k cs) @ quote_body (drop k cs)))"

definition quote :: "string \<Rightarrow> string" where
  "quote s = CHR 0x22 # quote_body s @ [CHR 0x22]"

fun join_commas :: "string list \<Rightarrow> string" where
  "join_commas [] = []"
| "join_commas [x] = x"
| "join_commas (x # xs) = x @ CHR '','' # join_commas xs"

text \<open>\<^verbatim>\<open>Marshal\<close> of a \<^verbatim>\<open>[]string\<close>: a nil slice is written as \<^verbatim>\<open>null\<close>.\<close>

fun marshal_strings :: "string list option \<Rightarrow> string" where
  "marshal_strings None = ''null''"
| "marshal_strings (Some xs) = CHR ''['' # join_commas (map quote xs) @ [CHR '']'']"

section \<open>Marshal and Unmarshal are inverse on strings\<close>

lemma hex_value_digit: "n < 16 \<Longrightarrow> hex_value (hex_digit n) = Some n"
  by (auto simp: hex_value.simps hex_digit_def byte_of_char_of)

lemma hex_value_literals:
  "hex_value (CHR ''0'') = Some 0" "hex_value (CHR ''2'') = Some 2"
  "hex_value (CHR ''8'') = Some 8" "hex_value (CHR ''9'') = Some 9"
  by (simp_all add: hex_value.simps byte_of_def)

lemma byte_of_literals:
  "byte_of (CHR 0x22) = 34" "byte_of (CHR 0x5C) = 92"
  by (simp_all add: byte_of_def)

lemma getu4_byte:
  "n < 256 \<Longrightarrow> getu4 (CHR ''0'') (CHR ''0'') (hex_digit (n div 16)) (hex_digit (n mod 16)) = Some n"
  by (simp add: getu4_def hex_value_digit hex_value_literals)

lemma unquote_plain:
  "32 \<le> byte_of c \<Longrightarrow> byte_of c < 128 \<Longrightarrow> c \<noteq> CHR 0x22 \<Longrightarrow> c \<noteq> CHR 0x5C \<Longrightarrow>
     unquote (c # t) = cons_bytes [c] (unquote t)"
  by simp

lemma unquote_escape: "escape t = Some (bs, r) \<Longrightarrow> unquote (CHR 0x5C # t) = cons_bytes bs (unquote r)"
  by simp

lemma unquote_quote_ascii:
  assumes "byte_of c < 128"
  shows "unquote (quote_ascii c @ t) = cons_bytes [c] (unquote t)"
proof (cases "html_safe c")
  case True
  then show ?thesis
    by (simp add: quote_ascii_def html_safe_def)
next
  case False
  have "\<not> is_surrogate (byte_of c)" and "encode_rune (byte_of c) = [c]"
    using assms by (simp_all add: is_surrogate_def encode_rune_def)
  then have "escape (tl (quote_ascii c) @ t) = Some ([c], t)"
    using False byte_of_less [of c]
    by (auto simp: quote_ascii_def escape_def simple_escape.simps getu4_byte)
  moreover have "quote_ascii c @ t = CHR 0x5C # tl (quote_ascii c) @ t"
    using False by (simp add: quote_ascii_def)
  ultimately show ?thesis
    by (metis unquote_escape)
qed

lemma in_ranges_length: "in_ranges rs s \<Longrightarrow> length rs \<le> length s"
  by (induction rs s rule: in_ranges.induct) auto

lemma in_ranges_take: "in_ranges rs s \<Longrightarrow> in_ranges rs (take (length rs) s @ t)"
  by (induction rs s rule: in_ranges.induct) auto

lemma utf8_len_le: "utf8_len s \<le> length s"
  by (cases s) (auto simp: utf8_len.simps dest: in_ranges_length split: option.splits)

lemma utf8_len_take: "utf8_len s = Suc k \<Longrightarrow> utf8_len (take (Suc k) s @ t) = Suc k"
  by (cases s) (auto simp: utf8_len.simps in_ranges_take split: option.splits if_splits)

lemma unquote_rune:
  assumes "128 \<le> byte_of c" and "utf8_len (c # cs) = Suc k"
  shows "unquote ((c # take k cs) @ t) = cons_bytes (c # take k cs) (unquote t)"
proof -
  have "utf8_len (c # take k cs @ t) = Suc k"
    using utf8_len_take [OF assms(2), of t] by simp
  moreover have "length (take k cs) = k"
    using utf8_len_le [of "c # cs"] assms(2) by simp
  ultimately show ?thesis
    using assms(1) byte_of_literals by auto
qed

lemma unquote_line_separators:
  "unquote ([CHR 0x5C] @ ''u2028'' @ t) = cons_bytes [CHR 0xE2, CHR 0x80, CHR 0xA8] (unquote t)"
  "unquote ([CHR 0x5C] @ ''u2029'' @ t) = cons_bytes [CHR 0xE2, CHR 0x80, CHR 0xA9] (unquote t)"
  by (simp_all add: escape_def getu4_def hex_value_literals is_surrogate_def encode_rune_def
      char_of_def bit_0)

lemma unquote_quote_rune:
  assumes "128 \<le> byte_of c" and "utf8_len (c # cs) = Suc k"
  shows "unquote (quote_rune (c # take k cs) @ t) = cons_bytes (c # take k cs) (unquote t)"
  using unquote_rune [OF assms, of t] unquote_line_separators [of t]
  unfolding quote_rune_def by (simp del: unquote.simps)

lemma unquote_quote_body:
  "utf8_valid s \<Longrightarrow> unquote (quote_body s @ CHR 0x22 # r) = Some (s, r)"
proof (induction s rule: quote_body.induct)
  case 1
  show ?case by simp
next
  case (2 c cs)
  show ?case
  proof (cases "byte_of c < 128")
    case True
    then have "utf8_valid cs"
      using "2.prems" by (simp add: utf8_len.simps rune_ranges_def)
    with True "2.IH"(1) show ?thesis
      by (simp add: unquote_quote_ascii)
  next
    case False
    with "2.prems" obtain k where k: "utf8_len (c # cs) = Suc k" and "utf8_valid (drop k cs)"
      by (auto split: nat.splits)
    with False "2.IH"(3) [OF False k]
    have IH: "unquote (quote_body (drop k cs) @ CHR 0x22 # r) = Some (drop k cs, r)"
      by simp
    then show ?thesis
      using False k by (simp add: unquote_quote_rune del: unquote.simps)
  qed
qed

lemma unquote_quote: "utf8_valid s \<Longrightarrow> unquote (tl (quote s) @ r) = Some (s, r)"
  by (simp add: quote_def unquote_quote_body)

declare unquote.simps [simp del]

lemma skip_ws_Nil [simp]: "skip_ws [] = []"
  and skip_ws_Cons [simp]: "\<not> is_ws c \<Longrightarrow> skip_ws (c # s) = c # s"
  by (simp_all add: skip_ws_def)

lemma not_ws [simp]:
  "\<not> is_ws (CHR 0x22)" "\<not> is_ws (CHR ''['')" "\<not> is_ws (CHR '']'')" "\<not> is_ws (CHR '','')"
  "\<not> is_ws (CHR ''n'')"
  by (simp_all add: is_ws_def)

lemma parse_quote:
  "utf8_valid s \<Longrightarrow> parse_value (Suc n) (quote s @ r) = Some (JString s, r)"
  by (simp add: parse_value.simps quote_def unquote_quote_body)

lemma parse_elems_quotes:
  assumes "\<forall>x \<in> set xs. utf8_valid x" and "xs \<noteq> []" and "length xs < n"
  shows "parse_elems n (join_commas (map quote xs) @ CHR '']'' # r) = Some (map JString xs, r)"
  using assms
proof (induction xs arbitrary: n rule: induct_list012)
  case (2 x)
  then obtain m where "n = Suc (Suc m)"
    by (cases n; cases "n - 1") auto
  with 2 show ?case
    by (simp add: parse_elems.simps parse_quote)
next
  case (3 x y xs)
  then obtain m where n: "n = Suc (Suc m)"
    by (cases n; cases "n - 1") auto
  have "parse_elems (Suc m) (join_commas (map quote (y # xs)) @ CHR '']'' # r)
    = Some (map JString (y # xs), r)"
    by (rule "3.IH"(2)) (use "3.prems" n in auto)
  then show ?case
    using "3.prems" by (simp add: n parse_elems.simps(2) [of "Suc m"] parse_quote)
qed simp

lemma length_join_quotes: "length xs \<le> length (join_commas (map quote xs))"
proof (induction xs rule: induct_list012)
  case (3 x y xs)
  then show ?case by simp
qed (simp_all add: quote_def)

lemma json_text_strings:
  assumes "\<forall>x \<in> set xs. utf8_valid x"
  shows "json_text (marshal_strings (Some xs)) = Inr (JArray (map JString xs))"
proof (cases "xs = []")
  case True
  then show ?thesis by (simp add: json_text_def parse_value.simps eval_nat_numeral)
next
  case False
  let ?t = "join_commas (map quote xs) @ [CHR '']'']"
  obtain u where u: "?t = CHR 0x22 # u"
    using False by (cases xs; cases "tl xs") (auto simp: quote_def)
  have "parse_elems (2 * length (marshal_strings (Some xs))) ?t = Some (map JString xs, [])"
    by (rule parse_elems_quotes) (use assms False length_join_quotes [of xs] in auto)
  then have "parse_value (Suc (2 * length (marshal_strings (Some xs)))) (marshal_strings (Some xs))
    = Some (JArray (map JString xs), [])"
    using u by (simp add: parse_value.simps)
  then show ?thesis
    by (simp add: json_text_def)
qed

lemma json_text_null: "json_text ''null'' = Inr JNull"
  by (simp add: json_text_def parse_value.simps literal_def eval_nat_numeral)

lemma dec_elems_strings [simp]: "dec_elems dec_string zero (map JString xs) olds = (xs, False)"
  by (induction xs arbitrary: olds) auto

text \<open>A list of strings survives \<^verbatim>\<open>Marshal\<close> and \<^verbatim>\<open>Unmarshal\<close>, nil slices included.\<close>

lemma unmarshal_marshal_strings:
  assumes "\<forall>xs. v = Some xs \<longrightarrow> (\<forall>x \<in> set xs. utf8_valid x)"
  shows "unmarshal (dec_list dec_string '''') old (marshal_strings v) = Inr v"
  using assms
  by (cases v) (simp_all add: unmarshal_def json_text_strings json_text_null del: marshal_strings.simps(2))

declare utf8_valid.simps(2) [simp del]

end
