(* ===== verification/Eirini_Models.thy ===== *)
theory Eirini_Models
  imports Go_Json
begin

text \<open>
  The shared data types and constants of the program: the root package (\<^verbatim>\<open>models.go\<close>), the OPI
  abstraction (\<^verbatim>\<open>opi/model.go\<close>) and the Cloud Foundry messages (\<^verbatim>\<open>models/cf/models.go\<close>). The lemmas
  show when the names of the two services of an app can be told apart.
\<close>

section \<open>Constants\<close>

text \<open>Names of the environment variables of a staging task.\<close>

abbreviation EnvDownloadURL :: string where "EnvDownloadURL \<equiv> ''DOWNLOAD_URL''"
abbreviation EnvBuildpacks :: string where "EnvBuildpacks \<equiv> ''BUILDPACKS''"
abbreviation EnvDropletUploadURL :: string where "EnvDropletUploadURL \<equiv> ''DROPLET_UPLOAD_URL''"
abbreviation EnvAppID :: string where "EnvAppID \<equiv> ''APP_ID''"
abbreviation EnvStagingGUID :: string where "EnvStagingGUID \<equiv> ''STAGING_GUID''"
abbreviation EnvCompletionCallback :: string where
  "EnvCompletionCallback \<equiv> ''COMPLETION_CALLBACK''"
abbreviation EnvCfUsername :: string where "EnvCfUsername \<equiv> ''CF_USERNAME''"
abbreviation EnvCfPassword :: string where "EnvCfPassword \<equiv> ''CF_PASSWORD''"
abbreviation EnvAPIAddress :: string where "EnvAPIAddress \<equiv> ''API_ADDRESS''"
abbreviation EnvEiriniAddress :: string where "EnvEiriniAddress \<equiv> ''EIRINI_ADDRESS''"

abbreviation RegisteredRoutes :: string where "RegisteredRoutes \<equiv> ''routes''"

abbreviation CCUploaderInternalURL :: string where
  "CCUploaderInternalURL \<equiv> ''cc-uploader.service.cf.internal''"
abbreviation CCCertsMountPath :: string where "CCCertsMountPath \<equiv> ''/etc/config/certs''"
abbreviation CCCertsSecretName :: string where "CCCertsSecretName \<equiv> ''cc-certs''"
abbreviation CCCertsVolumeName :: string where "CCCertsVolumeName \<equiv> ''cc-certs-volume''"

text \<open>Keys of the metadata of an LRP (package \<^verbatim>\<open>cf\<close>).\<close>

abbreviation VcapAppName :: string where "VcapAppName \<equiv> ''application_name''"
abbreviation VcapVersion :: string where "VcapVersion \<equiv> ''version''"
abbreviation VcapAppUris :: string where "VcapAppUris \<equiv> ''application_uris''"
abbreviation VcapAppID :: string where "VcapAppID \<equiv> ''application_id''"
abbreviation VcapSpaceName :: string where "VcapSpaceName \<equiv> ''space_name''"
abbreviation LastUpdated :: string where "LastUpdated \<equiv> ''last_updated''"
abbreviation ProcessGUID :: string where "ProcessGUID \<equiv> ''process_guid''"
abbreviation RunningState :: string where "RunningState \<equiv> ''RUNNING''"

section \<open>OPI: long running processes and tasks\<close>

record Healtcheck =
  Type :: string
  Port :: int32
  Endpoint :: string
  TimeoutMs :: go_uint

text \<open>\<open>Metadata\<close> may be a nil map; \<open>Env\<close> is only ranged over, where nil and empty do not differ.\<close>

record LRP =
  Name :: string
  Image :: string
  Command :: "string list"
  Env :: gomap
  Health :: Healtcheck
  TargetInstances :: go_int
  RunningInstances :: go_int
  Metadata :: nilmap

record Task =
  task_Image :: string
  task_Command :: "string list"
  task_Env :: gomap

text \<open>The zero values of Go, for composite literals that leave fields out.\<close>

definition zero_Healtcheck :: Healtcheck where
  "zero_Healtcheck = \<lparr>Type = '''', Port = 0, Endpoint = '''', TimeoutMs = 0\<rparr>"

definition zero_LRP :: LRP where
  "zero_LRP = \<lparr>Name = '''', Image = '''', Command = [], Env = [], Health = zero_Healtcheck,
     TargetInstances = 0, RunningInstances = 0, Metadata = None\<rparr>"

section \<open>Cloud Foundry messages and route messages\<close>

record VcapApp =
  vcap_AppName :: string
  vcap_AppID :: string
  vcap_Version :: string
  vcap_AppUris :: "string list option"
  vcap_SpaceName :: string

record DesireLRPRequest =
  req_ProcessGUID :: string
  req_DockerImageURL :: string
  req_DropletHash :: string
  req_StartCommand :: string
  req_Environment :: nilmap
  req_NumInstances :: go_int
  req_LastUpdated :: string
  req_HealthCheckType :: string
  req_HealthCheckHTTPEndpoint :: string
  req_HealthCheckTimeoutMs :: go_uint

record Instance =
  Index :: go_int
  State :: string

record GetInstancesResponse =
  gir_Error :: string
  gir_ProcessGUID :: string
  gir_Instances :: "Instance list"

record Routes =
  r_Routes :: "string list"
  r_UnregisteredRoutes :: "string list"
  r_Name :: string

section \<open>Names of the services of an app\<close>

definition GetInternalServiceName :: "string \<Rightarrow> string" where
  "GetInternalServiceName appName = ''cf-'' @ appName"

definition GetInternalHeadlessServiceName :: "string \<Rightarrow> string" where
  "GetInternalHeadlessServiceName appName = ''cf-'' @ appName @ ''-headless''"

lemma GetInternalServiceName_inject [simp]:
  "GetInternalServiceName a = GetInternalServiceName b \<longleftrightarrow> a = b"
  by (simp add: GetInternalServiceName_def)

lemma GetInternalHeadlessServiceName_inject [simp]:
  "GetInternalHeadlessServiceName a = GetInternalHeadlessServiceName b \<longleftrightarrow> a = b"
  by (simp add: GetInternalHeadlessServiceName_def)

text \<open>
  The routable service of one app has the name of the headless service of another exactly when its
  app name is the other's with the suffix \<^verbatim>\<open>-headless\<close>; an app's own two services never collide.
\<close>

lemma service_name_collision:
  "GetInternalServiceName a = GetInternalHeadlessServiceName b \<longleftrightarrow> a = b @ ''-headless''"
  by (simp add: GetInternalServiceName_def GetInternalHeadlessServiceName_def)

lemma service_names_distinct [simp]:
  "GetInternalServiceName a \<noteq> GetInternalHeadlessServiceName a"
  "GetInternalHeadlessServiceName a \<noteq> GetInternalServiceName a"
  by (simp_all add: GetInternalServiceName_def GetInternalHeadlessServiceName_def)

end
