(* ===== verification/Json_Print.thy ===== *)
theory Json_Print
  imports Go_Json
begin

text \<open>
  The text \<^verbatim>\<open>json.Marshal\<close> writes for a JSON value, and that the parser of \<open>Go_Json\<close> reads it back. A Go struct
  is written as the object of its fields in their order; a \<^verbatim>\<open>json.RawMessage\<close> that was decoded from a text
  is kept as the value of that text.
\<close>

section \<open>Printing\<close>

definition print_member :: "string \<times> string \<Rightarrow> string" where
  "print_member m = quote (fst m) @ CHR '':'' # snd m"

primrec print_json :: "json \<Rightarrow> string" where
  "print_json JNull = ''null''"
| "print_json (JBool b) = (if b then ''true'' else ''false'')"
| "print_json (JNumber t) = t"
| "print_json (JString s) = quote s"
| "print_json (JArray js) = CHR ''['' # join_commas (map print_json js) @ [CHR '']'']"
| "print_json (JObject kvs) = CHR ''{'' # join_commas (map print_member (map (map_prod id print_json) kvs)) @ [CHR ''}'']"

definition json_int :: "int \<Rightarrow> json" where
  "json_int i = JNumber (show_int i)"

text \<open>Values whose text is read back: strings of valid UTF-8, numbers in JSON's syntax.\<close>

primrec json_ok :: "json \<Rightarrow> bool" where
  "json_ok JNull = True"
| "json_ok (JBool b) = True"
| "json_ok (JNumber t) = (scan_number t = Some (t, []))"
| "json_ok (JString s) = utf8_valid s"
| "json_ok (JArray js) = list_all (\<lambda>b. b) (map json_ok js)"
| "json_ok (JObject kvs) = list_all (\<lambda>(k, b). utf8_valid k \<and> b) (map (map_prod id json_ok) kvs)"

lemma json_ok_simps [simp]:
  "json_ok (JArray js) \<longleftrightarrow> (\<forall>j \<in> set js. json_ok j)"
  "json_ok (JObject kvs) \<longleftrightarrow> (\<forall>(k, v) \<in> set kvs. utf8_valid k \<and> json_ok v)"
  by (auto simp: list_all_iff)

declare json_ok.simps(5,6) [simp del]

section \<open>Numbers before the end of a value\<close>

text \<open>What can follow a value in the text of another.\<close>

definition stops :: "string \<Rightarrow> bool" where
  "stops r \<longleftrightarrow> r = [] \<or> hd r \<in> {CHR '','', CHR '']'', CHR ''}''}"

lemma stops_cases:
  assumes "stops r"
  obtains "r = []" | c s where "r = c # s" and "c = CHR '','' \<or> c = CHR '']'' \<or> c = CHR ''}''"
  using assms by (cases r) (auto simp: stops_def)

lemma stops_chars:
  "stops (c # r) \<Longrightarrow> \<not> is_digit c \<and> c \<noteq> CHR ''.'' \<and> c \<noteq> CHR ''e'' \<and> c \<noteq> CHR ''E''"
  by (auto simp: stops_def is_digit_def byte_of_def)

lemma takeWhile_stops: "stops r \<Longrightarrow> takeWhile is_digit (s @ r) = takeWhile is_digit s"
  and dropWhile_stops: "stops r \<Longrightarrow> dropWhile is_digit (s @ r) = dropWhile is_digit s @ r"
  using stops_chars by (induction s) (cases r; auto)+

lemma scan_int_stops:
  "scan_int s = Some (t, s') \<Longrightarrow> stops r \<Longrightarrow> scan_int (s @ r) = Some (t, s' @ r)"
  by (cases s) (auto simp: scan_int_def takeWhile_stops dropWhile_stops split: if_splits)

lemma scan_frac_stops:
  "scan_frac s = Some (t, s') \<Longrightarrow> stops r \<Longrightarrow> scan_frac (s @ r) = Some (t, s' @ r)"
  using stops_chars
  by (cases s; cases r) (auto simp: scan_frac_def takeWhile_stops dropWhile_stops split: if_splits)

lemma scan_exp_stops:
  "scan_exp s = Some (t, s') \<Longrightarrow> stops r \<Longrightarrow> scan_exp (s @ r) = Some (t, s' @ r)"
proof (cases s)
  case Nil
  then show "scan_exp s = Some (t, s') \<Longrightarrow> stops r \<Longrightarrow> scan_exp (s @ r) = Some (t, s' @ r)"
    using stops_chars by (cases r) (auto simp: scan_exp_def)
next
  case (Cons c cs)
  then show "scan_exp s = Some (t, s') \<Longrightarrow> stops r \<Longrightarrow> scan_exp (s @ r) = Some (t, s' @ r)"
    by (cases cs) (auto simp: scan_exp_def Let_def takeWhile_stops dropWhile_stops split: if_splits)
qed

lemma scan_number_stops:
  assumes "scan_number t = Some (t, [])" and "stops r"
  shows "scan_number (t @ r) = Some (t, r)"
proof -
  obtain c cs where t: "t = c # cs"
    using assms(1) by (cases t) (auto simp: scan_number_def scan_int_def)
  let ?sg = "case t of d # _ \<Rightarrow> if d = CHR ''-'' then [d] else [] | [] \<Rightarrow> []"
  have "(case t @ r of d # _ \<Rightarrow> if d = CHR ''-'' then [d] else [] | [] \<Rightarrow> []) = ?sg"
    by (simp add: t)
  moreover have "drop (length ?sg) (t @ r) = drop (length ?sg) t @ r"
    by (simp add: t)
  moreover obtain ip s1 fp s2 ep where parts: "scan_int (drop (length ?sg) t) = Some (ip, s1)"
    "scan_frac s1 = Some (fp, s2)" "scan_exp s2 = Some (ep, [])" "t = ?sg @ ip @ fp @ ep"
    using assms(1) unfolding scan_number_def Let_def by (auto split: option.splits)
  ultimately show ?thesis
    using scan_int_stops [OF parts(1) assms(2)] scan_frac_stops [OF parts(2) assms(2)]
      scan_exp_stops [OF parts(3) assms(2)] parts(4)
    unfolding scan_number_def Let_def by simp
qed

section \<open>Print and parse\<close>

text \<open>Enough fuel for every continuation of the text.\<close>

definition reads :: "json \<Rightarrow> bool" where
  "reads j \<longleftrightarrow> (\<exists>k. \<forall>n \<ge> k. \<forall>r. stops r \<longrightarrow> parse_value n (print_json j @ r) = Some (j, r))"

lemma scan_number_first:
  assumes "scan_number t = Some (u, r)"
  obtains c cs where "t = c # cs" and "c = CHR ''-'' \<or> is_digit c"
  using assms by (cases t) (auto simp: scan_number_def scan_int_def is_digit_def byte_of_def split: if_splits)

lemma digit_plain:
  "c = CHR ''-'' \<or> is_digit c \<Longrightarrow>
     \<not> is_ws c \<and> c \<notin> {CHR 0x22, CHR ''['', CHR ''{'', CHR '']'', CHR ''}'', CHR ''n'', CHR ''t'', CHR ''f''}"
  by (auto simp: is_digit_def is_ws_def byte_of_def)

lemma print_json_first:
  assumes "json_ok j"
  obtains c cs where "print_json j = c # cs" and "\<not> is_ws c" and "c \<noteq> CHR '']''" and "c \<noteq> CHR ''}''"
proof -
  have "\<exists>c cs. print_json j = c # cs \<and> \<not> is_ws c \<and> c \<noteq> CHR '']'' \<and> c \<noteq> CHR ''}''"
  proof (cases j)
    case (JNumber t)
    with assms obtain c cs where "t = c # cs" "c = CHR ''-'' \<or> is_digit c"
      by (auto elim: scan_number_first)
    with JNumber digit_plain [of c] show ?thesis by auto
  qed (simp_all add: is_ws_def quote_def)
  then show thesis using that by blast
qed

lemma parse_elems_print:
  assumes "\<forall>j \<in> set js. reads j" and "js \<noteq> []"
  shows "\<exists>k. \<forall>n \<ge> k. \<forall>r. parse_elems n (join_commas (map print_json js) @ CHR '']'' # r) = Some (js, r)"
  using assms
proof (induction js rule: induct_list012)
  case (2 j)
  then obtain k where k: "\<forall>n \<ge> k. \<forall>r. stops r \<longrightarrow> parse_value n (print_json j @ r) = Some (j, r)"
    by (auto simp: reads_def)
  have "parse_elems n (print_json j @ CHR '']'' # r) = Some ([j], r)" if "n \<ge> Suc k" for n r
    using that k by (cases n) (simp_all add: parse_elems.simps stops_def)
  then show ?case by auto
next
  case (3 j j' js)
  then obtain k where k: "\<forall>n \<ge> k. \<forall>r. stops r \<longrightarrow> parse_value n (print_json j @ r) = Some (j, r)"
    by (auto simp: reads_def)
  obtain k' where k': "\<forall>n \<ge> k'. \<forall>r. parse_elems n (join_commas (map print_json (j' # js)) @ CHR '']'' # r) = Some (j' # js, r)"
    using "3.IH"(2) "3.prems" by auto
  have "parse_elems n (join_commas (map print_json (j # j' # js)) @ CHR '']'' # r) = Some (j # j' # js, r)"
    if "n \<ge> Suc (max k k')" for n r
    using that k k' by (cases n) (simp_all add: parse_elems.simps stops_def)
  then show ?case by blast
qed simp

lemma unquote_key: "utf8_valid s \<Longrightarrow> unquote (quote_body s @ CHR 0x22 # r) = Some (s, r)"
  by (rule unquote_quote_body)

lemma parse_members_print:
  assumes "\<forall>(k, v) \<in> set kvs. utf8_valid k \<and> reads v" and "kvs \<noteq> []"
  shows "\<exists>k. \<forall>n \<ge> k. \<forall>r. parse_members n
    (join_commas (map print_member (map (map_prod id print_json) kvs)) @ CHR ''}'' # r) = Some (kvs, r)"
  using assms
proof (induction kvs rule: induct_list012)
  case (2 kv)
  obtain key v where kv: "kv = (key, v)" by (cases kv)
  with 2 obtain k where k: "\<forall>n \<ge> k. \<forall>r. stops r \<longrightarrow> parse_value n (print_json v @ r) = Some (v, r)"
    by (auto simp: reads_def)
  have "parse_members n (print_member (key, print_json v) @ CHR ''}'' # r) = Some ([(key, v)], r)" if "n \<ge> Suc k" for n r
    using that k 2 kv by (cases n) (simp_all add: parse_members.simps print_member_def quote_def unquote_key stops_def is_ws_def)
  then show ?case by (auto simp: kv)
next
  case (3 kv kv' kvs)
  obtain key v where kv: "kv = (key, v)" by (cases kv)
  with 3 obtain k where k: "\<forall>n \<ge> k. \<forall>r. stops r \<longrightarrow> parse_value n (print_json v @ r) = Some (v, r)"
    by (auto simp: reads_def)
  obtain k' where k': "\<forall>n \<ge> k'. \<forall>r. parse_members n
      (join_commas (map print_member (map (map_prod id print_json) (kv' # kvs))) @ CHR ''}'' # r) = Some (kv' # kvs, r)"
    using "3.IH"(2) [OF _ list.distinct(2)] "3.prems"(1) by (metis (no_types, lifting) list.set_intros(2))
  have "parse_members n (join_commas (map print_member (map (map_prod id print_json) (kv # kv' # kvs))) @ CHR ''}'' # r)
      = Some (kv # kv' # kvs, r)" if "n \<ge> Suc (max k k')" for n r
    using that k k' 3 kv
    by (cases n) (simp_all add: parse_members.simps print_member_def quote_def unquote_key stops_def is_ws_def)
  then show ?case by blast
qed simp

lemma reads_scalar:
  assumes "\<And>n r. stops r \<Longrightarrow> parse_value (Suc n) (print_json j @ r) = Some (j, r)"
  shows "reads j"
  unfolding reads_def
proof (intro exI allI impI)
  fix n r assume "Suc 0 \<le> n" and "stops r"
  then obtain m where "n = Suc m" by (cases n) auto
  with assms \<open>stops r\<close> show "parse_value n (print_json j @ r) = Some (j, r)" by simp
qed

lemma json_ok_reads: "json_ok j \<Longrightarrow> reads j"
proof (induction j)
  case (JNumber t)
  then obtain c cs where t: "t = c # cs" "c = CHR ''-'' \<or> is_digit c"
    by (auto elim: scan_number_first)
  show ?case
  proof (rule reads_scalar)
    fix n r assume "stops r"
    then have "scan_number (t @ r) = Some (t, r)"
      using JNumber scan_number_stops by simp
    then show "parse_value (Suc n) (print_json (JNumber t) @ r) = Some (JNumber t, r)"
      using t(1) digit_plain [OF t(2)] by (simp add: parse_value.simps)
  qed
next
  case (JArray js)
  show ?case
  proof (cases "js = []")
    case True
    then show ?thesis by (intro reads_scalar) (simp add: parse_value.simps)
  next
    case False
    from JArray have ok: "\<forall>j \<in> set js. reads j" by simp
    obtain k where k: "\<forall>n \<ge> k. \<forall>r. parse_elems n (join_commas (map print_json js) @ CHR '']'' # r) = Some (js, r)"
      using parse_elems_print [OF ok False] by blast
    obtain j js' where js: "js = j # js'" using False by (cases js) auto
    obtain c cs where "print_json j = c # cs" and c: "\<not> is_ws c" "c \<noteq> CHR '']''"
      using JArray.prems js by (auto elim: print_json_first)
    then obtain u where u: "join_commas (map print_json js) = c # u"
      using js by (cases js') auto
    have "parse_value n (print_json (JArray js) @ r) = Some (JArray js, r)" if "n \<ge> Suc k" for n r
      using that k [rule_format, of "n - 1" r] u c by (cases n) (simp_all add: parse_value.simps)
    then show ?thesis unfolding reads_def by blast
  qed
next
  case (JObject kvs)
  show ?case
  proof (cases "kvs = []")
    case True
    then show ?thesis by (intro reads_scalar) (simp add: parse_value.simps is_ws_def)
  next
    case False
    from JObject have ok: "\<forall>(k, v) \<in> set kvs. utf8_valid k \<and> reads v" by (fastforce simp: prod_set_simps)
    obtain k where k: "\<forall>n \<ge> k. \<forall>r. parse_members n
        (join_commas (map print_member (map (map_prod id print_json) kvs)) @ CHR ''}'' # r) = Some (kvs, r)"
      using parse_members_print [OF ok False] by blast
    obtain u where u: "join_commas (map print_member (map (map_prod id print_json) kvs)) = CHR 0x22 # u"
      using False by (cases kvs; cases "tl kvs") (auto simp: print_member_def quote_def)
    have "parse_value n (print_json (JObject kvs) @ r) = Some (JObject kvs, r)" if "n \<ge> Suc k" for n r
      using that k [rule_format, of "n - 1" r] u by (cases n) (simp_all add: parse_value.simps is_ws_def)
    then show ?thesis unfolding reads_def by blast
  qed
qed (auto intro!: reads_scalar simp: parse_value.simps literal_def quote_def unquote_key is_ws_def)

lemma parse_print_json:
  assumes "json_ok j"
  shows "parse_value (Suc (2 * length (print_json j))) (print_json j) = Some (j, [])"
proof -
  obtain k where k: "\<And>n r. n \<ge> k \<Longrightarrow> stops r \<Longrightarrow> parse_value n (print_json j @ r) = Some (j, r)"
    using json_ok_reads [OF assms] unfolding reads_def by blast
  let ?n = "max k (Suc (2 * length (print_json j)))"
  have "parse_value ?n (print_json j) = Some (j, [])"
    using k [of ?n "[]"] by (simp add: stops_def)
  then show ?thesis
    using parse_value_fuel [of "print_json j" ?n] by simp
qed

lemma json_text_print: "json_ok j \<Longrightarrow> json_text (print_json j) = Inr j"
  by (simp add: json_text_def parse_print_json)

lemma json_stream_print: "json_ok j \<Longrightarrow> json_stream (print_json j) = Inr j"
proof -
  assume ok: "json_ok j"
  then have "skip_ws (print_json j) \<noteq> []"
    by (rule print_json_first) simp
  with ok show ?thesis
    by (simp add: json_stream_def parse_print_json)
qed

lemma marshal_strings_print: "marshal_strings (Some xs) = print_json (JArray (map JString xs))"
  by (simp add: comp_def)

text \<open>An integer is written in JSON's syntax.\<close>

lemma show_nat_digits: "\<forall>c \<in> set (show_nat n). is_digit c"
  using digit_char_digit by (induction n rule: show_nat.induct) (subst show_nat.simps, auto)

lemma show_nat_zero: "show_nat n = CHR ''0'' # s \<Longrightarrow> s = []"
proof (induction n arbitrary: s rule: show_nat.induct)
  case (1 n)
  show ?case
  proof (cases "n < 10")
    case False
    then have split: "show_nat n = show_nat (n div 10) @ [digit_char (n mod 10)]"
      by (simp add: show_nat.simps)
    obtain c cs where c: "show_nat (n div 10) = c # cs" by (rule show_nat_Cons)
    with split 1(2) have "show_nat (n div 10) = CHR ''0'' # cs" by simp
    with 1(1) False have "cs = []" by blast
    with c split 1(2) have "show_nat (n div 10) = ''0''" by simp
    then have "read_digits (show_nat (n div 10)) 0 = Some 0"
      by (simp add: is_digit_def byte_of_def)
    then have "n div 10 = 0" using read_show_nat [of "n div 10"] by simp
    with False show ?thesis by simp
  qed (use 1(2) in \<open>simp add: show_nat.simps\<close>)
qed

lemma scan_int_show: "scan_int (show_nat n) = Some (show_nat n, [])"
proof -
  obtain c cs where c: "show_nat n = c # cs" "is_digit c" by (rule show_nat_Cons)
  have "takeWhile is_digit (show_nat n) = show_nat n" "dropWhile is_digit (show_nat n) = []"
    using show_nat_digits [of n] by (simp_all add: takeWhile_eq_all_conv dropWhile_eq_Nil_conv)
  then show ?thesis
    using c show_nat_zero [of n cs] by (auto simp: scan_int_def)
qed

lemma json_ok_int [simp]: "json_ok (json_int i)"
proof -
  obtain c cs where c: "show_nat (nat i) = c # cs" "is_digit c" by (rule show_nat_Cons)
  then have "c \<noteq> CHR ''-''" by (auto simp: is_digit_def byte_of_def)
  with c(1) show ?thesis
    using scan_int_show [of "nat i"] scan_int_show [of "nat (- i)"]
    by (simp add: json_int_def show_int_def scan_number_def scan_frac_def scan_exp_def)
qed

lemma dec_int_json_int: "- (2 ^ 63) \<le> i \<Longrightarrow> i < 2 ^ 63 \<Longrightarrow> dec_int (json_int i) old = (word_of_int i, False)"
  by (simp add: json_int_def parse_show_int)


section \<open>Compaction\<close>

text \<open>
  \<^verbatim>\<open>compact\<close> of \<^verbatim>\<open>encoding/json\<close>, which writes a \<^verbatim>\<open>RawMessage\<close>: white space outside of strings is dropped, the
  characters special in HTML and the line separators of JavaScript are escaped. The first argument
  tells whether the text is inside a string. It is run on valid JSON only.
\<close>

fun compact :: "bool \<Rightarrow> string \<Rightarrow> string" where
  "compact q [] = []"
| "compact q (c # cs) =
     (if c \<in> {CHR 0x3C, CHR 0x3E, CHR 0x26} then
        [CHR 0x5C, CHR ''u'', CHR ''0'', CHR ''0'', hex_digit (byte_of c div 16), hex_digit (byte_of c mod 16)] @ compact q cs
      else if c = CHR 0xE2 \<and> take 2 cs = [CHR 0x80, CHR 0xA8] then CHR 0x5C # ''u2028'' @ compact q (drop 2 cs)
      else if c = CHR 0xE2 \<and> take 2 cs = [CHR 0x80, CHR 0xA9] then CHR 0x5C # ''u2029'' @ compact q (drop 2 cs)
      else if q then
        (if c = CHR 0x5C then c # take 1 cs @ compact True (drop 1 cs)
         else c # compact (c \<noteq> CHR 0x22) cs)
      else if is_ws c then compact False cs
      else c # compact (c = CHR 0x22) cs)"

definition marshal_raw :: "string \<Rightarrow> go_error + string" where
  "marshal_raw s = (case json_text s of Inl e \<Rightarrow> Inl e | Inr _ \<Rightarrow> Inr (compact False s))"

declare compact.simps [simp del]

lemma compact_Nil [simp]: "compact q [] = []"
  by (simp add: compact.simps)

text \<open>Bytes that are copied inside and outside of a string.\<close>

lemma compact_in_string:
  "c \<notin> {CHR 0x22, CHR 0x26, CHR 0x3C, CHR 0x3E, CHR 0x5C, CHR 0xE2} \<Longrightarrow> compact True (c # s) = c # compact True s"
  by (simp add: compact.simps)

lemma compact_escaped:
  "compact True (CHR 0x5C # c # s) = CHR 0x5C # c # compact True s"
  by (simp add: compact.simps)

lemma compact_outside:
  "\<not> is_ws c \<Longrightarrow> c \<notin> {CHR 0x22, CHR 0x26, CHR 0x3C, CHR 0x3E, CHR 0xE2} \<Longrightarrow> compact False (c # s) = c # compact False s"
  "compact False (CHR 0x22 # s) = CHR 0x22 # compact True s"
  "compact True (CHR 0x22 # s) = CHR 0x22 # compact False s"
  by (simp_all add: compact.simps is_ws_def)

lemma compact_safe:
  "list_all (\<lambda>c. c \<notin> {CHR 0x22, CHR 0x26, CHR 0x3C, CHR 0x3E, CHR 0x5C, CHR 0xE2}) t \<Longrightarrow>
     compact True (t @ s) = t @ compact True s"
  by (induction t) (simp_all add: compact_in_string)


lemma hex_digit_safe:
  assumes "n < 16"
  shows "hex_digit n \<notin> {CHR 0x22, CHR 0x26, CHR 0x3C, CHR 0x3E, CHR 0x5C, CHR 0xE2}"
proof -
  have "hex_digit n \<noteq> c" if "hex_value c = None" for c
    using hex_value_digit [OF assms] that by auto
  then show ?thesis by (simp add: hex_value.simps byte_of_def)
qed

lemma compact_quote_ascii:
  assumes "byte_of c < 128"
  shows "compact True (quote_ascii c @ s) = quote_ascii c @ compact True s"
proof (cases "html_safe c")
  case True
  with assms have "c \<noteq> CHR 0xE2" by (auto simp: byte_of_def)
  with True show ?thesis by (simp add: quote_ascii_def html_safe_def compact_in_string)
next
  case False
  have "byte_of c div 16 < 16" "byte_of c mod 16 < 16" using assms by auto
  from this [THEN hex_digit_safe] False show ?thesis
    by (simp add: quote_ascii_def compact_escaped compact_in_string)
qed

lemma in_ranges_high:
  "in_ranges rs s \<Longrightarrow> \<forall>(lo, hi) \<in> set rs. 128 \<le> lo \<and> hi \<le> 191 \<Longrightarrow>
     list_all (\<lambda>c. 128 \<le> byte_of c \<and> byte_of c \<le> 191) (take (length rs) s)"
  by (induction rs s rule: in_ranges.induct) auto

lemma rune_tail:
  assumes "128 \<le> byte_of c" and "utf8_len (c # cs) = Suc k"
  shows "list_all (\<lambda>c. 128 \<le> byte_of c \<and> byte_of c \<le> 191) (take k cs)" and "c = CHR 0xE2 \<Longrightarrow> k = 2"
proof -
  obtain rs where rs: "rune_ranges (byte_of c) = Some rs" "in_ranges rs cs" "k = length rs"
    using assms(2) by (auto simp: utf8_len.simps split: option.splits if_splits)
  from rs(1) have "\<forall>(lo, hi) \<in> set rs. 128 \<le> lo \<and> hi \<le> 191"
    by (auto simp: rune_ranges_def split: if_splits)
  with rs(2,3) show "list_all (\<lambda>c. 128 \<le> byte_of c \<and> byte_of c \<le> 191) (take k cs)"
    by (simp add: in_ranges_high)
  show "c = CHR 0xE2 \<Longrightarrow> k = 2"
    using rs(1,3) by (auto simp: rune_ranges_def byte_of_def)
qed

lemma high_safe:
  "128 \<le> byte_of c \<Longrightarrow> c \<noteq> CHR 0xE2 \<Longrightarrow> c \<notin> {CHR 0x22, CHR 0x26, CHR 0x3C, CHR 0x3E, CHR 0x5C, CHR 0xE2}"
  by (auto simp: byte_of_def)

lemma tail_safe:
  "list_all (\<lambda>c. 128 \<le> byte_of c \<and> byte_of c \<le> 191) t \<Longrightarrow>
     list_all (\<lambda>c. c \<notin> {CHR 0x22, CHR 0x26, CHR 0x3C, CHR 0x3E, CHR 0x5C, CHR 0xE2}) t"
  by (erule list.pred_mono_strong) (auto simp: byte_of_def)

lemma compact_quote_rune:
  assumes c: "128 \<le> byte_of c" and k: "utf8_len (c # cs) = Suc k"
  shows "compact True (quote_rune (c # take k cs) @ s) = quote_rune (c # take k cs) @ compact True s"
proof -
  have len: "length (take k cs) = k"
    using utf8_len_le [of "c # cs"] k by simp
  have tail: "compact True (take k cs @ s) = take k cs @ compact True s"
    by (rule compact_safe [OF tail_safe [OF rune_tail(1) [OF c k]]])
  show ?thesis
  proof (cases "c = CHR 0xE2")
    case True
    then have two: "take 2 (take k cs @ s) = take k cs"
      using rune_tail(2) [OF c k] len by simp
    have "compact True (CHR 0xE2 # take k cs @ s) = CHR 0xE2 # take k cs @ compact True s"
      if "take k cs \<noteq> [CHR 0x80, CHR 0xA8]" "take k cs \<noteq> [CHR 0x80, CHR 0xA9]"
      using that tail by (subst compact.simps(2)) (simp only: two if_False, simp)
    with True show ?thesis
      by (auto simp: quote_rune_def compact_escaped compact_in_string)
  next
    case False
    then show ?thesis
      using tail high_safe [OF c False] by (simp add: quote_rune_def compact_in_string)
  qed
qed

lemma compact_quote_body: "compact True (quote_body s @ r) = quote_body s @ compact True r"
proof (induction s rule: quote_body.induct)
  case (2 c cs)
  then show ?case
    by (cases "byte_of c < 128")
      (auto simp: compact_quote_ascii compact_quote_rune compact_escaped compact_in_string split: nat.split)
qed simp

lemma compact_quote: "compact False (quote s @ r) = quote s @ compact False r"
  by (simp add: quote_def compact_outside compact_quote_body)


text \<open>Numbers are written in bytes that are copied.\<close>

definition number_char :: "char \<Rightarrow> bool" where
  "number_char c \<longleftrightarrow> is_digit c \<or> c \<in> {CHR ''-'', CHR ''+'', CHR ''.'', CHR ''e'', CHR ''E''}"

lemma number_char_copied: "number_char c \<Longrightarrow> compact False (c # s) = c # compact False s"
  by (rule compact_outside(1)) (auto simp: number_char_def is_digit_def is_ws_def byte_of_def)

lemma numbers_copied: "list_all number_char t \<Longrightarrow> compact False (t @ s) = t @ compact False s"
  by (induction t) (simp_all add: number_char_copied)

lemma digits_number: "list_all number_char (takeWhile is_digit s)"
  by (induction s) (simp_all add: number_char_def)

lemma scan_int_chars: "scan_int s = Some (t, r) \<Longrightarrow> list_all number_char t"
  using digits_number [of s]
  by (auto simp: scan_int_def number_char_def is_digit_def byte_of_def split: list.splits if_splits)

lemma scan_frac_chars: "scan_frac s = Some (t, r) \<Longrightarrow> list_all number_char t"
  using digits_number by (auto simp: scan_frac_def number_char_def split: list.splits if_splits)

lemma scan_exp_chars: "scan_exp s = Some (t, r) \<Longrightarrow> list_all number_char t"
  using digits_number by (auto simp: scan_exp_def number_char_def Let_def split: list.splits if_splits)


lemma scan_number_chars:
  assumes "scan_number s = Some (t, r)"
  shows "list_all number_char t"
proof -
  let ?sg = "case s of d # _ \<Rightarrow> if d = CHR ''-'' then [d] else [] | [] \<Rightarrow> []"
  obtain ip s1 fp s2 ep where "scan_int (drop (length ?sg) s) = Some (ip, s1)" "scan_frac s1 = Some (fp, s2)"
    "scan_exp s2 = Some (ep, r)" and t: "t = ?sg @ ip @ fp @ ep"
    using assms unfolding scan_number_def Let_def by (auto split: option.splits prod.splits)
  then have "list_all number_char ip" "list_all number_char fp" "list_all number_char ep"
    by (blast dest: scan_int_chars scan_frac_chars scan_exp_chars)+
  then show ?thesis
    unfolding t by (auto simp: number_char_def split: list.split)
qed

lemma compact_join:
  "\<forall>x \<in> set xs. \<forall>r. compact False (x @ r) = x @ compact False r \<Longrightarrow>
     compact False (join_commas xs @ r) = join_commas xs @ compact False r"
  by (induction xs rule: join_commas.induct) (simp_all add: compact_outside is_ws_def)

text \<open>What \<^verbatim>\<open>Marshal\<close> writes is compact already.\<close>

lemma compact_print: "json_ok j \<Longrightarrow> compact False (print_json j @ r) = print_json j @ compact False r"
proof (induction j arbitrary: r)
  case (JNumber t)
  then show ?case using scan_number_chars [of t t "[]"] by (simp add: numbers_copied)
next
  case (JArray js)
  then have "\<forall>x \<in> set (map print_json js). \<forall>r. compact False (x @ r) = x @ compact False r" by auto
  then show ?case by (simp add: compact_outside is_ws_def compact_join)
next
  case (JObject kvs)
  have "compact False (print_member (k, print_json v) @ r) = print_member (k, print_json v) @ compact False r"
    if "(k, v) \<in> set kvs" for k v r
    using that JObject by (fastforce simp: print_member_def compact_quote compact_outside is_ws_def)
  then have "\<forall>x \<in> set (map print_member (map (map_prod id print_json) kvs)). \<forall>r. compact False (x @ r) = x @ compact False r"
    by auto
  then show ?case by (simp add: compact_outside is_ws_def compact_join del: map_map)
qed (simp_all add: compact_outside is_ws_def compact_quote)

lemma marshal_raw_print: "json_ok j \<Longrightarrow> marshal_raw (print_json j) = Inr (print_json j)"
  using compact_print [of j "[]"] by (simp add: marshal_raw_def json_text_print)

section \<open>Printed text is UTF-8\<close>

definition ascii :: "string \<Rightarrow> bool" where
  "ascii s \<longleftrightarrow> (\<forall>c \<in> set s. byte_of c < 128)"

lemma utf8_valid_ascii: "ascii s \<Longrightarrow> utf8_valid (s @ t) = utf8_valid t"
  by (induction s) (simp_all add: ascii_def utf8_len.simps rune_ranges_def utf8_valid.simps)

lemma ascii_simps [simp]: "ascii []" "ascii (c # s) \<longleftrightarrow> byte_of c < 128 \<and> ascii s" "ascii (s @ t) \<longleftrightarrow> ascii s \<and> ascii t"
  by (auto simp: ascii_def)

lemma ascii_quote_ascii: "byte_of c < 128 \<Longrightarrow> ascii (quote_ascii c)"
proof -
  have "byte_of (hex_digit n) < 128" if "n < 16" for n
    using that by (auto simp: hex_digit_def byte_of_char_of)
  then show "byte_of c < 128 \<Longrightarrow> ascii (quote_ascii c)"
    by (simp add: quote_ascii_def byte_of_def)
qed

lemma utf8_valid_quote_rune:
  assumes "utf8_len (c # cs) = Suc k"
  shows "utf8_valid (quote_rune (c # take k cs) @ t) = utf8_valid t"
proof -
  have "utf8_len (c # take k cs @ t) = Suc k" "length (take k cs) = k"
    using utf8_len_take [OF assms, of t] utf8_len_le [of "c # cs"] assms by simp_all
  then have "utf8_valid ((c # take k cs) @ t) = utf8_valid t" by (simp add: utf8_valid.simps)
  moreover have "ascii ([CHR 0x5C] @ ''u2028'')" "ascii ([CHR 0x5C] @ ''u2029'')" by (simp_all add: byte_of_def)
  ultimately show ?thesis
    unfolding quote_rune_def by (simp only: utf8_valid_ascii split: if_splits) simp
qed

lemma utf8_valid_quote_body: "utf8_valid (quote_body s @ t) = utf8_valid t"
proof (induction s rule: quote_body.induct)
  case (2 c cs)
  have "ascii ([CHR 0x5C] @ ''ufffd'')" by (simp add: byte_of_def)
  with 2 show ?case
    using utf8_valid_ascii [OF ascii_quote_ascii, of c "quote_body cs @ t"] utf8_valid_ascii [of "[CHR 0x5C] @ ''ufffd''" "quote_body cs @ t"]
      utf8_valid_quote_rune [of c cs]
    by (auto split: nat.split)
qed simp

lemma utf8_valid_quote: "utf8_valid (quote s @ t) = utf8_valid t"
  using utf8_valid_ascii [of "[CHR 0x22]"] utf8_valid_quote_body by (simp add: quote_def byte_of_def)

lemma utf8_valid_char: "byte_of c < 128 \<Longrightarrow> utf8_valid (c # t) = utf8_valid t"
  using utf8_valid_ascii [of "[c]" t] by simp

lemma utf8_valid_join:
  "\<forall>x \<in> set xs. \<forall>t. utf8_valid (x @ t) = utf8_valid t \<Longrightarrow> utf8_valid (join_commas xs @ t) = utf8_valid t"
  by (induction xs rule: join_commas.induct) (simp_all add: utf8_valid_char byte_of_def)

lemma utf8_valid_print_json: "json_ok j \<Longrightarrow> utf8_valid (print_json j @ t) = utf8_valid t"
proof (induction j arbitrary: t)
  case (JNumber n)
  then have "list_all number_char n" using scan_number_chars by simp
  then have "ascii n" by (auto simp: list_all_iff ascii_def number_char_def is_digit_def byte_of_def)
  then show ?case by (simp add: utf8_valid_ascii)
next
  case (JArray js)
  then have "\<forall>x \<in> set (map print_json js). \<forall>t. utf8_valid (x @ t) = utf8_valid t" by simp
  note utf8_valid_join [OF this]
  then show ?case by (simp add: utf8_valid_char byte_of_def)
next
  case (JObject kvs)
  have "\<forall>kv \<in> set kvs. \<forall>t. utf8_valid (print_member (map_prod id print_json kv) @ t) = utf8_valid t"
    using JObject by (fastforce simp: print_member_def utf8_valid_quote utf8_valid_char byte_of_def)
  then have "\<forall>x \<in> set (map print_member (map (map_prod id print_json) kvs)). \<forall>t. utf8_valid (x @ t) = utf8_valid t" by simp
  note utf8_valid_join [OF this]
  then show ?case by (simp add: utf8_valid_char byte_of_def)
qed (simp_all add: utf8_valid_quote utf8_valid_char byte_of_def)

end
