(* ===== verification/Go_Http.thy ===== *)
theory Go_Http
  imports Eirini_Models Json_Print
begin

text \<open>
  What the program uses of \<^verbatim>\<open>net/http\<close>, and the Cloud Foundry client. A request is its method, URL, headers
  and body. The HTTP client, the cloud controller client and the check of a URL by \<^verbatim>\<open>http.NewRequest\<close> are
  arguments of the operations that use them.
\<close>

record HTTPRequest =
  rq_Method :: string
  rq_URL :: string
  rq_Header :: gomap
  rq_ContentLength :: int64
  rq_Body :: string

text \<open>The body of a response is what can be read of it, and the error that ends the reading, if it is not the end.\<close>

record HTTPResponse =
  rsp_StatusCode :: int
  rsp_Body :: string
  rsp_ReadError :: "go_error option"

abbreviation StatusOK :: int where "StatusOK \<equiv> 200"
abbreviation StatusCreated :: int where "StatusCreated \<equiv> 201"
abbreviation StatusAccepted :: int where "StatusAccepted \<equiv> 202"
abbreviation StatusBadRequest :: int where "StatusBadRequest \<equiv> 400"
abbreviation StatusNotFound :: int where "StatusNotFound \<equiv> 404"
abbreviation StatusInternalServerError :: int where "StatusInternalServerError \<equiv> 500"

text \<open>\<open>hc_CheckURL\<close>: the error of \<^verbatim>\<open>url.Parse\<close>, if any; \<open>hc_Format\<close>: a response formatted with \<^verbatim>\<open>%v\<close>.\<close>

record 'w http_client =
  hc_CheckURL :: "string \<Rightarrow> go_error option"
  hc_Do :: "HTTPRequest \<Rightarrow> ('w, HTTPResponse) go"
  hc_Format :: "HTTPResponse \<Rightarrow> string"

definition NewRequest :: "'w http_client \<Rightarrow> string \<Rightarrow> string \<Rightarrow> string \<Rightarrow> go_error + HTTPRequest" where
  "NewRequest c method url body = (case hc_CheckURL c url of
      Some e \<Rightarrow> Inl e
    | None \<Rightarrow> Inr \<lparr>rq_Method = method, rq_URL = url, rq_Header = [],
        rq_ContentLength = of_nat (length body), rq_Body = body\<rparr>)"

definition set_header :: "string \<Rightarrow> string \<Rightarrow> HTTPRequest \<Rightarrow> HTTPRequest" where
  "set_header k v r = r\<lparr>rq_Header := map_assign k v (rq_Header r)\<rparr>"

text \<open>\<^verbatim>\<open>err.Error()\<close>; \<open>texts\<close> are the texts of the errors of the libraries.\<close>

fun Error_text :: "(go_error \<Rightarrow> string) \<Rightarrow> go_error \<Rightarrow> string" where
  "Error_text texts (ErrorString s) = s"
| "Error_text texts (Wrapped m e) = m @ '': '' @ Error_text texts e"
| "Error_text texts e = texts e"

section \<open>Serving\<close>

text \<open>
  The response a handler writes: the status is set once, by \<^verbatim>\<open>WriteHeader\<close> or by the first write; headers
  set after that are lost. Writing to the connection does not fail here.
\<close>

record ResponseWriter =
  rw_Status :: "int option"
  rw_Header :: gomap
  rw_Body :: string

definition new_writer :: ResponseWriter where
  "new_writer = \<lparr>rw_Status = None, rw_Header = [], rw_Body = ''''\<rparr>"

definition WriteHeader :: "int \<Rightarrow> ResponseWriter \<Rightarrow> ResponseWriter" where
  "WriteHeader code w = (if rw_Status w = None then w\<lparr>rw_Status := Some code\<rparr> else w)"

definition Header_Set :: "string \<Rightarrow> string \<Rightarrow> ResponseWriter \<Rightarrow> ResponseWriter" where
  "Header_Set k v w = (if rw_Status w = None then w\<lparr>rw_Header := map_assign k v (rw_Header w)\<rparr> else w)"

definition Write :: "string \<Rightarrow> ResponseWriter \<Rightarrow> ResponseWriter" where
  "Write data w = (let w = WriteHeader StatusOK w in w\<lparr>rw_Body := rw_Body w @ data\<rparr>)"

text \<open>The status the client sees.\<close>

definition status_of :: "ResponseWriter \<Rightarrow> int" where
  "status_of w = (case rw_Status w of None \<Rightarrow> StatusOK | Some code \<Rightarrow> code)"

definition http_Error :: "string \<Rightarrow> int \<Rightarrow> ResponseWriter \<Rightarrow> ResponseWriter" where
  "http_Error msg code w = Write (msg @ [CHR 0x0A]) (WriteHeader code
     (Header_Set ''X-Content-Type-Options'' ''nosniff'' (Header_Set ''Content-Type'' ''text/plain; charset=utf-8'' w)))"

definition http_NotFound :: "ResponseWriter \<Rightarrow> ResponseWriter" where
  "http_NotFound w = http_Error ''404 page not found'' StatusNotFound w"

lemma status_new [simp]: "status_of new_writer = StatusOK" "rw_Status new_writer = None" "rw_Body new_writer = ''''"
  by (simp_all add: status_of_def new_writer_def)

lemma status_WriteHeader [simp]:
  "rw_Status w = None \<Longrightarrow> status_of (WriteHeader code w) = code"
  "rw_Body (WriteHeader code w) = rw_Body w"
  by (simp_all add: status_of_def WriteHeader_def)

lemma status_Write [simp]: "status_of (Write data w) = status_of w" "rw_Body (Write data w) = rw_Body w @ data"
  by (simp_all add: status_of_def Write_def WriteHeader_def Let_def split: option.split)

lemma Header_Set_fields [simp]: "rw_Status (Header_Set k v w) = rw_Status w" "rw_Body (Header_Set k v w) = rw_Body w"
  "status_of (Header_Set k v w) = status_of w"
  by (simp_all add: Header_Set_def status_of_def)

lemma status_http_Error [simp]: "rw_Status w = None \<Longrightarrow> status_of (http_Error msg code w) = code"
  by (simp add: http_Error_def)

section \<open>The cloud controller\<close>

record 'w CfClient =
  cf_GetDropletByAppGuid :: "string \<Rightarrow> ('w, string) go"
  cf_PushDroplet :: "string \<Rightarrow> string \<Rightarrow> ('w, unit) go"
  cf_GetAppBitsByAppGuid :: "string \<Rightarrow> ('w, HTTPResponse) go"

end
