(* ===== verification/Cc_Messages.thy ===== *)
theory Cc_Messages
  imports Go_Http "HOL-Library.List_Lexorder"
begin

text \<open>
  The messages of staging: the structs of \<^verbatim>\<open>cc_messages\<close>, of the BBS models and of the buildpack life cycle
  (vendored packages) that the stager, its HTTP handler and the staging recipe exchange, with their
  JSON forms. A Go struct is decoded field by field over its zero value and written as the object of
  its fields. The lemmas show that what one side writes the other reads.
\<close>

section \<open>Messages\<close>

record Buildpack =
  bp_Name :: string
  bp_Key :: string
  bp_Url :: string
  bp_SkipDetect :: bool

record BuildpackStagingData =
  bsd_AppBitsDownloadUri :: string
  bsd_BuildArtifactsCacheDownloadUri :: string
  bsd_BuildArtifactsCacheUploadUri :: string
  bsd_Buildpacks :: "Buildpack list option"
  bsd_DropletUploadUri :: string
  bsd_Stack :: string

record EnvironmentVariable =
  evar_Name :: string
  evar_Value :: string

record PortRange =
  pr_Start :: "32 word"
  pr_End :: "32 word"

record ICMPInfo =
  icmp_Type :: int32
  icmp_Code :: int32

record SecurityGroupRule =
  sgr_Protocol :: string
  sgr_Destinations :: "string list option"
  sgr_Ports :: "32 word list option"
  sgr_PortRange :: "PortRange option"
  sgr_IcmpInfo :: "ICMPInfo option"
  sgr_Log :: bool
  sgr_Annotations :: "string list option"

record StagingRequestFromCC =
  sr_AppId :: string
  sr_FileDescriptors :: go_int
  sr_MemoryMB :: go_int
  sr_DiskMB :: go_int
  sr_Environment :: "EnvironmentVariable option list option"
  sr_EgressRules :: "SecurityGroupRule option list option"
  sr_Timeout :: go_int
  sr_LogGuid :: string
  sr_Lifecycle :: string
  sr_LifecycleData :: "json option"
  sr_CompletionCallback :: string
  sr_IsolationSegment :: string

record StagingTaskAnnotation =
  sta_Lifecycle :: string
  sta_CompletionCallback :: string

record TaskCallbackResponse =
  tcr_TaskGuid :: string
  tcr_Failed :: bool
  tcr_FailureReason :: string
  tcr_Result :: string
  tcr_Annotation :: string
  tcr_CreatedAt :: int64

record BuildpackMetadata =
  bm_Key :: string
  bm_Name :: string
  bm_Version :: string

record LifecycleMetadata =
  lm_BuildpackKey :: string
  lm_DetectedBuildpack :: string
  lm_Buildpacks :: "BuildpackMetadata list option"

record StagingResult =
  res_LifecycleMetadata :: LifecycleMetadata
  res_ProcessTypes :: nilmap
  res_ExecutionMetadata :: string
  res_LifecycleType :: string

abbreviation STAGING_ERROR :: string where "STAGING_ERROR \<equiv> ''StagingError''"

section \<open>Zero values and decoders\<close>

definition zero_Buildpack :: Buildpack where
  "zero_Buildpack = \<lparr>bp_Name = '''', bp_Key = '''', bp_Url = '''', bp_SkipDetect = False\<rparr>"

definition dec_Buildpack :: "Buildpack decoder" where
  "dec_Buildpack = dec_struct
     [(''name'', dec_field bp_Name bp_Name_update dec_string),
      (''key'', dec_field bp_Key bp_Key_update dec_string),
      (''url'', dec_field bp_Url bp_Url_update dec_string),
      (''skip_detect'', dec_field bp_SkipDetect bp_SkipDetect_update dec_bool)]"

definition zero_BuildpackStagingData :: BuildpackStagingData where
  "zero_BuildpackStagingData = \<lparr>bsd_AppBitsDownloadUri = '''', bsd_BuildArtifactsCacheDownloadUri = '''',
     bsd_BuildArtifactsCacheUploadUri = '''', bsd_Buildpacks = None, bsd_DropletUploadUri = '''', bsd_Stack = ''''\<rparr>"

definition dec_BuildpackStagingData :: "BuildpackStagingData decoder" where
  "dec_BuildpackStagingData = dec_struct
     [(''app_bits_download_uri'', dec_field bsd_AppBitsDownloadUri bsd_AppBitsDownloadUri_update dec_string),
      (''build_artifacts_cache_download_uri'',
         dec_field bsd_BuildArtifactsCacheDownloadUri bsd_BuildArtifactsCacheDownloadUri_update dec_string),
      (''build_artifacts_cache_upload_uri'',
         dec_field bsd_BuildArtifactsCacheUploadUri bsd_BuildArtifactsCacheUploadUri_update dec_string),
      (''buildpacks'', dec_field bsd_Buildpacks bsd_Buildpacks_update (dec_list dec_Buildpack zero_Buildpack)),
      (''droplet_upload_uri'', dec_field bsd_DropletUploadUri bsd_DropletUploadUri_update dec_string),
      (''stack'', dec_field bsd_Stack bsd_Stack_update dec_string)]"

definition dec_EnvironmentVariable :: "EnvironmentVariable decoder" where
  "dec_EnvironmentVariable = dec_struct
     [(''name'', dec_field evar_Name evar_Name_update dec_string),
      (''value'', dec_field evar_Value evar_Value_update dec_string)]"

definition dec_SecurityGroupRule :: "SecurityGroupRule decoder" where
  "dec_SecurityGroupRule = dec_struct
     [(''protocol'', dec_field sgr_Protocol sgr_Protocol_update dec_string),
      (''destinations'', dec_field sgr_Destinations sgr_Destinations_update (dec_list dec_string '''')),
      (''ports'', dec_field sgr_Ports sgr_Ports_update (dec_list dec_uint32 0)),
      (''port_range'', dec_field sgr_PortRange sgr_PortRange_update (dec_ptr (dec_struct
         [(''start'', dec_field pr_Start pr_Start_update dec_uint32),
          (''end'', dec_field pr_End pr_End_update dec_uint32)]) \<lparr>pr_Start = 0, pr_End = 0\<rparr>)),
      (''icmp_info'', dec_field sgr_IcmpInfo sgr_IcmpInfo_update (dec_ptr (dec_struct
         [(''type'', dec_field icmp_Type icmp_Type_update dec_int32),
          (''code'', dec_field icmp_Code icmp_Code_update dec_int32)]) \<lparr>icmp_Type = 0, icmp_Code = 0\<rparr>)),
      (''log'', dec_field sgr_Log sgr_Log_update dec_bool),
      (''annotations'', dec_field sgr_Annotations sgr_Annotations_update (dec_list dec_string ''''))]"

definition zero_StagingRequestFromCC :: StagingRequestFromCC where
  "zero_StagingRequestFromCC = \<lparr>sr_AppId = '''', sr_FileDescriptors = 0, sr_MemoryMB = 0, sr_DiskMB = 0,
     sr_Environment = None, sr_EgressRules = None, sr_Timeout = 0, sr_LogGuid = '''', sr_Lifecycle = '''',
     sr_LifecycleData = None, sr_CompletionCallback = '''', sr_IsolationSegment = ''''\<rparr>"

definition dec_StagingRequestFromCC :: "StagingRequestFromCC decoder" where
  "dec_StagingRequestFromCC = dec_struct
     [(''app_id'', dec_field sr_AppId sr_AppId_update dec_string),
      (''file_descriptors'', dec_field sr_FileDescriptors sr_FileDescriptors_update dec_int),
      (''memory_mb'', dec_field sr_MemoryMB sr_MemoryMB_update dec_int),
      (''disk_mb'', dec_field sr_DiskMB sr_DiskMB_update dec_int),
      (''environment'', dec_field sr_Environment sr_Environment_update
         (dec_list (dec_ptr dec_EnvironmentVariable \<lparr>evar_Name = '''', evar_Value = ''''\<rparr>) None)),
      (''egress_rules'', dec_field sr_EgressRules sr_EgressRules_update
         (dec_list (dec_ptr dec_SecurityGroupRule \<lparr>sgr_Protocol = '''', sgr_Destinations = None, sgr_Ports = None,
            sgr_PortRange = None, sgr_IcmpInfo = None, sgr_Log = False, sgr_Annotations = None\<rparr>) None)),
      (''timeout'', dec_field sr_Timeout sr_Timeout_update dec_int),
      (''log_guid'', dec_field sr_LogGuid sr_LogGuid_update dec_string),
      (''lifecycle'', dec_field sr_Lifecycle sr_Lifecycle_update dec_string),
      (''lifecycle_data'', dec_field sr_LifecycleData sr_LifecycleData_update dec_raw),
      (''completion_callback'', dec_field sr_CompletionCallback sr_CompletionCallback_update dec_string),
      (''isolation_segment'', dec_field sr_IsolationSegment sr_IsolationSegment_update dec_string)]"

definition dec_StagingTaskAnnotation :: "StagingTaskAnnotation decoder" where
  "dec_StagingTaskAnnotation = dec_struct
     [(''lifecycle'', dec_field sta_Lifecycle sta_Lifecycle_update dec_string),
      (''completion_callback'', dec_field sta_CompletionCallback sta_CompletionCallback_update dec_string)]"

definition zero_TaskCallbackResponse :: TaskCallbackResponse where
  "zero_TaskCallbackResponse = \<lparr>tcr_TaskGuid = '''', tcr_Failed = False, tcr_FailureReason = '''', tcr_Result = '''',
     tcr_Annotation = '''', tcr_CreatedAt = 0\<rparr>"

definition dec_TaskCallbackResponse :: "TaskCallbackResponse decoder" where
  "dec_TaskCallbackResponse = dec_struct
     [(''task_guid'', dec_field tcr_TaskGuid tcr_TaskGuid_update dec_string),
      (''failed'', dec_field tcr_Failed tcr_Failed_update dec_bool),
      (''failure_reason'', dec_field tcr_FailureReason tcr_FailureReason_update dec_string),
      (''result'', dec_field tcr_Result tcr_Result_update dec_string),
      (''annotation'', dec_field tcr_Annotation tcr_Annotation_update dec_string),
      (''created_at'', dec_field tcr_CreatedAt tcr_CreatedAt_update dec_int)]"

definition dec_BuildpackMetadata :: "BuildpackMetadata decoder" where
  "dec_BuildpackMetadata = dec_struct
     [(''key'', dec_field bm_Key bm_Key_update dec_string),
      (''name'', dec_field bm_Name bm_Name_update dec_string),
      (''version'', dec_field bm_Version bm_Version_update dec_string)]"

definition dec_LifecycleMetadata :: "LifecycleMetadata decoder" where
  "dec_LifecycleMetadata = dec_struct
     [(''buildpack_key'', dec_field lm_BuildpackKey lm_BuildpackKey_update dec_string),
      (''detected_buildpack'', dec_field lm_DetectedBuildpack lm_DetectedBuildpack_update dec_string),
      (''buildpacks'', dec_field lm_Buildpacks lm_Buildpacks_update
         (dec_list dec_BuildpackMetadata \<lparr>bm_Key = '''', bm_Name = '''', bm_Version = ''''\<rparr>))]"

definition zero_StagingResult :: StagingResult where
  "zero_StagingResult = \<lparr>res_LifecycleMetadata = \<lparr>lm_BuildpackKey = '''', lm_DetectedBuildpack = '''', lm_Buildpacks = None\<rparr>,
     res_ProcessTypes = None, res_ExecutionMetadata = '''', res_LifecycleType = ''''\<rparr>"

definition dec_StagingResult :: "StagingResult decoder" where
  "dec_StagingResult = dec_struct
     [(''lifecycle_metadata'', dec_field res_LifecycleMetadata res_LifecycleMetadata_update dec_LifecycleMetadata),
      (''process_types'', dec_field res_ProcessTypes res_ProcessTypes_update dec_map),
      (''execution_metadata'', dec_field res_ExecutionMetadata res_ExecutionMetadata_update dec_string),
      (''lifecycle_type'', dec_field res_LifecycleType res_LifecycleType_update dec_string)]"

section \<open>JSON forms\<close>

definition json_list :: "('a \<Rightarrow> json) \<Rightarrow> 'a list option \<Rightarrow> json" where
  "json_list f xs = (case xs of None \<Rightarrow> JNull | Some xs \<Rightarrow> JArray (map f xs))"

text \<open>A field marked \<^verbatim>\<open>omitempty\<close> that is an empty string is left out.\<close>

definition omitempty :: "string \<Rightarrow> string \<Rightarrow> (string \<times> json) list" where
  "omitempty k s = (if s = '''' then [] else [(k, JString s)])"

definition json_Buildpack :: "Buildpack \<Rightarrow> json" where
  "json_Buildpack b = JObject [(''name'', JString (bp_Name b)), (''key'', JString (bp_Key b)),
     (''url'', JString (bp_Url b)), (''skip_detect'', JBool (bp_SkipDetect b))]"

definition json_StagingTaskAnnotation :: "StagingTaskAnnotation \<Rightarrow> json" where
  "json_StagingTaskAnnotation a = JObject [(''lifecycle'', JString (sta_Lifecycle a)),
     (''completion_callback'', JString (sta_CompletionCallback a))]"

definition json_TaskCallbackResponse :: "TaskCallbackResponse \<Rightarrow> json" where
  "json_TaskCallbackResponse t = JObject
     ([(''task_guid'', JString (tcr_TaskGuid t)), (''failed'', JBool (tcr_Failed t)),
       (''failure_reason'', JString (tcr_FailureReason t)), (''result'', JString (tcr_Result t))]
      @ omitempty ''annotation'' (tcr_Annotation t)
      @ [(''created_at'', json_int (sint (tcr_CreatedAt t)))])"

definition json_BuildpackMetadata :: "BuildpackMetadata \<Rightarrow> json" where
  "json_BuildpackMetadata b = JObject ([(''key'', JString (bm_Key b)), (''name'', JString (bm_Name b))]
     @ omitempty ''version'' (bm_Version b))"

text \<open>The entries of a map are written in the order of their keys.\<close>

definition json_map :: "nilmap \<Rightarrow> json" where
  "json_map m = (case m of None \<Rightarrow> JNull
    | Some m \<Rightarrow> JObject (map (map_prod id JString) (sort_key (map byte_of \<circ> fst) m)))"

definition json_StagingResult :: "StagingResult \<Rightarrow> json" where
  "json_StagingResult r = JObject
     [(''lifecycle_metadata'', JObject (omitempty ''buildpack_key'' (lm_BuildpackKey (res_LifecycleMetadata r))
        @ [(''detected_buildpack'', JString (lm_DetectedBuildpack (res_LifecycleMetadata r))),
           (''buildpacks'', json_list json_BuildpackMetadata (lm_Buildpacks (res_LifecycleMetadata r)))])),
      (''process_types'', json_map (res_ProcessTypes r)),
      (''execution_metadata'', JString (res_ExecutionMetadata r)),
      (''lifecycle_type'', JString (res_LifecycleType r))]"

section \<open>Reading what was written\<close>

lemma staging_keys:
  "fold_key ''name'' = ''name''" "fold_key ''key'' = ''key''" "fold_key ''url'' = ''url''"
  "fold_key ''skip_detect'' = ''skip_detect''" "fold_key ''lifecycle'' = ''lifecycle''"
  "fold_key ''completion_callback'' = ''completion_callback''" "fold_key ''task_guid'' = ''task_guid''"
  "fold_key ''failed'' = ''failed''" "fold_key ''failure_reason'' = ''failure_reason''"
  "fold_key ''result'' = ''result''" "fold_key ''annotation'' = ''annotation''"
  "fold_key ''created_at'' = ''created_at''" "fold_key ''version'' = ''version''"
  by code_simp+

lemma dec_json_Buildpack: "dec_Buildpack (json_Buildpack b) old = (b, False)"
  by (cases b; cases old)
    (simp add: dec_Buildpack_def json_Buildpack_def dec_field_def staging_keys del: fold_key.simps)

lemma dec_elems_json:
  "(\<And>x old. d (f x) old = (x, False)) \<Longrightarrow> dec_elems d zero (map f xs) olds = (xs, False)"
  by (induction xs arbitrary: olds) simp_all

lemma dec_json_list:
  "(\<And>x old. d (f x) old = (x, False)) \<Longrightarrow> dec_list d zero (json_list f xs) old = (xs, False)"
  by (cases xs) (simp_all add: json_list_def dec_elems_json)

lemma dec_json_StagingTaskAnnotation:
  "dec_StagingTaskAnnotation (json_StagingTaskAnnotation a) old = (a, False)"
  by (cases a; cases old)
    (simp add: dec_StagingTaskAnnotation_def json_StagingTaskAnnotation_def dec_field_def staging_keys
      del: fold_key.simps)

lemma dec_json_TaskCallbackResponse:
  "dec_TaskCallbackResponse (json_TaskCallbackResponse t) zero_TaskCallbackResponse = (t, False)"
  using sint_ge [of "tcr_CreatedAt t"] sint_lt [of "tcr_CreatedAt t"]
  by (cases t)
    (simp add: dec_TaskCallbackResponse_def json_TaskCallbackResponse_def zero_TaskCallbackResponse_def dec_field_def
      staging_keys omitempty_def dec_int_json_int del: fold_key.simps dec_int.simps)

end
