(* ===== verification/Recipe.thy ===== *)
theory Recipe
  imports Unzipper Cc_Messages
begin

text \<open>
  The staging recipe, which runs in the job of a staging task: package \<^verbatim>\<open>recipe\<close>. It downloads and unpacks the app
  (\<^verbatim>\<open>installer.go\<close>), runs the builder, uploads the droplet (\<^verbatim>\<open>uploader.go\<close>), replaces the names of the buildpacks in the
  result by their keys (\<^verbatim>\<open>staging_result_modifier.go\<close>) and reports to Eirini (\<^verbatim>\<open>execute.go\<close>).

  The cloud controller client, the HTTP clients and the builder process are arguments. Messages on the console
  are left out. Encoding the messages as JSON cannot fail, so the branches that panic for it have no counterpart.
\<close>

section \<open>Interfaces\<close>

record 'w Installer =
  in_Install :: "string \<Rightarrow> string \<Rightarrow> ('w, unit) go"

record 'w Uploader =
  up_Upload :: "string \<Rightarrow> string \<Rightarrow> ('w, unit) go"

record 'w Commander =
  cm_Exec :: "string \<Rightarrow> string list \<Rightarrow> ('w, unit) go"

record 'w StagingResultModifier =
  sm_Modify :: "StagingResult \<Rightarrow> ('w, StagingResult) go"

record 'w Extractor =
  ex_Extract :: "string \<Rightarrow> string \<Rightarrow> ('w, unit) go"

section \<open>Installer\<close>

record 'w PackageInstaller =
  pi_Cfclient :: "'w CfClient"
  pi_Extractor :: "'w Extractor"

text \<open>The file is created before the request is made, and stays when that fails.\<close>

definition PackageInstaller_download :: "'m os_world_scheme PackageInstaller \<Rightarrow> string \<Rightarrow> string \<Rightarrow> ('m os_world_scheme, unit) go" where
  "PackageInstaller_download d appID filepath =
     go_bind (os_Create filepath) (\<lambda>h.
     go_bind (go_try (cf_GetAppBitsByAppGuid (pi_Cfclient d) appID)) (\<lambda>r. case r of
         Inl err \<Rightarrow> go_throw (Wrapped ''failed to perform request'' err)
       | Inr resp \<Rightarrow>
           if rsp_StatusCode resp \<noteq> StatusOK
           then go_throw (ErrorString (''Download failed. Status Code '' @ show_int (rsp_StatusCode resp)))
           else
             go_bind (go_try (copy_to_file h \<lparr>rd_Rest = rsp_Body resp, rd_Error = rsp_ReadError resp\<rparr>)) (\<lambda>r. case r of
                 Inl err \<Rightarrow> go_throw (Wrapped ''failed to copy content to file'' err)
               | Inr _ \<Rightarrow> go_return ())))"

definition PackageInstaller_Install :: "'m os_world_scheme PackageInstaller \<Rightarrow> string \<Rightarrow> string \<Rightarrow> ('m os_world_scheme, unit) go" where
  "PackageInstaller_Install d appID targetDir =
     (if appID = '''' then go_throw (ErrorString ''empty appID provided'')
      else if targetDir = '''' then go_throw (ErrorString ''empty targetDir provided'')
      else
        let zipPath = Join [targetDir, appID] @ ''.zip'' in
        go_bind (PackageInstaller_download d appID zipPath) (\<lambda>_.
        ex_Extract (pi_Extractor d) zipPath targetDir))"

section \<open>Uploader\<close>

record 'w DropletUploader =
  du_HTTPClient :: "'w http_client"

text \<open>The request, and the check of its answer.\<close>

definition DropletUploader_do :: "'w DropletUploader \<Rightarrow> HTTPRequest \<Rightarrow> ('w, unit) go" where
  "DropletUploader_do u req =
     go_bind (hc_Do (du_HTTPClient u) req) (\<lambda>resp.
     if rsp_StatusCode resp \<ge> 400
     then go_throw (ErrorString (''Upload failed: Status code '' @ show_int (rsp_StatusCode resp)))
     else go_return ())"

text \<open>The size of an open file. It is known for every file; for a directory it is never used.\<close>

definition fileSize :: "reader \<Rightarrow> int64" where
  "fileSize r = of_nat (length (rd_Rest r))"

text \<open>The body is the open file; a directory has none, and the client fails to read it.\<close>

definition uploadFile :: "'m os_world_scheme DropletUploader \<Rightarrow> string \<Rightarrow> string \<Rightarrow> ('m os_world_scheme, unit) go" where
  "uploadFile u fileLocation url =
     go_bind (os_Open fileLocation) (\<lambda>sourceFile.
     go_bind (go_lift (NewRequest (du_HTTPClient u) ''POST'' url (rd_Rest sourceFile))) (\<lambda>request.
     let contentLength = fileSize sourceFile;
         request = set_header ''Content-Type'' ''application/octet-stream'' (request\<lparr>rq_ContentLength := contentLength\<rparr>)
     in case rd_Error sourceFile of Some e \<Rightarrow> go_throw e | None \<Rightarrow> DropletUploader_do u request))"

definition DropletUploader_Upload :: "'m os_world_scheme DropletUploader \<Rightarrow> string \<Rightarrow> string \<Rightarrow> ('m os_world_scheme, unit) go" where
  "DropletUploader_Upload u path url =
     (if path = '''' then go_throw (ErrorString ''empty path parameter'')
      else if url = '''' then go_throw (ErrorString ''empty url parameter'')
      else uploadFile u path url)"

section \<open>Keys of the buildpacks\<close>

record BuildpacksKeyModifier =
  bkm_CCBuildpacksJSON :: string

fun getBuildpackKey :: "string \<Rightarrow> Buildpack list \<Rightarrow> go_error + string" where
  "getBuildpackKey name [] = Inl (ErrorString (''could not find buildpack with name: '' @ name))"
| "getBuildpackKey name (b # bs) = (if bp_Name b = name then Inr (bp_Key b) else getBuildpackKey name bs)"

text \<open>A nil slice has no elements.\<close>

definition getProvidedBuildpacks :: "BuildpacksKeyModifier \<Rightarrow> go_error + Buildpack list" where
  "getProvidedBuildpacks m = (case unmarshal (dec_list dec_Buildpack zero_Buildpack) None (bkm_CCBuildpacksJSON m) of
      Inl e \<Rightarrow> Inl e
    | Inr None \<Rightarrow> Inr []
    | Inr (Some bs) \<Rightarrow> Inr bs)"

definition modifyBuildpackMetadata :: "BuildpackMetadata \<Rightarrow> Buildpack list \<Rightarrow> go_error + BuildpackMetadata" where
  "modifyBuildpackMetadata b buildpacks = (case getBuildpackKey (bm_Key b) buildpacks of
      Inl e \<Rightarrow> Inl e
    | Inr key \<Rightarrow> Inr (b\<lparr>bm_Key := key\<rparr>))"

fun modifyBuildpacks :: "BuildpackMetadata list \<Rightarrow> Buildpack list \<Rightarrow> go_error + BuildpackMetadata list" where
  "modifyBuildpacks [] buildpacks = Inr []"
| "modifyBuildpacks (b # bs) buildpacks = (case modifyBuildpackMetadata b buildpacks of
      Inl e \<Rightarrow> Inl e
    | Inr modified \<Rightarrow> (case modifyBuildpacks bs buildpacks of Inl e \<Rightarrow> Inl e | Inr ms \<Rightarrow> Inr (modified # ms)))"

definition modifyBuildpackKey :: "StagingResult \<Rightarrow> Buildpack list \<Rightarrow> go_error + StagingResult" where
  "modifyBuildpackKey result buildpacks =
     (case getBuildpackKey (lm_BuildpackKey (res_LifecycleMetadata result)) buildpacks of
        Inl e \<Rightarrow> Inl e
      | Inr key \<Rightarrow> Inr (result\<lparr>res_LifecycleMetadata := (res_LifecycleMetadata result)\<lparr>lm_BuildpackKey := key\<rparr>\<rparr>))"

text \<open>The elements of the slice are replaced in place; on an error the result is not used any more.\<close>

definition BuildpacksKeyModifier_Modify :: "BuildpacksKeyModifier \<Rightarrow> StagingResult \<Rightarrow> go_error + StagingResult" where
  "BuildpacksKeyModifier_Modify m result =
     (case getProvidedBuildpacks m of
        Inl e \<Rightarrow> Inl e
      | Inr buildpacks \<Rightarrow>
          (case modifyBuildpackKey result buildpacks of
             Inl e \<Rightarrow> Inl e
           | Inr result \<Rightarrow>
               (case lm_Buildpacks (res_LifecycleMetadata result) of
                  None \<Rightarrow> Inr result
                | Some bs \<Rightarrow>
                    (case modifyBuildpacks bs buildpacks of
                       Inl e \<Rightarrow> Inl e
                     | Inr ms \<Rightarrow> Inr (result\<lparr>res_LifecycleMetadata := (res_LifecycleMetadata result)\<lparr>lm_Buildpacks := Some ms\<rparr>\<rparr>)))))"

section \<open>Executor\<close>

abbreviation workspaceDir :: string where "workspaceDir \<equiv> ''/workspace''"

text \<open>A process: what it runs and the streams it is given.\<close>

record 'f Cmd =
  cmd_Path :: string
  cmd_Args :: "string list"
  cmd_Stdout :: 'f
  cmd_Stderr :: 'f
  cmd_Stdin :: 'f

record 'f IOCommander =
  io_Stdout :: 'f
  io_Stderr :: 'f
  io_Stdin :: 'f

definition IOCommander_Exec :: "('f Cmd \<Rightarrow> ('w, unit) go) \<Rightarrow> 'f IOCommander \<Rightarrow> string \<Rightarrow> string list \<Rightarrow> ('w, unit) go" where
  "IOCommander_Exec run c cmd args =
     run \<lparr>cmd_Path = cmd, cmd_Args = args, cmd_Stdout = io_Stdout c, cmd_Stderr = io_Stderr c, cmd_Stdin = io_Stdin c\<rparr>"

record PacksBuilderConf =
  pbc_BuildpacksDir :: string
  pbc_OutputDropletLocation :: string
  pbc_OutputBuildArtifactsCache :: string
  pbc_OutputMetadataLocation :: string

record Config =
  cfg_AppID :: string
  cfg_StagingGUID :: string
  cfg_CompletionCallback :: string
  cfg_EiriniAddr :: string
  cfg_DropletUploadURL :: string

record 'w PacksExecutor =
  pe_Conf :: PacksBuilderConf
  pe_Installer :: "'w Installer"
  pe_Uploader :: "'w Uploader"
  pe_Commander :: "'w Commander"
  pe_ResultModifier :: "'w StagingResultModifier"

definition createFailureResponse :: "(go_error \<Rightarrow> string) \<Rightarrow> go_error \<Rightarrow> string \<Rightarrow> string \<Rightarrow> TaskCallbackResponse" where
  "createFailureResponse texts failure stagingGUID completionCallback =
     zero_TaskCallbackResponse\<lparr>tcr_TaskGuid := stagingGUID, tcr_Failed := True, tcr_FailureReason := Error_text texts failure,
       tcr_Annotation := print_json (json_StagingTaskAnnotation \<lparr>sta_Lifecycle = '''', sta_CompletionCallback = completionCallback\<rparr>)\<rparr>"

definition sendCompleteResponse :: "'w http_client \<Rightarrow> string \<Rightarrow> TaskCallbackResponse \<Rightarrow> ('w, unit) go" where
  "sendCompleteResponse client eiriniAddress response =
     (let responseJSON = print_json (json_TaskCallbackResponse response);
          uri = eiriniAddress @ ''/stage/'' @ tcr_TaskGuid response @ ''/completed'' in
      case NewRequest client ''PUT'' uri responseJSON of
        Inl e \<Rightarrow> go_throw (Wrapped ''failed to create request'' e)
      | Inr req \<Rightarrow>
          go_bind (go_try (hc_Do client (set_header ''Content-Type'' ''application/json'' req))) (\<lambda>r. case r of
              Inl e \<Rightarrow> go_throw (Wrapped ''request failed'' e)
            | Inr resp \<Rightarrow>
                if rsp_StatusCode resp \<ge> 400 then go_throw (ErrorString ''Request not successful'') else go_return ()))"

definition respondWithFailure :: "(go_error \<Rightarrow> string) \<Rightarrow> 'w http_client \<Rightarrow> go_error \<Rightarrow> Config \<Rightarrow> ('w, unit) go" where
  "respondWithFailure texts client failure recipeConf =
     (let cbResponse = createFailureResponse texts failure (cfg_StagingGUID recipeConf) (cfg_CompletionCallback recipeConf) in
      go_bind (go_try (sendCompleteResponse client (cfg_EiriniAddr recipeConf) cbResponse)) (\<lambda>_. go_return ()))"

definition getStagingResult :: "string \<Rightarrow> ('m os_world_scheme, StagingResult) go" where
  "getStagingResult path =
     go_bind (go_try (ioutil_ReadFile path)) (\<lambda>r. case r of
         Inl e \<Rightarrow> go_throw (Wrapped ''failed to read result.json'' e)
       | Inr contents \<Rightarrow> go_lift (unmarshal dec_StagingResult zero_StagingResult contents))"

definition createSuccessResponse :: "'m os_world_scheme PacksExecutor \<Rightarrow> Config \<Rightarrow> ('m os_world_scheme, TaskCallbackResponse) go" where
  "createSuccessResponse e recipeConf =
     go_bind (getStagingResult (pbc_OutputMetadataLocation (pe_Conf e))) (\<lambda>stagingResult.
     go_bind (sm_Modify (pe_ResultModifier e) stagingResult) (\<lambda>stagingResult.
     go_return (zero_TaskCallbackResponse\<lparr>tcr_TaskGuid := cfg_StagingGUID recipeConf,
       tcr_Result := print_json (json_StagingResult stagingResult), tcr_Failed := False,
       tcr_Annotation := print_json (json_StagingTaskAnnotation
         \<lparr>sta_Lifecycle = '''', sta_CompletionCallback = cfg_CompletionCallback recipeConf\<rparr>)\<rparr>)))"

definition builder_args :: "PacksBuilderConf \<Rightarrow> string list" where
  "builder_args c =
     [''-buildpacksDir'', pbc_BuildpacksDir c, ''-outputDroplet'', pbc_OutputDropletLocation c,
      ''-outputBuildArtifactsCache'', pbc_OutputBuildArtifactsCache c, ''-outputMetadata'', pbc_OutputMetadataLocation c]"

text \<open>A step of the recipe: its error is reported and ends the recipe.\<close>

definition or_report :: "(go_error \<Rightarrow> string) \<Rightarrow> 'w http_client \<Rightarrow> Config \<Rightarrow> ('w, unit) go \<Rightarrow> ('w, unit) go \<Rightarrow> ('w, unit) go" where
  "or_report texts client recipeConf m rest =
     go_bind (go_try m) (\<lambda>r. case r of
         Inl err \<Rightarrow> go_bind (respondWithFailure texts client err recipeConf) (\<lambda>_. go_throw err)
       | Inr _ \<Rightarrow> rest)"

definition ExecuteRecipe :: "(go_error \<Rightarrow> string) \<Rightarrow> 'm os_world_scheme http_client \<Rightarrow> 'm os_world_scheme PacksExecutor \<Rightarrow> Config
    \<Rightarrow> ('m os_world_scheme, unit) go" where
  "ExecuteRecipe texts client e recipeConf =
     or_report texts client recipeConf (in_Install (pe_Installer e) (cfg_AppID recipeConf) workspaceDir)
    (or_report texts client recipeConf (cm_Exec (pe_Commander e) ''/packs/builder'' (builder_args (pe_Conf e)))
    (or_report texts client recipeConf
       (up_Upload (pe_Uploader e) (pbc_OutputDropletLocation (pe_Conf e)) (cfg_DropletUploadURL recipeConf))
    (go_bind (createSuccessResponse e recipeConf) (\<lambda>cbResponse.
     sendCompleteResponse client (cfg_EiriniAddr recipeConf) cbResponse))))"

section \<open>Names and keys of buildpacks\<close>

text \<open>The names a result mentions, and the result with keys in their place.\<close>

definition result_names :: "StagingResult \<Rightarrow> string list" where
  "result_names r = lm_BuildpackKey (res_LifecycleMetadata r)
     # (case lm_Buildpacks (res_LifecycleMetadata r) of None \<Rightarrow> [] | Some bs \<Rightarrow> map bm_Key bs)"

definition rename_result :: "(string \<Rightarrow> string) \<Rightarrow> StagingResult \<Rightarrow> StagingResult" where
  "rename_result f r = r\<lparr>res_LifecycleMetadata := (res_LifecycleMetadata r)
     \<lparr>lm_BuildpackKey := f (lm_BuildpackKey (res_LifecycleMetadata r)),
      lm_Buildpacks := map_option (map (\<lambda>b. b\<lparr>bm_Key := f (bm_Key b)\<rparr>)) (lm_Buildpacks (res_LifecycleMetadata r))\<rparr>\<rparr>"

text \<open>The key of the first buildpack with a name.\<close>

definition buildpack_key :: "Buildpack list \<Rightarrow> string \<Rightarrow> string" where
  "buildpack_key bps n = (case find (\<lambda>b. bp_Name b = n) bps of None \<Rightarrow> '''' | Some b \<Rightarrow> bp_Key b)"

definition missing_name :: "Buildpack list \<Rightarrow> string list \<Rightarrow> string option" where
  "missing_name bps ns = find (\<lambda>n. n \<notin> bp_Name ` set bps) ns"

lemma getBuildpackKey_eq:
  "getBuildpackKey n bps = (if n \<in> bp_Name ` set bps then Inr (buildpack_key bps n)
     else Inl (ErrorString (''could not find buildpack with name: '' @ n)))"
  by (induction bps) (auto simp: buildpack_key_def)

lemma modifyBuildpacks_eq:
  "modifyBuildpacks bs bps = (case missing_name bps (map bm_Key bs) of
     Some n \<Rightarrow> Inl (ErrorString (''could not find buildpack with name: '' @ n))
   | None \<Rightarrow> Inr (map (\<lambda>b. b\<lparr>bm_Key := buildpack_key bps (bm_Key b)\<rparr>) bs))"
  by (induction bs) (auto simp: modifyBuildpackMetadata_def getBuildpackKey_eq missing_name_def split: option.splits)

lemma Modify_eq:
  "getProvidedBuildpacks m = Inr bps \<Longrightarrow> BuildpacksKeyModifier_Modify m result = (case missing_name bps (result_names result) of
     Some n \<Rightarrow> Inl (ErrorString (''could not find buildpack with name: '' @ n))
   | None \<Rightarrow> Inr (rename_result (buildpack_key bps) result))"
  by (auto simp: BuildpacksKeyModifier_Modify_def modifyBuildpackKey_def getBuildpackKey_eq modifyBuildpacks_eq result_names_def
      rename_result_def missing_name_def split: option.splits)

text \<open>The list the stager has written is read as it was.\<close>

definition buildpack_ok :: "Buildpack \<Rightarrow> bool" where
  "buildpack_ok b = (utf8_valid (bp_Name b) \<and> utf8_valid (bp_Key b) \<and> utf8_valid (bp_Url b))"

lemma buildpack_keys_utf8: "utf8_valid ''name''" "utf8_valid ''key''" "utf8_valid ''url''" "utf8_valid ''skip_detect''"
  by code_simp+

lemma provided_written:
  assumes "\<forall>b \<in> set bps. buildpack_ok b"
  shows "getProvidedBuildpacks \<lparr>bkm_CCBuildpacksJSON = print_json (json_list json_Buildpack (Some bps))\<rparr> = Inr bps"
proof -
  have "json_ok (json_list json_Buildpack (Some bps))"
    using assms buildpack_keys_utf8 by (auto simp: json_list_def json_Buildpack_def buildpack_ok_def)
  then show ?thesis
    by (simp add: getProvidedBuildpacks_def unmarshal_def json_text_print dec_json_list dec_json_Buildpack)
qed

section \<open>Properties\<close>

text \<open>
  C27. With the buildpacks as the stager puts them into the environment of the recipe, every buildpack name in the result is
  replaced by the key of the first buildpack of that name and nothing else changes; if a name is unknown the
  first such name is reported.
\<close>

theorem modify_replaces_names:
  assumes "\<forall>b \<in> set bps. buildpack_ok b"
  shows "BuildpacksKeyModifier_Modify \<lparr>bkm_CCBuildpacksJSON = print_json (json_list json_Buildpack (Some bps))\<rparr> result
    = (case missing_name bps (result_names result) of
         Some n \<Rightarrow> Inl (ErrorString (''could not find buildpack with name: '' @ n))
       | None \<Rightarrow> Inr (rename_result (buildpack_key bps) result))"
  using provided_written [OF assms] by (rule Modify_eq)

definition ruby :: Buildpack where
  "ruby = \<lparr>bp_Name = ''ruby'', bp_Key = ''k1'', bp_Url = ''http://b/ruby'', bp_SkipDetect = False\<rparr>"

definition sample_result :: StagingResult where
  "sample_result = zero_StagingResult\<lparr>res_LifecycleMetadata := \<lparr>lm_BuildpackKey = ''ruby'', lm_DetectedBuildpack = ''Ruby'',
     lm_Buildpacks = Some [\<lparr>bm_Key = ''ruby'', bm_Name = ''Ruby'', bm_Version = ''''\<rparr>]\<rparr>\<rparr>"

lemma ruby_ok: "buildpack_ok ruby"
  by code_simp

theorem modify_replaces_names_witness:
  "BuildpacksKeyModifier_Modify \<lparr>bkm_CCBuildpacksJSON = print_json (json_list json_Buildpack (Some [ruby]))\<rparr> sample_result
    = Inr (rename_result (\<lambda>_. ''k1'') sample_result)"
  using modify_replaces_names [of "[ruby]" sample_result] ruby_ok
  by (simp add: missing_name_def result_names_def sample_result_def zero_StagingResult_def ruby_def buildpack_key_def rename_result_def)

text \<open>The request that reports a response to Eirini.\<close>

definition completion_request :: "string \<Rightarrow> TaskCallbackResponse \<Rightarrow> HTTPRequest" where
  "completion_request addr response =
     (let body = print_json (json_TaskCallbackResponse response) in
      \<lparr>rq_Method = ''PUT'', rq_URL = addr @ ''/stage/'' @ tcr_TaskGuid response @ ''/completed'',
       rq_Header = [(''Content-Type'', ''application/json'')], rq_ContentLength = of_nat (length body), rq_Body = body\<rparr>)"

definition success_response :: "Config \<Rightarrow> StagingResult \<Rightarrow> TaskCallbackResponse" where
  "success_response conf result = \<lparr>tcr_TaskGuid = cfg_StagingGUID conf, tcr_Failed = False, tcr_FailureReason = '''',
     tcr_Result = print_json (json_StagingResult result),
     tcr_Annotation = print_json (json_StagingTaskAnnotation \<lparr>sta_Lifecycle = '''', sta_CompletionCallback = cfg_CompletionCallback conf\<rparr>),
     tcr_CreatedAt = 0\<rparr>"

definition failure_request :: "(go_error \<Rightarrow> string) \<Rightarrow> Config \<Rightarrow> go_error \<Rightarrow> HTTPRequest" where
  "failure_request texts conf err = completion_request (cfg_EiriniAddr conf)
     (createFailureResponse texts err (cfg_StagingGUID conf) (cfg_CompletionCallback conf))"

lemma sendCompleteResponse_run:
  assumes "hc_CheckURL client (addr @ ''/stage/'' @ tcr_TaskGuid response @ ''/completed'') = None"
  shows "sendCompleteResponse client addr response w = (case hc_Do client (completion_request addr response) w of
      (Return resp, w') \<Rightarrow> if rsp_StatusCode resp \<ge> 400 then (Error (ErrorString ''Request not successful''), w') else (Return (), w')
    | (Error e, w') \<Rightarrow> (Error (Wrapped ''request failed'' e), w')
    | (Panic p, w') \<Rightarrow> (Panic p, w')
    | (Blocked, w') \<Rightarrow> (Blocked, w'))"
  using assms by (auto simp: sendCompleteResponse_def NewRequest_def set_header_def map_assign_def completion_request_def Let_def go_bind_def go_try_def
      split: prod.split outcome.split)

lemma respondWithFailure_run:
  assumes "hc_CheckURL client (cfg_EiriniAddr conf @ ''/stage/'' @ cfg_StagingGUID conf @ ''/completed'') = None"
    and "settled (fst (hc_Do client (failure_request texts conf err) w))"
  shows "respondWithFailure texts client err conf w = (Return (), snd (hc_Do client (failure_request texts conf err) w))"
proof -
  let ?r = "createFailureResponse texts err (cfg_StagingGUID conf) (cfg_CompletionCallback conf)"
  have "tcr_TaskGuid ?r = cfg_StagingGUID conf" by (simp add: createFailureResponse_def)
  with assms(1) have "sendCompleteResponse client (cfg_EiriniAddr conf) ?r w
      = (case hc_Do client (failure_request texts conf err) w of
      (Return resp, w') \<Rightarrow> if rsp_StatusCode resp \<ge> 400 then (Error (ErrorString ''Request not successful''), w') else (Return (), w')
    | (Error e, w') \<Rightarrow> (Error (Wrapped ''request failed'' e), w')
    | (Panic p, w') \<Rightarrow> (Panic p, w')
    | (Blocked, w') \<Rightarrow> (Blocked, w'))"
    by (simp add: sendCompleteResponse_run failure_request_def)
  then show ?thesis
    using assms(2)
    by (cases "hc_Do client (failure_request texts conf err) w"; cases "fst (hc_Do client (failure_request texts conf err) w)")
      (auto simp: respondWithFailure_def go_bind_def go_try_def)
qed

lemma or_report_run:
  "m w = (Return (), w') \<Longrightarrow> or_report texts client conf m rest w = rest w'"
  by (simp add: or_report_def go_simps)

lemma or_report_failed:
  assumes "m w = (Error err, w')"
    and "hc_CheckURL client (cfg_EiriniAddr conf @ ''/stage/'' @ cfg_StagingGUID conf @ ''/completed'') = None"
    and "settled (fst (hc_Do client (failure_request texts conf err) w'))"
  shows "or_report texts client conf m rest w = (Error err, snd (hc_Do client (failure_request texts conf err) w'))"
  using assms(1) respondWithFailure_run [OF assms(2,3)] by (simp add: or_report_def go_simps)

lemma ExecuteRecipe_fails:
  fixes e conf
  defines "install \<equiv> in_Install (pe_Installer e) (cfg_AppID conf) workspaceDir"
  defines "build \<equiv> cm_Exec (pe_Commander e) ''/packs/builder'' (builder_args (pe_Conf e))"
  defines "upload \<equiv> up_Upload (pe_Uploader e) (pbc_OutputDropletLocation (pe_Conf e)) (cfg_DropletUploadURL conf)"
  assumes "hc_CheckURL client (cfg_EiriniAddr conf @ ''/stage/'' @ cfg_StagingGUID conf @ ''/completed'') = None"
    and "settled (fst (hc_Do client (failure_request texts conf err) w'))"
    and "install w = (Error err, w') \<or> (\<exists>w1. install w = (Return (), w1) \<and> (build w1 = (Error err, w')
      \<or> (\<exists>w2. build w1 = (Return (), w2) \<and> upload w2 = (Error err, w'))))"
  shows "ExecuteRecipe texts client e conf w = (Error err, snd (hc_Do client (failure_request texts conf err) w'))"
  using assms(6) or_report_failed [OF _ assms(4,5)]
  unfolding ExecuteRecipe_def install_def [symmetric] build_def [symmetric] upload_def [symmetric]
  by (elim disjE exE conjE) (simp_all add: or_report_run)

text \<open>
  A step of the recipe that fails, be it the installation, the build or the upload, is reported to Eirini by one request
  with its error as the reason; no later step runs, and the recipe fails with that error even when the report does.
\<close>

theorem failed_steps_are_reported:
  fixes e conf
  defines "install \<equiv> in_Install (pe_Installer e) (cfg_AppID conf) workspaceDir"
  defines "build \<equiv> cm_Exec (pe_Commander e) ''/packs/builder'' (builder_args (pe_Conf e))"
  defines "upload \<equiv> up_Upload (pe_Uploader e) (pbc_OutputDropletLocation (pe_Conf e)) (cfg_DropletUploadURL conf)"
  assumes "hc_CheckURL client (cfg_EiriniAddr conf @ ''/stage/'' @ cfg_StagingGUID conf @ ''/completed'') = None"
    and "\<And>r w. settled (fst (hc_Do client r w))"
    and "install w = (Error err, w') \<or> (\<exists>w1. install w = (Return (), w1) \<and> (build w1 = (Error err, w')
      \<or> (\<exists>w2. build w1 = (Return (), w2) \<and> upload w2 = (Error err, w'))))"
  shows "ExecuteRecipe texts client e conf w = (Error err, snd (hc_Do client (failure_request texts conf err) w'))"
  using assms(4-6) unfolding install_def build_def upload_def by (intro ExecuteRecipe_fails) simp_all

text \<open>A world that records requests, for the witnesses.\<close>

record logged_world = os_world +
  lw_requests :: "HTTPRequest list"

definition logging :: "int \<Rightarrow> logged_world http_client" where
  "logging code = \<lparr>hc_CheckURL = (\<lambda>_. None),
     hc_Do = (\<lambda>r w. (Return \<lparr>rsp_StatusCode = code, rsp_Body = '''', rsp_ReadError = None\<rparr>, w\<lparr>lw_requests := lw_requests w @ [r]\<rparr>)),
     hc_Format = (\<lambda>_. '''')\<rparr>"

definition sample_conf :: Config where
  "sample_conf = \<lparr>cfg_AppID = ''app'', cfg_StagingGUID = ''g'', cfg_CompletionCallback = ''http://cc'', cfg_EiriniAddr = ''http://eirini'',
     cfg_DropletUploadURL = ''http://up''\<rparr>"

definition sample_packs :: PacksBuilderConf where
  "sample_packs = \<lparr>pbc_BuildpacksDir = ''/var/lib/buildpacks'', pbc_OutputDropletLocation = ''/out/droplet.tgz'',
     pbc_OutputBuildArtifactsCache = ''/cache/cache.tgz'', pbc_OutputMetadataLocation = ''/out/result.json''\<rparr>"

definition executor_with :: "('w, unit) go \<Rightarrow> ('w, unit) go \<Rightarrow> (StagingResult \<Rightarrow> go_error + StagingResult) \<Rightarrow> 'w PacksExecutor" where
  "executor_with install build modify = \<lparr>pe_Conf = sample_packs, pe_Installer = \<lparr>in_Install = (\<lambda>_ _. install)\<rparr>,
     pe_Uploader = \<lparr>up_Upload = (\<lambda>_ _. go_return ())\<rparr>, pe_Commander = \<lparr>cm_Exec = (\<lambda>_ _. build)\<rparr>,
     pe_ResultModifier = \<lparr>sm_Modify = (\<lambda>r. go_lift (modify r))\<rparr>\<rparr>"

definition empty_logged :: logged_world where
  "empty_logged = \<lparr>os_env = [], os_cwd = [], os_umask = 0x12, os_files = Map.empty, lw_requests = []\<rparr>"

theorem failed_steps_are_reported_witness:
  "ExecuteRecipe (\<lambda>_. '''') (logging 200) (executor_with (go_return ()) (go_throw (ErrorString ''exit status 1'')) Inr) sample_conf empty_logged
   = (Error (ErrorString ''exit status 1''),
      empty_logged\<lparr>lw_requests := [failure_request (\<lambda>_. '''') sample_conf (ErrorString ''exit status 1'')]\<rparr>)"
  using failed_steps_are_reported [of "logging 200" sample_conf
      "executor_with (go_return ()) (go_throw (ErrorString ''exit status 1'')) Inr" empty_logged "ErrorString ''exit status 1''" empty_logged "\<lambda>_. ''''"]
  by (simp add: logging_def executor_with_def empty_logged_def)

lemma createSuccessResponse_run:
  assumes "ioutil_ReadFile (pbc_OutputMetadataLocation (pe_Conf e)) w = (Return contents, w)"
    and "unmarshal dec_StagingResult zero_StagingResult contents = Inr result"
    and "sm_Modify (pe_ResultModifier e) result w = (Return result', w)"
  shows "createSuccessResponse e conf w = (Return (success_response conf result'), w)"
  using assms by (simp add: createSuccessResponse_def getStagingResult_def success_response_def zero_TaskCallbackResponse_def go_simps)

text \<open>
  When every step succeeds, the recipe sends one request to Eirini: it names the task, carries the result that the builder
  left, with the keys of the buildpacks, as its JSON text, and the callback of the cloud controller; the recipe fails only if
  this request does.
\<close>

lemma ExecuteRecipe_completes:
  assumes "in_Install (pe_Installer e) (cfg_AppID conf) workspaceDir w = (Return (), w1)"
    and "cm_Exec (pe_Commander e) ''/packs/builder'' (builder_args (pe_Conf e)) w1 = (Return (), w2)"
    and "up_Upload (pe_Uploader e) (pbc_OutputDropletLocation (pe_Conf e)) (cfg_DropletUploadURL conf) w2 = (Return (), w3)"
    and "ioutil_ReadFile (pbc_OutputMetadataLocation (pe_Conf e)) w3 = (Return contents, w3)"
    and "unmarshal dec_StagingResult zero_StagingResult contents = Inr result"
    and "sm_Modify (pe_ResultModifier e) result w3 = (Return result', w3)"
    and "hc_CheckURL client (cfg_EiriniAddr conf @ ''/stage/'' @ cfg_StagingGUID conf @ ''/completed'') = None"
    and "hc_Do client (completion_request (cfg_EiriniAddr conf) (success_response conf result')) w3 = (Return resp, w4)"
  shows "ExecuteRecipe texts client e conf w
    = (if rsp_StatusCode resp \<ge> 400 then Error (ErrorString ''Request not successful'') else Return (), w4)"
proof -
  have "tcr_TaskGuid (success_response conf result') = cfg_StagingGUID conf" by (simp add: success_response_def)
  then have "sendCompleteResponse client (cfg_EiriniAddr conf) (success_response conf result') w3
      = (if rsp_StatusCode resp \<ge> 400 then Error (ErrorString ''Request not successful'') else Return (), w4)"
    using assms(7,8) by (simp add: sendCompleteResponse_run)
  then show ?thesis
    using assms(1-3) createSuccessResponse_run [OF assms(4-6)] by (simp add: ExecuteRecipe_def or_report_run go_simps)
qed

text \<open>
  C39. A result that cannot be read, or that names an unknown buildpack, ends the recipe with an error, but unlike the failure of a
  step it is not reported: no request is made.
\<close>

theorem bad_result_is_not_reported:
  assumes "in_Install (pe_Installer e) (cfg_AppID conf) workspaceDir w = (Return (), w1)"
    and "cm_Exec (pe_Commander e) ''/packs/builder'' (builder_args (pe_Conf e)) w1 = (Return (), w2)"
    and "up_Upload (pe_Uploader e) (pbc_OutputDropletLocation (pe_Conf e)) (cfg_DropletUploadURL conf) w2 = (Return (), w3)"
    and "ioutil_ReadFile (pbc_OutputMetadataLocation (pe_Conf e)) w3 = (Error err, w3)
      \<or> (\<exists>contents. ioutil_ReadFile (pbc_OutputMetadataLocation (pe_Conf e)) w3 = (Return contents, w3)
          \<and> (unmarshal dec_StagingResult zero_StagingResult contents = Inl err
             \<or> (\<exists>result. unmarshal dec_StagingResult zero_StagingResult contents = Inr result
                  \<and> sm_Modify (pe_ResultModifier e) result w3 = (Error err, w3))))"
  shows "\<exists>err'. ExecuteRecipe texts client e conf w = (Error err', w3) \<and> err' \<in> {err, Wrapped ''failed to read result.json'' err}"
proof -
  have "\<exists>err'. createSuccessResponse e conf w3 = (Error err', w3) \<and> err' \<in> {err, Wrapped ''failed to read result.json'' err}"
    using assms(4) by (elim disjE exE conjE) (simp_all add: createSuccessResponse_def getStagingResult_def go_simps)
  then show ?thesis
    using assms(1-3) by (auto simp: ExecuteRecipe_def or_report_run go_simps)
qed

theorem bad_result_is_not_reported_witness:
  "\<exists>err. ExecuteRecipe (\<lambda>_. '''') (logging 200) (executor_with (go_return ()) (go_return ()) Inr) sample_conf empty_logged = (Error err, empty_logged)
     \<and> lw_requests empty_logged = []"
proof -
  let ?e = "executor_with (go_return ()) (go_return ()) Inr :: logged_world PacksExecutor"
  have plain: "list_all plain_segment [''out'', ''result.json'']" "abs_path [''out'', ''result.json''] = ''/out/result.json''" by code_simp+
  have "ioutil_ReadFile ''/out/result.json'' empty_logged = (Error (PathError ''open'' ''/out/result.json'' ''no such file or directory''), empty_logged)"
    using resolve_abs_path [OF plain(1), of empty_logged]
    by (simp add: plain(2) ioutil_ReadFile_def os_Open_def open_node_def empty_logged_def go_simps)
  then show ?thesis
    using bad_result_is_not_reported [of ?e sample_conf empty_logged empty_logged empty_logged empty_logged] 
    by (fastforce simp: executor_with_def sample_packs_def empty_logged_def)
qed

section \<open>Download and upload\<close>

lemma abs_path_snoc: "abs_path (t @ [a]) @ x = abs_path (t @ [a @ x])"
proof -
  have "join_with (CHR ''/'') (t @ [a]) @ x = join_with (CHR ''/'') (t @ [a @ x])" for t
    by (induction t rule: join_with.induct) simp_all
  then show ?thesis by (simp add: abs_path_def)
qed

lemma plain_inside: "plain_segment s \<Longrightarrow> inside 0 (segments s) \<and> clean_segments True (segments s) [] = [s]"
  by (auto simp: plain_segment_def segments_def split_on_free)

lemma download_run:
  assumes "list_all plain_segment q" and "q \<noteq> []" and "\<And>p. p \<noteq> [] \<Longrightarrow> strict_prefix p q \<Longrightarrow> \<exists>m. os_files w p = Some (Directory m)"
    and "\<And>m. os_files w q \<noteq> Some (Directory m)"
    and "\<And>w. cf_GetAppBitsByAppGuid (pi_Cfclient d) appID w = (Return \<lparr>rsp_StatusCode = StatusOK, rsp_Body = body, rsp_ReadError = None\<rparr>, w)"
  shows "\<exists>m. PackageInstaller_download d appID (abs_path q) w = (Return (), set_node q (File body m) w)"
proof -
  obtain m where "os_Create (abs_path q) w = (Return q, set_node q (File '''' m) w)"
    using open_node_free [OF assms(1,3)] assms(1,2,4)
    by (cases "the (os_files w q)"; cases "os_files w q") (auto simp: os_Create_def)
  moreover have "copy_to_file q \<lparr>rd_Rest = body, rd_Error = None\<rparr> (set_node q (File '''' m) w) = (Return (), set_node q (File body m) w)"
    by (simp add: copy_to_file_def set_node_def)
  ultimately show ?thesis
    using assms(5) by (auto simp: PackageInstaller_download_def go_simps)
qed

text \<open>What the installer relies on: an archive that fits into the target directory is unpacked there.\<close>

locale archive_extractor =
  fixes unpack :: "string \<Rightarrow> string \<Rightarrow> ('m os_world_scheme, unit) go"
    and unzip :: "string \<Rightarrow> go_error + zip_file list"
  assumes extract_law: "list_all plain_segment t \<Longrightarrow> t \<noteq> [] \<Longrightarrow> ioutil_ReadFile src w = (Return archive, w) \<Longrightarrow> unzip archive = Inr fs
    \<Longrightarrow> fits w t fs \<Longrightarrow> \<exists>w'. unpack src (abs_path t) w = (Return (), w') \<and> (\<forall>f \<in> set fs. placed w' t f)"
begin

lemma installs:
  fixes t appID
  defines "archive \<equiv> t @ [appID @ ''.zip'']"
  assumes "list_all plain_segment t" and "t \<noteq> []" and "plain_segment appID" and "directory w t" and "\<And>m. os_files w archive \<noteq> Some (Directory m)"
    and "\<And>w. cf_GetAppBitsByAppGuid cf appID w = (Return \<lparr>rsp_StatusCode = StatusOK, rsp_Body = body, rsp_ReadError = None\<rparr>, w)"
    and "unzip body = Inr fs" and "\<And>m. fits (set_node archive (File body m) w) t fs"
  shows "\<exists>w'. PackageInstaller_Install \<lparr>pi_Cfclient = cf, pi_Extractor = \<lparr>ex_Extract = unpack\<rparr>\<rparr> appID (abs_path t) w = (Return (), w')
    \<and> (\<forall>f \<in> set fs. placed w' t f)"
proof -
  have path: "Join [abs_path t, appID] @ ''.zip'' = abs_path archive"
    using Join_inside [OF assms(2,3), of appID] plain_inside [OF assms(4)] by (simp add: abs_path_snoc archive_def del: Join.simps)
  have plain: "list_all plain_segment archive" "archive \<noteq> []"
    using assms(2,4) by (auto simp: archive_def plain_segment_def)
  have dirs: "\<exists>m. os_files w p = Some (Directory m)" if "p \<noteq> []" "strict_prefix p archive" for p
    using assms(5) that by (auto simp: directory_def archive_def strict_prefix_def)
  let ?d = "\<lparr>pi_Cfclient = cf, pi_Extractor = \<lparr>ex_Extract = unpack\<rparr>\<rparr>"
  obtain m where w1: "PackageInstaller_download ?d appID (abs_path archive) w = (Return (), set_node archive (File body m) w)"
    using download_run [OF plain dirs assms(6), of ?d appID body] assms(7) by auto
  let ?w = "set_node archive (File body m) w"
  have "ioutil_ReadFile (abs_path archive) ?w = (Return body, ?w)"
    using dirs by (intro read_abs_path [OF plain]) (auto simp: strict_prefix_def)
  then obtain w' where "unpack (abs_path archive) (abs_path t) ?w = (Return (), w')" "\<forall>f \<in> set fs. placed w' t f"
    using extract_law [OF assms(2,3) _ assms(8,9)] by blast
  then show ?thesis
    using w1 assms(4) path by (simp add: PackageInstaller_Install_def go_simps plain_segment_def abs_path_def Let_def del: Join.simps)
qed

end

interpretation unzipper: archive_extractor "Unzipper_Extract unzip" unzip
  by unfold_locales (rule extract_unpacks)


definition sample_cf_bits :: "'w CfClient" where
  "sample_cf_bits = \<lparr>cf_GetDropletByAppGuid = (\<lambda>_. go_throw EOF), cf_PushDroplet = (\<lambda>_ _. go_throw EOF),
     cf_GetAppBitsByAppGuid = (\<lambda>_. go_return \<lparr>rsp_StatusCode = StatusOK, rsp_Body = ''zip'', rsp_ReadError = None\<rparr>)\<rparr>"


text \<open>
  Uploading a droplet posts the content of the file once, with its size and type, and succeeds exactly when the answer is below
  400; the file stays as it is.
\<close>

theorem upload_posts_file:
  assumes "os_Open path w = (Return \<lparr>rd_Rest = content, rd_Error = None\<rparr>, w)" and "path \<noteq> ''''" and "url \<noteq> ''''"
    and "hc_CheckURL client url = None"
    and "hc_Do client \<lparr>rq_Method = ''POST'', rq_URL = url, rq_Header = [(''Content-Type'', ''application/octet-stream'')],
       rq_ContentLength = of_nat (length content), rq_Body = content\<rparr> w = (Return resp, w')"
  shows "DropletUploader_Upload \<lparr>du_HTTPClient = client\<rparr> path url w
    = (if rsp_StatusCode resp \<ge> 400 then Error (ErrorString (''Upload failed: Status code '' @ show_int (rsp_StatusCode resp))) else Return (), w')"
  using assms
  by (simp add: DropletUploader_Upload_def uploadFile_def DropletUploader_do_def NewRequest_def set_header_def map_assign_def fileSize_def Let_def go_simps)

definition droplet_disk :: logged_world where
  "droplet_disk = empty_logged\<lparr>os_files := [[''d''] \<mapsto> File ''droplet'' 0x1A4]\<rparr>"

theorem upload_posts_file_witness:
  "DropletUploader_Upload \<lparr>du_HTTPClient = logging 201\<rparr> ''/d'' ''http://up'' droplet_disk
   = (Return (), droplet_disk\<lparr>lw_requests := [\<lparr>rq_Method = ''POST'', rq_URL = ''http://up'',
        rq_Header = [(''Content-Type'', ''application/octet-stream'')], rq_ContentLength = 7, rq_Body = ''droplet''\<rparr>]\<rparr>)"
proof -
  have plain: "list_all plain_segment [''d'']" "abs_path [''d''] = ''/d''" by code_simp+
  have "os_Open ''/d'' droplet_disk = (Return \<lparr>rd_Rest = ''droplet'', rd_Error = None\<rparr>, droplet_disk)"
    using resolve_abs_path [OF plain(1), of droplet_disk]
    by (simp add: plain(2) os_Open_def open_node_def droplet_disk_def)
  from upload_posts_file [OF this, of "''http://up''" "logging 201"] show ?thesis
    by (simp add: logging_def droplet_disk_def empty_logged_def)
qed

end
