(* ===== verification/Kube_Api.thy ===== *)
theory Kube_Api
  imports Eirini_Models
begin

text \<open>
  The Kubernetes objects the program builds and reads, and the client it calls
  (\<^verbatim>\<open>kubernetes.Interface\<close> of \<^verbatim>\<open>k8s.io/client-go\<close>).

  \<^item> The objects keep the fields that the program writes or reads. A pointer field that may be nil
    is an option; a map field that the program assigns to is a \<open>nilmap\<close>.
  \<^item> The client is a parameter of every operation that uses it: a record of programs over an
    arbitrary world, so a theorem with no further hypothesis holds for an API server that fails
    in any way at any call.
  \<^item> The locale \<open>kube_resource\<close> states what the documented API promises for one kind of objects while
    it is reachable: names are unique in a namespace, a lookup sees what was created, updated or
    deleted before. \<open>kube_cluster\<close> puts the kinds of the program together with the channel of the route
    emitter; the other theories prove the effects of their operations in it. \<open>Object_Tracker\<close>
    interprets both on the in-memory API server of the vendored \<^verbatim>\<open>client-go\<close>.
\<close>

section \<open>Objects\<close>

record ObjectMeta =
  om_Name :: string
  om_Namespace :: string
  om_Labels :: gomap
  om_Annotations :: nilmap

record EnvVar =
  ev_Name :: string
  ev_Value :: string
  ev_ValueFrom :: "string option" \<comment> \<open>the \<^verbatim>\<open>FieldPath\<close> of the \<^verbatim>\<open>FieldRef\<close>\<close>

record ContainerPort =
  cp_Name :: string
  cp_ContainerPort :: int32

record HTTPGetAction =
  hga_Path :: string
  hga_Port :: int32

record TCPSocketAction =
  tsa_Port :: int32

record Probe =
  HTTPGet :: "HTTPGetAction option"
  TCPSocket :: "TCPSocketAction option"
  InitialDelaySeconds :: int32
  FailureThreshold :: int32

record VolumeMount =
  vm_Name :: string
  vm_ReadOnly :: bool
  vm_MountPath :: string

record Container =
  ct_Name :: string
  ct_Image :: string
  ct_Command :: "string list"
  ct_Env :: "EnvVar list"
  ct_Ports :: "ContainerPort list"
  ct_LivenessProbe :: "Probe option"
  ct_ReadinessProbe :: "Probe option"
  ct_VolumeMounts :: "VolumeMount list"

record HostAlias =
  ha_IP :: string
  ha_Hostnames :: "string list"

record Volume =
  vol_Name :: string
  vol_SecretName :: string

record PodSpec =
  ps_Containers :: "Container list"
  ps_RestartPolicy :: string
  ps_HostAliases :: "HostAlias list"
  ps_Volumes :: "Volume list"

record PodTemplateSpec =
  pt_Labels :: gomap
  pt_Spec :: PodSpec

record StatefulSet =
  ss_Meta :: ObjectMeta
  ss_Replicas :: "int32 option"
  ss_MatchLabels :: gomap
  ss_Template :: PodTemplateSpec
  ss_ReadyReplicas :: int32

record ServicePort =
  sp_Name :: string
  sp_Port :: int32

record Service =
  svc_Meta :: ObjectMeta
  svc_ClusterIP :: string
  svc_Ports :: "ServicePort list"
  svc_Selector :: gomap

record IngressBackend =
  ServiceName :: string
  ServicePort :: int32

record HTTPIngressPath =
  hip_Path :: string
  Backend :: IngressBackend

type_synonym HTTPIngressRuleValue = "HTTPIngressPath list"

text \<open>A rule as the API transports it; \<open>HTTP\<close> is absent for a nil pointer.\<close>

record IngressRule =
  Host :: string
  HTTP :: "HTTPIngressRuleValue option"

record Ingress =
  ing_Kind :: string
  ing_APIVersion :: string
  ing_Meta :: ObjectMeta
  ing_Rules :: "IngressRule list"

record Job =
  job_Meta :: ObjectMeta
  job_ActiveDeadlineSeconds :: "int64 option"
  job_Template :: PodTemplateSpec

definition zero_ObjectMeta :: ObjectMeta where
  "zero_ObjectMeta = \<lparr>om_Name = '''', om_Namespace = '''', om_Labels = [], om_Annotations = None\<rparr>"

definition zero_Container :: Container where
  "zero_Container = \<lparr>ct_Name = '''', ct_Image = '''', ct_Command = [], ct_Env = [], ct_Ports = [],
     ct_LivenessProbe = None, ct_ReadinessProbe = None, ct_VolumeMounts = []\<rparr>"

definition zero_PodSpec :: PodSpec where
  "zero_PodSpec = \<lparr>ps_Containers = [], ps_RestartPolicy = '''', ps_HostAliases = [], ps_Volumes = []\<rparr>"

definition zero_Probe :: Probe where
  "zero_Probe = \<lparr>HTTPGet = None, TCPSocket = None, InitialDelaySeconds = 0, FailureThreshold = 0\<rparr>"

section \<open>The client\<close>

text \<open>
  The typed client of one kind of objects. The first argument is the namespace; \<open>List\<close> takes the text
  of the label selector, empty for none; \<open>Delete\<close> takes the propagation policy.
\<close>

record ('o, 'w) resource_interface =
  rc_Create :: "string \<Rightarrow> 'o \<Rightarrow> ('w, 'o) go"
  rc_Get :: "string \<Rightarrow> string \<Rightarrow> ('w, 'o) go"
  rc_List :: "string \<Rightarrow> string \<Rightarrow> ('w, 'o list) go"
  rc_Update :: "string \<Rightarrow> 'o \<Rightarrow> ('w, 'o) go"
  rc_Delete :: "string \<Rightarrow> string \<Rightarrow> string option \<Rightarrow> ('w, unit) go"

abbreviation DeletePropagationBackground :: string where
  "DeletePropagationBackground \<equiv> ''Background''"

record 'w kubernetes_Interface =
  StatefulSets :: "(StatefulSet, 'w) resource_interface"
  Services :: "(Service, 'w) resource_interface"
  Ingresses :: "(Ingress, 'w) resource_interface"
  Jobs :: "(Job, 'w) resource_interface"

text \<open>A client whose calls come back: it may fail with any error and do anything to the world.\<close>

definition calls_settle :: "('o, 'w) resource_interface \<Rightarrow> bool" where
  "calls_settle rc \<longleftrightarrow>
     (\<forall>ns ob w. settled (fst (rc_Create rc ns ob w))) \<and> (\<forall>ns n w. settled (fst (rc_Get rc ns n w)))
     \<and> (\<forall>ns s w. settled (fst (rc_List rc ns s w))) \<and> (\<forall>ns ob w. settled (fst (rc_Update rc ns ob w)))
     \<and> (\<forall>ns n pol w. settled (fst (rc_Delete rc ns n pol w)))"

lemma calls_settleD:
  assumes "calls_settle rc"
  shows "settled (fst (rc_Create rc ns ob w))" "settled (fst (rc_Get rc ns n w))"
    "settled (fst (rc_List rc ns s w))" "settled (fst (rc_Update rc ns ob w))"
    "settled (fst (rc_Delete rc ns n pol w))"
  using assms by (simp_all add: calls_settle_def)

section \<open>What the API promises\<close>

text \<open>The objects of one kind, by namespace and name, and the abstract state of a cluster.\<close>

type_synonym 'o store = "string \<times> string \<Rightarrow> 'o option"

record cluster =
  c_StatefulSets :: "StatefulSet store"
  c_Services :: "Service store"
  c_Ingresses :: "Ingress store"
  c_Jobs :: "Job store"
  c_sent :: "Routes list list" \<comment> \<open>the batches handed to the route emitter\<close>

text \<open>A label value as Kubernetes admits it, as far as the selectors of the program need.\<close>

definition label_char :: "char \<Rightarrow> bool" where
  "label_char c \<longleftrightarrow> (48 \<le> byte_of c \<and> byte_of c \<le> 57) \<or> (65 \<le> byte_of c \<and> byte_of c \<le> 90)
     \<or> (97 \<le> byte_of c \<and> byte_of c \<le> 122)"

definition valid_label_value :: "string \<Rightarrow> bool" where
  "valid_label_value v \<longleftrightarrow> v \<noteq> [] \<and> length v \<le> 63 \<and> label_char (hd v) \<and> label_char (last v)
     \<and> (\<forall>c \<in> set v. label_char c \<or> c = CHR ''-'' \<or> c = CHR ''_'' \<or> c = CHR ''.'')"

locale kube_resource =
  fixes rc :: "('o, 'w) resource_interface"
    and meta :: "'o \<Rightarrow> ObjectMeta"
    and with_ns :: "string \<Rightarrow> 'o \<Rightarrow> 'o"
    and sel :: "cluster \<Rightarrow> 'o store"
    and upd :: "('o store \<Rightarrow> 'o store) \<Rightarrow> cluster \<Rightarrow> cluster"
    and abs :: "'w \<Rightarrow> cluster"
    and inv :: "'w \<Rightarrow> bool"
  assumes Get_law: "\<lbrakk>inv w; ns \<noteq> ''''; n \<noteq> ''''\<rbrakk> \<Longrightarrow>
      rc_Get rc ns n w =
        (case sel (abs w) (ns, n) of None \<Rightarrow> Error (NotFound n) | Some ob \<Rightarrow> Return ob, w)"
    and List_law: "\<lbrakk>inv w; ns \<noteq> ''''\<rbrakk> \<Longrightarrow>
      \<exists>obs. rc_List rc ns '''' w = (Return obs, w) \<and> distinct (map (om_Name \<circ> meta) obs)
        \<and> set obs = {ob. \<exists>n. sel (abs w) (ns, n) = Some ob}"
    and List_name_law: "\<lbrakk>inv w; ns \<noteq> ''''; valid_label_value v\<rbrakk> \<Longrightarrow>
      \<exists>obs. rc_List rc ns (''name='' @ v) w = (Return obs, w)
        \<and> set obs = {ob. (\<exists>n. sel (abs w) (ns, n) = Some ob) \<and> map_of (om_Labels (meta ob)) ''name'' = Some v}"
    and Create_law: "\<lbrakk>inv w; ns \<noteq> ''''; om_Name (meta ob) \<noteq> ''''; om_Namespace (meta ob) \<in> {'''', ns}\<rbrakk> \<Longrightarrow>
      fst (rc_Create rc ns ob w) =
        (case sel (abs w) (ns, om_Name (meta ob)) of
           None \<Rightarrow> Return (with_ns ns ob) | Some _ \<Rightarrow> Error (AlreadyExists (om_Name (meta ob))))
      \<and> abs (snd (rc_Create rc ns ob w)) =
        (case sel (abs w) (ns, om_Name (meta ob)) of
           None \<Rightarrow> upd (\<lambda>st. st((ns, om_Name (meta ob)) \<mapsto> with_ns ns ob)) (abs w)
         | Some _ \<Rightarrow> abs w)
      \<and> inv (snd (rc_Create rc ns ob w))"
    and Update_law: "\<lbrakk>inv w; ns \<noteq> ''''; om_Name (meta ob) \<noteq> ''''; om_Namespace (meta ob) \<in> {'''', ns}\<rbrakk> \<Longrightarrow>
      fst (rc_Update rc ns ob w) =
        (case sel (abs w) (ns, om_Name (meta ob)) of
           None \<Rightarrow> Error (NotFound (om_Name (meta ob))) | Some _ \<Rightarrow> Return (with_ns ns ob))
      \<and> abs (snd (rc_Update rc ns ob w)) =
        (case sel (abs w) (ns, om_Name (meta ob)) of
           None \<Rightarrow> abs w
         | Some _ \<Rightarrow> upd (\<lambda>st. st((ns, om_Name (meta ob)) \<mapsto> with_ns ns ob)) (abs w))
      \<and> inv (snd (rc_Update rc ns ob w))"
    and Delete_law: "\<lbrakk>inv w; ns \<noteq> ''''; n \<noteq> ''''\<rbrakk> \<Longrightarrow>
      fst (rc_Delete rc ns n pol w) =
        (case sel (abs w) (ns, n) of None \<Rightarrow> Error (NotFound n) | Some _ \<Rightarrow> Return ())
      \<and> abs (snd (rc_Delete rc ns n pol w)) =
        (case sel (abs w) (ns, n) of None \<Rightarrow> abs w | Some _ \<Rightarrow> upd (\<lambda>st. st((ns, n) := None)) (abs w))
      \<and> inv (snd (rc_Delete rc ns n pol w))"
    and stored_name: "\<lbrakk>inv w; sel (abs w) (ns, n) = Some ob\<rbrakk> \<Longrightarrow>
      om_Name (meta ob) = n \<and> om_Namespace (meta ob) = ns"
    and sel_upd: "sel (upd f c) = f (sel c)"
begin

lemma Get_found:
  "\<lbrakk>inv w; ns \<noteq> ''''; n \<noteq> ''''; sel (abs w) (ns, n) = Some ob\<rbrakk> \<Longrightarrow> rc_Get rc ns n w = (Return ob, w)"
  by (simp add: Get_law)

lemma Get_missing:
  "\<lbrakk>inv w; ns \<noteq> ''''; n \<noteq> ''''; sel (abs w) (ns, n) = None\<rbrakk> \<Longrightarrow>
     rc_Get rc ns n w = (Error (NotFound n), w)"
  by (simp add: Get_law)

lemma Create_fresh:
  assumes "inv w" "ns \<noteq> ''''" "om_Name (meta ob) \<noteq> ''''" "om_Namespace (meta ob) \<in> {'''', ns}"
    and "sel (abs w) (ns, om_Name (meta ob)) = None"
  obtains w' where "rc_Create rc ns ob w = (Return (with_ns ns ob), w')" and "inv w'"
    and "abs w' = upd (\<lambda>st. st((ns, om_Name (meta ob)) \<mapsto> with_ns ns ob)) (abs w)"
  using Create_law [OF assms(1-4)] assms(5) by (cases "rc_Create rc ns ob w") auto

lemma Create_taken:
  assumes "inv w" "ns \<noteq> ''''" "om_Name (meta ob) \<noteq> ''''" "om_Namespace (meta ob) \<in> {'''', ns}"
    and "sel (abs w) (ns, om_Name (meta ob)) = Some ob'"
  obtains w' where "rc_Create rc ns ob w = (Error (AlreadyExists (om_Name (meta ob))), w')"
    and "inv w'" and "abs w' = abs w"
  using Create_law [OF assms(1-4)] assms(5) by (cases "rc_Create rc ns ob w") auto

lemma Update_found:
  assumes "inv w" "ns \<noteq> ''''" "om_Name (meta ob) \<noteq> ''''" "om_Namespace (meta ob) \<in> {'''', ns}"
    and "sel (abs w) (ns, om_Name (meta ob)) = Some ob'"
  obtains w' where "rc_Update rc ns ob w = (Return (with_ns ns ob), w')" and "inv w'"
    and "abs w' = upd (\<lambda>st. st((ns, om_Name (meta ob)) \<mapsto> with_ns ns ob)) (abs w)"
  using Update_law [OF assms(1-4)] assms(5) by (cases "rc_Update rc ns ob w") auto

lemma Delete_found:
  assumes "inv w" "ns \<noteq> ''''" "n \<noteq> ''''" and "sel (abs w) (ns, n) = Some ob"
  obtains w' where "rc_Delete rc ns n pol w = (Return (), w')" and "inv w'"
    and "abs w' = upd (\<lambda>st. st((ns, n) := None)) (abs w)"
  using Delete_law [OF assms(1-3), of pol] assms(4) by (cases "rc_Delete rc ns n pol w") auto

lemma Delete_missing:
  assumes "inv w" "ns \<noteq> ''''" "n \<noteq> ''''" and "sel (abs w) (ns, n) = None"
  obtains w' where "rc_Delete rc ns n pol w = (Error (NotFound n), w')" and "inv w'"
    and "abs w' = abs w"
  using Delete_law [OF assms(1-3), of pol] assms(4) by (cases "rc_Delete rc ns n pol w") auto

text \<open>A name read back: what \<open>Get\<close> returns after \<open>Create\<close>.\<close>

lemma Get_after_Create:
  assumes "inv w" "ns \<noteq> ''''" "om_Name (meta ob) \<noteq> ''''" "om_Namespace (meta ob) \<in> {'''', ns}"
    and "sel (abs w) (ns, om_Name (meta ob)) = None"
  shows "fst (go_bind (rc_Create rc ns ob) (\<lambda>_. rc_Get rc ns (om_Name (meta ob))) w)
    = Return (with_ns ns ob)"
  by (rule Create_fresh [OF assms]) (simp add: go_simps Get_law sel_upd assms(2,3))

end

definition ss_with_ns :: "string \<Rightarrow> StatefulSet \<Rightarrow> StatefulSet" where
  "ss_with_ns ns s = s\<lparr>ss_Meta := (ss_Meta s)\<lparr>om_Namespace := ns\<rparr>\<rparr>"

definition svc_with_ns :: "string \<Rightarrow> Service \<Rightarrow> Service" where
  "svc_with_ns ns s = s\<lparr>svc_Meta := (svc_Meta s)\<lparr>om_Namespace := ns\<rparr>\<rparr>"

definition ing_with_ns :: "string \<Rightarrow> Ingress \<Rightarrow> Ingress" where
  "ing_with_ns ns i = i\<lparr>ing_Meta := (ing_Meta i)\<lparr>om_Namespace := ns\<rparr>\<rparr>"

definition job_with_ns :: "string \<Rightarrow> Job \<Rightarrow> Job" where
  "job_with_ns ns j = j\<lparr>job_Meta := (job_Meta j)\<lparr>om_Namespace := ns\<rparr>\<rparr>"

lemma with_ns_fields [simp]:
  "om_Name (ss_Meta (ss_with_ns ns s)) = om_Name (ss_Meta s)"
  "om_Namespace (ss_Meta (ss_with_ns ns s)) = ns"
  "om_Annotations (ss_Meta (ss_with_ns ns s)) = om_Annotations (ss_Meta s)"
  "om_Labels (ss_Meta (ss_with_ns ns s)) = om_Labels (ss_Meta s)"
  "om_Name (svc_Meta (svc_with_ns ns v)) = om_Name (svc_Meta v)"
  "om_Namespace (svc_Meta (svc_with_ns ns v)) = ns"
  "om_Annotations (svc_Meta (svc_with_ns ns v)) = om_Annotations (svc_Meta v)"
  "om_Labels (svc_Meta (svc_with_ns ns v)) = om_Labels (svc_Meta v)"
  "om_Name (ing_Meta (ing_with_ns ns i)) = om_Name (ing_Meta i)"
  "om_Namespace (ing_Meta (ing_with_ns ns i)) = ns"
  "ing_Rules (ing_with_ns ns i) = ing_Rules i"
  "om_Name (job_Meta (job_with_ns ns j)) = om_Name (job_Meta j)"
  "om_Namespace (job_Meta (job_with_ns ns j)) = ns"
  by (simp_all add: ss_with_ns_def svc_with_ns_def ing_with_ns_def job_with_ns_def)

text \<open>
  A cluster with the four kinds of the program, and the channel to the route emitter: a message
  sent on it is recorded and nothing else changes.
\<close>

locale kube_cluster =
  ss: kube_resource "StatefulSets cl" ss_Meta ss_with_ns c_StatefulSets c_StatefulSets_update abs inv +
  svc: kube_resource "Services cl" svc_Meta svc_with_ns c_Services c_Services_update abs inv +
  ing: kube_resource "Ingresses cl" ing_Meta ing_with_ns c_Ingresses c_Ingresses_update abs inv +
  job: kube_resource "Jobs cl" job_Meta job_with_ns c_Jobs c_Jobs_update abs inv
  for cl :: "'w kubernetes_Interface" and abs :: "'w \<Rightarrow> cluster" and inv :: "'w \<Rightarrow> bool" +
  fixes ch :: "(Routes list, 'w) chan"
  assumes send_law: "inv w \<Longrightarrow>
    fst (chan_send ch m w) = Return ()
    \<and> abs (snd (chan_send ch m w)) = (abs w)\<lparr>c_sent := c_sent (abs w) @ [m]\<rparr>
    \<and> inv (snd (chan_send ch m w))"
begin

lemma send_run:
  assumes "inv w"
  obtains w' where "chan_send ch m w = (Return (), w')" and "inv w'"
    and "abs w' = (abs w)\<lparr>c_sent := c_sent (abs w) @ [m]\<rparr>"
  using send_law [OF assms, of m] by (cases "chan_send ch m w") auto

end

end
