(* ===== verification/Object_Tracker.thy ===== *)
theory Object_Tracker
  imports Kube_Api
begin

text \<open>
  The in-memory API server of the vendored \<^verbatim>\<open>client-go\<close> (\<^verbatim>\<open>testing/fixture.go\<close>), on which the
  repository's own tests run: it keeps a list of objects per kind. The theory models its operations
  as they are written and interprets \<open>kube_resource\<close> and \<open>kube_cluster\<close> on them, so the laws the other
  theories rely on hold of code that exists. The channel to the route emitter is part of the same
  world: a sent batch is appended to a log.

  The label selectors the program sends are the empty one and \<^verbatim>\<open>name=\<close> followed by an app name; the
  tracker is modelled for those.
\<close>

section \<open>Operations on the objects of one kind\<close>

definition filterByNamespaceAndName ::
  "('o \<Rightarrow> ObjectMeta) \<Rightarrow> 'o list \<Rightarrow> string \<Rightarrow> string \<Rightarrow> 'o list" where
  "filterByNamespaceAndName meta objs ns name =
     filter (\<lambda>ob. \<not> (ns \<noteq> '''' \<and> om_Namespace (meta ob) \<noteq> ns)
                \<and> \<not> (name \<noteq> '''' \<and> om_Name (meta ob) \<noteq> name)) objs"

definition tracker_Get :: "('o \<Rightarrow> ObjectMeta) \<Rightarrow> 'o list \<Rightarrow> string \<Rightarrow> string \<Rightarrow> go_error + 'o" where
  "tracker_Get meta objs ns name = (case filterByNamespaceAndName meta objs ns name of
      [] \<Rightarrow> Inl (NotFound name)
    | [ob] \<Rightarrow> Inr ob
    | _ \<Rightarrow> Inl (ErrorString ''more than one object matched''))"

text \<open>The loop of \<^verbatim>\<open>add\<close> over the existing objects: the first object of the same key decides.\<close>

fun tracker_put :: "('o \<Rightarrow> ObjectMeta) \<Rightarrow> 'o \<Rightarrow> bool \<Rightarrow> 'o list \<Rightarrow> go_error + 'o list" where
  "tracker_put meta ob replaceExisting [] =
     (if replaceExisting then Inl (NotFound (om_Name (meta ob))) else Inr [ob])"
| "tracker_put meta ob replaceExisting (x # xs) =
     (if om_Namespace (meta x) = om_Namespace (meta ob) \<and> om_Name (meta x) = om_Name (meta ob) then
        (if replaceExisting then Inr (ob # xs) else Inl (AlreadyExists (om_Name (meta ob))))
      else (case tracker_put meta ob replaceExisting xs of Inl e \<Rightarrow> Inl e | Inr ys \<Rightarrow> Inr (x # ys)))"

definition tracker_add ::
  "('o \<Rightarrow> ObjectMeta) \<Rightarrow> (string \<Rightarrow> 'o \<Rightarrow> 'o) \<Rightarrow> 'o list \<Rightarrow> 'o \<Rightarrow> string \<Rightarrow> bool \<Rightarrow> go_error + 'o list" where
  "tracker_add meta with_ns objs ob ns replaceExisting =
     (let ob' = (if om_Namespace (meta ob) = '''' then with_ns ns ob else ob) in
      if ns \<noteq> om_Namespace (meta ob')
      then Inl (BadRequest ''request namespace does not match object namespace'')
      else tracker_put meta ob' replaceExisting objs)"

fun tracker_Delete :: "('o \<Rightarrow> ObjectMeta) \<Rightarrow> 'o list \<Rightarrow> string \<Rightarrow> string \<Rightarrow> go_error + 'o list" where
  "tracker_Delete meta [] ns name = Inl (NotFound name)"
| "tracker_Delete meta (x # xs) ns name =
     (if om_Namespace (meta x) = ns \<and> om_Name (meta x) = name then Inr xs
      else (case tracker_Delete meta xs ns name of Inl e \<Rightarrow> Inl e | Inr ys \<Rightarrow> Inr (x # ys)))"

definition selector_matches :: "string \<Rightarrow> gomap \<Rightarrow> bool" where
  "selector_matches s labels \<longleftrightarrow> s = '''' \<or> map_of labels ''name'' = Some (drop 5 s)"

section \<open>The server and its client\<close>

record tracker =
  tr_StatefulSets :: "StatefulSet list"
  tr_Services :: "Service list"
  tr_Ingresses :: "Ingress list"
  tr_Jobs :: "Job list"
  tr_sent :: "Routes list list"

definition empty_tracker :: tracker where
  "empty_tracker = \<lparr>tr_StatefulSets = [], tr_Services = [], tr_Ingresses = [], tr_Jobs = [], tr_sent = []\<rparr>"

text \<open>
  \<^verbatim>\<open>ObjectReaction\<close>: a create or an update is followed by a lookup of the stored object.
\<close>

definition tracker_write ::
  "('o \<Rightarrow> ObjectMeta) \<Rightarrow> (string \<Rightarrow> 'o \<Rightarrow> 'o) \<Rightarrow> (tracker \<Rightarrow> 'o list) \<Rightarrow> ('o list \<Rightarrow> tracker \<Rightarrow> tracker)
     \<Rightarrow> bool \<Rightarrow> string \<Rightarrow> 'o \<Rightarrow> (tracker, 'o) go" where
  "tracker_write meta with_ns get put replaceExisting ns ob t =
     (case tracker_add meta with_ns (get t) ob ns replaceExisting of
        Inl e \<Rightarrow> (Error e, t)
      | Inr objs \<Rightarrow>
          (case tracker_Get meta objs ns (om_Name (meta ob)) of
             Inl e \<Rightarrow> (Error e, put objs t)
           | Inr stored \<Rightarrow> (Return stored, put objs t)))"

definition tracker_resource ::
  "('o \<Rightarrow> ObjectMeta) \<Rightarrow> (string \<Rightarrow> 'o \<Rightarrow> 'o) \<Rightarrow> (tracker \<Rightarrow> 'o list) \<Rightarrow> ('o list \<Rightarrow> tracker \<Rightarrow> tracker)
     \<Rightarrow> ('o, tracker) resource_interface" where
  "tracker_resource meta with_ns get put =
     \<lparr>rc_Create = tracker_write meta with_ns get put False,
      rc_Get = (\<lambda>ns name t. go_lift (tracker_Get meta (get t) ns name) t),
      rc_List = (\<lambda>ns s t. (Return (filter (\<lambda>ob. selector_matches s (om_Labels (meta ob)))
                    (filterByNamespaceAndName meta (get t) ns '''')), t)),
      rc_Update = tracker_write meta with_ns get put True,
      rc_Delete = (\<lambda>ns name pol t. case tracker_Delete meta (get t) ns name of
          Inl e \<Rightarrow> (Error e, t) | Inr objs \<Rightarrow> (Return (), put objs t))\<rparr>"

definition tracker_client :: "tracker kubernetes_Interface" where
  "tracker_client =
     \<lparr>StatefulSets = tracker_resource ss_Meta ss_with_ns tr_StatefulSets (\<lambda>v. tr_StatefulSets_update (\<lambda>_. v)),
      Services = tracker_resource svc_Meta svc_with_ns tr_Services (\<lambda>v. tr_Services_update (\<lambda>_. v)),
      Ingresses = tracker_resource ing_Meta ing_with_ns tr_Ingresses (\<lambda>v. tr_Ingresses_update (\<lambda>_. v)),
      Jobs = tracker_resource job_Meta job_with_ns tr_Jobs (\<lambda>v. tr_Jobs_update (\<lambda>_. v))\<rparr>"

definition tracker_chan :: "(Routes list, tracker) chan" where
  "tracker_chan = Chan (\<lambda>m. tr_sent_update (\<lambda>ms. ms @ [m]))"

section \<open>The tracker keeps the promises of the API\<close>

definition obj_key :: "('o \<Rightarrow> ObjectMeta) \<Rightarrow> 'o \<Rightarrow> string \<times> string" where
  "obj_key meta ob = (om_Namespace (meta ob), om_Name (meta ob))"

definition store_of :: "('o \<Rightarrow> ObjectMeta) \<Rightarrow> 'o list \<Rightarrow> 'o store" where
  "store_of meta objs k = find (\<lambda>ob. obj_key meta ob = k) objs"

definition keys_unique :: "('o \<Rightarrow> ObjectMeta) \<Rightarrow> 'o list \<Rightarrow> bool" where
  "keys_unique meta objs \<longleftrightarrow> distinct (map (obj_key meta) objs)"

definition tracker_abs :: "tracker \<Rightarrow> cluster" where
  "tracker_abs t =
     \<lparr>c_StatefulSets = store_of ss_Meta (tr_StatefulSets t),
      c_Services = store_of svc_Meta (tr_Services t),
      c_Ingresses = store_of ing_Meta (tr_Ingresses t),
      c_Jobs = store_of job_Meta (tr_Jobs t),
      c_sent = tr_sent t\<rparr>"

definition tracker_inv :: "tracker \<Rightarrow> bool" where
  "tracker_inv t \<longleftrightarrow> keys_unique ss_Meta (tr_StatefulSets t) \<and> keys_unique svc_Meta (tr_Services t)
     \<and> keys_unique ing_Meta (tr_Ingresses t) \<and> keys_unique job_Meta (tr_Jobs t)"

lemma tracker_inv_empty: "tracker_inv empty_tracker"
  by (simp add: tracker_inv_def empty_tracker_def keys_unique_def)

lemma store_of_Nil [simp]: "store_of meta [] = Map.empty"
  by (rule ext) (simp add: store_of_def)

lemma store_of_Cons:
  "store_of meta (x # xs) = (store_of meta xs)(obj_key meta x \<mapsto> x)"
  by (rule ext) (auto simp: store_of_def)

lemma store_of_Some:
  "keys_unique meta objs \<Longrightarrow> store_of meta objs k = Some ob \<longleftrightarrow> ob \<in> set objs \<and> obj_key meta ob = k"
  by (induction objs) (auto simp: store_of_Cons keys_unique_def image_iff)

lemma store_of_None: "store_of meta objs k = None \<longleftrightarrow> k \<notin> obj_key meta ` set objs"
  by (induction objs) (auto simp: store_of_Cons)

lemma filter_keys_unique:
  assumes "keys_unique meta objs"
  shows "filter (\<lambda>ob. obj_key meta ob = k) objs
    = (case store_of meta objs k of None \<Rightarrow> [] | Some ob \<Rightarrow> [ob])"
  using assms
proof (induction objs)
  case (Cons x xs)
  have "filter (\<lambda>ob. obj_key meta ob = obj_key meta x) xs = []"
    using Cons.prems by (auto simp: keys_unique_def filter_empty_conv image_iff)
  with Cons show ?case
    by (auto simp: keys_unique_def store_of_Cons)
qed simp

lemma tracker_Get_eq:
  assumes "keys_unique meta objs" and "ns \<noteq> ''''" and "name \<noteq> ''''"
  shows "tracker_Get meta objs ns name
    = (case store_of meta objs (ns, name) of None \<Rightarrow> Inl (NotFound name) | Some ob \<Rightarrow> Inr ob)"
proof -
  have "filterByNamespaceAndName meta objs ns name = filter (\<lambda>ob. obj_key meta ob = (ns, name)) objs"
    using assms(2,3) by (simp add: filterByNamespaceAndName_def obj_key_def)
  then show ?thesis
    using filter_keys_unique [OF assms(1), of "(ns, name)"]
    by (simp add: tracker_Get_def split: option.splits)
qed

lemma tracker_put_create:
  "tracker_put meta ob False objs =
     (case store_of meta objs (obj_key meta ob) of
        None \<Rightarrow> Inr (objs @ [ob]) | Some _ \<Rightarrow> Inl (AlreadyExists (om_Name (meta ob))))"
  by (induction objs) (auto simp: store_of_Cons obj_key_def split: option.splits)

lemma tracker_put_update:
  "keys_unique meta objs \<Longrightarrow>
   (case tracker_put meta ob True objs of
      Inl e \<Rightarrow> store_of meta objs (obj_key meta ob) = None \<and> e = NotFound (om_Name (meta ob))
    | Inr objs' \<Rightarrow> store_of meta objs (obj_key meta ob) \<noteq> None
        \<and> map (obj_key meta) objs' = map (obj_key meta) objs
        \<and> store_of meta objs' = (store_of meta objs)(obj_key meta ob \<mapsto> ob))"
proof (induction objs)
  case (Cons x xs)
  then have "keys_unique meta xs"
    by (simp add: keys_unique_def)
  with Cons.IH Cons.prems show ?case
    by (auto simp: store_of_Cons obj_key_def fun_upd_twist split: sum.splits)
qed simp

lemma tracker_Delete_Cons:
  "tracker_Delete meta (x # xs) ns name =
     (if obj_key meta x = (ns, name) then Inr xs
      else (case tracker_Delete meta xs ns name of Inl e \<Rightarrow> Inl e | Inr ys \<Rightarrow> Inr (x # ys)))"
  by (simp add: obj_key_def)

lemma tracker_Delete_eq:
  "keys_unique meta objs \<Longrightarrow>
   (case tracker_Delete meta objs ns name of
      Inl e \<Rightarrow> store_of meta objs (ns, name) = None \<and> e = NotFound name
    | Inr objs' \<Rightarrow> store_of meta objs (ns, name) \<noteq> None
        \<and> set objs' \<subseteq> set objs \<and> keys_unique meta objs'
        \<and> store_of meta objs' = (store_of meta objs)((ns, name) := None))"
proof (induction objs)
  case (Cons x xs)
  then have xs: "keys_unique meta xs" and "obj_key meta x \<notin> obj_key meta ` set xs"
    by (simp_all add: keys_unique_def)
  then have fresh: "store_of meta xs (obj_key meta x) = None"
    by (simp add: store_of_None)
  show ?case
  proof (cases "obj_key meta x = (ns, name)")
    case True
    with xs fresh show ?thesis
      by (auto simp: tracker_Delete_Cons store_of_Cons fun_upd_idem simp del: tracker_Delete.simps)
  next
    case False
    show ?thesis
    proof (cases "tracker_Delete meta xs ns name")
      case (Inl e)
      with False Cons.IH xs show ?thesis
        by (simp add: tracker_Delete_Cons store_of_Cons del: tracker_Delete.simps)
    next
      case (Inr ys)
      with Cons.IH xs have "set ys \<subseteq> set xs" and "keys_unique meta ys"
        and "store_of meta ys = (store_of meta xs)((ns, name) := None)"
        and "store_of meta xs (ns, name) \<noteq> None"
        by auto
      moreover from this(1) have "obj_key meta x \<notin> obj_key meta ` set ys"
        using \<open>obj_key meta x \<notin> obj_key meta ` set xs\<close> by blast
      ultimately show ?thesis
        using False Inr
        by (auto simp: tracker_Delete_Cons store_of_Cons keys_unique_def fun_upd_twist
            simp del: tracker_Delete.simps)
    qed
  qed
qed simp

lemma store_of_snoc:
  "store_of meta objs (obj_key meta ob) = None \<Longrightarrow>
     store_of meta (objs @ [ob]) = (store_of meta objs)(obj_key meta ob \<mapsto> ob)"
  by (induction objs) (auto simp: store_of_Cons fun_upd_twist split: if_splits)

text \<open>One kind of objects of the tracker, seen through its place in the server's state.\<close>

locale tracked_kind =
  fixes meta :: "'o \<Rightarrow> ObjectMeta"
    and with_ns :: "string \<Rightarrow> 'o \<Rightarrow> 'o"
    and get :: "tracker \<Rightarrow> 'o list"
    and put :: "'o list \<Rightarrow> tracker \<Rightarrow> tracker"
    and sel :: "cluster \<Rightarrow> 'o store"
    and upd :: "('o store \<Rightarrow> 'o store) \<Rightarrow> cluster \<Rightarrow> cluster"
  assumes sel_abs: "sel (tracker_abs t) = store_of meta (get t)"
    and abs_put: "tracker_abs (put objs t) = upd (\<lambda>_. store_of meta objs) (tracker_abs t)"
    and upd_cong: "upd f c = upd (\<lambda>_. f (sel c)) c"
    and lens: "sel (upd f c) = f (sel c)"
    and inv_get: "tracker_inv t \<Longrightarrow> keys_unique meta (get t)"
    and inv_put: "tracker_inv t \<Longrightarrow> keys_unique meta objs \<Longrightarrow> tracker_inv (put objs t)"
    and name_with_ns: "om_Name (meta (with_ns ns ob)) = om_Name (meta ob)"
    and namespace_with_ns: "om_Namespace (meta (with_ns ns ob)) = ns"
    and with_same_ns: "om_Namespace (meta ob) = ns \<Longrightarrow> with_ns ns ob = ob"
begin

lemma key_with_ns: "obj_key meta (with_ns ns ob) = (ns, om_Name (meta ob))"
  by (simp add: obj_key_def name_with_ns namespace_with_ns)

lemma tracker_add_eq:
  "om_Namespace (meta ob) \<in> {'''', ns} \<Longrightarrow>
   tracker_add meta with_ns objs ob ns replaceExisting
     = tracker_put meta (with_ns ns ob) replaceExisting objs"
  by (auto simp: tracker_add_def Let_def namespace_with_ns with_same_ns)

lemma tracker_Create:
  assumes "tracker_inv t" "ns \<noteq> ''''" "om_Name (meta ob) \<noteq> ''''" "om_Namespace (meta ob) \<in> {'''', ns}"
  shows "tracker_write meta with_ns get put False ns ob t =
    (case store_of meta (get t) (ns, om_Name (meta ob)) of
       None \<Rightarrow> (Return (with_ns ns ob), put (get t @ [with_ns ns ob]) t)
     | Some _ \<Rightarrow> (Error (AlreadyExists (om_Name (meta ob))), t))"
    and "store_of meta (get t) (ns, om_Name (meta ob)) = None \<Longrightarrow>
      keys_unique meta (get t @ [with_ns ns ob])
      \<and> store_of meta (get t @ [with_ns ns ob])
        = (store_of meta (get t))((ns, om_Name (meta ob)) \<mapsto> with_ns ns ob)"
proof -
  let ?k = "(ns, om_Name (meta ob))" and ?objs = "get t @ [with_ns ns ob]"
  have unique: "keys_unique meta (get t)"
    using assms(1) by (rule inv_get)
  have fresh: "keys_unique meta ?objs
      \<and> store_of meta ?objs = (store_of meta (get t))(?k \<mapsto> with_ns ns ob)"
    if none: "store_of meta (get t) ?k = None"
  proof
    show "keys_unique meta ?objs"
      using unique none by (auto simp: keys_unique_def store_of_None key_with_ns)
    show "store_of meta ?objs = (store_of meta (get t))(?k \<mapsto> with_ns ns ob)"
      using none store_of_snoc [of meta "get t" "with_ns ns ob"] by (simp add: key_with_ns)
  qed
  then show "store_of meta (get t) ?k = None \<Longrightarrow> keys_unique meta ?objs
      \<and> store_of meta ?objs = (store_of meta (get t))(?k \<mapsto> with_ns ns ob)" .
  show "tracker_write meta with_ns get put False ns ob t =
    (case store_of meta (get t) ?k of
       None \<Rightarrow> (Return (with_ns ns ob), put ?objs t)
     | Some _ \<Rightarrow> (Error (AlreadyExists (om_Name (meta ob))), t))"
    using fresh assms(2,3)
    by (auto simp: tracker_write_def tracker_add_eq [OF assms(4)] tracker_put_create key_with_ns
        name_with_ns tracker_Get_eq split: option.splits)
qed

lemma tracker_Update:
  assumes "tracker_inv t" "ns \<noteq> ''''" "om_Name (meta ob) \<noteq> ''''" "om_Namespace (meta ob) \<in> {'''', ns}"
  obtains (missing) "store_of meta (get t) (ns, om_Name (meta ob)) = None"
      "tracker_write meta with_ns get put True ns ob t = (Error (NotFound (om_Name (meta ob))), t)"
  | (found) objs old where "store_of meta (get t) (ns, om_Name (meta ob)) = Some old"
      "tracker_write meta with_ns get put True ns ob t = (Return (with_ns ns ob), put objs t)"
      "keys_unique meta objs"
      "store_of meta objs = (store_of meta (get t))((ns, om_Name (meta ob)) \<mapsto> with_ns ns ob)"
proof -
  have unique: "keys_unique meta (get t)"
    using assms(1) by (rule inv_get)
  note put = tracker_put_update [OF unique, of "with_ns ns ob", unfolded key_with_ns name_with_ns]
  show thesis
  proof (cases "tracker_put meta (with_ns ns ob) True (get t)")
    case (Inl e)
    with put show thesis
      by (intro missing) (auto simp: tracker_write_def tracker_add_eq [OF assms(4)])
  next
    case (Inr objs)
    with put obtain old where old: "store_of meta (get t) (ns, om_Name (meta ob)) = Some old"
      and keys: "map (obj_key meta) objs = map (obj_key meta) (get t)"
      and store: "store_of meta objs = (store_of meta (get t))((ns, om_Name (meta ob)) \<mapsto> with_ns ns ob)"
      by auto
    from keys unique have objs: "keys_unique meta objs"
      by (simp add: keys_unique_def)
    have "tracker_write meta with_ns get put True ns ob t = (Return (with_ns ns ob), put objs t)"
      using Inr store assms(2,3)
      by (simp add: tracker_write_def tracker_add_eq [OF assms(4)] tracker_Get_eq [OF objs])
    with old show thesis by (rule found) (fact objs, fact store)
  qed
qed

lemma tracker_delete_run:
  assumes "tracker_inv t" "ns \<noteq> ''''" "n \<noteq> ''''"
  obtains (missing) "store_of meta (get t) (ns, n) = None" "tracker_Delete meta (get t) ns n = Inl (NotFound n)"
  | (found) objs old where "store_of meta (get t) (ns, n) = Some old"
      "tracker_Delete meta (get t) ns n = Inr objs" "keys_unique meta objs"
      "store_of meta objs = (store_of meta (get t))((ns, n) := None)"
  using tracker_Delete_eq [OF inv_get [OF assms(1)], of ns n]
  by (cases "tracker_Delete meta (get t) ns n") auto

lemma tracker_List:
  assumes "tracker_inv t" "ns \<noteq> ''''"
  shows "set (filterByNamespaceAndName meta (get t) ns '''')
      = {ob. \<exists>n. store_of meta (get t) (ns, n) = Some ob}"
    and "distinct (map (om_Name \<circ> meta) (filterByNamespaceAndName meta (get t) ns ''''))"
proof -
  have unique: "keys_unique meta (get t)"
    using assms(1) by (rule inv_get)
  show "set (filterByNamespaceAndName meta (get t) ns '''')
      = {ob. \<exists>n. store_of meta (get t) (ns, n) = Some ob}"
    using assms(2) by (auto simp: filterByNamespaceAndName_def store_of_Some [OF unique] obj_key_def)
  have "distinct (map (obj_key meta) (filter (\<lambda>ob. om_Namespace (meta ob) = ns) (get t)))"
    using unique by (simp add: keys_unique_def distinct_map_filter)
  then have "distinct (map (om_Name \<circ> meta) (filter (\<lambda>ob. om_Namespace (meta ob) = ns) (get t)))"
    by (auto simp: distinct_map inj_on_def obj_key_def)
  with assms(2) show "distinct (map (om_Name \<circ> meta) (filterByNamespaceAndName meta (get t) ns ''''))"
    by (simp add: filterByNamespaceAndName_def)
qed

end

sublocale tracked_kind \<subseteq> kube_resource "tracker_resource meta with_ns get put" meta with_ns sel upd
  tracker_abs tracker_inv
proof (unfold_locales, goal_cases)
  case (1 w ns n)
  then show ?case
    by (simp add: tracker_resource_def sel_abs tracker_Get_eq inv_get go_lift_def split: option.splits)
next
  case (2 w ns)
  then show ?case
    using tracker_List [of w ns]
    by (simp add: tracker_resource_def sel_abs selector_matches_def)
next
  case (3 w ns v)
  then show ?case
    using tracker_List(1) [of w ns]
    by (auto simp: tracker_resource_def sel_abs selector_matches_def)
next
  case (4 w ns ob)
  then show ?case
    using tracker_Create [of w ns ob] upd_cong [of "\<lambda>st. st((ns, om_Name (meta ob)) \<mapsto> with_ns ns ob)" "tracker_abs w"]
    by (auto simp: tracker_resource_def sel_abs abs_put inv_put split: option.splits)
next
  case (5 w ns ob)
  have eq: "upd (\<lambda>st. st((ns, om_Name (meta ob)) \<mapsto> with_ns ns ob)) (tracker_abs w)
    = upd (\<lambda>_. (store_of meta (get w))((ns, om_Name (meta ob)) \<mapsto> with_ns ns ob)) (tracker_abs w)"
    using upd_cong [of "\<lambda>st. st((ns, om_Name (meta ob)) \<mapsto> with_ns ns ob)" "tracker_abs w"]
    by (simp add: sel_abs)
  show ?case
    by (rule tracker_Update [OF 5])
      (simp_all add: tracker_resource_def sel_abs abs_put inv_put [OF 5(1)] 5(1) eq)
next
  case (6 w ns n pol)
  have eq: "upd (\<lambda>st. st((ns, n) := None)) (tracker_abs w)
    = upd (\<lambda>_. (store_of meta (get w))((ns, n) := None)) (tracker_abs w)"
    using upd_cong [of "\<lambda>st. st((ns, n) := None)" "tracker_abs w"] by (simp add: sel_abs)
  show ?case
    by (rule tracker_delete_run [OF 6])
      (simp_all add: tracker_resource_def sel_abs abs_put inv_put [OF 6(1)] 6(1) eq)
next
  case (7 w ns n ob)
  then show ?case
    by (auto simp: sel_abs store_of_Some [OF inv_get] obj_key_def)
next
  case (8 f c)
  show ?case by (rule lens)
qed

interpretation tss: tracked_kind ss_Meta ss_with_ns tr_StatefulSets "\<lambda>v. tr_StatefulSets_update (\<lambda>_. v)"
  c_StatefulSets c_StatefulSets_update
  by unfold_locales (auto simp: tracker_abs_def tracker_inv_def ss_with_ns_def)

interpretation tsvc: tracked_kind svc_Meta svc_with_ns tr_Services "\<lambda>v. tr_Services_update (\<lambda>_. v)"
  c_Services c_Services_update
  by unfold_locales (auto simp: tracker_abs_def tracker_inv_def svc_with_ns_def)

interpretation ting: tracked_kind ing_Meta ing_with_ns tr_Ingresses "\<lambda>v. tr_Ingresses_update (\<lambda>_. v)"
  c_Ingresses c_Ingresses_update
  by unfold_locales (auto simp: tracker_abs_def tracker_inv_def ing_with_ns_def)

interpretation tjob: tracked_kind job_Meta job_with_ns tr_Jobs "\<lambda>v. tr_Jobs_update (\<lambda>_. v)"
  c_Jobs c_Jobs_update
  by unfold_locales (auto simp: tracker_abs_def tracker_inv_def job_with_ns_def)

lemma tracker_resource_settles: "calls_settle (tracker_resource meta with_ns get put)"
  by (simp add: calls_settle_def tracker_resource_def tracker_write_def split: sum.split)

lemma tracker_client_settles:
  "calls_settle (StatefulSets tracker_client)" "calls_settle (Services tracker_client)"
  "calls_settle (Ingresses tracker_client)" "calls_settle (Jobs tracker_client)"
  by (simp_all add: tracker_client_def tracker_resource_settles)

interpretation tk: kube_cluster tracker_client tracker_abs tracker_inv tracker_chan
  by (intro kube_cluster.intro kube_cluster_axioms.intro)
    (simp_all add: tracker_client_def tracker_chan_def tracker_abs_def tracker_inv_def
      tss.kube_resource_axioms tsvc.kube_resource_axioms ting.kube_resource_axioms
      tjob.kube_resource_axioms)

end
