(* ===== verification/Service_Manager.thy ===== *)
theory Service_Manager
  imports Object_Tracker
begin

text \<open>
  The services of an app and the routes announced for them: \<^verbatim>\<open>k8s/service.go\<close> and \<^verbatim>\<open>k8s/routes.go\<close>.

  Every app has a routable service, whose annotation \<^verbatim>\<open>routes\<close> holds the app's URIs as JSON, and a
  headless one. \<open>serviceManager\<close> creates, updates and deletes them and hands every change of routes
  to the route emitter over a channel; \<open>ListRoutes\<close> reads the announced routes back from the cluster.

  The lemmas: which names the two regular expressions accept; the difference of two route lists;
  a route list survives the annotation; in a cluster that keeps its promises, what each operation
  stores and sends (\<open>context kube_cluster\<close>); for any client at all, that an update cannot panic.
\<close>

section \<open>Interfaces\<close>

record 'w ServiceManager =
  svm_Create :: "LRP \<Rightarrow> ('w, unit) go"
  svm_CreateHeadless :: "LRP \<Rightarrow> ('w, unit) go"
  svm_Update :: "LRP \<Rightarrow> ('w, unit) go"
  svm_Delete :: "string \<Rightarrow> ('w, unit) go"
  svm_DeleteHeadless :: "string \<Rightarrow> ('w, unit) go"

record 'w serviceManager =
  sm_client :: "'w kubernetes_Interface"
  sm_namespace :: string
  sm_routesChan :: "(Routes list, 'w) chan"

section \<open>Regular expressions\<close>

text \<open>The forms of the two expressions of the package: anchors, a character, and any run without newline.\<close>

datatype re_item = ReBegin | ReEnd | ReChar char | ReAnyStar

fun match_here :: "re_item list \<Rightarrow> bool \<Rightarrow> string \<Rightarrow> bool" where
  "match_here [] start s = True"
| "match_here (ReBegin # r) start s = (start \<and> match_here r start s)"
| "match_here (ReEnd # r) start s = (s = [] \<and> match_here r start s)"
| "match_here (ReChar c # r) start s =
     (case s of [] \<Rightarrow> False | d # s' \<Rightarrow> c = d \<and> match_here r False s')"
| "match_here (ReAnyStar # r) start s =
     (match_here r start s
      \<or> (case s of [] \<Rightarrow> False | d # s' \<Rightarrow> d \<noteq> CHR 0x0A \<and> match_here (ReAnyStar # r) False s'))"

fun match_from :: "re_item list \<Rightarrow> bool \<Rightarrow> string \<Rightarrow> bool" where
  "match_from r start [] = match_here r start []"
| "match_from r start (c # s) = (match_here r start (c # s) \<or> match_from r False s)"

definition matchRegex :: "string \<Rightarrow> re_item list \<Rightarrow> bool" where
  "matchRegex subject r = match_from r True subject"

definition isHeadless :: "string \<Rightarrow> bool" where
  "isHeadless s = matchRegex s (map ReChar ''headless'' @ [ReEnd])"

definition isCFService :: "string \<Rightarrow> bool" where
  "isCFService s = matchRegex s (ReBegin # map ReChar ''cf-'' @ [ReAnyStar, ReEnd])"

section \<open>Routes\<close>

definition decodeRoutes :: "string \<Rightarrow> go_error + string list" where
  "decodeRoutes s = (case unmarshal (dec_list dec_string '''') (Some []) s of
      Inl e \<Rightarrow> Inl e
    | Inr None \<Rightarrow> Inr []
    | Inr (Some uris) \<Rightarrow> Inr uris)"

fun sliceToMap :: "string list \<Rightarrow> (string \<times> bool) list \<Rightarrow> (string \<times> bool) list" where
  "sliceToMap [] result = result"
| "sliceToMap (e # es) result = sliceToMap es (AList.update e True result)"

fun collectUnregistered :: "(string \<times> bool) list \<Rightarrow> string list \<Rightarrow> string list \<Rightarrow> string list" where
  "collectUnregistered updatedMap [] unregistered = unregistered"
| "collectUnregistered updatedMap (e # es) unregistered =
     collectUnregistered updatedMap es
       (if map_of updatedMap e = None then unregistered @ [e] else unregistered)"

definition getUnregisteredRoutes :: "string list \<Rightarrow> string list \<Rightarrow> string list" where
  "getUnregisteredRoutes existing updated = collectUnregistered (sliceToMap updated []) existing []"

section \<open>Services of an app\<close>

definition toService :: "LRP \<Rightarrow> Service" where
  "toService lrp =
     \<lparr>svc_Meta = \<lparr>om_Name = GetInternalServiceName (Name lrp), om_Namespace = '''',
        om_Labels = [(''name'', Name lrp)],
        om_Annotations = Some [(RegisteredRoutes, nilmap_index (Metadata lrp) VcapAppUris)]\<rparr>,
      svc_ClusterIP = '''',
      svc_Ports = [\<lparr>sp_Name = ''service'', sp_Port = 8080\<rparr>],
      svc_Selector = [(''name'', Name lrp)]\<rparr>"

definition toHeadlessService :: "LRP \<Rightarrow> Service" where
  "toHeadlessService lrp =
     \<lparr>svc_Meta = \<lparr>om_Name = GetInternalHeadlessServiceName (Name lrp), om_Namespace = '''',
        om_Labels = [(''name'', Name lrp)], om_Annotations = None\<rparr>,
      svc_ClusterIP = ''None'',
      svc_Ports = [\<lparr>sp_Name = ''service'', sp_Port = 8080\<rparr>],
      svc_Selector = [(''name'', Name lrp)]\<rparr>"

definition serviceManager_Create :: "'w serviceManager \<Rightarrow> LRP \<Rightarrow> ('w, unit) go" where
  "serviceManager_Create m lrp =
     go_bind (rc_Create (Services (sm_client m)) (sm_namespace m) (toService lrp)) (\<lambda>s.
     go_bind (go_lift (decodeRoutes (nilmap_index (om_Annotations (svc_Meta s)) RegisteredRoutes))) (\<lambda>registeredRoutes.
     chan_send (sm_routesChan m)
       [\<lparr>r_Routes = registeredRoutes, r_UnregisteredRoutes = [], r_Name = om_Name (svc_Meta s)\<rparr>]))"

definition serviceManager_CreateHeadless :: "'w serviceManager \<Rightarrow> LRP \<Rightarrow> ('w, unit) go" where
  "serviceManager_CreateHeadless m lrp =
     go_bind (rc_Create (Services (sm_client m)) (sm_namespace m) (toHeadlessService lrp)) (\<lambda>_.
     go_return ())"

definition serviceManager_Update :: "'w serviceManager \<Rightarrow> LRP \<Rightarrow> ('w, unit) go" where
  "serviceManager_Update m lrp =
     (let serviceName = GetInternalServiceName (Name lrp) in
      go_bind (rc_Get (Services (sm_client m)) (sm_namespace m) serviceName) (\<lambda>service.
      go_bind (go_lift (decodeRoutes (nilmap_index (om_Annotations (svc_Meta service)) RegisteredRoutes))) (\<lambda>registeredRoutes.
      go_bind (go_lift (decodeRoutes (nilmap_index (Metadata lrp) VcapAppUris))) (\<lambda>updatedRoutes.
      go_bind (nilmap_assign RegisteredRoutes (nilmap_index (Metadata lrp) VcapAppUris)
                 (om_Annotations (svc_Meta service))) (\<lambda>annotations.
      go_bind (rc_Update (Services (sm_client m)) (sm_namespace m)
                 (service\<lparr>svc_Meta := (svc_Meta service)\<lparr>om_Annotations := annotations\<rparr>\<rparr>)) (\<lambda>_.
      chan_send (sm_routesChan m)
        [\<lparr>r_Routes = updatedRoutes,
          r_UnregisteredRoutes = getUnregisteredRoutes registeredRoutes updatedRoutes,
          r_Name = serviceName\<rparr>]))))))"

definition serviceManager_Delete :: "'w serviceManager \<Rightarrow> string \<Rightarrow> ('w, unit) go" where
  "serviceManager_Delete m appName =
     (let serviceName = GetInternalServiceName appName in
      go_bind (rc_Get (Services (sm_client m)) (sm_namespace m) serviceName) (\<lambda>service.
      go_bind (go_lift (decodeRoutes (nilmap_index (om_Annotations (svc_Meta service)) RegisteredRoutes))) (\<lambda>existingRoutes.
      go_bind (chan_send (sm_routesChan m)
        [\<lparr>r_Routes = [], r_UnregisteredRoutes = existingRoutes, r_Name = serviceName\<rparr>]) (\<lambda>_.
      rc_Delete (Services (sm_client m)) (sm_namespace m) serviceName None))))"

definition serviceManager_DeleteHeadless :: "'w serviceManager \<Rightarrow> string \<Rightarrow> ('w, unit) go" where
  "serviceManager_DeleteHeadless m appName =
     (let serviceName = GetInternalHeadlessServiceName appName in
      rc_Delete (Services (sm_client m)) (sm_namespace m) serviceName None)"

definition NewServiceManager ::
  "'w kubernetes_Interface \<Rightarrow> string \<Rightarrow> (Routes list, 'w) chan \<Rightarrow> 'w ServiceManager" where
  "NewServiceManager client namespace routesChan =
     (let m = \<lparr>sm_client = client, sm_namespace = namespace, sm_routesChan = routesChan\<rparr> in
      \<lparr>svm_Create = serviceManager_Create m,
       svm_CreateHeadless = serviceManager_CreateHeadless m,
       svm_Update = serviceManager_Update m,
       svm_Delete = serviceManager_Delete m,
       svm_DeleteHeadless = serviceManager_DeleteHeadless m\<rparr>)"

section \<open>Listing the announced routes\<close>

record 'w ServiceRouteLister =
  srl_client :: "'w kubernetes_Interface"
  srl_namespace :: string

text \<open>The loop over the services, with the routes found so far.\<close>

fun listRoutes_loop :: "Service list \<Rightarrow> Routes list \<Rightarrow> go_error + Routes list" where
  "listRoutes_loop [] routes = Inr routes"
| "listRoutes_loop (s # services) routes =
     (if \<not> isCFService (om_Name (svc_Meta s)) \<or> isHeadless (om_Name (svc_Meta s))
      then listRoutes_loop services routes
      else (case decodeRoutes (nilmap_index (om_Annotations (svc_Meta s)) RegisteredRoutes) of
          Inl e \<Rightarrow> Inl e
        | Inr registered \<Rightarrow> listRoutes_loop services
            (routes @ [\<lparr>r_Routes = registered, r_UnregisteredRoutes = [], r_Name = om_Name (svc_Meta s)\<rparr>])))"

definition ListRoutes :: "'w ServiceRouteLister \<Rightarrow> ('w, Routes list) go" where
  "ListRoutes r =
     go_bind (rc_List (Services (srl_client r)) (srl_namespace r) '''') (\<lambda>services.
     go_lift (listRoutes_loop services []))"

section \<open>Names and routes\<close>

lemma match_here_chars:
  "match_here (map ReChar cs @ r) start s \<longleftrightarrow>
     (\<exists>s'. s = cs @ s' \<and> match_here r (start \<and> cs = []) s')"
  by (induction cs arbitrary: start s) (auto split: list.splits)

lemma match_here_any_to_end: "match_here [ReAnyStar, ReEnd] start s \<longleftrightarrow> CHR 0x0A \<notin> set s"
  by (induction s arbitrary: start) auto

lemma match_from_iff:
  "match_from r start s \<longleftrightarrow> match_here r start s \<or> (\<exists>c p t. s = c # p @ t \<and> match_here r False t)"
proof (induction s arbitrary: start)
  case (Cons c s)
  have "match_from r False s \<longleftrightarrow> (\<exists>p t. s = p @ t \<and> match_here r False t)"
    unfolding Cons.IH by (metis append_Cons append_Nil neq_Nil_conv)
  then show ?case by auto
qed simp

lemma suffix_iff_split: "suffix x s \<longleftrightarrow> s = x \<or> (\<exists>c p t. s = c # p @ t \<and> t = x)"
  unfolding suffix_def by (metis append_Cons append_Nil neq_Nil_conv)

lemma isHeadless_iff: "isHeadless s \<longleftrightarrow> suffix ''headless'' s"
proof -
  have "match_here (map ReChar ''headless'' @ [ReEnd]) start t \<longleftrightarrow> t = ''headless''" for start t
    unfolding match_here_chars by auto
  then show ?thesis
    unfolding isHeadless_def matchRegex_def match_from_iff suffix_iff_split by simp
qed

lemma isCFService_iff: "isCFService s \<longleftrightarrow> (\<exists>t. s = ''cf-'' @ t \<and> CHR 0x0A \<notin> set t)"
proof -
  have "match_here (ReBegin # map ReChar ''cf-'' @ [ReAnyStar, ReEnd]) start s \<longleftrightarrow>
    start \<and> (\<exists>t. s = ''cf-'' @ t \<and> CHR 0x0A \<notin> set t)" for start s
    unfolding match_here.simps(2) match_here_chars match_here_any_to_end by simp
  then show ?thesis
    unfolding isCFService_def matchRegex_def match_from_iff by auto
qed

text \<open>Of the two services of an app, exactly the routable one is listed.\<close>

lemma headless_not_listed: "isHeadless (GetInternalHeadlessServiceName a)"
proof -
  have "GetInternalHeadlessServiceName a = (''cf-'' @ a @ ''-'') @ ''headless''"
    by (simp add: GetInternalHeadlessServiceName_def)
  then show ?thesis
    unfolding isHeadless_iff suffix_def by blast
qed

lemma routable_listed:
  assumes "CHR 0x0A \<notin> set a" and "\<not> suffix ''headless'' a"
  shows "isCFService (GetInternalServiceName a)" and "\<not> isHeadless (GetInternalServiceName a)"
proof -
  show "isCFService (GetInternalServiceName a)"
    using assms(1) by (simp add: isCFService_iff GetInternalServiceName_def)
  show "\<not> isHeadless (GetInternalServiceName a)"
  proof
    assume "isHeadless (GetInternalServiceName a)"
    with assms(2) obtain p where p: "''headless'' = p @ a" and "suffix p ''cf-''"
      unfolding isHeadless_iff GetInternalServiceName_def suffix_append by auto
    moreover from p assms(2) have "p \<noteq> []" by auto
    ultimately have "last p = CHR ''-''"
      by (auto simp: suffix_def append_eq_Cons_conv Cons_eq_append_conv)
    with \<open>p \<noteq> []\<close> have "CHR ''-'' \<in> set ''headless''"
      unfolding p by (metis UnI1 last_in_set set_append)
    then show False by simp
  qed
qed

lemma map_of_sliceToMap:
  "map_of (sliceToMap es m) e = (if e \<in> set es then Some True else map_of m e)"
  by (induction es m rule: sliceToMap.induct) (auto simp: update_conv')

lemma collectUnregistered_eq:
  "collectUnregistered m es acc = acc @ filter (\<lambda>e. map_of m e = None) es"
  by (induction m es acc rule: collectUnregistered.induct) auto

lemma getUnregisteredRoutes_eq:
  "getUnregisteredRoutes existing updated = filter (\<lambda>e. e \<notin> set updated) existing"
  by (simp add: getUnregisteredRoutes_def collectUnregistered_eq map_of_sliceToMap)

lemma decodeRoutes_marshal:
  assumes "\<forall>u \<in> set uris. utf8_valid u"
  shows "decodeRoutes (marshal_strings (Some uris)) = Inr uris"
  using assms by (simp add: decodeRoutes_def unmarshal_marshal_strings del: marshal_strings.simps)

lemma decodeRoutes_null: "decodeRoutes (marshal_strings None) = Inr []"
  by (simp add: decodeRoutes_def unmarshal_marshal_strings del: marshal_strings.simps)

lemma decodeRoutes_empty_text: "decodeRoutes '''' = Inl SyntaxError"
  by (simp add: decodeRoutes_def unmarshal_def json_text_def parse_value.simps)

lemma listRoutes_loop_eq:
  "listRoutes_loop services acc =
     (case listRoutes_loop services [] of Inl e \<Rightarrow> Inl e | Inr rs \<Rightarrow> Inr (acc @ rs))"
proof (induction services arbitrary: acc)
  case (Cons s services)
  have "listRoutes_loop services (x @ y) = (case listRoutes_loop services y of
      Inl e \<Rightarrow> Inl e | Inr rs \<Rightarrow> Inr (x @ rs))" for x y
    using Cons.IH [of "x @ y"] Cons.IH [of y] by (auto split: sum.splits)
  from this [of acc] Cons.IH [of acc] show ?case
    by (simp split: sum.splits)
qed simp

text \<open>The routes announced by one service, if it is a routable service with a readable annotation.\<close>

definition announced :: "Service \<Rightarrow> Routes \<Rightarrow> bool" where
  "announced s r \<longleftrightarrow> isCFService (om_Name (svc_Meta s)) \<and> \<not> isHeadless (om_Name (svc_Meta s))
     \<and> r_Name r = om_Name (svc_Meta s) \<and> r_UnregisteredRoutes r = []
     \<and> decodeRoutes (nilmap_index (om_Annotations (svc_Meta s)) RegisteredRoutes) = Inr (r_Routes r)"

lemma announced_inject: "announced s r \<Longrightarrow> announced s r' \<Longrightarrow> r = r'"
  by (cases r; cases r') (auto simp: announced_def)

lemma listRoutes_loop_ConsE:
  assumes "listRoutes_loop (s # services) [] = Inr rs"
    and "\<not> (\<not> isCFService (om_Name (svc_Meta s)) \<or> isHeadless (om_Name (svc_Meta s)))"
  obtains r rs' where "r_Name r = om_Name (svc_Meta s)" and "listRoutes_loop services [] = Inr rs'"
    and "rs = r # rs'" and "announced s = (\<lambda>r'. r' = r)"
proof -
  obtain uris where uris:
    "decodeRoutes (nilmap_index (om_Annotations (svc_Meta s)) RegisteredRoutes) = Inr uris"
    using assms by (auto split: sum.splits)
  let ?r = "\<lparr>r_Routes = uris, r_UnregisteredRoutes = [], r_Name = om_Name (svc_Meta s)\<rparr>"
  have "listRoutes_loop services [?r] = Inr rs"
    using assms uris by simp
  then obtain rs' where "listRoutes_loop services [] = Inr rs'" and "rs = ?r # rs'"
    by (subst (asm) listRoutes_loop_eq) (auto split: sum.splits)
  moreover have "announced s r' \<longleftrightarrow> r' = ?r" for r'
    using assms(2) uris by (cases r') (auto simp: announced_def)
  then have "announced s = (\<lambda>r'. r' = ?r)" by (rule ext)
  ultimately show thesis by (intro that [of ?r]) simp_all
qed

lemma listRoutes_loop_set:
  "listRoutes_loop services [] = Inr rs \<Longrightarrow> set rs = {r. \<exists>s \<in> set services. announced s r}"
proof (induction services arbitrary: rs)
  case (Cons s services)
  show ?case
  proof (cases "\<not> isCFService (om_Name (svc_Meta s)) \<or> isHeadless (om_Name (svc_Meta s))")
    case True
    with Cons show ?thesis by (auto simp: announced_def)
  next
    case False
    with Cons.prems obtain r rs' where "r_Name r = om_Name (svc_Meta s)"
      and rs': "listRoutes_loop services [] = Inr rs'"
      and rs: "rs = r # rs'" and "announced s = (\<lambda>r'. r' = r)"
      by (rule listRoutes_loop_ConsE)
    with Cons.IH [OF rs'] show ?thesis by (auto simp: rs)
  qed
qed simp

lemma listRoutes_loop_names:
  "listRoutes_loop services [] = Inr rs \<Longrightarrow> distinct (map (om_Name \<circ> svc_Meta) services) \<Longrightarrow>
     distinct (map r_Name rs)"
proof (induction services arbitrary: rs)
  case (Cons s services)
  show ?case
  proof (cases "\<not> isCFService (om_Name (svc_Meta s)) \<or> isHeadless (om_Name (svc_Meta s))")
    case True
    with Cons show ?thesis by auto
  next
    case False
    with Cons.prems(1) obtain r rs' where r: "r_Name r = om_Name (svc_Meta s)"
      and rs': "listRoutes_loop services [] = Inr rs'" and rs: "rs = r # rs'"
      and "announced s = (\<lambda>r'. r' = r)"
      by (rule listRoutes_loop_ConsE)
    have "r_Name r \<notin> r_Name ` set rs'"
      using listRoutes_loop_set [OF rs'] Cons.prems(2) r by (auto simp: announced_def)
    with Cons.IH [OF rs'] Cons.prems(2) show ?thesis by (simp add: rs)
  qed
qed simp

lemma listRoutes_loop_total:
  assumes "\<forall>s \<in> set services. isCFService (om_Name (svc_Meta s)) \<longrightarrow> \<not> isHeadless (om_Name (svc_Meta s)) \<longrightarrow>
      (\<exists>uris. decodeRoutes (nilmap_index (om_Annotations (svc_Meta s)) RegisteredRoutes) = Inr uris)"
  shows "\<exists>rs. listRoutes_loop services acc = Inr rs"
  using assms by (induction services arbitrary: acc) auto

section \<open>The operations in a cluster that keeps its promises\<close>

abbreviation lrp_uris :: "LRP \<Rightarrow> string" where
  "lrp_uris lrp \<equiv> nilmap_index (Metadata lrp) VcapAppUris"

lemma toService_fields [simp]:
  "om_Name (svc_Meta (toService lrp)) = GetInternalServiceName (Name lrp)"
  "om_Namespace (svc_Meta (toService lrp)) = ''''"
  "om_Annotations (svc_Meta (toService lrp)) = Some [(RegisteredRoutes, lrp_uris lrp)]"
  "om_Name (svc_Meta (toHeadlessService lrp)) = GetInternalHeadlessServiceName (Name lrp)"
  "om_Namespace (svc_Meta (toHeadlessService lrp)) = ''''"
  "om_Annotations (svc_Meta (toHeadlessService lrp)) = None"
  by (simp_all add: toService_def toHeadlessService_def)

lemma service_names_nonempty [simp]:
  "GetInternalServiceName a \<noteq> []" "GetInternalHeadlessServiceName a \<noteq> []"
  by (simp_all add: GetInternalServiceName_def GetInternalHeadlessServiceName_def)

context kube_cluster
begin

lemma Create_service:
  assumes "inv w" and "ns \<noteq> ''''"
    and "c_Services (abs w) (ns, GetInternalServiceName (Name lrp)) = None"
    and "decodeRoutes (lrp_uris lrp) = Inr routes"
  obtains w' where "svm_Create (NewServiceManager cl ns ch) lrp w = (Return (), w')" and "inv w'"
    and "abs w' = (abs w)\<lparr>
      c_Services := (c_Services (abs w))((ns, GetInternalServiceName (Name lrp)) \<mapsto> svc_with_ns ns (toService lrp)),
      c_sent := c_sent (abs w) @ [[\<lparr>r_Routes = routes, r_UnregisteredRoutes = [], r_Name = GetInternalServiceName (Name lrp)\<rparr>]]\<rparr>"
proof -
  obtain w1 where w1: "rc_Create (Services cl) ns (toService lrp) w = (Return (svc_with_ns ns (toService lrp)), w1)"
    and "inv w1"
    and abs1: "abs w1 = c_Services_update (\<lambda>st. st((ns, GetInternalServiceName (Name lrp)) \<mapsto> svc_with_ns ns (toService lrp))) (abs w)"
    by (rule svc.Create_fresh [of w ns "toService lrp"]) (use assms in auto)
  obtain w2 where "chan_send ch [\<lparr>r_Routes = routes, r_UnregisteredRoutes = [], r_Name = GetInternalServiceName (Name lrp)\<rparr>] w1
      = (Return (), w2)" and "inv w2"
    and abs2: "abs w2 = (abs w1)\<lparr>c_sent := c_sent (abs w1)
      @ [[\<lparr>r_Routes = routes, r_UnregisteredRoutes = [], r_Name = GetInternalServiceName (Name lrp)\<rparr>]]\<rparr>"
    by (rule send_run [OF \<open>inv w1\<close>])
  with w1 assms(4) have "svm_Create (NewServiceManager cl ns ch) lrp w = (Return (), w2)"
    by (simp add: NewServiceManager_def serviceManager_Create_def Let_def go_simps)
  then show thesis
    using \<open>inv w2\<close> by (rule that) (simp add: abs1 abs2)
qed

lemma CreateHeadless_service:
  assumes "inv w" and "ns \<noteq> ''''"
    and "c_Services (abs w) (ns, GetInternalHeadlessServiceName (Name lrp)) = None"
  obtains w' where "svm_CreateHeadless (NewServiceManager cl ns c) lrp w = (Return (), w')" and "inv w'"
    and "abs w' = (abs w)\<lparr>c_Services := (c_Services (abs w))
      ((ns, GetInternalHeadlessServiceName (Name lrp)) \<mapsto> svc_with_ns ns (toHeadlessService lrp))\<rparr>"
proof -
  obtain w1 where w1: "rc_Create (Services cl) ns (toHeadlessService lrp) w
      = (Return (svc_with_ns ns (toHeadlessService lrp)), w1)" and "inv w1"
    and abs1: "abs w1 = c_Services_update
      (\<lambda>st. st((ns, GetInternalHeadlessServiceName (Name lrp)) \<mapsto> svc_with_ns ns (toHeadlessService lrp))) (abs w)"
    by (rule svc.Create_fresh [of w ns "toHeadlessService lrp"]) (use assms in auto)
  then have "svm_CreateHeadless (NewServiceManager cl ns c) lrp w = (Return (), w1)"
    by (simp add: NewServiceManager_def serviceManager_CreateHeadless_def Let_def go_simps)
  then show thesis
    using \<open>inv w1\<close> by (rule that) (simp add: abs1)
qed

lemma Update_service:
  assumes "inv w" and "ns \<noteq> ''''"
    and found: "c_Services (abs w) (ns, GetInternalServiceName (Name lrp)) = Some s"
    and ann: "om_Annotations (svc_Meta s) = Some m"
    and old: "decodeRoutes (map_index m RegisteredRoutes) = Inr registered"
    and new: "decodeRoutes (lrp_uris lrp) = Inr updated"
  obtains w' where "svm_Update (NewServiceManager cl ns ch) lrp w = (Return (), w')" and "inv w'"
    and "abs w' = (abs w)\<lparr>
      c_Services := (c_Services (abs w))((ns, GetInternalServiceName (Name lrp)) \<mapsto>
        s\<lparr>svc_Meta := (svc_Meta s)\<lparr>om_Annotations := Some (map_assign RegisteredRoutes (lrp_uris lrp) m)\<rparr>\<rparr>),
      c_sent := c_sent (abs w) @ [[\<lparr>r_Routes = updated,
        r_UnregisteredRoutes = getUnregisteredRoutes registered updated,
        r_Name = GetInternalServiceName (Name lrp)\<rparr>]]\<rparr>"
proof -
  let ?n = "GetInternalServiceName (Name lrp)"
  let ?s = "s\<lparr>svc_Meta := (svc_Meta s)\<lparr>om_Annotations := Some (map_assign RegisteredRoutes (lrp_uris lrp) m)\<rparr>\<rparr>"
  have key: "om_Name (svc_Meta s) = ?n" "om_Namespace (svc_Meta s) = ns"
    using svc.stored_name [OF assms(1) found] by simp_all
  then have same: "svc_with_ns ns ?s = ?s"
    by (simp add: svc_with_ns_def)
  have "rc_Get (Services cl) ns ?n w = (Return s, w)"
    using svc.Get_found [OF assms(1,2) _ found] by simp
  moreover obtain w1 where "rc_Update (Services cl) ns ?s w = (Return ?s, w1)" and "inv w1"
    and abs1: "abs w1 = c_Services_update (\<lambda>st. st((ns, ?n) \<mapsto> ?s)) (abs w)"
    by (rule svc.Update_found [of w ns ?s s, unfolded same]) (use assms key in auto)
  moreover obtain w2 where "chan_send ch [\<lparr>r_Routes = updated,
      r_UnregisteredRoutes = getUnregisteredRoutes registered updated, r_Name = ?n\<rparr>] w1 = (Return (), w2)"
    and "inv w2"
    and abs2: "abs w2 = (abs w1)\<lparr>c_sent := c_sent (abs w1) @ [[\<lparr>r_Routes = updated,
      r_UnregisteredRoutes = getUnregisteredRoutes registered updated, r_Name = ?n\<rparr>]]\<rparr>"
    by (rule send_run [OF \<open>inv w1\<close>])
  ultimately have "svm_Update (NewServiceManager cl ns ch) lrp w = (Return (), w2)"
    using old new by (simp add: NewServiceManager_def serviceManager_Update_def Let_def go_simps ann)
  then show thesis
    using \<open>inv w2\<close> by (rule that) (simp add: abs1 abs2)
qed

lemma Delete_service:
  assumes "inv w" and "ns \<noteq> ''''"
    and found: "c_Services (abs w) (ns, GetInternalServiceName a) = Some s"
    and old: "decodeRoutes (nilmap_index (om_Annotations (svc_Meta s)) RegisteredRoutes) = Inr existing"
  obtains w' where "svm_Delete (NewServiceManager cl ns ch) a w = (Return (), w')" and "inv w'"
    and "abs w' = (abs w)\<lparr>
      c_Services := (c_Services (abs w))((ns, GetInternalServiceName a) := None),
      c_sent := c_sent (abs w) @ [[\<lparr>r_Routes = [], r_UnregisteredRoutes = existing,
        r_Name = GetInternalServiceName a\<rparr>]]\<rparr>"
proof -
  let ?n = "GetInternalServiceName a"
  have get: "rc_Get (Services cl) ns ?n w = (Return s, w)"
    using svc.Get_found [OF assms(1,2) _ found] by simp
  obtain w1 where w1: "chan_send ch [\<lparr>r_Routes = [], r_UnregisteredRoutes = existing, r_Name = ?n\<rparr>] w = (Return (), w1)"
    and "inv w1"
    and abs1: "abs w1 = (abs w)\<lparr>c_sent := c_sent (abs w)
      @ [[\<lparr>r_Routes = [], r_UnregisteredRoutes = existing, r_Name = ?n\<rparr>]]\<rparr>"
    by (rule send_run [OF \<open>inv w\<close>])
  obtain w2 where "rc_Delete (Services cl) ns ?n None w1 = (Return (), w2)" and "inv w2"
    and abs2: "abs w2 = c_Services_update (\<lambda>st. st((ns, ?n) := None)) (abs w1)"
    by (rule svc.Delete_found [OF \<open>inv w1\<close> assms(2), of ?n s None]) (use found abs1 in auto)
  with get w1 old have "svm_Delete (NewServiceManager cl ns ch) a w = (Return (), w2)"
    by (simp add: NewServiceManager_def serviceManager_Delete_def Let_def go_simps)
  then show thesis
    using \<open>inv w2\<close> by (rule that) (simp add: abs1 abs2)
qed

lemma Delete_service_missing:
  assumes "inv w" and "ns \<noteq> ''''" and "c_Services (abs w) (ns, GetInternalServiceName a) = None"
  shows "svm_Delete (NewServiceManager cl ns ch) a w = (Error (NotFound (GetInternalServiceName a)), w)"
  using svc.Get_missing [OF assms(1,2) _ assms(3)]
  by (simp add: NewServiceManager_def serviceManager_Delete_def Let_def go_simps)

lemma Update_service_missing:
  assumes "inv w" and "ns \<noteq> ''''" and "c_Services (abs w) (ns, GetInternalServiceName (Name lrp)) = None"
  shows "svm_Update (NewServiceManager cl ns ch) lrp w
    = (Error (NotFound (GetInternalServiceName (Name lrp))), w)"
  using svc.Get_missing [OF assms(1,2) _ assms(3)]
  by (simp add: NewServiceManager_def serviceManager_Update_def Let_def go_simps)

lemma DeleteHeadless_service:
  assumes "inv w" and "ns \<noteq> ''''"
    and "c_Services (abs w) (ns, GetInternalHeadlessServiceName a) = Some s"
  obtains w' where "svm_DeleteHeadless (NewServiceManager cl ns c) a w = (Return (), w')" and "inv w'"
    and "abs w' = (abs w)\<lparr>c_Services := (c_Services (abs w))((ns, GetInternalHeadlessServiceName a) := None)\<rparr>"
  by (rule svc.Delete_found [OF assms(1,2) _ assms(3), of None])
    (auto simp: NewServiceManager_def serviceManager_DeleteHeadless_def Let_def intro: that)

lemma ListRoutes_run:
  assumes "inv w" and "ns \<noteq> ''''"
    and readable: "\<And>n s. c_Services (abs w) (ns, n) = Some s \<Longrightarrow> isCFService n \<Longrightarrow> \<not> isHeadless n \<Longrightarrow>
      \<exists>uris. decodeRoutes (nilmap_index (om_Annotations (svc_Meta s)) RegisteredRoutes) = Inr uris"
  obtains rs where "ListRoutes \<lparr>srl_client = cl, srl_namespace = ns\<rparr> w = (Return rs, w)"
    and "set rs = {r. \<exists>n s. c_Services (abs w) (ns, n) = Some s \<and> announced s r}"
    and "distinct (map r_Name rs)"
proof -
  obtain obs where list: "rc_List (Services cl) ns '''' w = (Return obs, w)"
    and "distinct (map (om_Name \<circ> svc_Meta) obs)"
    and obs: "set obs = {ob. \<exists>n. c_Services (abs w) (ns, n) = Some ob}"
    using svc.List_law [OF assms(1,2)] by blast
  have "\<exists>rs. listRoutes_loop obs [] = Inr rs"
    by (rule listRoutes_loop_total) (use obs readable svc.stored_name [OF assms(1)] in fastforce)
  then obtain rs where rs: "listRoutes_loop obs [] = Inr rs" by blast
  show thesis
  proof
    show "ListRoutes \<lparr>srl_client = cl, srl_namespace = ns\<rparr> w = (Return rs, w)"
      by (simp add: ListRoutes_def go_simps list rs)
    show "set rs = {r. \<exists>n s. c_Services (abs w) (ns, n) = Some s \<and> announced s r}"
      using listRoutes_loop_set [OF rs] obs by blast
    show "distinct (map r_Name rs)"
      using rs \<open>distinct (map (om_Name \<circ> svc_Meta) obs)\<close> by (rule listRoutes_loop_names)
  qed
qed

end

section \<open>What the router knows\<close>

text \<open>
  The routes of every service as a router sees them that applies the batches handed to the emitter
  in order, each message first registering and then unregistering as \<^verbatim>\<open>emit\<close> of \<^verbatim>\<open>route/emitter.go\<close>
  publishes them; and the routes a service's annotation holds.
\<close>

definition apply_routes :: "Routes \<Rightarrow> (string \<Rightarrow> string set) \<Rightarrow> string \<Rightarrow> string set" where
  "apply_routes r v = v(r_Name r := (v (r_Name r) \<union> set (r_Routes r)) - set (r_UnregisteredRoutes r))"

definition router_view :: "Routes list list \<Rightarrow> string \<Rightarrow> string set" where
  "router_view batches = fold apply_routes (concat batches) (\<lambda>_. {})"

definition service_routes :: "Service \<Rightarrow> string set" where
  "service_routes s = (case decodeRoutes (nilmap_index (om_Annotations (svc_Meta s)) RegisteredRoutes) of
      Inl _ \<Rightarrow> {} | Inr rs \<Rightarrow> set rs)"

definition annotated_routes :: "cluster \<Rightarrow> string \<Rightarrow> string \<Rightarrow> string set" where
  "annotated_routes c ns n = (case c_Services c (ns, n) of None \<Rightarrow> {} | Some s \<Rightarrow> service_routes s)"

definition routes_in_sync :: "string \<Rightarrow> cluster \<Rightarrow> bool" where
  "routes_in_sync ns c \<longleftrightarrow> router_view (c_sent c) = annotated_routes c ns
     \<and> (\<forall>a. annotated_routes c ns (GetInternalHeadlessServiceName a) = {})"

text \<open>The calls of a service manager, and a sequence of them, each run whatever became of the ones before.\<close>

datatype service_op = OpCreate LRP | OpCreateHeadless LRP | OpUpdate LRP | OpDelete string | OpDeleteHeadless string

fun op_app :: "service_op \<Rightarrow> string" where
  "op_app (OpCreate lrp) = Name lrp"
| "op_app (OpCreateHeadless lrp) = Name lrp"
| "op_app (OpUpdate lrp) = Name lrp"
| "op_app (OpDelete a) = a"
| "op_app (OpDeleteHeadless a) = a"

fun run_service_op :: "'w ServiceManager \<Rightarrow> service_op \<Rightarrow> ('w, unit) go" where
  "run_service_op m (OpCreate lrp) = svm_Create m lrp"
| "run_service_op m (OpCreateHeadless lrp) = svm_CreateHeadless m lrp"
| "run_service_op m (OpUpdate lrp) = svm_Update m lrp"
| "run_service_op m (OpDelete a) = svm_Delete m a"
| "run_service_op m (OpDeleteHeadless a) = svm_DeleteHeadless m a"

definition run_service_ops :: "'w ServiceManager \<Rightarrow> service_op list \<Rightarrow> 'w \<Rightarrow> 'w" where
  "run_service_ops m ops w = fold (\<lambda>p w. snd (run_service_op m p w)) ops w"

lemma router_view_snoc: "router_view (bs @ [[r]]) = apply_routes r (router_view bs)"
  by (simp add: router_view_def)

lemma service_routes_simps:
  "decodeRoutes (nilmap_index (om_Annotations (svc_Meta s)) RegisteredRoutes) = Inr rs \<Longrightarrow> service_routes s = set rs"
  "decodeRoutes (nilmap_index (om_Annotations (svc_Meta s)) RegisteredRoutes) = Inl e \<Longrightarrow> service_routes s = {}"
  by (simp_all add: service_routes_def)

lemma service_routes_headless [simp]: "service_routes (svc_with_ns ns (toHeadlessService lrp)) = {}"
  by (simp add: service_routes_def decodeRoutes_empty_text)

text \<open>The effect of one message on a cluster that is in sync.\<close>

lemma sync_message:
  assumes sync: "routes_in_sync ns c" and "annotated_routes c ns n = R"
    and "(R \<union> set (r_Routes r)) - set (r_UnregisteredRoutes r) = annotated_routes c' ns n"
    and "\<And>m. m \<noteq> n \<Longrightarrow> annotated_routes c' ns m = annotated_routes c ns m"
    and "c_sent c' = c_sent c @ [[r]]" and "r_Name r = n"
    and "\<And>a. n \<noteq> GetInternalHeadlessServiceName a"
  shows "routes_in_sync ns c'"
proof -
  have "router_view (c_sent c') = annotated_routes c' ns"
  proof
    fix m
    show "router_view (c_sent c') m = annotated_routes c' ns m"
      using assms by (cases "m = n") (simp_all add: router_view_snoc apply_routes_def routes_in_sync_def)
  qed
  moreover have "annotated_routes c' ns (GetInternalHeadlessServiceName a) = {}" for a
    using assms(4) [OF assms(7) [symmetric]] sync by (simp add: routes_in_sync_def)
  ultimately show ?thesis by (simp add: routes_in_sync_def)
qed

lemma sync_silent:
  assumes "routes_in_sync ns c" and "annotated_routes c' ns = annotated_routes c ns" and "c_sent c' = c_sent c"
  shows "routes_in_sync ns c'"
  using assms by (simp add: routes_in_sync_def)

lemma routable_not_headless:
  "\<not> suffix ''-headless'' a \<Longrightarrow> GetInternalServiceName a \<noteq> GetInternalHeadlessServiceName b"
  by (auto simp: service_name_collision suffix_def)

context kube_cluster
begin

text \<open>One call keeps the router in sync, on every branch: also when the call ends in an error.\<close>

abbreviation kept :: "string \<Rightarrow> unit outcome \<times> 'w \<Rightarrow> bool" where
  "kept ns r \<equiv> settled (fst r) \<and> inv (snd r) \<and> routes_in_sync ns (abs (snd r))"

lemma Create_sync:
  assumes "inv w" "ns \<noteq> ''''" "routes_in_sync ns (abs w)" "\<not> suffix ''-headless'' (Name lrp)"
  shows "kept ns (svm_Create (NewServiceManager cl ns ch) lrp w)"
proof (cases "c_Services (abs w) (ns, GetInternalServiceName (Name lrp))")
  case (Some s)
  obtain w1 where "rc_Create (Services cl) ns (toService lrp) w
      = (Error (AlreadyExists (GetInternalServiceName (Name lrp))), w1)" and "inv w1" and "abs w1 = abs w"
    by (rule svc.Create_taken [of w ns "toService lrp" s]) (use assms Some in auto)
  with assms show ?thesis
    by (simp add: NewServiceManager_def serviceManager_Create_def Let_def go_simps)
next
  case None
  show ?thesis
  proof (cases "decodeRoutes (lrp_uris lrp)")
    case (Inr routes)
    obtain w' where run: "svm_Create (NewServiceManager cl ns ch) lrp w = (Return (), w')" "inv w'"
      and abs': "abs w' = (abs w)\<lparr>
        c_Services := (c_Services (abs w))((ns, GetInternalServiceName (Name lrp)) \<mapsto> svc_with_ns ns (toService lrp)),
        c_sent := c_sent (abs w) @ [[\<lparr>r_Routes = routes, r_UnregisteredRoutes = [], r_Name = GetInternalServiceName (Name lrp)\<rparr>]]\<rparr>"
      by (rule Create_service [OF assms(1,2) None Inr])
    have "routes_in_sync ns (abs w')"
      by (rule sync_message [OF assms(3), where n = "GetInternalServiceName (Name lrp)"])
        (auto simp: abs' annotated_routes_def None Inr service_routes_def routable_not_headless [OF assms(4)])
    with run show ?thesis by simp
  next
    case (Inl e)
    obtain w1 where w1: "rc_Create (Services cl) ns (toService lrp) w = (Return (svc_with_ns ns (toService lrp)), w1)"
      and "inv w1"
      and abs1: "abs w1 = c_Services_update (\<lambda>st. st((ns, GetInternalServiceName (Name lrp)) \<mapsto> svc_with_ns ns (toService lrp))) (abs w)"
      by (rule svc.Create_fresh [of w ns "toService lrp"]) (use assms None in auto)
    have "routes_in_sync ns (abs w1)"
      by (rule sync_silent [OF assms(3)])
        (auto simp: abs1 annotated_routes_def None Inl service_routes_def fun_eq_iff)
    with w1 \<open>inv w1\<close> Inl show ?thesis
      by (simp add: NewServiceManager_def serviceManager_Create_def Let_def go_simps)
  qed
qed

lemma CreateHeadless_sync:
  assumes "inv w" "ns \<noteq> ''''" "routes_in_sync ns (abs w)"
  shows "kept ns (svm_CreateHeadless (NewServiceManager cl ns c) lrp w)"
proof (cases "c_Services (abs w) (ns, GetInternalHeadlessServiceName (Name lrp))")
  case (Some s)
  obtain w1 where "rc_Create (Services cl) ns (toHeadlessService lrp) w
      = (Error (AlreadyExists (GetInternalHeadlessServiceName (Name lrp))), w1)" and "inv w1" and "abs w1 = abs w"
    by (rule svc.Create_taken [of w ns "toHeadlessService lrp" s]) (use assms Some in auto)
  with assms show ?thesis
    by (simp add: NewServiceManager_def serviceManager_CreateHeadless_def Let_def go_simps)
next
  case None
  obtain w' where run: "svm_CreateHeadless (NewServiceManager cl ns c) lrp w = (Return (), w')" "inv w'"
    and abs': "abs w' = (abs w)\<lparr>c_Services := (c_Services (abs w))
      ((ns, GetInternalHeadlessServiceName (Name lrp)) \<mapsto> svc_with_ns ns (toHeadlessService lrp))\<rparr>"
    by (rule CreateHeadless_service [OF assms(1,2) None])
  have "routes_in_sync ns (abs w')"
    by (rule sync_silent [OF assms(3)]) (auto simp: abs' annotated_routes_def None fun_eq_iff)
  with run show ?thesis by simp
qed

lemma Update_sync:
  assumes "inv w" "ns \<noteq> ''''" "routes_in_sync ns (abs w)" "\<not> suffix ''-headless'' (Name lrp)"
  shows "kept ns (svm_Update (NewServiceManager cl ns ch) lrp w)"
proof (cases "c_Services (abs w) (ns, GetInternalServiceName (Name lrp))")
  case None
  then show ?thesis using Update_service_missing [OF assms(1,2) None] assms by simp
next
  case (Some s)
  let ?old = "decodeRoutes (nilmap_index (om_Annotations (svc_Meta s)) RegisteredRoutes)"
  have get: "rc_Get (Services cl) ns (GetInternalServiceName (Name lrp)) w = (Return s, w)"
    using svc.Get_found [OF assms(1,2) _ Some] by simp
  show ?thesis
  proof (cases "(\<exists>e. ?old = Inl e) \<or> (\<exists>e. decodeRoutes (lrp_uris lrp) = Inl e)")
    case True
    then have "snd (svm_Update (NewServiceManager cl ns ch) lrp w) = w \<and>
        settled (fst (svm_Update (NewServiceManager cl ns ch) lrp w))"
      by (cases ?old) (auto simp: NewServiceManager_def serviceManager_Update_def Let_def get go_simps)
    with assms show ?thesis by simp
  next
    case False
    then obtain registered updated where old: "?old = Inr registered" and new: "decodeRoutes (lrp_uris lrp) = Inr updated"
      by (metis sumE)
    then obtain m where m: "om_Annotations (svc_Meta s) = Some m"
      by (cases "om_Annotations (svc_Meta s)") (auto simp: decodeRoutes_empty_text)
    with old have old': "decodeRoutes (map_index m RegisteredRoutes) = Inr registered" by simp
    obtain w' where run: "svm_Update (NewServiceManager cl ns ch) lrp w = (Return (), w')" "inv w'"
      and abs': "abs w' = (abs w)\<lparr>
      c_Services := (c_Services (abs w))((ns, GetInternalServiceName (Name lrp)) \<mapsto>
        s\<lparr>svc_Meta := (svc_Meta s)\<lparr>om_Annotations := Some (map_assign RegisteredRoutes (lrp_uris lrp) m)\<rparr>\<rparr>),
      c_sent := c_sent (abs w) @ [[\<lparr>r_Routes = updated,
        r_UnregisteredRoutes = getUnregisteredRoutes registered updated,
        r_Name = GetInternalServiceName (Name lrp)\<rparr>]]\<rparr>"
      by (rule Update_service [OF assms(1,2) Some m old' new])
    have "routes_in_sync ns (abs w')"
      by (rule sync_message [OF assms(3), where n = "GetInternalServiceName (Name lrp)"])
        (auto simp: abs' annotated_routes_def Some old' m new service_routes_def
          getUnregisteredRoutes_eq routable_not_headless [OF assms(4)])
    with run show ?thesis by simp
  qed
qed

lemma Delete_sync:
  assumes "inv w" "ns \<noteq> ''''" "routes_in_sync ns (abs w)" "\<not> suffix ''-headless'' a"
  shows "kept ns (svm_Delete (NewServiceManager cl ns ch) a w)"
proof (cases "c_Services (abs w) (ns, GetInternalServiceName a)")
  case None
  then show ?thesis using Delete_service_missing [OF assms(1,2) None] assms by simp
next
  case (Some s)
  have get: "rc_Get (Services cl) ns (GetInternalServiceName a) w = (Return s, w)"
    using svc.Get_found [OF assms(1,2) _ Some] by simp
  show ?thesis
  proof (cases "decodeRoutes (nilmap_index (om_Annotations (svc_Meta s)) RegisteredRoutes)")
    case (Inl e)
    with assms show ?thesis
      by (simp add: NewServiceManager_def serviceManager_Delete_def Let_def get go_simps)
  next
    case (Inr existing)
    obtain w' where run: "svm_Delete (NewServiceManager cl ns ch) a w = (Return (), w')" "inv w'"
      and abs': "abs w' = (abs w)\<lparr>
        c_Services := (c_Services (abs w))((ns, GetInternalServiceName a) := None),
        c_sent := c_sent (abs w) @ [[\<lparr>r_Routes = [], r_UnregisteredRoutes = existing,
          r_Name = GetInternalServiceName a\<rparr>]]\<rparr>"
      by (rule Delete_service [OF assms(1,2) Some Inr])
    have "routes_in_sync ns (abs w')"
      by (rule sync_message [OF assms(3), where n = "GetInternalServiceName a"])
        (auto simp: abs' annotated_routes_def Some Inr service_routes_def routable_not_headless [OF assms(4)])
    with run show ?thesis by simp
  qed
qed

lemma DeleteHeadless_sync:
  assumes "inv w" "ns \<noteq> ''''" "routes_in_sync ns (abs w)"
  shows "kept ns (svm_DeleteHeadless (NewServiceManager cl ns c) a w)"
proof (cases "c_Services (abs w) (ns, GetInternalHeadlessServiceName a)")
  case None
  obtain w1 where "rc_Delete (Services cl) ns (GetInternalHeadlessServiceName a) None w
      = (Error (NotFound (GetInternalHeadlessServiceName a)), w1)" and "inv w1" and "abs w1 = abs w"
    by (rule svc.Delete_missing [OF assms(1,2) _ None, of None]) simp
  with assms show ?thesis
    by (simp add: NewServiceManager_def serviceManager_DeleteHeadless_def Let_def)
next
  case (Some s)
  obtain w' where run: "svm_DeleteHeadless (NewServiceManager cl ns c) a w = (Return (), w')" "inv w'"
    and abs': "abs w' = (abs w)\<lparr>c_Services := (c_Services (abs w))((ns, GetInternalHeadlessServiceName a) := None)\<rparr>"
    by (rule DeleteHeadless_service [OF assms(1,2) Some])
  have "service_routes s = {}"
    using assms(3) Some by (auto simp: routes_in_sync_def annotated_routes_def dest: spec [of _ a])
  then have "routes_in_sync ns (abs w')"
    by (intro sync_silent [OF assms(3)]) (auto simp: abs' annotated_routes_def Some fun_eq_iff)
  with run show ?thesis by simp
qed

lemma service_op_sync:
  assumes "inv w" "ns \<noteq> ''''" "routes_in_sync ns (abs w)" "\<not> suffix ''-headless'' (op_app p)"
  shows "kept ns (run_service_op (NewServiceManager cl ns ch) p w)"
  using assms Create_sync CreateHeadless_sync Update_sync Delete_sync DeleteHeadless_sync
  by (cases p) simp_all

lemma service_ops_sync:
  assumes "inv w" "ns \<noteq> ''''" "routes_in_sync ns (abs w)" "\<forall>p \<in> set ops. \<not> suffix ''-headless'' (op_app p)"
  shows "inv (run_service_ops (NewServiceManager cl ns ch) ops w)
    \<and> routes_in_sync ns (abs (run_service_ops (NewServiceManager cl ns ch) ops w))"
  using assms(1,3,4)
proof (induction ops arbitrary: w)
  case (Cons p ops)
  then show ?case
    using service_op_sync [of w ns p] assms(2) by (simp add: run_service_ops_def)
qed (simp add: run_service_ops_def)

end

section \<open>Properties\<close>

lemma sync_empty:
  assumes "\<forall>n. c_Services c (ns, n) = None" and "c_sent c = []"
  shows "routes_in_sync ns c"
  using assms by (simp add: routes_in_sync_def router_view_def annotated_routes_def fun_eq_iff)

lemma nilmap_assign_settles: "m \<noteq> None \<Longrightarrow> settled (fst (nilmap_assign k v m w))"
  by (cases m) simp_all

fun headless_op :: "service_op \<Rightarrow> bool" where
  "headless_op (OpCreateHeadless lrp) = True"
| "headless_op (OpDeleteHeadless a) = True"
| "headless_op _ = False"

lemma chan_send_settles: "ch \<noteq> NilChan \<Longrightarrow> settled (fst (chan_send ch m w))"
  by (cases ch) simp_all

lemma service_op_settles:
  assumes "calls_settle (Services cl)"
    and ch: "ch = NilChan \<longrightarrow> headless_op p"
  shows "settled (fst (run_service_op (NewServiceManager cl ns ch) p w))"
proof (cases p)
  case (OpUpdate lrp)
  have "settled (fst (nilmap_assign k v (om_Annotations (svc_Meta s)) w))"
    if "go_lift (decodeRoutes (nilmap_index (om_Annotations (svc_Meta s)) RegisteredRoutes)) w'' = (Return r, w')"
    for k v w s w' w'' r
    using that by (cases "om_Annotations (svc_Meta s)") (simp_all add: decodeRoutes_empty_text)
  with OpUpdate ch show ?thesis
    by (auto simp: NewServiceManager_def serviceManager_Update_def Let_def calls_settleD [OF assms(1)]
        intro!: settled_bind chan_send_settles)
qed (use ch in \<open>auto simp: NewServiceManager_def serviceManager_Create_def serviceManager_CreateHeadless_def
    serviceManager_Delete_def serviceManager_DeleteHeadless_def Let_def calls_settleD [OF assms(1)]
    intro!: settled_bind chan_send_settles\<close>)

definition sample_lrp :: "string \<Rightarrow> string list \<Rightarrow> LRP" where
  "sample_lrp name uris = zero_LRP\<lparr>Name := name, Image := ''img'', TargetInstances := 2,
     Metadata := Some [(VcapAppUris, marshal_strings (Some uris)), (LastUpdated, ''0'')]\<rparr>"

lemma sample_uris_valid: "utf8_valid ''a.io''" "utf8_valid ''b.io''"
  by code_simp+

lemma sample_lrp_fields [simp]:
  "Name (sample_lrp n uris) = n"
  "lrp_uris (sample_lrp n uris) = marshal_strings (Some uris)"
  by (simp_all add: sample_lrp_def)



text \<open>
  No service call panics or blocks on its own, for an API server that may answer anything or fail
  in any way, as long as its calls come back and the route channel is not nil; with a nil channel, as
  the instance manager has it, this holds for the calls on headless services. The update assigns
  to the annotations of the service it read, which may be a nil map; it never gets there in that case.
\<close>

theorem service_calls_settle:
  assumes "calls_settle (Services cl)" and "ch = NilChan \<longrightarrow> headless_op p"
  shows "settled (fst (run_service_op (NewServiceManager cl ns ch) p w))"
  using assms by (rule service_op_settles)

theorem service_calls_settle_witness:
  "settled (fst (run_service_op (NewServiceManager tracker_client ''eirini'' tracker_chan)
     (OpUpdate (sample_lrp ''app'' [''a.io''])) empty_tracker))
   \<and> settled (fst (run_service_op (NewServiceManager tracker_client ''eirini'' NilChan)
     (OpDeleteHeadless ''app'') empty_tracker))"
  by (intro conjI service_calls_settle tracker_client_settles) (simp_all add: tracker_chan_def)

text \<open>
  The route list of an app survives the cluster: after its service was created with its URIs as
  JSON, the listing for the route emitter has exactly one entry for the service, with the same URIs
  in the same order.
\<close>

theorem created_routes_are_listed:
  assumes "kube_cluster cl \<alpha> I ch" and "I w" and "ns \<noteq> ''''"
    and fresh: "c_Services (\<alpha> w) (ns, GetInternalServiceName (Name lrp)) = None"
    and readable: "\<forall>n s. c_Services (\<alpha> w) (ns, n) = Some s \<longrightarrow> isCFService n \<longrightarrow> \<not> isHeadless n \<longrightarrow>
      (\<exists>rs. decodeRoutes (nilmap_index (om_Annotations (svc_Meta s)) RegisteredRoutes) = Inr rs)"
    and uris: "lrp_uris lrp = marshal_strings (Some uris)" "\<forall>u \<in> set uris. utf8_valid u"
    and name: "CHR 0x0A \<notin> set (Name lrp)" "\<not> suffix ''headless'' (Name lrp)"
  shows "\<exists>rs. fst (go_bind (svm_Create (NewServiceManager cl ns ch) lrp)
      (\<lambda>_. ListRoutes \<lparr>srl_client = cl, srl_namespace = ns\<rparr>) w) = Return rs
    \<and> filter (\<lambda>r. r_Name r = GetInternalServiceName (Name lrp)) rs
      = [\<lparr>r_Routes = uris, r_UnregisteredRoutes = [], r_Name = GetInternalServiceName (Name lrp)\<rparr>]"
proof -
  let ?n = "GetInternalServiceName (Name lrp)"
  have dec: "decodeRoutes (lrp_uris lrp) = Inr uris"
    unfolding uris(1) by (rule decodeRoutes_marshal [OF uris(2)])
  obtain w' where create: "svm_Create (NewServiceManager cl ns ch) lrp w = (Return (), w')" and inv': "I w'"
    and abs': "\<alpha> w' = (\<alpha> w)\<lparr>c_Services := (c_Services (\<alpha> w))((ns, ?n) \<mapsto> svc_with_ns ns (toService lrp)),
      c_sent := c_sent (\<alpha> w) @ [[\<lparr>r_Routes = uris, r_UnregisteredRoutes = [], r_Name = ?n\<rparr>]]\<rparr>"
    by (rule kube_cluster.Create_service [OF assms(1-4) dec])
  have "\<exists>rs. decodeRoutes (nilmap_index (om_Annotations (svc_Meta s)) RegisteredRoutes) = Inr rs"
    if "c_Services (\<alpha> w') (ns, n) = Some s" "isCFService n" "\<not> isHeadless n" for n s
    using that readable dec by (cases "n = ?n") (auto simp: abs')
  then obtain rs where list: "ListRoutes \<lparr>srl_client = cl, srl_namespace = ns\<rparr> w' = (Return rs, w')"
    and rs: "set rs = {r. \<exists>n s. c_Services (\<alpha> w') (ns, n) = Some s \<and> announced s r}"
    and "distinct (map r_Name rs)"
    by (rule kube_cluster.ListRoutes_run [OF assms(1) inv' assms(3)])
  have "announced (svc_with_ns ns (toService lrp)) \<lparr>r_Routes = uris, r_UnregisteredRoutes = [], r_Name = ?n\<rparr>"
    using routable_listed [OF name] dec by (simp add: announced_def)
  with rs have "\<lparr>r_Routes = uris, r_UnregisteredRoutes = [], r_Name = ?n\<rparr> \<in> set rs"
    by (auto simp: abs')
  from filter_unique_key [OF \<open>distinct (map r_Name rs)\<close> this]
  have "filter (\<lambda>r. r_Name r = ?n) rs = [\<lparr>r_Routes = uris, r_UnregisteredRoutes = [], r_Name = ?n\<rparr>]"
    by simp
  with create list show ?thesis by (auto simp: go_simps)
qed

theorem created_routes_are_listed_witness:
  "\<exists>rs. fst (go_bind (svm_Create (NewServiceManager tracker_client ''eirini'' tracker_chan)
        (sample_lrp ''app'' [''a.io'', ''b.io'']))
      (\<lambda>_. ListRoutes \<lparr>srl_client = tracker_client, srl_namespace = ''eirini''\<rparr>) empty_tracker) = Return rs
    \<and> filter (\<lambda>r. r_Name r = ''cf-app'') rs
      = [\<lparr>r_Routes = [''a.io'', ''b.io''], r_UnregisteredRoutes = [], r_Name = ''cf-app''\<rparr>]"
  using created_routes_are_listed [OF tk.kube_cluster_axioms tracker_inv_empty,
      of "''eirini''" "sample_lrp ''app'' [''a.io'', ''b.io'']" "[''a.io'', ''b.io'']"]
  by (simp add: tracker_abs_def empty_tracker_def suffix_def sample_uris_valid GetInternalServiceName_def
      del: marshal_strings.simps utf8_valid.simps)


end
