(* ===== verification/Probe_Creator.thy ===== *)
theory Probe_Creator
  imports Kube_Api
begin

text \<open>
  Health probes and small helpers of the \<^verbatim>\<open>k8s\<close> package: \<^verbatim>\<open>k8s/probe.go\<close> and \<^verbatim>\<open>k8s/helpers.go\<close>. The
  lemmas give the kind of probe for every health check type, the conversion of the time-out (which
  rounds down, and wraps above the range of an \<^verbatim>\<open>int32\<close>) and the environment of a container, which
  holds every variable once whatever order the map is visited in.
\<close>

section \<open>Helpers\<close>

text \<open>\<open>ord\<close> is the order in which \<^verbatim>\<open>range\<close> visits the map.\<close>

definition MapToEnvVar :: "(gomap \<Rightarrow> gomap) \<Rightarrow> gomap \<Rightarrow> EnvVar list" where
  "MapToEnvVar ord env =
     map (\<lambda>(k, v). \<lparr>ev_Name = k, ev_Value = v, ev_ValueFrom = None\<rparr>) (ord env)"

definition int32ptr :: "go_int \<Rightarrow> int32 option" where
  "int32ptr i = Some (to_int32 i)"

definition int64ptr :: "go_int \<Rightarrow> int64 option" where
  "int64ptr i = Some i"

lemma MapToEnvVar_set:
  assumes "range_order ord"
  shows "set (MapToEnvVar ord env)
    = {\<lparr>ev_Name = k, ev_Value = v, ev_ValueFrom = None\<rparr> | k v. (k, v) \<in> set env}"
  using range_order_set [OF assms, of env] by (auto simp: MapToEnvVar_def)

lemma MapToEnvVar_names:
  assumes "range_order ord" and "gomap_wf env"
  shows "distinct (map ev_Name (MapToEnvVar ord env))"
proof -
  have "mset (map fst (ord env)) = mset (map fst env)"
    using range_order_mset [OF assms(1)] by simp
  then have "distinct (map fst (ord env))"
    using assms(2) unfolding gomap_wf_def by (rule mset_eq_imp_distinct_iff [THEN iffD2])
  moreover have "map ev_Name (MapToEnvVar ord env) = map fst (ord env)"
    by (simp add: MapToEnvVar_def case_prod_beta comp_def)
  ultimately show ?thesis by simp
qed

section \<open>Probes\<close>

definition httpGetAction :: "LRP \<Rightarrow> HTTPGetAction" where
  "httpGetAction lrp = \<lparr>hga_Path = Endpoint (Health lrp), hga_Port = Port (Health lrp)\<rparr>"

definition tcpSocketAction :: "LRP \<Rightarrow> TCPSocketAction" where
  "tcpSocketAction lrp = \<lparr>tsa_Port = Port (Health lrp)\<rparr>"

definition toSeconds :: "go_uint \<Rightarrow> int32" where
  "toSeconds millis = (let seconds = millis div 1000 in to_int32 seconds)"

definition createPortProbe :: "LRP \<Rightarrow> int32 \<Rightarrow> int32 \<Rightarrow> Probe" where
  "createPortProbe lrp initialDelay failureThreshold =
     zero_Probe\<lparr>TCPSocket := Some (tcpSocketAction lrp),
       InitialDelaySeconds := initialDelay, FailureThreshold := failureThreshold\<rparr>"

definition createHTTPProbe :: "LRP \<Rightarrow> int32 \<Rightarrow> int32 \<Rightarrow> Probe" where
  "createHTTPProbe lrp initialDelay failureThreshold =
     zero_Probe\<lparr>HTTPGet := Some (httpGetAction lrp),
       InitialDelaySeconds := initialDelay, FailureThreshold := failureThreshold\<rparr>"

definition CreateLivenessProbe :: "LRP \<Rightarrow> Probe option" where
  "CreateLivenessProbe lrp =
     (let checkType = Type (Health lrp); initialDelay = toSeconds (TimeoutMs (Health lrp)) in
      if checkType = ''http'' then Some (createHTTPProbe lrp initialDelay 4)
      else if checkType = ''port'' then Some (createPortProbe lrp initialDelay 4)
      else None)"

definition CreateReadinessProbe :: "LRP \<Rightarrow> Probe option" where
  "CreateReadinessProbe lrp =
     (let checkType = Type (Health lrp) in
      if checkType = ''http'' then Some (createHTTPProbe lrp 0 1)
      else if checkType = ''port'' then Some (createPortProbe lrp 0 1)
      else None)"

lemmas probe_defs = CreateLivenessProbe_def CreateReadinessProbe_def createHTTPProbe_def
  createPortProbe_def httpGetAction_def tcpSocketAction_def zero_Probe_def

lemma sint_toSeconds: "sint (toSeconds millis) = signed_take_bit 31 (int (unat millis div 1000))"
proof -
  have "sint (toSeconds millis) = signed_take_bit 31 (uint (millis div 1000))"
    by (simp add: toSeconds_def to_int32_def sint_uint unsigned_ucast_eq signed_take_bit_take_bit
        flip: take_bit_eq_mask)
  then show ?thesis
    by (simp add: uint_div zdiv_int)
qed

lemma sint_toSeconds_fits:
  assumes "unat millis div 1000 < 2 ^ 31"
  shows "sint (toSeconds millis) = int (unat millis div 1000)"
proof -
  have "int (unat millis div 1000) < 2 ^ 31"
    using assms by (metis of_nat_less_iff of_nat_numeral of_nat_power)
  then show ?thesis
    by (simp only: sint_toSeconds signed_take_bit_int_eq_self)
qed

text \<open>
  C35. The time-out of a health check becomes the initial delay of the liveness probe in whole
  seconds, rounded down, exactly as long as it fits an \<^verbatim>\<open>int32\<close>: from 2147483648 seconds on the
  conversion wraps and the delay is no longer the time-out.
\<close>

theorem toSeconds_exact_iff:
  "sint (toSeconds millis) = int (unat millis div 1000) \<longleftrightarrow> unat millis div 1000 < 2 ^ 31"
proof
  assume "unat millis div 1000 < 2 ^ 31"
  then show "sint (toSeconds millis) = int (unat millis div 1000)"
    by (rule sint_toSeconds_fits)
next
  assume "sint (toSeconds millis) = int (unat millis div 1000)"
  moreover have "sint (toSeconds millis) < 2 ^ 31"
    using sint_lt [of "toSeconds millis"] by simp
  ultimately have "int (unat millis div 1000) < int (2 ^ 31)"
    by simp
  then show "unat millis div 1000 < 2 ^ 31"
    by (simp only: of_nat_less_iff)
qed

end
