(* ===== verification/Stateful_Set.thy ===== *)
theory Stateful_Set
  imports Service_Manager Probe_Creator
begin

text \<open>
  The instances of an app as a Kubernetes stateful set: \<^verbatim>\<open>k8s/statefulset.go\<close>.

  \<open>StatefulSetManager\<close> creates a stateful set and its headless service, scales it, deletes both and reads
  stateful sets back as LRPs. \<open>ord\<close> is the order in which \<^verbatim>\<open>range\<close> visits the environment of an LRP.
  An index out of range, as \<^verbatim>\<open>Containers[0]\<close> of a pod without containers, is a panic.

  The lemmas: the fields of the stateful set built for an LRP, the effect of every operation in a
  cluster that keeps its promises, what survives the way into the cluster and back, and that the
  manager never uses its nil route channel.
\<close>

section \<open>Definitions\<close>

record 'w InstanceManager =
  im_List :: "('w, LRP list) go"
  im_Exists :: "string \<Rightarrow> ('w, bool) go"
  im_Get :: "string \<Rightarrow> ('w, LRP) go"
  im_Create :: "LRP \<Rightarrow> ('w, unit) go"
  im_Delete :: "string \<Rightarrow> ('w, unit) go"
  im_Update :: "LRP \<Rightarrow> ('w, unit) go"

type_synonym ProbeCreator = "LRP \<Rightarrow> Probe option"

record 'w StatefulSetManager =
  ssm_Client :: "'w kubernetes_Interface"
  ssm_Namespace :: string
  ssm_ServiceManager :: "'w ServiceManager"
  ssm_LivenessProbeCreator :: ProbeCreator
  ssm_ReadinessProbeCreator :: ProbeCreator

definition statefulSets :: "'w StatefulSetManager \<Rightarrow> (StatefulSet, 'w) resource_interface" where
  "statefulSets m = StatefulSets (ssm_Client m)"

definition statefulSetToLRP :: "StatefulSet \<Rightarrow> ('w, LRP) go" where
  "statefulSetToLRP s = (case ps_Containers (pt_Spec (ss_Template s)) of
      [] \<Rightarrow> go_panic ''index out of range''
    | ct # _ \<Rightarrow> go_return (zero_LRP\<lparr>
        Name := om_Name (ss_Meta s),
        Image := ct_Image ct,
        Command := ct_Command ct,
        RunningInstances := of_int32 (ss_ReadyReplicas s),
        Metadata := Some
          [(ProcessGUID, nilmap_index (om_Annotations (ss_Meta s)) ProcessGUID),
           (LastUpdated, nilmap_index (om_Annotations (ss_Meta s)) LastUpdated),
           (VcapAppUris, nilmap_index (om_Annotations (ss_Meta s)) VcapAppUris)]\<rparr>))"

fun statefulSetsToLRPs :: "StatefulSet list \<Rightarrow> LRP list \<Rightarrow> ('w, LRP list) go" where
  "statefulSetsToLRPs [] lrps = go_return lrps"
| "statefulSetsToLRPs (s # ss) lrps =
     go_bind (statefulSetToLRP s) (\<lambda>lrp. statefulSetsToLRPs ss (lrps @ [lrp]))"

definition toStatefulSet :: "(gomap \<Rightarrow> gomap) \<Rightarrow> 'w StatefulSetManager \<Rightarrow> LRP \<Rightarrow> StatefulSet" where
  "toStatefulSet ord m lrp =
     (let envs = MapToEnvVar ord (Env lrp)
            @ [\<lparr>ev_Name = ''POD_NAME'', ev_Value = '''', ev_ValueFrom = Some ''metadata.name''\<rparr>];
          livenessProbe = ssm_LivenessProbeCreator m lrp;
          readinessProbe = ssm_ReadinessProbeCreator m lrp
      in \<lparr>ss_Meta = \<lparr>om_Name = Name lrp, om_Namespace = '''',
            om_Labels = [(''eirini'', ''eirini''), (''name'', Name lrp)],
            om_Annotations = Metadata lrp\<rparr>,
          ss_Replicas = int32ptr (TargetInstances lrp),
          ss_MatchLabels = [(''name'', Name lrp)],
          ss_Template = \<lparr>pt_Labels = [(''name'', Name lrp)],
            pt_Spec = zero_PodSpec\<lparr>ps_Containers := [zero_Container\<lparr>
              ct_Name := ''opi'',
              ct_Image := Image lrp,
              ct_Command := Command lrp,
              ct_Env := envs,
              ct_Ports := [\<lparr>cp_Name = ''expose'', cp_ContainerPort = 8080\<rparr>],
              ct_LivenessProbe := livenessProbe,
              ct_ReadinessProbe := readinessProbe\<rparr>]\<rparr>\<rparr>,
          ss_ReadyReplicas = 0\<rparr>)"

definition StatefulSetManager_List :: "'w StatefulSetManager \<Rightarrow> ('w, LRP list) go" where
  "StatefulSetManager_List m =
     go_bind (rc_List (statefulSets m) (ssm_Namespace m) '''') (\<lambda>statefulsets.
     statefulSetsToLRPs statefulsets [])"

definition StatefulSetManager_Delete :: "'w StatefulSetManager \<Rightarrow> string \<Rightarrow> ('w, unit) go" where
  "StatefulSetManager_Delete m appName =
     go_bind (rc_Delete (statefulSets m) (ssm_Namespace m) appName (Some DeletePropagationBackground)) (\<lambda>_.
     svm_DeleteHeadless (ssm_ServiceManager m) appName)"

definition StatefulSetManager_Create ::
  "(gomap \<Rightarrow> gomap) \<Rightarrow> 'w StatefulSetManager \<Rightarrow> LRP \<Rightarrow> ('w, unit) go" where
  "StatefulSetManager_Create ord m lrp =
     go_bind (rc_Create (statefulSets m) (ssm_Namespace m) (toStatefulSet ord m lrp)) (\<lambda>_.
     svm_CreateHeadless (ssm_ServiceManager m) lrp)"

definition StatefulSetManager_Update :: "'w StatefulSetManager \<Rightarrow> LRP \<Rightarrow> ('w, unit) go" where
  "StatefulSetManager_Update m lrp =
     go_bind (rc_Get (statefulSets m) (ssm_Namespace m) (Name lrp)) (\<lambda>statefulSet.
     let count = to_int32 (TargetInstances lrp) in
     go_bind (nilmap_assign LastUpdated (nilmap_index (Metadata lrp) LastUpdated)
                (om_Annotations (ss_Meta statefulSet))) (\<lambda>annotations.
     go_bind (rc_Update (statefulSets m) (ssm_Namespace m)
       (statefulSet\<lparr>ss_Replicas := Some count,
          ss_Meta := (ss_Meta statefulSet)\<lparr>om_Annotations := annotations\<rparr>\<rparr>)) (\<lambda>_.
     go_return ())))"

definition StatefulSetManager_Exists :: "'w StatefulSetManager \<Rightarrow> string \<Rightarrow> ('w, bool) go" where
  "StatefulSetManager_Exists m appName =
     (let selector = ''name='' @ appName in
      go_bind (rc_List (statefulSets m) (ssm_Namespace m) selector) (\<lambda>list.
      go_return (length list > 0)))"

definition StatefulSetManager_Get :: "'w StatefulSetManager \<Rightarrow> string \<Rightarrow> ('w, LRP) go" where
  "StatefulSetManager_Get m appName =
     go_bind (rc_Get (statefulSets m) (ssm_Namespace m) appName) (\<lambda>statefulSet.
     statefulSetToLRP statefulSet)"

text \<open>The fields \<^verbatim>\<open>NewStatefulSetManager\<close> fills in, and the manager as the interface it implements.\<close>

definition newStatefulSetManager :: "'w kubernetes_Interface \<Rightarrow> string \<Rightarrow> 'w StatefulSetManager" where
  "newStatefulSetManager client namespace =
     \<lparr>ssm_Client = client, ssm_Namespace = namespace,
      ssm_ServiceManager = NewServiceManager client namespace NilChan,
      ssm_LivenessProbeCreator = CreateLivenessProbe,
      ssm_ReadinessProbeCreator = CreateReadinessProbe\<rparr>"

definition NewStatefulSetManager ::
  "(gomap \<Rightarrow> gomap) \<Rightarrow> 'w kubernetes_Interface \<Rightarrow> string \<Rightarrow> 'w InstanceManager" where
  "NewStatefulSetManager ord client namespace =
     (let m = newStatefulSetManager client namespace in
      \<lparr>im_List = StatefulSetManager_List m,
       im_Exists = StatefulSetManager_Exists m,
       im_Get = StatefulSetManager_Get m,
       im_Create = StatefulSetManager_Create ord m,
       im_Delete = StatefulSetManager_Delete m,
       im_Update = StatefulSetManager_Update m\<rparr>)"

section \<open>Stateful sets and LRPs\<close>

lemma newStatefulSetManager_fields [simp]:
  "statefulSets (newStatefulSetManager cl ns) = StatefulSets cl"
  "ssm_Namespace (newStatefulSetManager cl ns) = ns"
  "ssm_ServiceManager (newStatefulSetManager cl ns) = NewServiceManager cl ns NilChan"
  "ssm_LivenessProbeCreator (newStatefulSetManager cl ns) = CreateLivenessProbe"
  "ssm_ReadinessProbeCreator (newStatefulSetManager cl ns) = CreateReadinessProbe"
  by (simp_all add: newStatefulSetManager_def statefulSets_def)

lemma NewStatefulSetManager_fields [simp]:
  "im_List (NewStatefulSetManager ord cl ns) = StatefulSetManager_List (newStatefulSetManager cl ns)"
  "im_Exists (NewStatefulSetManager ord cl ns) = StatefulSetManager_Exists (newStatefulSetManager cl ns)"
  "im_Get (NewStatefulSetManager ord cl ns) = StatefulSetManager_Get (newStatefulSetManager cl ns)"
  "im_Create (NewStatefulSetManager ord cl ns) = StatefulSetManager_Create ord (newStatefulSetManager cl ns)"
  "im_Delete (NewStatefulSetManager ord cl ns) = StatefulSetManager_Delete (newStatefulSetManager cl ns)"
  "im_Update (NewStatefulSetManager ord cl ns) = StatefulSetManager_Update (newStatefulSetManager cl ns)"
  by (simp_all add: NewStatefulSetManager_def Let_def)

lemma toStatefulSet_meta [simp]:
  "om_Name (ss_Meta (toStatefulSet ord m lrp)) = Name lrp"
  "om_Namespace (ss_Meta (toStatefulSet ord m lrp)) = ''''"
  "om_Labels (ss_Meta (toStatefulSet ord m lrp)) = [(''eirini'', ''eirini''), (''name'', Name lrp)]"
  "om_Annotations (ss_Meta (toStatefulSet ord m lrp)) = Metadata lrp"
  "ss_Replicas (toStatefulSet ord m lrp) = Some (to_int32 (TargetInstances lrp))"
  "ss_ReadyReplicas (toStatefulSet ord m lrp) = 0"
  by (simp_all add: toStatefulSet_def Let_def int32ptr_def)

text \<open>What remains of an LRP when it is read back from its stateful set.\<close>

definition read_back :: "int32 \<Rightarrow> LRP \<Rightarrow> LRP" where
  "read_back ready lrp = zero_LRP\<lparr>Name := Name lrp, Image := Image lrp, Command := Command lrp,
     RunningInstances := of_int32 ready,
     Metadata := Some [(ProcessGUID, nilmap_index (Metadata lrp) ProcessGUID),
       (LastUpdated, nilmap_index (Metadata lrp) LastUpdated),
       (VcapAppUris, nilmap_index (Metadata lrp) VcapAppUris)]\<rparr>"

lemma toStatefulSet_to_LRP:
  "statefulSetToLRP (ss_with_ns ns (toStatefulSet ord m lrp)\<lparr>ss_ReadyReplicas := r\<rparr>) = go_return (read_back r lrp)"
  by (simp add: statefulSetToLRP_def toStatefulSet_def ss_with_ns_def Let_def read_back_def)

lemma toStatefulSet_to_LRP0:
  "statefulSetToLRP (ss_with_ns ns (toStatefulSet ord m lrp)) = go_return (read_back 0 lrp)"
  by (simp add: statefulSetToLRP_def toStatefulSet_def ss_with_ns_def Let_def read_back_def)

lemma read_back_metadata:
  "k \<in> {ProcessGUID, LastUpdated, VcapAppUris} \<Longrightarrow>
     nilmap_index (Metadata (read_back r lrp)) k = nilmap_index (Metadata lrp) k"
  by (auto simp: read_back_def)

text \<open>The conversion of a list succeeds exactly when every pod has a container.\<close>

lemma statefulSetToLRP_run:
  "ps_Containers (pt_Spec (ss_Template s)) \<noteq> [] \<Longrightarrow>
     \<exists>lrp. statefulSetToLRP s w = (Return lrp, w) \<and> Name lrp = om_Name (ss_Meta s)"
  by (cases "ps_Containers (pt_Spec (ss_Template s))") (simp_all add: statefulSetToLRP_def)

lemma statefulSetsToLRPs_run:
  assumes "\<forall>s \<in> set ss. ps_Containers (pt_Spec (ss_Template s)) \<noteq> []"
  shows "\<exists>lrps. statefulSetsToLRPs ss acc w = (Return (acc @ lrps), w)
    \<and> list_all2 (\<lambda>s lrp. statefulSetToLRP s w = (Return lrp, w)) ss lrps"
  using assms
proof (induction ss arbitrary: acc)
  case (Cons s ss)
  obtain lrp where lrp: "statefulSetToLRP s w = (Return lrp, w)"
    using statefulSetToLRP_run [of s w] Cons.prems by auto
  obtain lrps where "statefulSetsToLRPs ss (acc @ [lrp]) w = (Return ((acc @ [lrp]) @ lrps), w)"
    and "list_all2 (\<lambda>s lrp. statefulSetToLRP s w = (Return lrp, w)) ss lrps"
    using Cons.IH [of "acc @ [lrp]"] Cons.prems by auto
  with lrp show ?case
    by (intro exI [of _ "lrp # lrps"]) (simp add: go_simps)
qed simp

section \<open>The operations in a cluster that keeps its promises\<close>

context kube_cluster
begin

abbreviation ssm :: "string \<Rightarrow> 'w StatefulSetManager" where
  "ssm ns \<equiv> newStatefulSetManager cl ns"

lemma Create_instances:
  assumes "inv w" and "ns \<noteq> ''''" and "Name lrp \<noteq> ''''"
    and "c_StatefulSets (abs w) (ns, Name lrp) = None"
    and "c_Services (abs w) (ns, GetInternalHeadlessServiceName (Name lrp)) = None"
  obtains w' where "StatefulSetManager_Create ord (ssm ns) lrp w = (Return (), w')" and "inv w'"
    and "abs w' = (abs w)\<lparr>
      c_StatefulSets := (c_StatefulSets (abs w))((ns, Name lrp) \<mapsto> ss_with_ns ns (toStatefulSet ord (ssm ns) lrp)),
      c_Services := (c_Services (abs w))((ns, GetInternalHeadlessServiceName (Name lrp)) \<mapsto> svc_with_ns ns (toHeadlessService lrp))\<rparr>"
proof -
  let ?s = "toStatefulSet ord (ssm ns) lrp"
  obtain w1 where w1: "rc_Create (StatefulSets cl) ns ?s w = (Return (ss_with_ns ns ?s), w1)" and "inv w1"
    and abs1: "abs w1 = c_StatefulSets_update (\<lambda>st. st((ns, Name lrp) \<mapsto> ss_with_ns ns ?s)) (abs w)"
    by (rule ss.Create_fresh [of w ns ?s]) (use assms in auto)
  obtain w2 where "svm_CreateHeadless (NewServiceManager cl ns NilChan) lrp w1 = (Return (), w2)" and "inv w2"
    and abs2: "abs w2 = (abs w1)\<lparr>c_Services := (c_Services (abs w1))
      ((ns, GetInternalHeadlessServiceName (Name lrp)) \<mapsto> svc_with_ns ns (toHeadlessService lrp))\<rparr>"
    by (rule CreateHeadless_service [OF \<open>inv w1\<close> assms(2), of lrp NilChan]) (simp_all add: abs1 assms(5))
  with w1 have "StatefulSetManager_Create ord (ssm ns) lrp w = (Return (), w2)"
    by (simp add: StatefulSetManager_Create_def go_simps)
  then show thesis
    using \<open>inv w2\<close> by (rule that) (simp add: abs1 abs2)
qed

lemma Create_instances_taken:
  assumes "inv w" and "ns \<noteq> ''''" and "Name lrp \<noteq> ''''"
    and "c_StatefulSets (abs w) (ns, Name lrp) = Some s"
  obtains w' where "StatefulSetManager_Create ord (ssm ns) lrp w = (Error (AlreadyExists (Name lrp)), w')"
    and "inv w'" and "abs w' = abs w"
proof -
  obtain w1 where "rc_Create (StatefulSets cl) ns (toStatefulSet ord (ssm ns) lrp) w
      = (Error (AlreadyExists (Name lrp)), w1)" and "inv w1" and "abs w1 = abs w"
    by (rule ss.Create_taken [of w ns "toStatefulSet ord (ssm ns) lrp" s]) (use assms in auto)
  then show thesis
    by (intro that [of w1]) (simp_all add: StatefulSetManager_Create_def go_simps)
qed

lemma Delete_instances:
  assumes "inv w" and "ns \<noteq> ''''" and "a \<noteq> ''''"
    and "c_StatefulSets (abs w) (ns, a) = Some s"
    and "c_Services (abs w) (ns, GetInternalHeadlessServiceName a) = Some h"
  obtains w' where "StatefulSetManager_Delete (ssm ns) a w = (Return (), w')" and "inv w'"
    and "abs w' = (abs w)\<lparr>
      c_StatefulSets := (c_StatefulSets (abs w))((ns, a) := None),
      c_Services := (c_Services (abs w))((ns, GetInternalHeadlessServiceName a) := None)\<rparr>"
proof -
  obtain w1 where w1: "rc_Delete (StatefulSets cl) ns a (Some DeletePropagationBackground) w = (Return (), w1)"
    and "inv w1" and abs1: "abs w1 = c_StatefulSets_update (\<lambda>st. st((ns, a) := None)) (abs w)"
    by (rule ss.Delete_found [OF assms(1,2,3,4)])
  obtain w2 where "svm_DeleteHeadless (NewServiceManager cl ns NilChan) a w1 = (Return (), w2)" and "inv w2"
    and abs2: "abs w2 = (abs w1)\<lparr>c_Services := (c_Services (abs w1))((ns, GetInternalHeadlessServiceName a) := None)\<rparr>"
    by (rule DeleteHeadless_service [OF \<open>inv w1\<close> assms(2), of a h NilChan]) (simp_all add: abs1 assms(5))
  with w1 have "StatefulSetManager_Delete (ssm ns) a w = (Return (), w2)"
    by (simp add: StatefulSetManager_Delete_def go_simps)
  then show thesis
    using \<open>inv w2\<close> by (rule that) (simp add: abs1 abs2)
qed

lemma Update_instances:
  assumes "inv w" and "ns \<noteq> ''''" and "Name lrp \<noteq> ''''"
    and found: "c_StatefulSets (abs w) (ns, Name lrp) = Some s"
    and ann: "om_Annotations (ss_Meta s) = Some m"
  obtains w' where "StatefulSetManager_Update (ssm ns) lrp w = (Return (), w')" and "inv w'"
    and "abs w' = (abs w)\<lparr>c_StatefulSets := (c_StatefulSets (abs w))((ns, Name lrp) \<mapsto>
        s\<lparr>ss_Replicas := Some (to_int32 (TargetInstances lrp)),
          ss_Meta := (ss_Meta s)\<lparr>om_Annotations :=
            Some (map_assign LastUpdated (nilmap_index (Metadata lrp) LastUpdated) m)\<rparr>\<rparr>)\<rparr>"
proof -
  let ?s = "s\<lparr>ss_Replicas := Some (to_int32 (TargetInstances lrp)),
      ss_Meta := (ss_Meta s)\<lparr>om_Annotations :=
        Some (map_assign LastUpdated (nilmap_index (Metadata lrp) LastUpdated) m)\<rparr>\<rparr>"
  have key: "om_Name (ss_Meta s) = Name lrp" "om_Namespace (ss_Meta s) = ns"
    using ss.stored_name [OF assms(1) found] by simp_all
  then have same: "ss_with_ns ns ?s = ?s"
    by (simp add: ss_with_ns_def)
  have "rc_Get (StatefulSets cl) ns (Name lrp) w = (Return s, w)"
    using ss.Get_found [OF assms(1,2,3) found] .
  moreover obtain w1 where "rc_Update (StatefulSets cl) ns ?s w = (Return ?s, w1)" and "inv w1"
    and abs1: "abs w1 = c_StatefulSets_update (\<lambda>st. st((ns, Name lrp) \<mapsto> ?s)) (abs w)"
    by (rule ss.Update_found [of w ns ?s s, unfolded same]) (use assms key in auto)
  ultimately have "StatefulSetManager_Update (ssm ns) lrp w = (Return (), w1)"
    by (simp add: StatefulSetManager_Update_def Let_def go_simps ann)
  then show thesis
    using \<open>inv w1\<close> by (rule that) (simp add: abs1)
qed

lemma Exists_instances:
  assumes "inv w" and "ns \<noteq> ''''" and "valid_label_value a"
  shows "StatefulSetManager_Exists (ssm ns) a w = (Return
    (\<exists>n s. c_StatefulSets (abs w) (ns, n) = Some s \<and> map_of (om_Labels (ss_Meta s)) ''name'' = Some a), w)"
proof -
  obtain obs where list: "rc_List (StatefulSets cl) ns (''name='' @ a) w = (Return obs, w)"
    and obs: "set obs = {ob. (\<exists>n. c_StatefulSets (abs w) (ns, n) = Some ob)
      \<and> map_of (om_Labels (ss_Meta ob)) ''name'' = Some a}"
    using ss.List_name_law [OF assms] by blast
  have "(0 < length obs) = (\<exists>ob. ob \<in> set obs)"
    by (cases obs) auto
  with list show ?thesis
    unfolding StatefulSetManager_Exists_def obs by (auto simp: go_simps Let_def)
qed

lemma Get_instances:
  assumes "inv w" and "ns \<noteq> ''''" and "a \<noteq> ''''" and "c_StatefulSets (abs w) (ns, a) = Some s"
  shows "StatefulSetManager_Get (ssm ns) a w = statefulSetToLRP s w"
  using ss.Get_found [OF assms] by (simp add: StatefulSetManager_Get_def go_simps)

lemma Get_instances_missing:
  assumes "inv w" and "ns \<noteq> ''''" and "a \<noteq> ''''" and "c_StatefulSets (abs w) (ns, a) = None"
  shows "StatefulSetManager_Get (ssm ns) a w = (Error (NotFound a), w)"
  using ss.Get_missing [OF assms] by (simp add: StatefulSetManager_Get_def go_simps)

end

section \<open>Properties\<close>

text \<open>
  C28. An LRP created and read back: name, image, command and the three metadata entries of the bridge
  come back as they were; the target number of instances does not, it reads as 0.
\<close>

theorem get_after_create:
  assumes "kube_cluster cl \<alpha> I ch" and "I w" and "ns \<noteq> ''''" and "Name lrp \<noteq> ''''"
    and "c_StatefulSets (\<alpha> w) (ns, Name lrp) = None"
    and "c_Services (\<alpha> w) (ns, GetInternalHeadlessServiceName (Name lrp)) = None"
  shows "fst (go_bind (im_Create (NewStatefulSetManager ord cl ns) lrp)
      (\<lambda>_. im_Get (NewStatefulSetManager ord cl ns) (Name lrp)) w)
    = Return (zero_LRP\<lparr>Name := Name lrp, Image := Image lrp, Command := Command lrp,
        TargetInstances := 0, RunningInstances := 0,
        Metadata := Some [(ProcessGUID, nilmap_index (Metadata lrp) ProcessGUID),
          (LastUpdated, nilmap_index (Metadata lrp) LastUpdated),
          (VcapAppUris, nilmap_index (Metadata lrp) VcapAppUris)]\<rparr>)"
proof (rule kube_cluster.Create_instances [OF assms(1-6), of ord])
  fix w'
  let ?m = "newStatefulSetManager cl ns"
  assume create: "StatefulSetManager_Create ord ?m lrp w = (Return (), w')" and inv': "I w'"
    and abs': "\<alpha> w' = (\<alpha> w)\<lparr>
      c_StatefulSets := (c_StatefulSets (\<alpha> w))((ns, Name lrp) \<mapsto> ss_with_ns ns (toStatefulSet ord ?m lrp)),
      c_Services := (c_Services (\<alpha> w))((ns, GetInternalHeadlessServiceName (Name lrp)) \<mapsto> svc_with_ns ns (toHeadlessService lrp))\<rparr>"
  have "c_StatefulSets (\<alpha> w') (ns, Name lrp) = Some (ss_with_ns ns (toStatefulSet ord ?m lrp))"
    by (simp add: abs')
  then have "StatefulSetManager_Get ?m (Name lrp) w' = (Return (read_back 0 lrp), w')"
    using kube_cluster.Get_instances [OF assms(1) inv' assms(3,4)] by (simp add: toStatefulSet_to_LRP0)
  with create show ?thesis
    by (simp add: go_simps read_back_def zero_LRP_def of_int32_def)
qed

theorem get_after_create_witness:
  "fst (go_bind (im_Create (NewStatefulSetManager id tracker_client ''eirini'') (sample_lrp ''app'' [''a.io'']))
      (\<lambda>_. im_Get (NewStatefulSetManager id tracker_client ''eirini'') ''app'') empty_tracker)
    = Return (zero_LRP\<lparr>Name := ''app'', Image := ''img'', Command := [],
        TargetInstances := 0, RunningInstances := 0,
        Metadata := Some [(ProcessGUID, ''''), (LastUpdated, ''0''), (VcapAppUris, marshal_strings (Some [''a.io'']))]\<rparr>)"
  using get_after_create [OF tk.kube_cluster_axioms tracker_inv_empty, of "''eirini''" "sample_lrp ''app'' [''a.io'']" id]
  by (simp add: tracker_abs_def empty_tracker_def sample_lrp_def zero_LRP_def del: marshal_strings.simps)

text \<open>
  Scaling: after an update the stateful set asks for the desired number of instances, provided it
  fits an \<^verbatim>\<open>int32\<close>, and carries the new \<^verbatim>\<open>last_updated\<close> annotation; every other annotation (the
  application's URIs among them), the pods' template and all other stateful sets are as before.
\<close>

theorem update_scales:
  assumes "kube_cluster cl \<alpha> I ch" and "I w" and "ns \<noteq> ''''" and "Name lrp \<noteq> ''''"
    and found: "c_StatefulSets (\<alpha> w) (ns, Name lrp) = Some s" "om_Annotations (ss_Meta s) = Some m"
    and fits: "- (2 ^ 31) \<le> sint (TargetInstances lrp)" "sint (TargetInstances lrp) < 2 ^ 31"
  shows "\<exists>w' s' n. im_Update (NewStatefulSetManager ord cl ns) lrp w = (Return (), w')
    \<and> c_StatefulSets (\<alpha> w') = (c_StatefulSets (\<alpha> w))((ns, Name lrp) \<mapsto> s')
    \<and> ss_Replicas s' = Some n \<and> sint n = sint (TargetInstances lrp)
    \<and> nilmap_index (om_Annotations (ss_Meta s')) LastUpdated = nilmap_index (Metadata lrp) LastUpdated
    \<and> (\<forall>k. k \<noteq> LastUpdated \<longrightarrow> nilmap_index (om_Annotations (ss_Meta s')) k = map_index m k)
    \<and> ss_Template s' = ss_Template s \<and> c_Services (\<alpha> w') = c_Services (\<alpha> w)"
proof (rule kube_cluster.Update_instances [OF assms(1-6)])
  fix w'
  let ?s = "s\<lparr>ss_Replicas := Some (to_int32 (TargetInstances lrp)),
          ss_Meta := (ss_Meta s)\<lparr>om_Annotations :=
            Some (map_assign LastUpdated (nilmap_index (Metadata lrp) LastUpdated) m)\<rparr>\<rparr>"
  assume "StatefulSetManager_Update (newStatefulSetManager cl ns) lrp w = (Return (), w')"
    and "\<alpha> w' = (\<alpha> w)\<lparr>c_StatefulSets := (c_StatefulSets (\<alpha> w))((ns, Name lrp) \<mapsto> ?s)\<rparr>"
  then show ?thesis
    using sint_to_int32_fits [OF fits]
    by (intro exI [of _ w'] exI [of _ ?s] exI [of _ "to_int32 (TargetInstances lrp)"]) simp
qed

definition scaled_tracker :: tracker where
  "scaled_tracker = empty_tracker\<lparr>tr_StatefulSets :=
     [ss_with_ns ''eirini'' (toStatefulSet id (newStatefulSetManager tracker_client ''eirini'') (sample_lrp ''app'' [''a.io'']))]\<rparr>"

lemma scaled_tracker_inv: "tracker_inv scaled_tracker"
  by (simp add: scaled_tracker_def tracker_inv_def empty_tracker_def keys_unique_def)

theorem update_scales_witness:
  "\<exists>w' s' n. im_Update (NewStatefulSetManager id tracker_client ''eirini'')
      (sample_lrp ''app'' []\<lparr>TargetInstances := 5\<rparr>) scaled_tracker = (Return (), w')
    \<and> store_of ss_Meta (tr_StatefulSets w') (''eirini'', ''app'') = Some s'
    \<and> ss_Replicas s' = Some n \<and> sint n = 5
    \<and> nilmap_index (om_Annotations (ss_Meta s')) VcapAppUris = marshal_strings (Some [''a.io''])"
  using update_scales [OF tk.kube_cluster_axioms scaled_tracker_inv, of "''eirini''"
      "sample_lrp ''app'' []\<lparr>TargetInstances := 5\<rparr>"
      "ss_with_ns ''eirini'' (toStatefulSet id (newStatefulSetManager tracker_client ''eirini'') (sample_lrp ''app'' [''a.io'']))"
      "[(VcapAppUris, marshal_strings (Some [''a.io''])), (LastUpdated, ''0'')]" id]
  by (auto simp: tracker_abs_def scaled_tracker_def empty_tracker_def store_of_Cons obj_key_def
      sample_lrp_def fun_eq_iff simp del: marshal_strings.simps)

text \<open>
  The instance manager is built with a nil route channel, on which a send would block forever. None
  of its calls that create, delete or look up instances ever gets there: for any API server whose
  calls come back, they come back too. An update comes back unless the stateful set it read has no
  annotations, a listing or a lookup unless a pod has no container: those are the calls that panic.
\<close>

theorem instance_calls_settle:
  assumes "calls_settle (StatefulSets cl)" and "calls_settle (Services cl)"
  shows "settled (fst (im_Create (NewStatefulSetManager ord cl ns) lrp w))
    \<and> settled (fst (im_Delete (NewStatefulSetManager ord cl ns) a w))
    \<and> settled (fst (im_Exists (NewStatefulSetManager ord cl ns) a w))
    \<and> (settled (fst (im_Update (NewStatefulSetManager ord cl ns) lrp w)) \<longleftrightarrow>
        \<not> (\<exists>s. fst (rc_Get (StatefulSets cl) ns (Name lrp) w) = Return s \<and> om_Annotations (ss_Meta s) = None))
    \<and> (settled (fst (im_Get (NewStatefulSetManager ord cl ns) a w)) \<longleftrightarrow>
        \<not> (\<exists>s. fst (rc_Get (StatefulSets cl) ns a w) = Return s
             \<and> ps_Containers (pt_Spec (ss_Template s)) = []))"
proof (intro conjI)
  show "settled (fst (im_Create (NewStatefulSetManager ord cl ns) lrp w))"
    using service_op_settles [OF assms(2), of NilChan "OpCreateHeadless lrp" ns]
    by (auto simp: StatefulSetManager_Create_def calls_settleD [OF assms(1)] intro!: settled_bind)
  show "settled (fst (im_Delete (NewStatefulSetManager ord cl ns) a w))"
    using service_op_settles [OF assms(2), of NilChan "OpDeleteHeadless a" ns]
    by (auto simp: StatefulSetManager_Delete_def calls_settleD [OF assms(1)] intro!: settled_bind)
  show "settled (fst (im_Exists (NewStatefulSetManager ord cl ns) a w))"
    by (auto simp: StatefulSetManager_Exists_def Let_def calls_settleD [OF assms(1)] intro!: settled_bind)
  show "settled (fst (im_Update (NewStatefulSetManager ord cl ns) lrp w)) \<longleftrightarrow>
      \<not> (\<exists>s. fst (rc_Get (StatefulSets cl) ns (Name lrp) w) = Return s \<and> om_Annotations (ss_Meta s) = None)"
    using calls_settleD(2) [OF assms(1), of ns "Name lrp" w] calls_settleD(4) [OF assms(1), of ns]
    by (auto simp: StatefulSetManager_Update_def Let_def go_bind_def nilmap_assign_def
        split: prod.splits outcome.splits option.splits)
      (metis fst_conv settled.simps(3,4))+
  show "settled (fst (im_Get (NewStatefulSetManager ord cl ns) a w)) \<longleftrightarrow>
      \<not> (\<exists>s. fst (rc_Get (StatefulSets cl) ns a w) = Return s \<and> ps_Containers (pt_Spec (ss_Template s)) = [])"
    using calls_settleD(2) [OF assms(1), of ns a w]
    by (auto simp: StatefulSetManager_Get_def statefulSetToLRP_def go_bind_def
        split: prod.splits outcome.splits list.splits)
qed

theorem instance_calls_settle_witness:
  "settled (fst (im_Delete (NewStatefulSetManager id tracker_client ''eirini'') ''app'' scaled_tracker))
   \<and> settled (fst (im_Create (NewStatefulSetManager id tracker_client ''eirini'') (sample_lrp ''app'' []) scaled_tracker))"
  using instance_calls_settle [OF tracker_client_settles(1,2), of id "''eirini''" "sample_lrp ''app'' []" scaled_tracker "''app''"]
  by blast

end
