(* ===== verification/Ingress_Manager.thy ===== *)
theory Ingress_Manager
  imports Service_Manager
begin

text \<open>
  The ingress of a namespace: \<^verbatim>\<open>k8s/ingress.go\<close>. One object named \<^verbatim>\<open>eirini\<close> holds the rules of all apps;
  \<open>KubeIngressManager\<close> replaces or removes the rules of one app in it.

  The code compares rules as keys of a \<^verbatim>\<open>map[ext.IngressRule]bool\<close>. A rule has the pointer \<^verbatim>\<open>HTTP\<close> as a
  field, so two rules are the same key only if they point to the same object: the model keeps a heap of
  rule values and addresses into it (\<open>rule_ref\<close>). Reading an ingress from the API gives every rule an
  object of its own, as does every rule the code creates. \<open>ord k\<close> is the order in which the \<open>k\<close>-th
  \<^verbatim>\<open>range\<close> statement over such a map visits it.

  \<^verbatim>\<open>net/url\<close>, \<^verbatim>\<open>govalidator\<close> and the case mapping of \<^verbatim>\<open>strings.ToLower\<close> are an argument
  (\<open>url_library\<close>) of which nothing is assumed.

  The lemmas: the loop of the deletion is a filter, the difference of rule maps replaces the
  rules of one service, and what the operations do to the cluster, stated as a specification on the
  multiset of rules.
\<close>

section \<open>Definitions\<close>

record URL =
  url_Host :: string
  url_Path :: string

record url_library =
  lib_Parse :: "string \<Rightarrow> go_error + URL"
  lib_String :: "URL \<Rightarrow> string"
  lib_IsURL :: "string \<Rightarrow> bool"
  lib_ToLower :: "string \<Rightarrow> string"

abbreviation ingressName :: string where "ingressName \<equiv> ''eirini''"
abbreviation ingressAPIVersion :: string where "ingressAPIVersion \<equiv> ''extensions/v1beta1''"
abbreviation ingressKind :: string where "ingressKind \<equiv> ''Ingress''"

record 'w IngressManager =
  igm_Update :: "LRP \<Rightarrow> ('w, unit) go"
  igm_Delete :: "string \<Rightarrow> ('w, unit) go"

record 'w KubeIngressManager =
  kim_namespace :: string
  kim_client :: "'w kubernetes_Interface"

subsection \<open>Rules in memory\<close>

type_synonym rule_heap = "HTTPIngressRuleValue list"

record rule_ref =
  rr_Host :: string
  rr_HTTP :: "nat option" \<comment> \<open>an address of the heap, or nil\<close>

type_synonym rule_map = "(rule_ref \<times> bool) list"

text \<open>Decoding an ingress allocates an object for every rule that has one; sending it reads them.\<close>

fun decode_rules :: "IngressRule list \<Rightarrow> rule_heap \<Rightarrow> rule_ref list \<times> rule_heap" where
  "decode_rules [] h = ([], h)"
| "decode_rules (r # rs) h = (case HTTP r of
      None \<Rightarrow> (let (refs, h') = decode_rules rs h in (\<lparr>rr_Host = Host r, rr_HTTP = None\<rparr> # refs, h'))
    | Some v \<Rightarrow> (let (refs, h') = decode_rules rs (h @ [v])
                in (\<lparr>rr_Host = Host r, rr_HTTP = Some (length h)\<rparr> # refs, h')))"

definition rule_value :: "rule_heap \<Rightarrow> rule_ref \<Rightarrow> IngressRule" where
  "rule_value h r = \<lparr>Host = rr_Host r, HTTP = map_option (\<lambda>a. h ! a) (rr_HTTP r)\<rparr>"

text \<open>\<^verbatim>\<open>rule.HTTP.Paths[0].Backend.ServiceName\<close>, with its two panics.\<close>

definition backend_service :: "HTTPIngressRuleValue option \<Rightarrow> ('w, string) go" where
  "backend_service v = (case v of
      None \<Rightarrow> go_panic ''invalid memory address or nil pointer dereference''
    | Some [] \<Rightarrow> go_panic ''index out of range''
    | Some (p # _) \<Rightarrow> go_return (ServiceName (Backend p)))"

subsection \<open>The difference of rule sets\<close>

fun toRuleMap :: "rule_ref list \<Rightarrow> rule_map \<Rightarrow> rule_map" where
  "toRuleMap [] hash = hash"
| "toRuleMap (v # sl) hash = toRuleMap sl (AList.update v True hash)"

fun appendNewRules :: "rule_map \<Rightarrow> rule_map \<Rightarrow> rule_map" where
  "appendNewRules existing [] = existing"
| "appendNewRules existing ((u, _) # updated) =
     appendNewRules (if map_of existing u = None then AList.update u True existing else existing) updated"

text \<open>The third argument is what is left of the range over \<^verbatim>\<open>existing\<close>.\<close>

fun removeObsoleteRules ::
  "rule_heap \<Rightarrow> rule_map \<Rightarrow> rule_map \<Rightarrow> rule_map \<Rightarrow> string \<Rightarrow> ('w, rule_map) go" where
  "removeObsoleteRules h existing [] updated serviceName = go_return existing"
| "removeObsoleteRules h existing ((e, _) # rest) updated serviceName =
     (if map_of updated e = None then
        go_bind (backend_service (HTTP (rule_value h e))) (\<lambda>s.
        removeObsoleteRules h (if s = serviceName then AList.delete e existing else existing)
          rest updated serviceName)
      else removeObsoleteRules h existing rest updated serviceName)"

definition toRuleSlice :: "rule_map \<Rightarrow> rule_ref list" where
  "toRuleSlice hash = map fst hash"

definition removeDifference ::
  "(nat \<Rightarrow> rule_map \<Rightarrow> rule_map) \<Rightarrow> rule_heap \<Rightarrow> rule_ref list \<Rightarrow> rule_ref list \<Rightarrow> string
     \<Rightarrow> ('w, rule_ref list) go" where
  "removeDifference ord h existing updated serviceName =
     (let hashExisting = toRuleMap existing [];
          hashUpdated = toRuleMap updated [];
          hashExisting = appendNewRules hashExisting (ord 0 hashUpdated)
      in go_bind (removeObsoleteRules h hashExisting (ord 1 hashExisting) hashUpdated serviceName) (\<lambda>hashExisting.
         go_return (toRuleSlice (ord 2 hashExisting))))"

subsection \<open>Rules of an app\<close>

definition path :: "string \<Rightarrow> string" where
  "path p = (if p = '''' then ''/'' else p)"

definition validateURL :: "url_library \<Rightarrow> string \<Rightarrow> go_error + URL" where
  "validateURL lib uri = (case lib_Parse lib (''http://'' @ uri) of
      Inl e \<Rightarrow> Inl e
    | Inr url \<Rightarrow> if \<not> lib_IsURL lib (lib_String lib url) then Inl (ErrorString ''invalid url'') else Inr url)"

fun createIngressRules ::
  "url_library \<Rightarrow> string \<Rightarrow> string list \<Rightarrow> rule_ref list \<Rightarrow> rule_heap \<Rightarrow> go_error + rule_ref list \<times> rule_heap" where
  "createIngressRules lib lrpName [] rules h = Inr (rules, h)"
| "createIngressRules lib lrpName (uri # uriList) rules h = (case validateURL lib uri of
      Inl e \<Rightarrow> Inl e
    | Inr url \<Rightarrow> createIngressRules lib lrpName uriList
        (rules @ [\<lparr>rr_Host = lib_ToLower lib (url_Host url), rr_HTTP = Some (length h)\<rparr>])
        (h @ [[\<lparr>hip_Path = path (url_Path url),
           Backend = \<lparr>ServiceName = GetInternalServiceName lrpName, ServicePort = 8080\<rparr>\<rparr>]]))"

definition updateSpec ::
  "url_library \<Rightarrow> (nat \<Rightarrow> rule_map \<Rightarrow> rule_map) \<Rightarrow> Ingress \<Rightarrow> string \<Rightarrow> string list \<Rightarrow> ('w, Ingress) go" where
  "updateSpec lib ord ingress lrpName uriList =
     (let (existing, h) = decode_rules (ing_Rules ingress) [] in
      go_bind (go_lift (createIngressRules lib lrpName uriList [] h)) (\<lambda>(rules, h).
      go_bind (removeDifference ord h existing rules (GetInternalServiceName lrpName)) (\<lambda>slice.
      go_return (ingress\<lparr>ing_Rules := map (rule_value h) slice\<rparr>))))"

subsection \<open>Operations\<close>

fun getIngress :: "Ingress list \<Rightarrow> Ingress option" where
  "getIngress [] = None"
| "getIngress (ing # items) = (if om_Name (ing_Meta ing) = ingressName then Some ing else getIngress items)"

definition updateIngressObject :: "'w KubeIngressManager \<Rightarrow> Ingress \<Rightarrow> ('w, unit) go" where
  "updateIngressObject i ingress =
     go_bind (rc_Update (Ingresses (kim_client i)) (kim_namespace i) ingress) (\<lambda>_. go_return ())"

definition createIngress ::
  "url_library \<Rightarrow> (nat \<Rightarrow> rule_map \<Rightarrow> rule_map) \<Rightarrow> 'w KubeIngressManager \<Rightarrow> string \<Rightarrow> string list \<Rightarrow> ('w, unit) go" where
  "createIngress lib ord i lrpName uriList =
     (if uriList = [] then go_return ()
      else
        let ingress = \<lparr>ing_Kind = ingressKind, ing_APIVersion = ingressAPIVersion,
              ing_Meta = zero_ObjectMeta\<lparr>om_Name := ingressName, om_Namespace := kim_namespace i\<rparr>,
              ing_Rules = []\<rparr>
        in go_bind (updateSpec lib ord ingress lrpName uriList) (\<lambda>ingress.
           go_bind (rc_Create (Ingresses (kim_client i)) (kim_namespace i) ingress) (\<lambda>_.
           go_return ())))"

text \<open>The loop of \<^verbatim>\<open>Delete\<close>: it removes in place and steps the index back.\<close>

function deleteRules :: "string \<Rightarrow> IngressRule list \<Rightarrow> int \<Rightarrow> ('w, IngressRule list) go" where
  "deleteRules serviceName rules i w =
     (if i \<ge> int (length rules) then (Return rules, w)
      else if i < 0 then (Panic ''index out of range'', w)
      else (case backend_service (HTTP (rules ! nat i)) w of
          (Return s, w') \<Rightarrow>
            if s = serviceName
            then deleteRules serviceName (take (nat i) rules @ drop (nat (i + 1)) rules) ((i - 1) + 1) w'
            else deleteRules serviceName rules (i + 1) w'
        | (Error e, w') \<Rightarrow> (Error e, w')
        | (Panic p, w') \<Rightarrow> (Panic p, w')
        | (Blocked, w') \<Rightarrow> (Blocked, w')))"
  by pat_completeness auto
termination
  by (relation "measure (\<lambda>(_, rules, i, _). nat (int (length rules) - i))") auto

declare deleteRules.simps [simp del]

definition KubeIngressManager_Delete :: "'w KubeIngressManager \<Rightarrow> string \<Rightarrow> ('w, unit) go" where
  "KubeIngressManager_Delete i lrpName =
     go_bind (rc_Get (Ingresses (kim_client i)) (kim_namespace i) ingressName) (\<lambda>ing.
     let serviceName = GetInternalServiceName lrpName in
     go_bind (deleteRules serviceName (ing_Rules ing) 0) (\<lambda>rules.
     if length rules = 0
     then rc_Delete (Ingresses (kim_client i)) (kim_namespace i) ingressName None
     else updateIngressObject i (ing\<lparr>ing_Rules := rules\<rparr>)))"

text \<open>\<open>decodeRoutes\<close> is the same unmarshalling of a list of strings; here its error is a panic.\<close>

definition KubeIngressManager_Update ::
  "url_library \<Rightarrow> (nat \<Rightarrow> rule_map \<Rightarrow> rule_map) \<Rightarrow> 'w KubeIngressManager \<Rightarrow> LRP \<Rightarrow> ('w, unit) go" where
  "KubeIngressManager_Update lib ord i lrp =
     (case decodeRoutes (nilmap_index (Metadata lrp) VcapAppUris) of
        Inl e \<Rightarrow> go_panic ''json''
      | Inr uriList \<Rightarrow>
          go_bind (rc_List (Ingresses (kim_client i)) (kim_namespace i) '''') (\<lambda>ingresses.
          case getIngress ingresses of
            Some ingress \<Rightarrow>
              if length uriList = 0 then KubeIngressManager_Delete i (Name lrp)
              else go_bind (updateSpec lib ord ingress (Name lrp) uriList) (\<lambda>ingress.
                   updateIngressObject i ingress)
          | None \<Rightarrow> createIngress lib ord i (Name lrp) uriList))"

definition NewIngressManager ::
  "url_library \<Rightarrow> (nat \<Rightarrow> rule_map \<Rightarrow> rule_map) \<Rightarrow> 'w kubernetes_Interface \<Rightarrow> string \<Rightarrow> 'w IngressManager" where
  "NewIngressManager lib ord client namespace =
     (let i = \<lparr>kim_namespace = namespace, kim_client = client\<rparr> in
      \<lparr>igm_Update = KubeIngressManager_Update lib ord i,
       igm_Delete = KubeIngressManager_Delete i\<rparr>)"

section \<open>The loop of the deletion\<close>

text \<open>A rule that points to an object with a first path, and the service that path leads to.\<close>

definition rule_wf :: "IngressRule \<Rightarrow> bool" where
  "rule_wf r \<longleftrightarrow> (case HTTP r of Some (p # ps) \<Rightarrow> True | _ \<Rightarrow> False)"

definition routes_to :: "string \<Rightarrow> IngressRule \<Rightarrow> bool" where
  "routes_to s r \<longleftrightarrow> (case HTTP r of Some (p # ps) \<Rightarrow> ServiceName (Backend p) = s | _ \<Rightarrow> False)"

lemma backend_service_run:
  "rule_wf r \<Longrightarrow> \<exists>s. backend_service (HTTP r) w = (Return s, w) \<and> (\<forall>sn. s = sn \<longleftrightarrow> routes_to sn r)"
  by (auto simp: rule_wf_def routes_to_def backend_service_def split: option.splits list.splits)

lemma deleteRules_from:
  "\<forall>r \<in> set ys. rule_wf r \<Longrightarrow>
   deleteRules sn (xs @ ys) (int (length xs)) w = (Return (xs @ filter (\<lambda>r. \<not> routes_to sn r) ys), w)"
proof (induction ys arbitrary: xs)
  case Nil
  then show ?case by (simp add: deleteRules.simps)
next
  case (Cons y ys)
  then obtain s where s: "backend_service (HTTP y) w = (Return s, w)" "s = sn \<longleftrightarrow> routes_to sn y"
    using backend_service_run [of y w] by auto
  have "nat (int (length xs) + 1) = Suc (length xs)" by simp
  with s Cons.IH [of xs] Cons.IH [of "xs @ [y]"] Cons.prems show ?case
    by (subst deleteRules.simps) (simp add: nth_append add.commute)
qed

lemma deleteRules_eq:
  "\<forall>r \<in> set rules. rule_wf r \<Longrightarrow>
   deleteRules sn rules 0 w = (Return (filter (\<lambda>r. \<not> routes_to sn r) rules), w)"
  using deleteRules_from [of rules sn "[]" w] by simp

section \<open>The difference of rule maps\<close>

text \<open>Addresses from \<open>m\<close> up to \<open>n\<close>, one per rule: what decoding and creating rules give.\<close>

definition fresh_refs :: "nat \<Rightarrow> nat \<Rightarrow> rule_ref list \<Rightarrow> bool" where
  "fresh_refs m n refs \<longleftrightarrow> map rr_HTTP refs = map Some [m ..< n]"

lemma fresh_refs_distinct: "fresh_refs m n refs \<Longrightarrow> distinct refs"
  by (metis distinct_map distinct_upt fresh_refs_def inj_Some subset_UNIV inj_on_subset)

lemma fresh_refs_address:
  assumes "fresh_refs m n refs" and "r \<in> set refs"
  obtains k where "rr_HTTP r = Some k" "m \<le> k" "k < n"
proof -
  have "rr_HTTP r \<in> set (map Some [m ..< n])"
    using assms unfolding fresh_refs_def by (metis image_eqI image_set)
  then show thesis using that by auto
qed

lemma rule_value_append:
  assumes "fresh_refs m n refs" and "n \<le> length h"
  shows "map (rule_value (h @ h')) refs = map (rule_value h) refs"
proof (intro map_cong refl)
  fix r assume "r \<in> set refs"
  then obtain k where "rr_HTTP r = Some k" "k < n"
    by (rule fresh_refs_address [OF assms(1)])
  with assms(2) show "rule_value (h @ h') r = rule_value h r"
    by (simp add: rule_value_def nth_append)
qed

lemma fresh_refs_Cons:
  assumes "fresh_refs (Suc m) n refs" and "m < n"
  shows "fresh_refs m n (\<lparr>rr_Host = host, rr_HTTP = Some m\<rparr> # refs)"
  using assms by (simp add: fresh_refs_def upt_conv_Cons)

lemma decode_rules_refs:
  assumes "\<forall>r \<in> set rs. rule_wf r"
  shows "\<exists>refs h'. decode_rules rs h = (refs, h @ h') \<and> fresh_refs (length h) (length (h @ h')) refs
    \<and> map (rule_value (h @ h')) refs = rs"
  using assms
proof (induction rs arbitrary: h)
  case (Cons r rs)
  then obtain v where v: "HTTP r = Some v"
    by (auto simp: rule_wf_def split: option.splits)
  obtain refs h' where IH: "decode_rules rs (h @ [v]) = (refs, (h @ [v]) @ h')"
    "fresh_refs (length (h @ [v])) (length ((h @ [v]) @ h')) refs" "map (rule_value ((h @ [v]) @ h')) refs = rs"
    using Cons.IH [of "h @ [v]"] Cons.prems by auto
  let ?ref = "\<lparr>rr_Host = Host r, rr_HTTP = Some (length h)\<rparr>"
  have "fresh_refs (length h) (length (h @ [v] @ h')) (?ref # refs)"
    using IH(2) by (intro fresh_refs_Cons) simp_all
  moreover have "rule_value (h @ [v] @ h') ?ref = r"
    using v by (simp add: rule_value_def nth_append)
  ultimately show ?case
    using v IH(1,3) by (intro exI [of _ "?ref # refs"] exI [of _ "[v] @ h'"]) simp
qed (simp add: fresh_refs_def)

text \<open>The rules the code creates, as values.\<close>

fun new_rules :: "url_library \<Rightarrow> string \<Rightarrow> string list \<Rightarrow> go_error + IngressRule list" where
  "new_rules lib a [] = Inr []"
| "new_rules lib a (uri # uris) = (case validateURL lib uri of Inl e \<Rightarrow> Inl e
    | Inr url \<Rightarrow> (case new_rules lib a uris of Inl e \<Rightarrow> Inl e
       | Inr rs \<Rightarrow> Inr (\<lparr>Host = lib_ToLower lib (url_Host url), HTTP = Some [\<lparr>hip_Path = path (url_Path url),
           Backend = \<lparr>ServiceName = GetInternalServiceName a, ServicePort = 8080\<rparr>\<rparr>]\<rparr> # rs)))"

lemma createIngressRules_error:
  "new_rules lib a uris = Inl e \<Longrightarrow> createIngressRules lib a uris acc h = Inl e"
  by (induction uris arbitrary: acc h) (auto split: sum.splits)

lemma createIngressRules_refs:
  assumes "new_rules lib a uris = Inr rs" and "fresh_refs m (length h) acc" and "m \<le> length h"
  shows "\<exists>refs h'. createIngressRules lib a uris acc h = Inr (acc @ refs, h @ h')
    \<and> fresh_refs m (length (h @ h')) (acc @ refs) \<and> map (rule_value (h @ h')) refs = rs"
  using assms
proof (induction uris arbitrary: acc h rs)
  case (Cons uri uris)
  then obtain url rs' where url: "validateURL lib uri = Inr url" and rs': "new_rules lib a uris = Inr rs'"
    by (auto split: sum.splits)
  let ?v = "[\<lparr>hip_Path = path (url_Path url),
    Backend = \<lparr>ServiceName = GetInternalServiceName a, ServicePort = 8080\<rparr>\<rparr>]"
  let ?ref = "\<lparr>rr_Host = lib_ToLower lib (url_Host url), rr_HTTP = Some (length h)\<rparr>"
  have "fresh_refs m (length (h @ [?v])) (acc @ [?ref])"
    using Cons.prems(2,3) by (simp add: fresh_refs_def)
  then obtain refs h' where "createIngressRules lib a uris (acc @ [?ref]) (h @ [?v]) = Inr ((acc @ [?ref]) @ refs, (h @ [?v]) @ h')"
    and "fresh_refs m (length ((h @ [?v]) @ h')) ((acc @ [?ref]) @ refs)"
    and "map (rule_value ((h @ [?v]) @ h')) refs = rs'"
    using Cons.IH [OF rs'] Cons.prems(3) by fastforce
  moreover have "rs = \<lparr>Host = lib_ToLower lib (url_Host url), HTTP = Some ?v\<rparr> # rs'"
    using Cons.prems(1) url rs' by simp
  moreover have "rule_value (h @ ?v # h') ?ref = \<lparr>Host = lib_ToLower lib (url_Host url), HTTP = Some ?v\<rparr>"
    by (simp add: rule_value_def)
  ultimately show ?case
    using url by (intro exI [of _ "?ref # refs"] exI [of _ "[?v] @ h'"]) simp
qed simp

lemma update_new_key: "k \<notin> fst ` set m \<Longrightarrow> AList.update k v m = m @ [(k, v)]"
  by (induction m) auto

lemma toRuleMap_eq:
  "distinct (map fst m @ refs) \<Longrightarrow> toRuleMap refs m = m @ map (\<lambda>r. (r, True)) refs"
proof (induction refs arbitrary: m)
  case (Cons r refs)
  then show ?case by (auto simp: update_new_key)
qed simp

lemma appendNewRules_eq:
  "distinct (map fst m @ map fst us) \<Longrightarrow> appendNewRules m us = m @ map (\<lambda>(u, _). (u, True)) us"
proof (induction m us rule: appendNewRules.induct)
  case (2 m u b us)
  then have "u \<notin> fst ` set m" by auto
  then have "map_of m u = None" by (simp add: map_of_eq_None_iff)
  with 2 \<open>u \<notin> fst ` set m\<close> show ?case by (auto simp: update_new_key)
qed simp

lemma removeObsoleteRules_eq:
  assumes "\<forall>(e, b) \<in> set rest. map_of updated e = None \<longrightarrow> rule_wf (rule_value h e)"
  shows "removeObsoleteRules h m rest updated sn w = (Return
    (filter (\<lambda>(e, b). \<not> (e \<in> fst ` set rest \<and> map_of updated e = None \<and> routes_to sn (rule_value h e))) m), w)"
  using assms
proof (induction h m rest updated sn rule: removeObsoleteRules.induct)
  case (2 h m e b rest updated sn)
  show ?case
  proof (cases "map_of updated e")
    case None
    with "2.prems" obtain s where s: "backend_service (HTTP (rule_value h e)) w = (Return s, w)"
      "s = sn \<longleftrightarrow> routes_to sn (rule_value h e)"
      using backend_service_run [of "rule_value h e" w] by auto
    then show ?thesis
      using None "2.IH"(1) [OF None, of s] "2.prems"
      by (auto simp: go_simps AList.delete_eq case_prod_beta intro!: filter_cong)
  next
    case (Some x)
    with 2 show ?thesis by (auto intro!: filter_cong)
  qed
qed simp

text \<open>The difference of the two sets keeps the other services' rules and has every new rule once.\<close>

lemma removeDifference_run:
  assumes "\<And>k. range_order (ord k)"
    and E: "fresh_refs 0 n E" "\<forall>e \<in> set E. rule_wf (rule_value h e)" and U: "fresh_refs n m U"
  shows "\<exists>sl. removeDifference ord h E U sn w = (Return sl, w)
    \<and> mset (map (rule_value h) sl)
      = mset (filter (\<lambda>r. \<not> routes_to sn r) (map (rule_value h) E)) + mset (map (rule_value h) U)"
proof -
  let ?mark = "map (\<lambda>r. (r, True))"
  have disj: "set E \<inter> set U = {}"
  proof (intro equals0I, elim IntE)
    fix r assume "r \<in> set E" "r \<in> set U"
    obtain k where "rr_HTTP r = Some k" "k < n"
      by (rule fresh_refs_address [OF E(1) \<open>r \<in> set E\<close>])
    moreover obtain k' where "rr_HTTP r = Some k'" "n \<le> k'"
      by (rule fresh_refs_address [OF U \<open>r \<in> set U\<close>])
    ultimately show False by simp
  qed
  have hE: "toRuleMap E [] = ?mark E" and hU: "toRuleMap U [] = ?mark U"
    using fresh_refs_distinct [OF E(1)] fresh_refs_distinct [OF U] by (simp_all add: toRuleMap_eq)
  let ?U = "map fst (ord 0 (?mark U))"
  have U': "mset ?U = mset U"
    by (simp add: range_order_mset [OF assms(1)] multiset.map_comp comp_def)
  then have setU: "set ?U = set U" and dU: "distinct ?U"
    using fresh_refs_distinct [OF U] mset_eq_setD mset_eq_imp_distinct_iff by blast+
  have app: "appendNewRules (?mark E) (ord 0 (?mark U)) = ?mark E @ ?mark ?U"
    using disj setU dU fresh_refs_distinct [OF E(1)]
    by (subst appendNewRules_eq) (auto simp: comp_def case_prod_beta)
  define X where "X = ?mark E @ ?mark ?U"
  let ?keep = "\<lambda>e. \<not> (e \<in> set E \<union> set U \<and> e \<notin> set U \<and> routes_to sn (rule_value h e))"
  have look: "map_of (?mark U) e = None \<longleftrightarrow> e \<notin> set U" for e
    by (simp add: map_of_eq_None_iff image_image)
  have rest: "fst ` set (ord 1 X) = set E \<union> set U"
    using range_order_set [OF assms(1)] setU by (simp add: X_def image_Un image_image)
  have "\<forall>(e, b) \<in> set (ord 1 X). map_of (?mark U) e = None \<longrightarrow> rule_wf (rule_value h e)"
    using E(2) setU by (auto simp: look range_order_set [OF assms(1)] X_def)
  from removeObsoleteRules_eq [OF this, of X sn w]
  have obs: "removeObsoleteRules h X (ord 1 X) (?mark U) sn w = (Return (filter (\<lambda>(e, b). ?keep e) X), w)"
    unfolding rest look .
  have "removeDifference ord h E U sn w = (Return (map fst (ord 2 (filter (\<lambda>(e, b). ?keep e) X))), w)"
    unfolding removeDifference_def Let_def hE hU app X_def [symmetric]
    by (simp only: go_bind_def obs prod.case outcome.case go_return_run toRuleSlice_def)
  moreover have "mset (map (rule_value h) (map fst (ord 2 (filter (\<lambda>(e, b). ?keep e) X))))
    = mset (filter (\<lambda>r. \<not> routes_to sn r) (map (rule_value h) E)) + mset (map (rule_value h) U)"
  proof -
    have "filter ?keep E = filter (\<lambda>e. \<not> routes_to sn (rule_value h e)) E"
      using disj by (intro filter_cong) auto
    moreover have "filter ?keep ?U = ?U"
      using setU by (intro filter_True) auto
    ultimately have kept: "map fst (filter (\<lambda>(e, b). ?keep e) X) = filter (\<lambda>e. \<not> routes_to sn (rule_value h e)) E @ ?U"
      unfolding X_def filter_append filter_map map_append by (simp add: comp_def)
    have "mset (map fst (ord 2 (filter (\<lambda>(e, b). ?keep e) X)))
        = mset (filter (\<lambda>e. \<not> routes_to sn (rule_value h e)) E) + mset U"
      using arg_cong [OF kept, of mset] unfolding mset_append U'
      by (simp only: mset_map range_order_mset [OF assms(1)])
    then show ?thesis
      by (simp only: mset_map [of "rule_value h"] filter_map comp_def image_mset_union)
  qed
  ultimately show ?thesis by blast
qed

lemma updateSpec_run:
  assumes "\<And>k. range_order (ord k)" and wf: "\<forall>r \<in> set (ing_Rules ing). rule_wf r"
    and new: "new_rules lib a uris = Inr rs"
  shows "\<exists>rl. updateSpec lib ord ing a uris w = (Return (ing\<lparr>ing_Rules := rl\<rparr>), w)
    \<and> mset rl = mset (filter (\<lambda>r. \<not> routes_to (GetInternalServiceName a) r) (ing_Rules ing)) + mset rs"
proof -
  obtain E h where E: "decode_rules (ing_Rules ing) [] = (E, h)" "fresh_refs 0 (length h) E"
    "map (rule_value h) E = ing_Rules ing"
    using decode_rules_refs [OF wf, of "[]"] by auto
  obtain U h' where U: "createIngressRules lib a uris [] h = Inr (U, h @ h')"
    "fresh_refs (length h) (length (h @ h')) U" "map (rule_value (h @ h')) U = rs"
    using createIngressRules_refs [OF new, of "length h" h "[]"] by (auto simp: fresh_refs_def)
  have E': "map (rule_value (h @ h')) E = ing_Rules ing"
    unfolding rule_value_append [OF E(2) order.refl] by (rule E(3))
  then have "\<forall>e \<in> set E. rule_wf (rule_value (h @ h') e)"
    using wf by (metis imageI set_map)
  from removeDifference_run [where ord = ord, OF assms(1) E(2) this U(2), where sn = "GetInternalServiceName a" and w = w]
  obtain sl where "removeDifference ord (h @ h') E U (GetInternalServiceName a) w = (Return sl, w)"
    and "mset (map (rule_value (h @ h')) sl)
      = mset (filter (\<lambda>r. \<not> routes_to (GetInternalServiceName a) r) (ing_Rules ing)) + mset rs"
    unfolding E' U(3) by blast
  then show ?thesis
    using E(1) U(1) by (intro exI [of _ "map (rule_value (h @ h')) sl"]) (simp add: updateSpec_def go_simps)
qed

lemma updateSpec_error:
  "new_rules lib a uris = Inl e \<Longrightarrow> updateSpec lib ord ing a uris w = (Error e, w)"
  by (simp add: updateSpec_def createIngressRules_error split: prod.split)

lemma new_rules_wf:
  "new_rules lib a uris = Inr rs \<Longrightarrow>
     length rs = length uris \<and> (\<forall>r \<in> set rs. rule_wf r \<and> routes_to (GetInternalServiceName a) r)"
  by (induction uris arbitrary: rs) (auto split: sum.splits simp: rule_wf_def routes_to_def)

section \<open>The operations in a cluster that keeps its promises\<close>

text \<open>The rules of a namespace, and the invariant of the ingress object: it is never empty, and every rule is complete.\<close>

definition ingress_rules :: "cluster \<Rightarrow> string \<Rightarrow> IngressRule list" where
  "ingress_rules c ns = (case c_Ingresses c (ns, ingressName) of None \<Rightarrow> [] | Some ing \<Rightarrow> ing_Rules ing)"

definition ingress_ok :: "string \<Rightarrow> cluster \<Rightarrow> bool" where
  "ingress_ok ns c \<longleftrightarrow> (case c_Ingresses c (ns, ingressName) of None \<Rightarrow> True
     | Some ing \<Rightarrow> ing_Rules ing \<noteq> [] \<and> (\<forall>r \<in> set (ing_Rules ing). rule_wf r))"

text \<open>
  The specification: an operation on the rules of app \<open>a\<close> changes nothing but the ingress object of
  the namespace, whose rules are then those of the other services and the given new ones.
\<close>

definition replaces_rules :: "string \<Rightarrow> string \<Rightarrow> IngressRule list \<Rightarrow> cluster \<Rightarrow> cluster \<Rightarrow> bool" where
  "replaces_rules ns a new c c' \<longleftrightarrow>
     (\<exists>x. c' = c\<lparr>c_Ingresses := (c_Ingresses c)((ns, ingressName) := x)\<rparr>)
     \<and> mset (ingress_rules c' ns)
       = filter_mset (\<lambda>r. \<not> routes_to (GetInternalServiceName a) r) (mset (ingress_rules c ns)) + mset new
     \<and> ingress_ok ns c'"

lemma getIngress_Some: "getIngress items = Some ing \<Longrightarrow> ing \<in> set items \<and> om_Name (ing_Meta ing) = ingressName"
  by (induction items) (auto split: if_splits)

lemma getIngress_None: "getIngress items = None \<longleftrightarrow> (\<forall>ing \<in> set items. om_Name (ing_Meta ing) \<noteq> ingressName)"
  by (induction items) auto

context kube_cluster
begin

lemma getIngress_list:
  assumes "inv w" and "ns \<noteq> ''''"
  obtains items where "rc_List (Ingresses cl) ns '''' w = (Return items, w)"
    and "getIngress items = c_Ingresses (abs w) (ns, ingressName)"
proof -
  obtain items where list: "rc_List (Ingresses cl) ns '''' w = (Return items, w)"
    and items: "set items = {ob. \<exists>n. c_Ingresses (abs w) (ns, n) = Some ob}"
    using ing.List_law [OF assms] by blast
  have "getIngress items = c_Ingresses (abs w) (ns, ingressName)"
  proof (cases "getIngress items")
    case None
    then show ?thesis
      using items ing.stored_name [OF assms(1), of ns ingressName]
      by (cases "c_Ingresses (abs w) (ns, ingressName)") (auto simp: getIngress_None)
  next
    case (Some i)
    then show ?thesis
      using getIngress_Some [OF Some] items ing.stored_name [OF assms(1)] by fastforce
  qed
  with list show thesis by (rule that)
qed

lemma store_ingress:
  assumes "inv w" and "ns \<noteq> ''''" and found: "c_Ingresses (abs w) (ns, ingressName) = Some i"
    and "rl \<noteq> []" and "\<forall>r \<in> set rl. rule_wf r"
    and "mset rl = filter_mset (\<lambda>r. \<not> routes_to (GetInternalServiceName a) r) (mset (ing_Rules i)) + mset new"
  obtains w' where "updateIngressObject \<lparr>kim_namespace = ns, kim_client = cl\<rparr> (i\<lparr>ing_Rules := rl\<rparr>) w = (Return (), w')"
    and "inv w'" and "replaces_rules ns a new (abs w) (abs w')"
proof -
  have key: "om_Name (ing_Meta i) = ingressName" "om_Namespace (ing_Meta i) = ns"
    using ing.stored_name [OF assms(1) found] by simp_all
  then have same: "ing_with_ns ns (i\<lparr>ing_Rules := rl\<rparr>) = i\<lparr>ing_Rules := rl\<rparr>"
    by (simp add: ing_with_ns_def)
  obtain w1 where "rc_Update (Ingresses cl) ns (i\<lparr>ing_Rules := rl\<rparr>) w = (Return (i\<lparr>ing_Rules := rl\<rparr>), w1)" and "inv w1"
    and abs1: "abs w1 = c_Ingresses_update (\<lambda>st. st((ns, ingressName) \<mapsto> i\<lparr>ing_Rules := rl\<rparr>)) (abs w)"
    by (rule ing.Update_found [of w ns "i\<lparr>ing_Rules := rl\<rparr>" i, unfolded same]) (use assms key in auto)
  moreover have "replaces_rules ns a new (abs w) (abs w1)"
    using assms(4-6) found abs1 unfolding replaces_rules_def
    by (intro conjI exI [of _ "Some (i\<lparr>ing_Rules := rl\<rparr>)"]) (simp_all add: ingress_rules_def ingress_ok_def)
  ultimately show thesis
    by (intro that [of w1]) (simp_all add: updateIngressObject_def go_simps)
qed

lemma Delete_rules:
  assumes "inv w" and "ns \<noteq> ''''" and ok: "ingress_ok ns (abs w)"
    and found: "c_Ingresses (abs w) (ns, ingressName) = Some i"
  obtains w' where "igm_Delete (NewIngressManager lib ord cl ns) a w = (Return (), w')" and "inv w'"
    and "replaces_rules ns a [] (abs w) (abs w')"
proof -
  let ?i = "\<lparr>kim_namespace = ns, kim_client = cl\<rparr>"
  let ?rl = "filter (\<lambda>r. \<not> routes_to (GetInternalServiceName a) r) (ing_Rules i)"
  have wf: "\<forall>r \<in> set (ing_Rules i). rule_wf r"
    using ok found by (simp add: ingress_ok_def)
  have get: "rc_Get (Ingresses cl) ns ingressName w = (Return i, w)"
    using ing.Get_found [OF assms(1,2) _ found] by simp
  show thesis
  proof (cases "?rl = []")
    case True
    obtain w1 where w1: "rc_Delete (Ingresses cl) ns ingressName None w = (Return (), w1)" "inv w1"
      and abs1: "abs w1 = c_Ingresses_update (\<lambda>st. st((ns, ingressName) := None)) (abs w)"
      by (rule ing.Delete_found [OF assms(1,2) _ found, of None]) simp
    have "replaces_rules ns a [] (abs w) (abs w1)"
      using True abs1 unfolding replaces_rules_def
      by (intro conjI exI [of _ None]) (simp_all add: ingress_rules_def ingress_ok_def found flip: mset_filter)
    with True get w1 wf show thesis
      by (intro that [of w1])
        (simp_all add: NewIngressManager_def KubeIngressManager_Delete_def Let_def go_simps deleteRules_eq)
  next
    case False
    then obtain w1 where "updateIngressObject ?i (i\<lparr>ing_Rules := ?rl\<rparr>) w = (Return (), w1)" "inv w1"
      "replaces_rules ns a [] (abs w) (abs w1)"
      by (rule store_ingress [OF assms(1,2) found, where a = a and new = "[]"]) (use wf in auto)
    with False get wf show thesis
      by (intro that [of w1])
        (simp_all add: NewIngressManager_def KubeIngressManager_Delete_def Let_def go_simps deleteRules_eq)
  qed
qed

lemma Delete_rules_missing:
  assumes "inv w" and "ns \<noteq> ''''" and "c_Ingresses (abs w) (ns, ingressName) = None"
  shows "igm_Delete (NewIngressManager lib ord cl ns) a w = (Error (NotFound ingressName), w)"
  using ing.Get_missing [OF assms(1,2) _ assms(3)]
  by (simp add: NewIngressManager_def KubeIngressManager_Delete_def Let_def go_simps)

end

context kube_cluster
begin

lemma Update_rules:
  assumes "inv w" and "ns \<noteq> ''''" and ok: "ingress_ok ns (abs w)" and ord: "\<And>k. range_order (ord k)"
    and dec: "decodeRoutes (lrp_uris lrp) = Inr uris" and new: "new_rules lib (Name lrp) uris = Inr rs"
    and "uris \<noteq> [] \<or> c_Ingresses (abs w) (ns, ingressName) \<noteq> None"
  obtains w' where "igm_Update (NewIngressManager lib ord cl ns) lrp w = (Return (), w')" and "inv w'"
    and "replaces_rules ns (Name lrp) rs (abs w) (abs w')"
proof -
  let ?i = "\<lparr>kim_namespace = ns, kim_client = cl\<rparr>"
  obtain items where list: "rc_List (Ingresses cl) ns '''' w = (Return items, w)"
    and get: "getIngress items = c_Ingresses (abs w) (ns, ingressName)"
    by (rule getIngress_list [OF assms(1,2)])
  have rs: "length rs = length uris" "\<forall>r \<in> set rs. rule_wf r"
    using new_rules_wf [OF new] by simp_all
  show thesis
  proof (cases "c_Ingresses (abs w) (ns, ingressName)")
    case (Some i)
    show thesis
    proof (cases uris)
      case Nil
      obtain w1 where "igm_Delete (NewIngressManager lib ord cl ns) (Name lrp) w = (Return (), w1)" "inv w1"
        "replaces_rules ns (Name lrp) [] (abs w) (abs w1)"
        by (rule Delete_rules [OF assms(1,2) ok Some])
      with Nil new list get Some dec show thesis
        by (intro that [of w1]) (simp_all add: NewIngressManager_def KubeIngressManager_Update_def Let_def go_simps)
    next
      case (Cons u us)
      have wf: "\<forall>r \<in> set (ing_Rules i). rule_wf r"
        using ok Some by (simp add: ingress_ok_def)
      obtain rl where rl: "updateSpec lib ord i (Name lrp) uris w = (Return (i\<lparr>ing_Rules := rl\<rparr>), w)"
        and mset: "mset rl = mset (filter (\<lambda>r. \<not> routes_to (GetInternalServiceName (Name lrp)) r) (ing_Rules i)) + mset rs"
        using updateSpec_run [where ord = ord and w = w, OF ord wf new] by blast
      have set: "set rl = set (filter (\<lambda>r. \<not> routes_to (GetInternalServiceName (Name lrp)) r) (ing_Rules i)) \<union> set rs"
        using arg_cong [OF mset, of set_mset] by simp
      with Cons rs(1) have "rl \<noteq> []" by auto
      moreover have "\<forall>r \<in> set rl. rule_wf r"
        unfolding set using wf rs(2) by auto
      ultimately obtain w1 where "updateIngressObject ?i (i\<lparr>ing_Rules := rl\<rparr>) w = (Return (), w1)" "inv w1"
        "replaces_rules ns (Name lrp) rs (abs w) (abs w1)"
        by (rule store_ingress [OF assms(1,2) Some _ _ mset [unfolded mset_filter]])
      with Cons list get Some dec rl show thesis
        by (intro that [of w1]) (simp_all add: NewIngressManager_def KubeIngressManager_Update_def Let_def go_simps)
    qed
  next
    case None
    let ?ing = "\<lparr>ing_Kind = ingressKind, ing_APIVersion = ingressAPIVersion,
      ing_Meta = zero_ObjectMeta\<lparr>om_Name := ingressName, om_Namespace := ns\<rparr>, ing_Rules = []\<rparr>"
    obtain rl where rl: "updateSpec lib ord ?ing (Name lrp) uris w = (Return (?ing\<lparr>ing_Rules := rl\<rparr>), w)"
      and mset: "mset rl = mset rs"
      using updateSpec_run [where ord = ord and ing = ?ing and w = w, OF ord _ new] by auto
    obtain w1 where create: "rc_Create (Ingresses cl) ns (?ing\<lparr>ing_Rules := rl\<rparr>) w = (Return (ing_with_ns ns (?ing\<lparr>ing_Rules := rl\<rparr>)), w1)"
      and "inv w1"
      and abs1: "abs w1 = c_Ingresses_update (\<lambda>st. st((ns, ingressName) \<mapsto> ing_with_ns ns (?ing\<lparr>ing_Rules := rl\<rparr>))) (abs w)"
      by (rule ing.Create_fresh [of w ns "?ing\<lparr>ing_Rules := rl\<rparr>"]) (use assms None in auto)
    have "uris \<noteq> []" using assms(7) None by simp
    have "set rl = set rs" by (rule mset_eq_setD [OF mset])
    moreover from this \<open>uris \<noteq> []\<close> rs(1) have "rl \<noteq> []" by auto
    ultimately have "replaces_rules ns (Name lrp) rs (abs w) (abs w1)"
      using mset rs(2) unfolding replaces_rules_def abs1
      by (intro conjI exI [of _ "Some (ing_with_ns ns (?ing\<lparr>ing_Rules := rl\<rparr>))"])
        (simp_all add: ingress_rules_def ingress_ok_def None)
    with \<open>inv w1\<close> \<open>uris \<noteq> []\<close> list get None dec rl create show thesis
      by (intro that [of w1])
        (simp_all add: NewIngressManager_def KubeIngressManager_Update_def createIngress_def Let_def go_simps)
  qed
qed

lemma Update_rules_none:
  assumes "inv w" and "ns \<noteq> ''''" and dec: "decodeRoutes (lrp_uris lrp) = Inr []"
    and none: "c_Ingresses (abs w) (ns, ingressName) = None"
  shows "igm_Update (NewIngressManager lib ord cl ns) lrp w = (Return (), w)"
proof -
  obtain items where "rc_List (Ingresses cl) ns '''' w = (Return items, w)"
    and "getIngress items = c_Ingresses (abs w) (ns, ingressName)"
    by (rule getIngress_list [OF assms(1,2)])
  with dec none show ?thesis
    by (simp add: NewIngressManager_def KubeIngressManager_Update_def createIngress_def Let_def go_simps)
qed

lemma Update_rules_all:
  assumes "inv w" and "ns \<noteq> ''''" and ok: "ingress_ok ns (abs w)" and ord: "\<And>k. range_order (ord k)"
    and dec: "decodeRoutes (lrp_uris lrp) = Inr uris" and new: "new_rules lib (Name lrp) uris = Inr rs"
  obtains w' where "igm_Update (NewIngressManager lib ord cl ns) lrp w = (Return (), w')" and "inv w'"
    and "replaces_rules ns (Name lrp) rs (abs w) (abs w')"
proof (cases "uris \<noteq> [] \<or> c_Ingresses (abs w) (ns, ingressName) \<noteq> None")
  case True
  show thesis
    by (rule Update_rules [where ord = ord, OF assms(1-3) ord dec new True]) (rule that)
next
  case False
  then have none: "c_Ingresses (abs w) (ns, ingressName) = None" and "uris = []" by simp_all
  then have "igm_Update (NewIngressManager lib ord cl ns) lrp w = (Return (), w)" and "rs = []"
    using Update_rules_none [OF assms(1,2) _ none] dec new by simp_all
  moreover from this(2) none have "replaces_rules ns (Name lrp) rs (abs w) (abs w)"
    unfolding replaces_rules_def
    by (intro conjI exI [of _ None]) (simp_all add: ingress_rules_def ingress_ok_def fun_upd_idem)
  ultimately show thesis
    using assms(1) by (intro that)
qed

lemma Update_rules_invalid:
  assumes "inv w" and "ns \<noteq> ''''" and dec: "decodeRoutes (lrp_uris lrp) = Inr uris"
    and new: "new_rules lib (Name lrp) uris = Inl e"
  shows "igm_Update (NewIngressManager lib ord cl ns) lrp w = (Error e, w)"
proof -
  obtain items where list: "rc_List (Ingresses cl) ns '''' w = (Return items, w)"
    by (rule getIngress_list [OF assms(1,2)])
  from new have "uris \<noteq> []" by auto
  with list dec show ?thesis
    by (simp add: NewIngressManager_def KubeIngressManager_Update_def createIngress_def Let_def go_simps
        updateSpec_error [OF new] split: option.split)
qed

end

section \<open>The rules of every app\<close>

text \<open>
  The contract of the ingress manager: a map from apps to their rules. An update with readable and
  valid URIs replaces the app's rules, every other update leaves all of them, a deletion removes the app's.
\<close>

datatype ingress_op = IngUpdate LRP | IngDelete string

fun run_ingress_op :: "'w IngressManager \<Rightarrow> ingress_op \<Rightarrow> ('w, unit) go" where
  "run_ingress_op m (IngUpdate lrp) = igm_Update m lrp"
| "run_ingress_op m (IngDelete a) = igm_Delete m a"

definition run_ingress_ops :: "'w IngressManager \<Rightarrow> ingress_op list \<Rightarrow> 'w \<Rightarrow> 'w" where
  "run_ingress_ops m ops w = fold (\<lambda>p w. snd (run_ingress_op m p w)) ops w"

fun ingress_spec :: "url_library \<Rightarrow> ingress_op \<Rightarrow> (string \<Rightarrow> IngressRule multiset) \<Rightarrow> string \<Rightarrow> IngressRule multiset" where
  "ingress_spec lib (IngUpdate lrp) A = (case decodeRoutes (lrp_uris lrp) of
      Inl _ \<Rightarrow> A
    | Inr uris \<Rightarrow> (case new_rules lib (Name lrp) uris of Inl _ \<Rightarrow> A | Inr rs \<Rightarrow> A(Name lrp := mset rs)))"
| "ingress_spec lib (IngDelete a) A = A(a := {#})"

definition app_rules :: "cluster \<Rightarrow> string \<Rightarrow> string \<Rightarrow> IngressRule multiset" where
  "app_rules c ns a = filter_mset (routes_to (GetInternalServiceName a)) (mset (ingress_rules c ns))"

lemma routes_to_unique: "routes_to s r \<Longrightarrow> routes_to t r \<longleftrightarrow> s = t"
  by (auto simp: routes_to_def split: option.splits list.splits)

lemma replaces_rules_app:
  assumes "replaces_rules ns a new c c'" and new: "\<forall>r \<in> set new. routes_to (GetInternalServiceName a) r"
  shows "app_rules c' ns = (app_rules c ns)(a := mset new)"
proof
  fix b
  let ?s = "GetInternalServiceName a" and ?t = "GetInternalServiceName b"
  have rules: "app_rules c' ns b = filter_mset (\<lambda>r. \<not> routes_to ?s r \<and> routes_to ?t r) (mset (ingress_rules c ns))
      + filter_mset (routes_to ?t) (mset new)"
    using assms(1) by (simp add: replaces_rules_def app_rules_def filter_filter_mset conj_commute)
  show "app_rules c' ns b = ((app_rules c ns)(a := mset new)) b"
  proof (cases "b = a")
    case True
    with new show ?thesis using rules by (simp add: filter_mset_eq_conv)
  next
    case False
    then have "(\<lambda>r. \<not> routes_to ?s r \<and> routes_to ?t r) = routes_to ?t"
      using routes_to_unique by fastforce
    moreover have "filter_mset (routes_to ?t) (mset new) = {#}"
      using new False routes_to_unique [of ?s _ ?t] by (auto simp: filter_mset_eq_conv)
    ultimately have "app_rules c' ns b = app_rules c ns b"
      unfolding rules by (simp add: app_rules_def)
    with False show ?thesis by simp
  qed
qed

context kube_cluster
begin

lemma ingress_op_refines:
  assumes "inv w" and "ns \<noteq> ''''" and "ingress_ok ns (abs w)" and ord: "\<And>k. range_order (ord k)"
  shows "inv (snd (run_ingress_op (NewIngressManager lib ord cl ns) p w))
    \<and> ingress_ok ns (abs (snd (run_ingress_op (NewIngressManager lib ord cl ns) p w)))
    \<and> app_rules (abs (snd (run_ingress_op (NewIngressManager lib ord cl ns) p w))) ns
      = ingress_spec lib p (app_rules (abs w) ns)"
proof (cases p)
  case (IngUpdate lrp)
  show ?thesis
  proof (cases "decodeRoutes (lrp_uris lrp)")
    case (Inl e)
    with IngUpdate assms show ?thesis
      by (simp add: NewIngressManager_def KubeIngressManager_Update_def Let_def)
  next
    case dec: (Inr uris)
    show ?thesis
    proof (cases "new_rules lib (Name lrp) uris")
      case (Inl e)
      with IngUpdate assms dec Update_rules_invalid [OF assms(1,2) dec Inl] show ?thesis by simp
    next
      case (Inr rs)
      obtain w' where "igm_Update (NewIngressManager lib ord cl ns) lrp w = (Return (), w')" "inv w'"
        "replaces_rules ns (Name lrp) rs (abs w) (abs w')"
        by (rule Update_rules_all [where ord = ord, OF assms(1-3) ord dec Inr])
      with IngUpdate dec Inr new_rules_wf [OF Inr] replaces_rules_app show ?thesis
        by (simp add: replaces_rules_def)
    qed
  qed
next
  case (IngDelete a)
  show ?thesis
  proof (cases "c_Ingresses (abs w) (ns, ingressName)")
    case None
    then have "app_rules (abs w) ns = (app_rules (abs w) ns)(a := {#})"
      by (simp add: app_rules_def ingress_rules_def fun_eq_iff)
    with Delete_rules_missing [OF assms(1,2) None] IngDelete assms show ?thesis by simp
  next
    case (Some i)
    obtain w' where "igm_Delete (NewIngressManager lib ord cl ns) a w = (Return (), w')" "inv w'"
      "replaces_rules ns a [] (abs w) (abs w')"
      by (rule Delete_rules [OF assms(1-3) Some])
    with IngDelete replaces_rules_app [of ns a "[]"] show ?thesis
      by (simp add: replaces_rules_def)
  qed
qed

lemma ingress_ops_refine:
  assumes "inv w" and "ns \<noteq> ''''" and "ingress_ok ns (abs w)" and ord: "\<And>k. range_order (ord k)"
  shows "ingress_ok ns (abs (run_ingress_ops (NewIngressManager lib ord cl ns) ops w))
    \<and> app_rules (abs (run_ingress_ops (NewIngressManager lib ord cl ns) ops w)) ns
      = fold (ingress_spec lib) ops (app_rules (abs w) ns)"
  using assms(1,3)
proof (induction ops arbitrary: w)
  case (Cons p ops)
  then show ?case
    using ingress_op_refines [where ord = ord and p = p and lib = lib, OF _ assms(2) _ ord, of w]
    by (simp add: run_ingress_ops_def)
qed (simp add: run_ingress_ops_def)

end

section \<open>Properties\<close>

text \<open>
  C4. The ingress manager implements its contract: after any sequence of updates and deletions, whichever
  fail, the rules of every app in the shared ingress object are those of the app's last successful
  update, rules of other apps are untouched, and the object is never stored empty or with an incomplete rule.
\<close>

theorem ingress_refines_spec:
  assumes "kube_cluster cl \<alpha> I ch" and "I w" and "ns \<noteq> ''''" and "ingress_ok ns (\<alpha> w)"
    and "\<And>k. range_order (ord k)"
  shows "ingress_ok ns (\<alpha> (run_ingress_ops (NewIngressManager lib ord cl ns) ops w))
    \<and> app_rules (\<alpha> (run_ingress_ops (NewIngressManager lib ord cl ns) ops w)) ns
      = fold (ingress_spec lib) ops (app_rules (\<alpha> w) ns)"
  by (rule kube_cluster.ingress_ops_refine [where ord = ord, OF assms])

text \<open>A library for concrete runs: everything is a valid URL, the part after the scheme is the host.\<close>

definition plain_urls :: url_library where
  "plain_urls = \<lparr>lib_Parse = (\<lambda>s. Inr \<lparr>url_Host = drop 7 s, url_Path = ''''\<rparr>), lib_String = url_Host,
     lib_IsURL = (\<lambda>s. s \<noteq> ''''), lib_ToLower = map ascii_lower\<rparr>"

definition plain_rule :: "string \<Rightarrow> string \<Rightarrow> IngressRule" where
  "plain_rule a host = \<lparr>Host = host, HTTP = Some [\<lparr>hip_Path = ''/'',
     Backend = \<lparr>ServiceName = ''cf-'' @ a, ServicePort = 8080\<rparr>\<rparr>]\<rparr>"

lemma sample_new_rules:
  "new_rules plain_urls ''app'' [''A.io'', ''b.io''] = Inr [plain_rule ''app'' ''a.io'', plain_rule ''app'' ''b.io'']"
  "new_rules plain_urls ''web'' [''a.io''] = Inr [plain_rule ''web'' ''a.io'']"
  "new_rules plain_urls ''app'' [''a.io''] = Inr [plain_rule ''app'' ''a.io'']"
  by code_simp+

lemma sample_decoded:
  "decodeRoutes (marshal_strings (Some [''A.io'', ''b.io''])) = Inr [''A.io'', ''b.io'']"
  "decodeRoutes (marshal_strings (Some [''a.io''])) = Inr [''a.io'']"
  by (rule decodeRoutes_marshal, code_simp)+

theorem ingress_refines_spec_witness:
  "app_rules (tracker_abs (run_ingress_ops (NewIngressManager plain_urls (\<lambda>_. rev) tracker_client ''eirini'')
      [IngUpdate (sample_lrp ''app'' [''A.io'', ''b.io'']), IngUpdate (sample_lrp ''web'' [''a.io'']), IngDelete ''web'']
      empty_tracker)) ''eirini''
    = (\<lambda>a. {#})(''app'' := {#plain_rule ''app'' ''a.io'', plain_rule ''app'' ''b.io''#})"
proof -
  have "app_rules (tracker_abs empty_tracker) ''eirini'' = (\<lambda>a. {#})"
    by (simp add: app_rules_def ingress_rules_def tracker_abs_def empty_tracker_def fun_eq_iff)
  moreover have "ingress_ok ''eirini'' (tracker_abs empty_tracker)"
    by (simp add: ingress_ok_def tracker_abs_def empty_tracker_def)
  ultimately show ?thesis
    using ingress_refines_spec [OF tk.kube_cluster_axioms tracker_inv_empty, of "''eirini''" "\<lambda>_. rev" plain_urls
        "[IngUpdate (sample_lrp ''app'' [''A.io'', ''b.io'']), IngUpdate (sample_lrp ''web'' [''a.io'']), IngDelete ''web'']"]
    by (simp add: range_order_rev sample_new_rules sample_decoded fun_eq_iff del: marshal_strings.simps new_rules.simps)
qed

text \<open>
  C29. The loop of the deletion, which removes rules from the slice it is walking through and steps its
  index back, ends and leaves exactly the rules that lead to another service, in their order.
\<close>

theorem deleteRules_is_filter:
  assumes "\<forall>r \<in> set rules. rule_wf r"
  shows "deleteRules sn rules 0 w = (Return (filter (\<lambda>r. \<not> routes_to sn r) rules), w)"
  using assms by (rule deleteRules_eq)

theorem deleteRules_is_filter_witness:
  "deleteRules ''cf-app'' [plain_rule ''app'' ''a.io'', plain_rule ''app'' ''b.io'', plain_rule ''web'' ''c.io''] 0 ()
    = (Return [plain_rule ''web'' ''c.io''], ())"
  using deleteRules_is_filter [of "[plain_rule ''app'' ''a.io'', plain_rule ''app'' ''b.io'', plain_rule ''web'' ''c.io'']" "''cf-app''" "()"]
  by (simp add: plain_rule_def rule_wf_def routes_to_def)

text \<open>
  An update whose URIs are not all valid is rejected as a whole, before anything is written: the
  result is the error of the first invalid URI and the cluster is as it was.
\<close>

theorem invalid_uri_rejected:
  assumes "kube_cluster cl \<alpha> I ch" and "I w" and "ns \<noteq> ''''"
    and "decodeRoutes (lrp_uris lrp) = Inr (us @ u # vs)"
    and "\<forall>x \<in> set us. \<exists>url. validateURL lib x = Inr url" and "validateURL lib u = Inl e"
  shows "igm_Update (NewIngressManager lib ord cl ns) lrp w = (Error e, w)"
proof -
  have "new_rules lib (Name lrp) (us @ u # vs) = Inl e"
    using assms(5,6) by (induction us) auto
  then show ?thesis
    by (rule kube_cluster.Update_rules_invalid [OF assms(1-4)])
qed

theorem invalid_uri_rejected_witness:
  "igm_Update (NewIngressManager plain_urls (\<lambda>_. id) tracker_client ''eirini'') (sample_lrp ''app'' [''a.io'', ''''])
     empty_tracker = (Error (ErrorString ''invalid url''), empty_tracker)"
proof (rule invalid_uri_rejected [OF tk.kube_cluster_axioms tracker_inv_empty, of "''eirini''" _ "[''a.io'']" "''''" "[]"])
  show "decodeRoutes (lrp_uris (sample_lrp ''app'' [''a.io'', ''''])) = Inr ([''a.io''] @ '''' # [])"
    unfolding sample_lrp_fields append.simps by (rule decodeRoutes_marshal) code_simp
qed (simp_all add: validateURL_def plain_urls_def)

end
