(* ===== verification/K8s_Desirer.thy ===== *)
theory K8s_Desirer
  imports Stateful_Set Ingress_Manager
begin

text \<open>
  The desirer of long running processes on Kubernetes: \<^verbatim>\<open>k8s/desire.go\<close>. It composes the managers of
  instances, services and the ingress, in that order, and stops at the first error.

  The lemmas give the effect of every operation in a cluster that keeps its promises. The properties: an
  app desired, and desired and stopped again; a second desire changes nothing; what is left
  behind when an app without routes is stopped.
\<close>

section \<open>Definitions\<close>

record 'w Desirer =
  ds_IngressManager :: "'w IngressManager"
  ds_InstanceManager :: "'w InstanceManager"
  ds_ServiceManager :: "'w ServiceManager"

type_synonym 'w InstanceOptionFunc = "string \<Rightarrow> 'w kubernetes_Interface \<Rightarrow> 'w InstanceManager"

definition NewInstanceManager ::
  "'w kubernetes_Interface \<Rightarrow> string \<Rightarrow> 'w InstanceOptionFunc \<Rightarrow> 'w InstanceManager" where
  "NewInstanceManager client namespace opt = opt namespace client"

definition UseStatefulSets :: "(gomap \<Rightarrow> gomap) \<Rightarrow> 'w InstanceOptionFunc" where
  "UseStatefulSets ord namespace client = NewStatefulSetManager ord client namespace"

definition NewDesirer ::
  "url_library \<Rightarrow> (nat \<Rightarrow> rule_map \<Rightarrow> rule_map) \<Rightarrow> string \<Rightarrow> 'w kubernetes_Interface \<Rightarrow> 'w InstanceOptionFunc
     \<Rightarrow> (Routes list, 'w) chan \<Rightarrow> 'w Desirer" where
  "NewDesirer lib rord kubeNamespace clientset opt routesChan =
     \<lparr>ds_IngressManager = NewIngressManager lib rord clientset kubeNamespace,
      ds_InstanceManager = NewInstanceManager clientset kubeNamespace opt,
      ds_ServiceManager = NewServiceManager clientset kubeNamespace routesChan\<rparr>"

definition Desirer_Desire :: "'w Desirer \<Rightarrow> LRP \<Rightarrow> ('w, unit) go" where
  "Desirer_Desire d lrp =
     go_bind (im_Exists (ds_InstanceManager d) (Name lrp)) (\<lambda>exists.
     if exists then go_return ()
     else
       go_bind (im_Create (ds_InstanceManager d) lrp) (\<lambda>_.
       go_bind (svm_Create (ds_ServiceManager d) lrp) (\<lambda>_.
       igm_Update (ds_IngressManager d) lrp)))"

definition Desirer_List :: "'w Desirer \<Rightarrow> ('w, LRP list) go" where
  "Desirer_List d = im_List (ds_InstanceManager d)"

definition Desirer_Get :: "'w Desirer \<Rightarrow> string \<Rightarrow> ('w, LRP) go" where
  "Desirer_Get d name = im_Get (ds_InstanceManager d) name"

definition Desirer_Update :: "'w Desirer \<Rightarrow> LRP \<Rightarrow> ('w, unit) go" where
  "Desirer_Update d lrp =
     go_bind (im_Update (ds_InstanceManager d) lrp) (\<lambda>_.
     go_bind (svm_Update (ds_ServiceManager d) lrp) (\<lambda>_.
     igm_Update (ds_IngressManager d) lrp))"

definition Desirer_Stop :: "'w Desirer \<Rightarrow> string \<Rightarrow> ('w, unit) go" where
  "Desirer_Stop d name =
     go_bind (im_Delete (ds_InstanceManager d) name) (\<lambda>_.
     go_bind (igm_Delete (ds_IngressManager d) name) (\<lambda>_.
     svm_Delete (ds_ServiceManager d) name))"

section \<open>The operations in a cluster that keeps its promises\<close>

definition k8s_desirer ::
  "url_library \<Rightarrow> (nat \<Rightarrow> rule_map \<Rightarrow> rule_map) \<Rightarrow> (gomap \<Rightarrow> gomap) \<Rightarrow> 'w kubernetes_Interface \<Rightarrow> string
     \<Rightarrow> (Routes list, 'w) chan \<Rightarrow> 'w Desirer" where
  "k8s_desirer lib rord ord cl ns ch = NewDesirer lib rord ns cl (UseStatefulSets ord) ch"

lemma k8s_desirer_fields [simp]:
  "ds_IngressManager (k8s_desirer lib rord ord cl ns ch) = NewIngressManager lib rord cl ns"
  "ds_InstanceManager (k8s_desirer lib rord ord cl ns ch) = NewStatefulSetManager ord cl ns"
  "ds_ServiceManager (k8s_desirer lib rord ord cl ns ch) = NewServiceManager cl ns ch"
  by (simp_all add: k8s_desirer_def NewDesirer_def NewInstanceManager_def UseStatefulSets_def)

text \<open>There is a stateful set with the app's label, and the names of an app are free.\<close>

definition instances_exist :: "cluster \<Rightarrow> string \<Rightarrow> string \<Rightarrow> bool" where
  "instances_exist c ns a \<longleftrightarrow> (\<exists>n s. c_StatefulSets c (ns, n) = Some s
     \<and> map_of (om_Labels (ss_Meta s)) ''name'' = Some a)"

definition names_free :: "cluster \<Rightarrow> string \<Rightarrow> string \<Rightarrow> bool" where
  "names_free c ns a \<longleftrightarrow> c_StatefulSets c (ns, a) = None
     \<and> c_Services c (ns, GetInternalServiceName a) = None
     \<and> c_Services c (ns, GetInternalHeadlessServiceName a) = None"

text \<open>The cluster after an app was desired, but for the ingress.\<close>

definition desired ::
  "'w kubernetes_Interface \<Rightarrow> (gomap \<Rightarrow> gomap) \<Rightarrow> string \<Rightarrow> LRP \<Rightarrow> string list \<Rightarrow> cluster \<Rightarrow> cluster" where
  "desired cl ord ns lrp uris c = c\<lparr>
     c_StatefulSets := (c_StatefulSets c)((ns, Name lrp) \<mapsto>
       ss_with_ns ns (toStatefulSet ord (newStatefulSetManager cl ns) lrp)),
     c_Services := (c_Services c)
       ((ns, GetInternalHeadlessServiceName (Name lrp)) \<mapsto> svc_with_ns ns (toHeadlessService lrp),
        (ns, GetInternalServiceName (Name lrp)) \<mapsto> svc_with_ns ns (toService lrp)),
     c_sent := c_sent c @ [[\<lparr>r_Routes = uris, r_UnregisteredRoutes = [], r_Name = GetInternalServiceName (Name lrp)\<rparr>]]\<rparr>"

context kube_cluster
begin

abbreviation desirer where
  "desirer lib rord ord ns \<equiv> k8s_desirer lib rord ord cl ns ch"

lemma Desire_app:
  assumes "inv w" and "ns \<noteq> ''''" and label: "valid_label_value (Name lrp)"
    and "\<not> instances_exist (abs w) ns (Name lrp)" and free: "names_free (abs w) ns (Name lrp)"
    and ok: "ingress_ok ns (abs w)" and ord: "\<And>k. range_order (rord k)"
    and dec: "decodeRoutes (lrp_uris lrp) = Inr uris" and new: "new_rules lib (Name lrp) uris = Inr rs"
  obtains w' where "Desirer_Desire (desirer lib rord ord ns) lrp w = (Return (), w')" and "inv w'"
    and "replaces_rules ns (Name lrp) rs (desired cl ord ns lrp uris (abs w)) (abs w')"
proof -
  let ?a = "Name lrp"
  have "?a \<noteq> ''''" using label by (simp add: valid_label_value_def)
  have exists: "StatefulSetManager_Exists (newStatefulSetManager cl ns) ?a w = (Return False, w)"
    using Exists_instances [OF assms(1,2) label] assms(4) unfolding instances_exist_def by simp
  obtain w1 where w1: "StatefulSetManager_Create ord (newStatefulSetManager cl ns) lrp w = (Return (), w1)" and "inv w1"
    and abs1: "abs w1 = (abs w)\<lparr>
      c_StatefulSets := (c_StatefulSets (abs w))((ns, ?a) \<mapsto> ss_with_ns ns (toStatefulSet ord (newStatefulSetManager cl ns) lrp)),
      c_Services := (c_Services (abs w))((ns, GetInternalHeadlessServiceName ?a) \<mapsto> svc_with_ns ns (toHeadlessService lrp))\<rparr>"
    by (rule Create_instances [OF assms(1,2) \<open>?a \<noteq> ''''\<close>]) (use free in \<open>simp_all add: names_free_def\<close>)
  obtain w2 where w2: "svm_Create (NewServiceManager cl ns ch) lrp w1 = (Return (), w2)" and "inv w2"
    and abs2: "abs w2 = (abs w1)\<lparr>
      c_Services := (c_Services (abs w1))((ns, GetInternalServiceName ?a) \<mapsto> svc_with_ns ns (toService lrp)),
      c_sent := c_sent (abs w1) @ [[\<lparr>r_Routes = uris, r_UnregisteredRoutes = [], r_Name = GetInternalServiceName ?a\<rparr>]]\<rparr>"
    by (rule Create_service [OF \<open>inv w1\<close> assms(2) _ dec]) (use free in \<open>simp_all add: names_free_def abs1\<close>)
  have des: "abs w2 = desired cl ord ns lrp uris (abs w)"
    by (simp add: abs1 abs2 desired_def)
  have "ingress_ok ns (abs w2)"
    using ok by (simp add: des desired_def ingress_ok_def)
  then obtain w3 where "igm_Update (NewIngressManager lib rord cl ns) lrp w2 = (Return (), w3)" and "inv w3"
    and "replaces_rules ns ?a rs (abs w2) (abs w3)"
    by (rule Update_rules_all [where ord = rord, OF \<open>inv w2\<close> assms(2) _ ord dec new])
  with exists w1 w2 show thesis
    by (intro that [of w3]) (simp_all add: Desirer_Desire_def go_simps des)
qed

lemma Desire_again:
  assumes "inv w" and "ns \<noteq> ''''" and "valid_label_value (Name lrp)" and "instances_exist (abs w) ns (Name lrp)"
  shows "Desirer_Desire (desirer lib rord ord ns) lrp w = (Return (), w)"
  using Exists_instances [OF assms(1-3)] assms(4)
  by (simp add: Desirer_Desire_def go_simps instances_exist_def)

lemma Stop_app:
  assumes "inv w" and "ns \<noteq> ''''" and "a \<noteq> ''''" and ok: "ingress_ok ns (abs w)"
    and "c_StatefulSets (abs w) (ns, a) = Some s"
    and "c_Services (abs w) (ns, GetInternalHeadlessServiceName a) = Some h"
    and svc: "c_Services (abs w) (ns, GetInternalServiceName a) = Some v"
    and dec: "decodeRoutes (nilmap_index (om_Annotations (svc_Meta v)) RegisteredRoutes) = Inr existing"
    and ing: "c_Ingresses (abs w) (ns, ingressName) = Some i"
  obtains w' c where "Desirer_Stop (desirer lib rord ord ns) a w = (Return (), w')" and "inv w'"
    and "replaces_rules ns a [] (abs w) c"
    and "abs w' = c\<lparr>
      c_StatefulSets := (c_StatefulSets (abs w))((ns, a) := None),
      c_Services := (c_Services (abs w))((ns, GetInternalHeadlessServiceName a) := None, (ns, GetInternalServiceName a) := None),
      c_sent := c_sent (abs w) @ [[\<lparr>r_Routes = [], r_UnregisteredRoutes = existing, r_Name = GetInternalServiceName a\<rparr>]]\<rparr>"
proof -
  obtain w1 where w1: "StatefulSetManager_Delete (newStatefulSetManager cl ns) a w = (Return (), w1)" and "inv w1"
    and abs1: "abs w1 = (abs w)\<lparr>
      c_StatefulSets := (c_StatefulSets (abs w))((ns, a) := None),
      c_Services := (c_Services (abs w))((ns, GetInternalHeadlessServiceName a) := None)\<rparr>"
    by (rule Delete_instances [OF assms(1,2,3,5,6)])
  have "ingress_ok ns (abs w1)" and "c_Ingresses (abs w1) (ns, ingressName) = Some i"
    using ok ing by (simp_all add: abs1 ingress_ok_def)
  then obtain w2 where w2: "igm_Delete (NewIngressManager lib rord cl ns) a w1 = (Return (), w2)" and "inv w2"
    and rep: "replaces_rules ns a [] (abs w1) (abs w2)"
    by (rule Delete_rules [OF \<open>inv w1\<close> assms(2)])
  then obtain x where abs2: "abs w2 = (abs w1)\<lparr>c_Ingresses := (c_Ingresses (abs w1))((ns, ingressName) := x)\<rparr>"
    by (auto simp: replaces_rules_def)
  have svc2: "c_Services (abs w2) (ns, GetInternalServiceName a) = Some v"
    using svc by (simp add: abs2 abs1)
  obtain w3 where w3: "svm_Delete (NewServiceManager cl ns ch) a w2 = (Return (), w3)" and "inv w3"
    and abs3: "abs w3 = (abs w2)\<lparr>
      c_Services := (c_Services (abs w2))((ns, GetInternalServiceName a) := None),
      c_sent := c_sent (abs w2) @ [[\<lparr>r_Routes = [], r_UnregisteredRoutes = existing, r_Name = GetInternalServiceName a\<rparr>]]\<rparr>"
    by (rule Delete_service [OF \<open>inv w2\<close> assms(2) svc2 dec])
  let ?c = "(abs w)\<lparr>c_Ingresses := (c_Ingresses (abs w))((ns, ingressName) := x)\<rparr>"
  have "Desirer_Stop (desirer lib rord ord ns) a w = (Return (), w3)"
    using w1 w2 w3 by (simp add: Desirer_Stop_def go_simps)
  moreover have "replaces_rules ns a [] (abs w) ?c"
    using rep by (auto simp: replaces_rules_def abs2 abs1 ingress_rules_def ingress_ok_def)
  ultimately show thesis
    using \<open>inv w3\<close> by (intro that [of w3 ?c]) (simp_all add: abs1 abs2 abs3)
qed

lemma Stop_without_ingress:
  assumes "inv w" and "ns \<noteq> ''''" and "a \<noteq> ''''"
    and "c_StatefulSets (abs w) (ns, a) = Some s"
    and "c_Services (abs w) (ns, GetInternalHeadlessServiceName a) = Some h"
    and ing: "c_Ingresses (abs w) (ns, ingressName) = None"
  obtains w' where "Desirer_Stop (desirer lib rord ord ns) a w = (Error (NotFound ingressName), w')" and "inv w'"
    and "abs w' = (abs w)\<lparr>
      c_StatefulSets := (c_StatefulSets (abs w))((ns, a) := None),
      c_Services := (c_Services (abs w))((ns, GetInternalHeadlessServiceName a) := None)\<rparr>"
proof -
  obtain w1 where w1: "StatefulSetManager_Delete (newStatefulSetManager cl ns) a w = (Return (), w1)" and "inv w1"
    and abs1: "abs w1 = (abs w)\<lparr>
      c_StatefulSets := (c_StatefulSets (abs w))((ns, a) := None),
      c_Services := (c_Services (abs w))((ns, GetInternalHeadlessServiceName a) := None)\<rparr>"
    by (rule Delete_instances [OF assms(1-5)])
  have "igm_Delete (NewIngressManager lib rord cl ns) a w1 = (Error (NotFound ingressName), w1)"
    by (rule Delete_rules_missing [OF \<open>inv w1\<close> assms(2)]) (simp add: abs1 ing)
  with w1 have "Desirer_Stop (desirer lib rord ord ns) a w = (Error (NotFound ingressName), w1)"
    by (simp add: Desirer_Stop_def go_simps)
  then show thesis
    using \<open>inv w1\<close> abs1 by (rule that)
qed

end

context kube_cluster
begin

lemma Update_app:
  assumes "inv w" and "ns \<noteq> ''''" and "Name lrp \<noteq> ''''" and ok: "ingress_ok ns (abs w)" and ord: "\<And>k. range_order (rord k)"
    and ss: "c_StatefulSets (abs w) (ns, Name lrp) = Some s" "om_Annotations (ss_Meta s) = Some m"
    and svc: "c_Services (abs w) (ns, GetInternalServiceName (Name lrp)) = Some v" "om_Annotations (svc_Meta v) = Some mv"
    and old: "decodeRoutes (map_index mv RegisteredRoutes) = Inr registered"
    and dec: "decodeRoutes (lrp_uris lrp) = Inr uris" and new: "new_rules lib (Name lrp) uris = Inr rs"
  obtains w' where "Desirer_Update (desirer lib rord ord ns) lrp w = (Return (), w')" and "inv w'"
    and "replaces_rules ns (Name lrp) rs ((abs w)\<lparr>
      c_StatefulSets := (c_StatefulSets (abs w))((ns, Name lrp) \<mapsto>
        s\<lparr>ss_Replicas := Some (to_int32 (TargetInstances lrp)),
          ss_Meta := (ss_Meta s)\<lparr>om_Annotations := Some (map_assign LastUpdated (nilmap_index (Metadata lrp) LastUpdated) m)\<rparr>\<rparr>),
      c_Services := (c_Services (abs w))((ns, GetInternalServiceName (Name lrp)) \<mapsto>
        v\<lparr>svc_Meta := (svc_Meta v)\<lparr>om_Annotations := Some (map_assign RegisteredRoutes (lrp_uris lrp) mv)\<rparr>\<rparr>),
      c_sent := c_sent (abs w) @ [[\<lparr>r_Routes = uris, r_UnregisteredRoutes = getUnregisteredRoutes registered uris,
        r_Name = GetInternalServiceName (Name lrp)\<rparr>]]\<rparr>) (abs w')"
proof -
  obtain w1 where w1: "StatefulSetManager_Update (newStatefulSetManager cl ns) lrp w = (Return (), w1)" and "inv w1"
    and abs1: "abs w1 = (abs w)\<lparr>c_StatefulSets := (c_StatefulSets (abs w))((ns, Name lrp) \<mapsto>
        s\<lparr>ss_Replicas := Some (to_int32 (TargetInstances lrp)),
          ss_Meta := (ss_Meta s)\<lparr>om_Annotations := Some (map_assign LastUpdated (nilmap_index (Metadata lrp) LastUpdated) m)\<rparr>\<rparr>)\<rparr>"
    by (rule Update_instances [OF assms(1-3) ss])
  have "c_Services (abs w1) (ns, GetInternalServiceName (Name lrp)) = Some v"
    by (simp add: abs1 svc)
  then obtain w2 where w2: "svm_Update (NewServiceManager cl ns ch) lrp w1 = (Return (), w2)" and "inv w2"
    and abs2: "abs w2 = (abs w1)\<lparr>
      c_Services := (c_Services (abs w1))((ns, GetInternalServiceName (Name lrp)) \<mapsto>
        v\<lparr>svc_Meta := (svc_Meta v)\<lparr>om_Annotations := Some (map_assign RegisteredRoutes (lrp_uris lrp) mv)\<rparr>\<rparr>),
      c_sent := c_sent (abs w1) @ [[\<lparr>r_Routes = uris, r_UnregisteredRoutes = getUnregisteredRoutes registered uris,
        r_Name = GetInternalServiceName (Name lrp)\<rparr>]]\<rparr>"
    by (rule Update_service [OF \<open>inv w1\<close> assms(2) _ svc(2) old dec])
  have "ingress_ok ns (abs w2)"
    using ok by (simp add: abs1 abs2 ingress_ok_def)
  then obtain w3 where "igm_Update (NewIngressManager lib rord cl ns) lrp w2 = (Return (), w3)" and "inv w3"
    and "replaces_rules ns (Name lrp) rs (abs w2) (abs w3)"
    by (rule Update_rules_all [where ord = rord, OF \<open>inv w2\<close> assms(2) _ ord dec new])
  with w1 w2 show thesis
    by (intro that [of w3]) (simp_all add: Desirer_Update_def go_simps abs1 abs2)
qed

lemma Stop_missing:
  assumes "inv w" and "ns \<noteq> ''''" and "a \<noteq> ''''" and "c_StatefulSets (abs w) (ns, a) = None"
  obtains w' where "Desirer_Stop (desirer lib rord ord ns) a w = (Error (NotFound a), w')" and "inv w'" and "abs w' = abs w"
proof -
  obtain w1 where "rc_Delete (StatefulSets cl) ns a (Some DeletePropagationBackground) w = (Error (NotFound a), w1)"
    "inv w1" "abs w1 = abs w"
    by (rule ss.Delete_missing [OF assms])
  then show thesis
    by (intro that [of w1]) (simp_all add: Desirer_Stop_def StatefulSetManager_Delete_def go_simps)
qed

lemma Desire_service_taken:
  assumes "inv w" and "ns \<noteq> ''''" and label: "valid_label_value (Name lrp)"
    and "\<not> instances_exist (abs w) ns (Name lrp)"
    and "c_StatefulSets (abs w) (ns, Name lrp) = None"
    and "c_Services (abs w) (ns, GetInternalHeadlessServiceName (Name lrp)) = None"
    and taken: "c_Services (abs w) (ns, GetInternalServiceName (Name lrp)) = Some v"
  obtains w' where "Desirer_Desire (desirer lib rord ord ns) lrp w
      = (Error (AlreadyExists (GetInternalServiceName (Name lrp))), w')" and "inv w'"
    and "instances_exist (abs w') ns (Name lrp)" and "c_Ingresses (abs w') = c_Ingresses (abs w)"
    and "c_sent (abs w') = c_sent (abs w)"
proof -
  let ?a = "Name lrp"
  have "?a \<noteq> ''''" using label by (simp add: valid_label_value_def)
  have exists: "StatefulSetManager_Exists (newStatefulSetManager cl ns) ?a w = (Return False, w)"
    using Exists_instances [OF assms(1,2) label] assms(4) unfolding instances_exist_def by simp
  obtain w1 where w1: "StatefulSetManager_Create ord (newStatefulSetManager cl ns) lrp w = (Return (), w1)" and "inv w1"
    and abs1: "abs w1 = (abs w)\<lparr>
      c_StatefulSets := (c_StatefulSets (abs w))((ns, ?a) \<mapsto> ss_with_ns ns (toStatefulSet ord (newStatefulSetManager cl ns) lrp)),
      c_Services := (c_Services (abs w))((ns, GetInternalHeadlessServiceName ?a) \<mapsto> svc_with_ns ns (toHeadlessService lrp))\<rparr>"
    by (rule Create_instances [OF assms(1,2) \<open>?a \<noteq> ''''\<close> assms(5,6)])
  have "c_Services (abs w1) (ns, om_Name (svc_Meta (toService lrp))) = Some v"
    using taken by (simp add: abs1)
  then obtain w2 where "rc_Create (Services cl) ns (toService lrp) w1
      = (Error (AlreadyExists (GetInternalServiceName ?a)), w2)" and "inv w2" and abs2: "abs w2 = abs w1"
    using svc.Create_taken [of w1 ns "toService lrp" v] \<open>inv w1\<close> assms(2) by auto
  then have "svm_Create (NewServiceManager cl ns ch) lrp w1 = (Error (AlreadyExists (GetInternalServiceName ?a)), w2)"
    by (simp add: NewServiceManager_def serviceManager_Create_def Let_def go_simps)
  with exists w1 have "Desirer_Desire (desirer lib rord ord ns) lrp w = (Error (AlreadyExists (GetInternalServiceName ?a)), w2)"
    by (simp add: Desirer_Desire_def go_simps)
  moreover have "instances_exist (abs w2) ns ?a"
    unfolding instances_exist_def abs2 abs1 by (intro exI [of _ ?a]) simp
  ultimately show thesis
    using \<open>inv w2\<close> by (intro that [of w2]) (simp_all add: abs1 abs2)
qed

end

section \<open>Properties\<close>

text \<open>An app that can be desired: its name is a label, its names are free and its URIs are readable and valid.\<close>

definition desirable :: "url_library \<Rightarrow> string \<Rightarrow> LRP \<Rightarrow> string list \<Rightarrow> IngressRule list \<Rightarrow> cluster \<Rightarrow> bool" where
  "desirable lib ns lrp uris rs c \<longleftrightarrow> ns \<noteq> '''' \<and> valid_label_value (Name lrp)
     \<and> \<not> instances_exist c ns (Name lrp) \<and> names_free c ns (Name lrp) \<and> ingress_ok ns c
     \<and> decodeRoutes (lrp_uris lrp) = Inr uris \<and> new_rules lib (Name lrp) uris = Inr rs"

lemma Desire_run:
  assumes "kube_cluster cl \<alpha> I ch" and "I w" and "desirable lib ns lrp uris rs (\<alpha> w)" and "\<And>k. range_order (rord k)"
  obtains w' where "Desirer_Desire (k8s_desirer lib rord ord cl ns ch) lrp w = (Return (), w')" and "I w'"
    and "replaces_rules ns (Name lrp) rs (desired cl ord ns lrp uris (\<alpha> w)) (\<alpha> w')"
  by (rule kube_cluster.Desire_app [where rord = rord, OF assms(1,2) _ _ _ _ _ assms(4)])
    (use assms(3) in \<open>auto simp: desirable_def\<close>)

lemma replaces_rules_frame:
  assumes "replaces_rules ns a new c c'"
  shows "c_StatefulSets c' = c_StatefulSets c" "c_Services c' = c_Services c" "c_sent c' = c_sent c"
    "c_Jobs c' = c_Jobs c" "ingress_ok ns c'"
  using assms by (auto simp: replaces_rules_def)

lemma desired_stores:
  "c_StatefulSets (desired cl ord ns lrp uris c) = (c_StatefulSets c)((ns, Name lrp) \<mapsto>
     ss_with_ns ns (toStatefulSet ord (newStatefulSetManager cl ns) lrp))"
  "c_Services (desired cl ord ns lrp uris c) = (c_Services c)
     ((ns, GetInternalHeadlessServiceName (Name lrp)) \<mapsto> svc_with_ns ns (toHeadlessService lrp),
      (ns, GetInternalServiceName (Name lrp)) \<mapsto> svc_with_ns ns (toService lrp))"
  "c_sent (desired cl ord ns lrp uris c) = c_sent c
     @ [[\<lparr>r_Routes = uris, r_UnregisteredRoutes = [], r_Name = GetInternalServiceName (Name lrp)\<rparr>]]"
  "c_Ingresses (desired cl ord ns lrp uris c) = c_Ingresses c"
  "c_Jobs (desired cl ord ns lrp uris c) = c_Jobs c"
  "ingress_ok ns (desired cl ord ns lrp uris c) = ingress_ok ns c"
  "app_rules (desired cl ord ns lrp uris c) = app_rules c"
  "ingress_rules (desired cl ord ns lrp uris c) = ingress_rules c"
  by (simp_all add: desired_def ingress_ok_def app_rules_def ingress_rules_def fun_eq_iff)

lemma desired_exists:
  "c_StatefulSets c' = c_StatefulSets (desired cl ord ns lrp uris c) \<Longrightarrow> instances_exist c' ns (Name lrp)"
  by (auto simp: instances_exist_def desired_stores intro!: exI [of _ "Name lrp"])

lemma service_created_routes:
  "decodeRoutes (lrp_uris lrp) = Inr uris \<Longrightarrow>
   decodeRoutes (nilmap_index (om_Annotations (svc_Meta (svc_with_ns ns (toService lrp)))) RegisteredRoutes) = Inr uris"
  by simp

text \<open>
  C9. Desiring an app that is not there yet creates its stateful set, its two services and its ingress
  rules, and announces its routes; rules of other apps, other objects and earlier announcements are
  untouched. Desiring it again returns success and changes nothing at all.
\<close>

theorem desire_deploys_once:
  assumes "kube_cluster cl \<alpha> I ch" and "I w" and "desirable lib ns lrp uris rs (\<alpha> w)" and "\<And>k. range_order (rord k)"
  shows "\<exists>w'. Desirer_Desire (k8s_desirer lib rord ord cl ns ch) lrp w = (Return (), w')
    \<and> c_StatefulSets (\<alpha> w') = (c_StatefulSets (\<alpha> w))((ns, Name lrp) \<mapsto>
        ss_with_ns ns (toStatefulSet ord (newStatefulSetManager cl ns) lrp))
    \<and> c_Services (\<alpha> w') = (c_Services (\<alpha> w))
        ((ns, GetInternalHeadlessServiceName (Name lrp)) \<mapsto> svc_with_ns ns (toHeadlessService lrp),
         (ns, GetInternalServiceName (Name lrp)) \<mapsto> svc_with_ns ns (toService lrp))
    \<and> c_sent (\<alpha> w') = c_sent (\<alpha> w) @ [[\<lparr>r_Routes = uris, r_UnregisteredRoutes = [],
        r_Name = GetInternalServiceName (Name lrp)\<rparr>]]
    \<and> app_rules (\<alpha> w') ns = (app_rules (\<alpha> w) ns)(Name lrp := mset rs)
    \<and> Desirer_Desire (k8s_desirer lib rord ord cl ns ch) lrp w' = (Return (), w')"
proof (rule Desire_run [where rord = rord, OF assms, of ord])
  fix w'
  assume run: "Desirer_Desire (k8s_desirer lib rord ord cl ns ch) lrp w = (Return (), w')" and inv': "I w'"
    and rep: "replaces_rules ns (Name lrp) rs (desired cl ord ns lrp uris (\<alpha> w)) (\<alpha> w')"
  have hyps: "ns \<noteq> ''''" "valid_label_value (Name lrp)" "new_rules lib (Name lrp) uris = Inr rs"
    using assms(3) by (auto simp: desirable_def)
  have "app_rules (\<alpha> w') ns = (app_rules (\<alpha> w) ns)(Name lrp := mset rs)"
    using replaces_rules_app [OF rep] new_rules_wf [OF hyps(3)] by (simp add: desired_stores)
  moreover have "Desirer_Desire (k8s_desirer lib rord ord cl ns ch) lrp w' = (Return (), w')"
    using desired_exists [OF replaces_rules_frame(1) [OF rep]]
    by (intro kube_cluster.Desire_again [OF assms(1) inv' hyps(1,2)])
  ultimately show ?thesis
    using run replaces_rules_frame [OF rep] by (intro exI [of _ w']) (simp add: desired_stores)
qed

lemma sample_desirable:
  "desirable plain_urls ''eirini'' (sample_lrp ''app'' [''A.io'', ''b.io'']) [''A.io'', ''b.io'']
     [plain_rule ''app'' ''a.io'', plain_rule ''app'' ''b.io''] (tracker_abs empty_tracker)"
proof -
  have "valid_label_value ''app''" by code_simp
  then show ?thesis
    by (simp add: desirable_def instances_exist_def names_free_def ingress_ok_def tracker_abs_def empty_tracker_def
        sample_new_rules sample_decoded del: marshal_strings.simps new_rules.simps)
qed

theorem desire_deploys_once_witness:
  "\<exists>w'. Desirer_Desire (k8s_desirer plain_urls (\<lambda>_. id) id tracker_client ''eirini'' tracker_chan)
      (sample_lrp ''app'' [''A.io'', ''b.io'']) empty_tracker = (Return (), w')
    \<and> app_rules (tracker_abs w') ''eirini'' ''app'' = {#plain_rule ''app'' ''a.io'', plain_rule ''app'' ''b.io''#}
    \<and> tr_sent w' = [[\<lparr>r_Routes = [''A.io'', ''b.io''], r_UnregisteredRoutes = [], r_Name = ''cf-app''\<rparr>]]"
  using desire_deploys_once [OF tk.kube_cluster_axioms tracker_inv_empty sample_desirable, of "\<lambda>_. id" id]
  by (auto simp: range_order_id tracker_abs_def empty_tracker_def GetInternalServiceName_def)

lemma Desire_then_Stop:
  assumes "kube_cluster cl \<alpha> I ch" and "I w" and "desirable lib ns lrp uris rs (\<alpha> w)" and "\<And>k. range_order (rord k)"
    and "uris \<noteq> []"
  obtains w1 w2 where "Desirer_Desire (k8s_desirer lib rord ord cl ns ch) lrp w = (Return (), w1)"
    and "Desirer_Stop (k8s_desirer lib rord ord cl ns ch) (Name lrp) w1 = (Return (), w2)"
    and "c_StatefulSets (\<alpha> w2) = c_StatefulSets (\<alpha> w)" and "c_Services (\<alpha> w2) = c_Services (\<alpha> w)"
    and "app_rules (\<alpha> w2) ns = (app_rules (\<alpha> w) ns)(Name lrp := {#})"
    and "c_sent (\<alpha> w2) = c_sent (\<alpha> w)
      @ [[\<lparr>r_Routes = uris, r_UnregisteredRoutes = [], r_Name = GetInternalServiceName (Name lrp)\<rparr>],
         [\<lparr>r_Routes = [], r_UnregisteredRoutes = uris, r_Name = GetInternalServiceName (Name lrp)\<rparr>]]"
proof (rule Desire_run [where rord = rord, OF assms(1-4), of ord])
  fix w1
  let ?a = "Name lrp" and ?c = "desired cl ord ns lrp uris (\<alpha> w)"
  assume run: "Desirer_Desire (k8s_desirer lib rord ord cl ns ch) lrp w = (Return (), w1)" and inv1: "I w1"
    and rep: "replaces_rules ns ?a rs ?c (\<alpha> w1)"
  have hyps: "ns \<noteq> ''''" "?a \<noteq> ''''" "decodeRoutes (lrp_uris lrp) = Inr uris"
    "new_rules lib ?a uris = Inr rs" "names_free (\<alpha> w) ns ?a"
    using assms(3) by (auto simp: desirable_def valid_label_value_def)
  have "rs \<noteq> []" using new_rules_wf [OF hyps(4)] assms(5) by auto
  then have "ingress_rules (\<alpha> w1) ns \<noteq> []"
    using rep unfolding replaces_rules_def by (metis mset_zero_iff union_eq_empty)
  then have "c_Ingresses (\<alpha> w1) (ns, ingressName) \<noteq> None"
    by (auto simp: ingress_rules_def split: option.splits)
  then obtain i where ing: "c_Ingresses (\<alpha> w1) (ns, ingressName) = Some i" by blast
  have "c_StatefulSets (\<alpha> w1) (ns, ?a) = Some (ss_with_ns ns (toStatefulSet ord (newStatefulSetManager cl ns) lrp))"
    and "c_Services (\<alpha> w1) (ns, GetInternalHeadlessServiceName ?a) = Some (svc_with_ns ns (toHeadlessService lrp))"
    and "c_Services (\<alpha> w1) (ns, GetInternalServiceName ?a) = Some (svc_with_ns ns (toService lrp))"
    using replaces_rules_frame [OF rep] by (simp_all add: desired_stores)
  then obtain w2 c where stop: "Desirer_Stop (k8s_desirer lib rord ord cl ns ch) ?a w1 = (Return (), w2)"
    and rep2: "replaces_rules ns ?a [] (\<alpha> w1) c"
    and abs2: "\<alpha> w2 = c\<lparr>c_StatefulSets := (c_StatefulSets (\<alpha> w1))((ns, ?a) := None),
      c_Services := (c_Services (\<alpha> w1))((ns, GetInternalHeadlessServiceName ?a) := None, (ns, GetInternalServiceName ?a) := None),
      c_sent := c_sent (\<alpha> w1) @ [[\<lparr>r_Routes = [], r_UnregisteredRoutes = uris, r_Name = GetInternalServiceName ?a\<rparr>]]\<rparr>"
    by (rule kube_cluster.Stop_app [OF assms(1) inv1 hyps(1,2) replaces_rules_frame(5) [OF rep] _ _ _
          service_created_routes [OF hyps(3)] ing])
  have "app_rules (\<alpha> w2) ns = app_rules c ns"
    by (simp add: abs2 app_rules_def ingress_rules_def fun_eq_iff)
  also have "\<dots> = (app_rules (\<alpha> w) ns)(?a := {#})"
    using replaces_rules_app [OF rep2] replaces_rules_app [OF rep] new_rules_wf [OF hyps(4)]
    by (simp add: desired_stores)
  finally have "app_rules (\<alpha> w2) ns = (app_rules (\<alpha> w) ns)(?a := {#})" .
  moreover have "c_StatefulSets (\<alpha> w2) = c_StatefulSets (\<alpha> w)" "c_Services (\<alpha> w2) = c_Services (\<alpha> w)"
    using hyps(5) replaces_rules_frame [OF rep] by (auto simp: abs2 desired_stores names_free_def fun_eq_iff)
  ultimately show thesis
    using run stop replaces_rules_frame [OF rep]
    by (intro that [of w1 w2]) (simp_all add: abs2 desired_stores)
qed

text \<open>
  C3. Desiring an app with routes and stopping it again is a round trip: the stateful sets and the
  services are those from before, the rules of the app are gone and those of the others are as they
  were, and the route emitter was told to withdraw exactly the routes it had been told to announce.
\<close>

theorem desire_stop_roundtrip:
  assumes "kube_cluster cl \<alpha> I ch" and "I w" and "desirable lib ns lrp uris rs (\<alpha> w)" and "\<And>k. range_order (rord k)"
    and "uris \<noteq> []"
  shows "\<exists>w'. go_bind (Desirer_Desire (k8s_desirer lib rord ord cl ns ch) lrp)
      (\<lambda>_. Desirer_Stop (k8s_desirer lib rord ord cl ns ch) (Name lrp)) w = (Return (), w')
    \<and> c_StatefulSets (\<alpha> w') = c_StatefulSets (\<alpha> w) \<and> c_Services (\<alpha> w') = c_Services (\<alpha> w)
    \<and> app_rules (\<alpha> w') ns = (app_rules (\<alpha> w) ns)(Name lrp := {#})
    \<and> c_sent (\<alpha> w') = c_sent (\<alpha> w)
      @ [[\<lparr>r_Routes = uris, r_UnregisteredRoutes = [], r_Name = GetInternalServiceName (Name lrp)\<rparr>],
         [\<lparr>r_Routes = [], r_UnregisteredRoutes = uris, r_Name = GetInternalServiceName (Name lrp)\<rparr>]]"
  by (rule Desire_then_Stop [where rord = rord, OF assms, of ord]) (auto simp: go_simps)

theorem desire_stop_roundtrip_witness:
  "\<exists>w'. go_bind (Desirer_Desire (k8s_desirer plain_urls (\<lambda>_. id) id tracker_client ''eirini'' tracker_chan)
        (sample_lrp ''app'' [''A.io'', ''b.io'']))
      (\<lambda>_. Desirer_Stop (k8s_desirer plain_urls (\<lambda>_. id) id tracker_client ''eirini'' tracker_chan) ''app'') empty_tracker
      = (Return (), w')
    \<and> c_StatefulSets (tracker_abs w') = Map.empty \<and> c_Services (tracker_abs w') = Map.empty"
  using desire_stop_roundtrip [OF tk.kube_cluster_axioms tracker_inv_empty sample_desirable, of "\<lambda>_. id" id]
  by (auto simp: range_order_id tracker_abs_def empty_tracker_def)

text \<open>The update of an app that was desired before: what the cluster then holds.\<close>

lemma Update_desired:
  assumes "kube_cluster cl \<alpha> I ch" and inv1: "I w1" and "desirable lib ns lrp uris rs (\<alpha> w)" and "\<And>k. range_order (rord k)"
    and "Metadata lrp = Some m" and "Name lrp' = Name lrp"
    and dec: "decodeRoutes (lrp_uris lrp') = Inr uris'" and new: "new_rules lib (Name lrp) uris' = Inr rs'"
    and rep: "replaces_rules ns (Name lrp) rs (desired cl ord ns lrp uris (\<alpha> w)) (\<alpha> w1)"
  obtains w' s v where "Desirer_Update (k8s_desirer lib rord ord cl ns ch) lrp' w1 = (Return (), w')"
    and "c_StatefulSets (\<alpha> w') (ns, Name lrp) = Some s" and "ss_Replicas s = Some (to_int32 (TargetInstances lrp'))"
    and "nilmap_index (om_Annotations (ss_Meta s)) VcapAppUris = lrp_uris lrp"
    and "c_Services (\<alpha> w') (ns, GetInternalServiceName (Name lrp)) = Some v"
    and "nilmap_index (om_Annotations (svc_Meta v)) RegisteredRoutes = lrp_uris lrp'"
    and "app_rules (\<alpha> w') ns = (app_rules (\<alpha> w) ns)(Name lrp := mset rs')"
    and "c_sent (\<alpha> w') = c_sent (\<alpha> w)
      @ [[\<lparr>r_Routes = uris, r_UnregisteredRoutes = [], r_Name = GetInternalServiceName (Name lrp)\<rparr>],
         [\<lparr>r_Routes = uris', r_UnregisteredRoutes = filter (\<lambda>u. u \<notin> set uris') uris,
           r_Name = GetInternalServiceName (Name lrp)\<rparr>]]"
proof -
  let ?a = "Name lrp" and ?c = "desired cl ord ns lrp uris (\<alpha> w)"
  let ?s = "ss_with_ns ns (toStatefulSet ord (newStatefulSetManager cl ns) lrp)" and ?v = "svc_with_ns ns (toService lrp)"
  let ?s' = "?s\<lparr>ss_Replicas := Some (to_int32 (TargetInstances lrp')),
          ss_Meta := (ss_Meta ?s)\<lparr>om_Annotations := Some (map_assign LastUpdated (nilmap_index (Metadata lrp') LastUpdated) m)\<rparr>\<rparr>"
  let ?v' = "?v\<lparr>svc_Meta := (svc_Meta ?v)\<lparr>om_Annotations := Some (map_assign RegisteredRoutes (lrp_uris lrp') [(RegisteredRoutes, lrp_uris lrp)])\<rparr>\<rparr>"
  have hyps: "ns \<noteq> ''''" "Name lrp' \<noteq> ''''" "decodeRoutes (lrp_uris lrp) = Inr uris" "new_rules lib ?a uris = Inr rs"
    using assms(3,6) by (auto simp: desirable_def valid_label_value_def)
  note rep = rep [folded assms(6)] and new = new [folded assms(6)]
  have "c_StatefulSets (\<alpha> w1) (ns, Name lrp') = Some ?s" "om_Annotations (ss_Meta ?s) = Some m"
    "c_Services (\<alpha> w1) (ns, GetInternalServiceName (Name lrp')) = Some ?v"
    "om_Annotations (svc_Meta ?v) = Some [(RegisteredRoutes, lrp_uris lrp)]"
    "decodeRoutes (map_index [(RegisteredRoutes, lrp_uris lrp)] RegisteredRoutes) = Inr uris"
    using replaces_rules_frame [OF rep] assms(5,6) hyps(3) by (simp_all add: desired_stores)
  then obtain w2 where upd: "Desirer_Update (k8s_desirer lib rord ord cl ns ch) lrp' w1 = (Return (), w2)"
    and rep2: "replaces_rules ns (Name lrp') rs' ((\<alpha> w1)\<lparr>
      c_StatefulSets := (c_StatefulSets (\<alpha> w1))((ns, Name lrp') \<mapsto> ?s'),
      c_Services := (c_Services (\<alpha> w1))((ns, GetInternalServiceName (Name lrp')) \<mapsto> ?v'),
      c_sent := c_sent (\<alpha> w1) @ [[\<lparr>r_Routes = uris', r_UnregisteredRoutes = getUnregisteredRoutes uris uris',
        r_Name = GetInternalServiceName (Name lrp')\<rparr>]]\<rparr>) (\<alpha> w2)"
    by (rule kube_cluster.Update_app [where rord = rord, OF assms(1) inv1 hyps(1,2) replaces_rules_frame(5) [OF rep] assms(4)
          _ _ _ _ _ dec new])
  have "app_rules (\<alpha> w2) ns = (app_rules (\<alpha> w1) ns)(Name lrp' := mset rs')"
    using replaces_rules_app [OF rep2] new_rules_wf [OF new] by (simp add: app_rules_def ingress_rules_def fun_eq_iff)
  then have "app_rules (\<alpha> w2) ns = (app_rules (\<alpha> w) ns)(?a := mset rs')"
    using replaces_rules_app [OF rep] new_rules_wf [OF hyps(4)] assms(6) by (simp add: desired_stores)
  moreover have "map_index m VcapAppUris = lrp_uris lrp"
    by (simp add: assms(5))
  ultimately show thesis
    using upd replaces_rules_frame [OF rep2] replaces_rules_frame [OF rep] assms(6)
    by (intro that [of w2 ?s' ?v']) (simp_all add: desired_stores getUnregisteredRoutes_eq)
qed

text \<open>
  An update after a desire: the stateful set asks for the new number of instances, the service's
  annotation holds the new URIs, the ingress has the new rules and none of the old, and the emitter is
  told the new routes and to withdraw exactly the old ones that are not among them. The stateful
  set's own annotation of the URIs still is the old one.
\<close>

theorem update_after_desire:
  assumes "kube_cluster cl \<alpha> I ch" and "I w" and "desirable lib ns lrp uris rs (\<alpha> w)" and "\<And>k. range_order (rord k)"
    and "Metadata lrp = Some m" and "Name lrp' = Name lrp"
    and "decodeRoutes (lrp_uris lrp') = Inr uris'" and "new_rules lib (Name lrp) uris' = Inr rs'"
  shows "\<exists>w' s v. go_bind (Desirer_Desire (k8s_desirer lib rord ord cl ns ch) lrp)
      (\<lambda>_. Desirer_Update (k8s_desirer lib rord ord cl ns ch) lrp') w = (Return (), w')
    \<and> c_StatefulSets (\<alpha> w') (ns, Name lrp) = Some s \<and> ss_Replicas s = Some (to_int32 (TargetInstances lrp'))
    \<and> nilmap_index (om_Annotations (ss_Meta s)) VcapAppUris = lrp_uris lrp
    \<and> c_Services (\<alpha> w') (ns, GetInternalServiceName (Name lrp)) = Some v
    \<and> nilmap_index (om_Annotations (svc_Meta v)) RegisteredRoutes = lrp_uris lrp'
    \<and> app_rules (\<alpha> w') ns = (app_rules (\<alpha> w) ns)(Name lrp := mset rs')
    \<and> c_sent (\<alpha> w') = c_sent (\<alpha> w)
      @ [[\<lparr>r_Routes = uris, r_UnregisteredRoutes = [], r_Name = GetInternalServiceName (Name lrp)\<rparr>],
         [\<lparr>r_Routes = uris', r_UnregisteredRoutes = filter (\<lambda>u. u \<notin> set uris') uris,
           r_Name = GetInternalServiceName (Name lrp)\<rparr>]]"
proof (rule Desire_run [where rord = rord, OF assms(1-4), of ord])
  fix w1
  assume run: "Desirer_Desire (k8s_desirer lib rord ord cl ns ch) lrp w = (Return (), w1)" and inv1: "I w1"
    and rep: "replaces_rules ns (Name lrp) rs (desired cl ord ns lrp uris (\<alpha> w)) (\<alpha> w1)"
  show ?thesis
    by (rule Update_desired [where rord = rord, OF assms(1) inv1 assms(3-8) rep]) (auto simp: run go_simps)
qed

theorem update_after_desire_witness:
  "\<exists>w'. go_bind (Desirer_Desire (k8s_desirer plain_urls (\<lambda>_. id) id tracker_client ''eirini'' tracker_chan)
        (sample_lrp ''app'' [''A.io'', ''b.io'']))
      (\<lambda>_. Desirer_Update (k8s_desirer plain_urls (\<lambda>_. id) id tracker_client ''eirini'' tracker_chan)
        (sample_lrp ''app'' [''a.io''])) empty_tracker = (Return (), w')
    \<and> app_rules (tracker_abs w') ''eirini'' ''app'' = {#plain_rule ''app'' ''a.io''#}"
  using update_after_desire [OF tk.kube_cluster_axioms tracker_inv_empty sample_desirable, of "\<lambda>_. id" _
      "sample_lrp ''app'' [''a.io'']" "[''a.io'']" "[plain_rule ''app'' ''a.io'']" id]
  by (auto simp: range_order_id sample_lrp_def sample_decoded sample_new_rules tracker_abs_def empty_tracker_def
      simp del: marshal_strings.simps new_rules.simps)

text \<open>
  C31. Stopping an app without routes while the namespace has no ingress object fails half-way: the
  instances and the headless service are deleted, then the missing ingress is reported as an error
  and the routable service stays behind. Stopping again only reports that the instances are gone.
\<close>

theorem stop_leaks_service:
  assumes "kube_cluster cl \<alpha> I ch" and "I w" and "desirable lib ns lrp [] [] (\<alpha> w)" and "\<And>k. range_order (rord k)"
    and "c_Ingresses (\<alpha> w) (ns, ingressName) = None"
  shows "\<exists>w1 w2 w3 w4. Desirer_Desire (k8s_desirer lib rord ord cl ns ch) lrp w = (Return (), w1)
    \<and> Desirer_Stop (k8s_desirer lib rord ord cl ns ch) (Name lrp) w1 = (Error (NotFound ingressName), w2)
    \<and> Desirer_Stop (k8s_desirer lib rord ord cl ns ch) (Name lrp) w2 = (Error (NotFound (Name lrp)), w3)
    \<and> c_Services (\<alpha> w3) (ns, GetInternalServiceName (Name lrp)) = Some (svc_with_ns ns (toService lrp))
    \<and> Desirer_Desire (k8s_desirer lib rord ord cl ns ch) lrp w3
        = (Error (AlreadyExists (GetInternalServiceName (Name lrp))), w4)
    \<and> Desirer_Desire (k8s_desirer lib rord ord cl ns ch) lrp w4 = (Return (), w4)"
proof (rule Desire_run [where rord = rord, OF assms(1-4), of ord])
  fix w1
  let ?a = "Name lrp" and ?c = "desired cl ord ns lrp [] (\<alpha> w)" and ?d = "k8s_desirer lib rord ord cl ns ch"
  assume run: "Desirer_Desire ?d lrp w = (Return (), w1)" and inv1: "I w1" and rep: "replaces_rules ns ?a [] ?c (\<alpha> w1)"
  have hyps: "ns \<noteq> ''''" "?a \<noteq> ''''" "valid_label_value ?a" "names_free (\<alpha> w) ns ?a" "\<not> instances_exist (\<alpha> w) ns ?a"
    using assms(3) by (auto simp: desirable_def valid_label_value_def)
  note frame = replaces_rules_frame [OF rep] and free = hyps(4) [unfolded names_free_def]
  have "ingress_rules (\<alpha> w1) ns = []"
    using rep assms(5) by (simp add: replaces_rules_def desired_stores) (simp add: ingress_rules_def)
  then have "c_Ingresses (\<alpha> w1) (ns, ingressName) = None"
    using frame(5) by (auto simp: ingress_rules_def ingress_ok_def split: option.splits)
  then obtain w2 where stop: "Desirer_Stop ?d ?a w1 = (Error (NotFound ingressName), w2)" and inv2: "I w2"
    and abs2: "\<alpha> w2 = (\<alpha> w1)\<lparr>c_StatefulSets := (c_StatefulSets (\<alpha> w1))((ns, ?a) := None),
      c_Services := (c_Services (\<alpha> w1))((ns, GetInternalHeadlessServiceName ?a) := None)\<rparr>"
    by (rule kube_cluster.Stop_without_ingress [OF assms(1) inv1 hyps(1,2), rotated 2]) (simp_all add: frame desired_stores)
  obtain w3 where again: "Desirer_Stop ?d ?a w2 = (Error (NotFound ?a), w3)" and inv3: "I w3" and abs3: "\<alpha> w3 = \<alpha> w2"
    by (rule kube_cluster.Stop_missing [OF assms(1) inv2 hyps(1,2)]) (simp_all add: abs2)
  have ss3: "c_StatefulSets (\<alpha> w3) = c_StatefulSets (\<alpha> w)"
    using free by (auto simp: abs3 abs2 frame desired_stores)
  have leak: "c_Services (\<alpha> w3) (ns, GetInternalServiceName ?a) = Some (svc_with_ns ns (toService lrp))"
    by (simp add: abs3 abs2 frame desired_stores)
  have "\<not> instances_exist (\<alpha> w3) ns ?a" "c_StatefulSets (\<alpha> w3) (ns, ?a) = None"
    "c_Services (\<alpha> w3) (ns, GetInternalHeadlessServiceName ?a) = None"
    using hyps(5) free by (simp_all add: instances_exist_def ss3) (simp add: abs3 abs2)
  then obtain w4 where "Desirer_Desire ?d lrp w3 = (Error (AlreadyExists (GetInternalServiceName ?a)), w4)" "I w4"
    "instances_exist (\<alpha> w4) ns ?a"
    by (rule kube_cluster.Desire_service_taken [OF assms(1) inv3 hyps(1,3) _ _ _ leak])
  then show ?thesis
    using run stop again leak kube_cluster.Desire_again [OF assms(1) _ hyps(1,3)]
    by (intro exI [of _ w1] exI [of _ w2] exI [of _ w3] exI [of _ w4]) simp
qed

lemma sample_desirable_unrouted:
  "desirable plain_urls ''eirini'' (sample_lrp ''app'' []) [] [] (tracker_abs empty_tracker)"
proof -
  have "valid_label_value ''app''" and "decodeRoutes (marshal_strings (Some [])) = Inr []"
    by code_simp (rule decodeRoutes_marshal, simp)
  then show ?thesis
    by (simp add: desirable_def instances_exist_def names_free_def ingress_ok_def tracker_abs_def empty_tracker_def
        del: marshal_strings.simps)
qed

theorem stop_leaks_service_witness:
  "\<exists>w1 w2 w3. Desirer_Desire (k8s_desirer plain_urls (\<lambda>_. id) id tracker_client ''eirini'' tracker_chan)
        (sample_lrp ''app'' []) empty_tracker = (Return (), w1)
    \<and> Desirer_Stop (k8s_desirer plain_urls (\<lambda>_. id) id tracker_client ''eirini'' tracker_chan) ''app'' w1
        = (Error (NotFound ''eirini''), w2)
    \<and> Desirer_Stop (k8s_desirer plain_urls (\<lambda>_. id) id tracker_client ''eirini'' tracker_chan) ''app'' w2
        = (Error (NotFound ''app''), w3)
    \<and> store_of svc_Meta (tr_Services w3) (''eirini'', ''cf-app'') \<noteq> None"
  using stop_leaks_service [OF tk.kube_cluster_axioms tracker_inv_empty sample_desirable_unrouted, of "\<lambda>_. id" id]
  by (auto simp: range_order_id tracker_abs_def empty_tracker_def GetInternalServiceName_def)

end
