(* ===== verification/Bifrost.thy ===== *)
theory Bifrost
  imports K8s_Desirer Go_Http
begin

text \<open>
  The bridge between the cloud controller and a scheduler: package \<^verbatim>\<open>bifrost\<close> (\<^verbatim>\<open>bifrost.go\<close>, \<^verbatim>\<open>convert.go\<close>,
  \<^verbatim>\<open>models.go\<close>) and the launcher's environment (\<^verbatim>\<open>launcher/launcher.go\<close>).

  A desire request of the cloud controller is converted to an LRP: the droplet is fetched and staged at
  the registry unless the request names an image, and the environment of the launcher is
  merged over the one of the request. The other operations read an LRP back from the scheduler.
  Log messages are left out. The lemmas show every branch of the conversion, that every operation of the
  launcher's environment wins over the request's, the URIs of an update, and the instances reported.
\<close>

section \<open>Launcher\<close>

abbreviation Launch :: string where "Launch \<equiv> ''/lifecycle/launch''"
abbreviation Launcher :: string where "Launcher \<equiv> ''/lifecycle/launcher''"

definition SetupEnv :: "string \<Rightarrow> gomap" where
  "SetupEnv startCmd =
     [(''HOME'', ''/home/vcap/app''),
      (''LANG'', ''en_US.UTF-8''),
      (''PATH'', ''/usr/local/bin:/usr/bin:/bin''),
      (''USER'', ''vcap''),
      (''CF_INSTANCE_ADDR'', ''0.0.0.0:8080''),
      (''CF_INSTANCE_GUID'', ''guid''),
      (''CF_INSTANCE_INTERNAL_IP'', ''0.0.0.0''),
      (''CF_INSTANCE_IP'', ''0.0.0.0''),
      (''CF_INSTANCE_PORT'', ''8080''),
      (''CF_INSTANCE_PORTS'', ''[{'' @ CHR 0x22 # ''external'' @ CHR 0x22 # '':8080,'' @ CHR 0x22 # ''internal''
          @ CHR 0x22 # '':8080}]''),
      (''INSTANCE_GUID'', ''instance_id''),
      (''PORT'', ''8080''),
      (''TMPDIR'', ''/home/vcap/tmp''),
      (''VCAP_APP_HOST'', ''0.0.0.0''),
      (''VCAP_APP_PORT'', ''8080''),
      (''VCAP_SERVICES'', ''{}''),
      (''START_COMMAND'', startCmd)]"

section \<open>Conversion\<close>

definition registryStageURI :: "string \<Rightarrow> string \<Rightarrow> string \<Rightarrow> string \<Rightarrow> string" where
  "registryStageURI baseURL space appname guid =
     baseURL @ ''/v2/'' @ space @ ''/'' @ appname @ ''/blobs/?guid='' @ guid"

definition zero_VcapApp :: VcapApp where
  "zero_VcapApp = \<lparr>vcap_AppName = '''', vcap_AppID = '''', vcap_Version = '''', vcap_AppUris = None, vcap_SpaceName = ''''\<rparr>"

definition dec_VcapApp :: "VcapApp decoder" where
  "dec_VcapApp = dec_struct
     [(''application_name'', dec_field vcap_AppName vcap_AppName_update dec_string),
      (''application_id'', dec_field vcap_AppID vcap_AppID_update dec_string),
      (''version'', dec_field vcap_Version vcap_Version_update dec_string),
      (''application_uris'', dec_field vcap_AppUris vcap_AppUris_update (dec_list dec_string '''')),
      (''space_name'', dec_field vcap_SpaceName vcap_SpaceName_update dec_string)]"

definition parseVcapApplication :: "string \<Rightarrow> go_error + VcapApp" where
  "parseVcapApplication vcap = unmarshal dec_VcapApp zero_VcapApp vcap"

record 'w DropletToImageConverter =
  cv_cfClient :: "'w CfClient"
  cv_client :: "'w http_client"
  cv_registryURL :: string
  cv_registryIP :: string

definition NewConverter :: "'w CfClient \<Rightarrow> 'w http_client \<Rightarrow> string \<Rightarrow> string \<Rightarrow> 'w DropletToImageConverter" where
  "NewConverter cfClient client registryIP registryURL =
     \<lparr>cv_cfClient = cfClient, cv_client = client, cv_registryURL = registryURL, cv_registryIP = registryIP\<rparr>"

definition stageRequest :: "'w DropletToImageConverter \<Rightarrow> VcapApp \<Rightarrow> string \<Rightarrow> string \<Rightarrow> ('w, unit) go" where
  "stageRequest c vcap dropletHash dropletBytes =
     (let uri = registryStageURI (cv_registryURL c) (vcap_SpaceName vcap) (vcap_AppName vcap) dropletHash in
      case NewRequest (cv_client c) ''POST'' uri dropletBytes of
        Inl e \<Rightarrow> go_panic ''failed-to-create-http-request''
      | Inr req \<Rightarrow>
          go_bind (hc_Do (cv_client c) (set_header ''Content-Type'' ''application/gzip'' req)) (\<lambda>resp.
          if rsp_StatusCode resp \<noteq> StatusCreated
          then go_throw (ErrorString (''Invalid staging response: '' @ hc_Format (cv_client c) resp))
          else go_return ()))"

definition dropletToImageURI :: "'w DropletToImageConverter \<Rightarrow> DesireLRPRequest \<Rightarrow> VcapApp \<Rightarrow> ('w, string) go" where
  "dropletToImageURI c request vcap =
     (if req_DockerImageURL request \<noteq> '''' then go_return (req_DockerImageURL request)
      else
        go_bind (cf_GetDropletByAppGuid (cv_cfClient c) (vcap_AppID vcap)) (\<lambda>dropletBytes.
        go_bind (stageRequest c vcap (req_DropletHash request) dropletBytes) (\<lambda>_.
        go_return (cv_registryIP c @ ''/cloudfoundry/app-name:'' @ req_DropletHash request))))"

text \<open>\<open>ord\<close> is the order in which the inner \<^verbatim>\<open>range\<close> visits each map.\<close>

definition mergeMaps :: "(gomap \<Rightarrow> gomap) \<Rightarrow> nilmap list \<Rightarrow> gomap" where
  "mergeMaps ord maps = fold (\<lambda>m result. fold (\<lambda>(k, v). map_assign k v)
     (case m of None \<Rightarrow> [] | Some m \<Rightarrow> ord m) result) maps []"

text \<open>\<^verbatim>\<open>json.Marshal\<close> of the URIs cannot fail: its panic is not reached.\<close>

definition Convert :: "(gomap \<Rightarrow> gomap) \<Rightarrow> 'w DropletToImageConverter \<Rightarrow> DesireLRPRequest \<Rightarrow> ('w, LRP) go" where
  "Convert ord c request =
     (let vcapJSON = nilmap_index (req_Environment request) ''VCAP_APPLICATION'' in
      go_bind (go_lift (parseVcapApplication vcapJSON)) (\<lambda>vcap.
      go_bind (dropletToImageURI c request vcap) (\<lambda>image.
      let uris = marshal_strings (vcap_AppUris vcap);
          lev = SetupEnv (req_StartCommand request)
      in go_return \<lparr>
        Name = vcap_AppID vcap,
        Image = image,
        Command = [Launch],
        Env = mergeMaps ord [req_Environment request, Some lev],
        Health = \<lparr>Type = req_HealthCheckType request, Port = 8080,
          Endpoint = req_HealthCheckHTTPEndpoint request, TimeoutMs = req_HealthCheckTimeoutMs request\<rparr>,
        TargetInstances = req_NumInstances request,
        RunningInstances = 0,
        Metadata = Some
          [(VcapAppName, vcap_AppName vcap),
           (VcapAppID, vcap_AppID vcap),
           (VcapVersion, vcap_Version vcap),
           (VcapAppUris, uris),
           (ProcessGUID, req_ProcessGUID request),
           (LastUpdated, req_LastUpdated request)]\<rparr>)))"

section \<open>Bifrost\<close>

record 'w Converter =
  co_Convert :: "DesireLRPRequest \<Rightarrow> ('w, LRP) go"

text \<open>The interface \<^verbatim>\<open>opi.Desirer\<close>.\<close>

record 'w opi_Desirer =
  od_Desire :: "LRP \<Rightarrow> ('w, unit) go"
  od_List :: "('w, LRP list) go"
  od_Get :: "string \<Rightarrow> ('w, LRP) go"
  od_Update :: "LRP \<Rightarrow> ('w, unit) go"
  od_Stop :: "string \<Rightarrow> ('w, unit) go"

record 'w Bifrost =
  bf_Converter :: "'w Converter"
  bf_Desirer :: "'w opi_Desirer"

text \<open>The messages of the BBS that cross the bridge; a raw message is kept as its JSON value, a nil pointer as \<open>None\<close>.\<close>

record DesiredLRPUpdate =
  du_Instances :: "int32 option"
  du_Routes :: "(string \<times> json option) list option"
  du_Annotation :: "string option"

record UpdateDesiredLRPRequest =
  ur_ProcessGuid :: string
  ur_Update :: "DesiredLRPUpdate option"

record DesiredLRPSchedulingInfo =
  si_ProcessGuid :: string
  si_Annotation :: string

record DesiredLRP =
  dl_ProcessGuid :: string
  dl_Instances :: int32

definition routesAvailable :: "(string \<times> json option) list option \<Rightarrow> bool" where
  "routesAvailable routes = (case routes of None \<Rightarrow> False | Some m \<Rightarrow> map_of m ''cf-router'' \<noteq> None)"

record cf_route =
  rt_Hostnames :: "string list option"
  rt_Port :: go_int

definition dec_cf_route :: "cf_route decoder" where
  "dec_cf_route = dec_struct
     [(''hostnames'', dec_field rt_Hostnames rt_Hostnames_update (dec_list dec_string '''')),
      (''port'', dec_field rt_Port rt_Port_update dec_int)]"

definition getURIs :: "DesiredLRPUpdate \<Rightarrow> ('w, string list) go" where
  "getURIs update =
     (if \<not> routesAvailable (du_Routes update) then go_return []
      else case du_Routes update of
        None \<Rightarrow> go_panic ''invalid memory address or nil pointer dereference''
      | Some m \<Rightarrow>
          go_bind (deref (case map_of m ''cf-router'' of None \<Rightarrow> None | Some p \<Rightarrow> p)) (\<lambda>data.
          go_bind (go_lift (unmarshal_raw (dec_list dec_cf_route \<lparr>rt_Hostnames = None, rt_Port = 0\<rparr>) (Some []) data)) (\<lambda>routes.
          go_return (concat (map (\<lambda>r. case rt_Hostnames r of None \<Rightarrow> [] | Some hs \<Rightarrow> hs)
            (case routes of None \<Rightarrow> [] | Some rs \<Rightarrow> rs))))))"

definition Bifrost_Transfer :: "'w Bifrost \<Rightarrow> DesireLRPRequest \<Rightarrow> ('w, unit) go" where
  "Bifrost_Transfer b request =
     go_bind (co_Convert (bf_Converter b) request) (\<lambda>desiredLRP. od_Desire (bf_Desirer b) desiredLRP)"

definition toDesiredLRPSchedulingInfo :: "LRP list \<Rightarrow> DesiredLRPSchedulingInfo list" where
  "toDesiredLRPSchedulingInfo lrps = map (\<lambda>l.
     \<lparr>si_ProcessGuid = nilmap_index (Metadata l) ProcessGUID, si_Annotation = nilmap_index (Metadata l) LastUpdated\<rparr>) lrps"

definition Bifrost_List :: "'w Bifrost \<Rightarrow> ('w, DesiredLRPSchedulingInfo list) go" where
  "Bifrost_List b =
     go_bind (go_try (od_List (bf_Desirer b))) (\<lambda>r. case r of
        Inl e \<Rightarrow> go_throw (Wrapped ''failed to list desired LRPs'' e)
      | Inr lrps \<Rightarrow> go_return (toDesiredLRPSchedulingInfo lrps))"

definition Bifrost_Update :: "'w Bifrost \<Rightarrow> UpdateDesiredLRPRequest \<Rightarrow> ('w, unit) go" where
  "Bifrost_Update b request =
     go_bind (od_Get (bf_Desirer b) (ur_ProcessGuid request)) (\<lambda>lrp.
     go_bind (deref (ur_Update request)) (\<lambda>update.
     go_bind (deref (du_Instances update)) (\<lambda>instances.
     let lrp = lrp\<lparr>TargetInstances := of_int32 instances\<rparr> in
     go_bind (deref (du_Annotation update)) (\<lambda>annotation.
     go_bind (nilmap_assign LastUpdated annotation (Metadata lrp)) (\<lambda>metadata.
     go_bind (getURIs update) (\<lambda>hostnames.
     go_bind (nilmap_assign VcapAppUris (marshal_strings (Some hostnames)) metadata) (\<lambda>metadata.
     od_Update (bf_Desirer b) (lrp\<lparr>Metadata := metadata\<rparr>))))))))"

definition Bifrost_GetApp :: "'w Bifrost \<Rightarrow> string \<Rightarrow> ('w, DesiredLRP option) go" where
  "Bifrost_GetApp b guid =
     go_bind (go_try (od_Get (bf_Desirer b) guid)) (\<lambda>r. case r of
        Inl e \<Rightarrow> go_return None
      | Inr lrp \<Rightarrow> go_return (Some \<lparr>dl_ProcessGuid = Name lrp, dl_Instances = to_int32 (TargetInstances lrp)\<rparr>))"

definition Bifrost_Stop :: "'w Bifrost \<Rightarrow> string \<Rightarrow> ('w, unit) go" where
  "Bifrost_Stop b guid = od_Stop (bf_Desirer b) guid"

lemma sint_succ:
  assumes "sint (i :: go_int) < sint (r :: go_int)"
  shows "sint (i + 1) = sint i + 1"
proof -
  have "sint i + 1 < 2 ^ 63" and "- (2 ^ 63) \<le> sint i + 1"
    using assms sint_lt [of r] sint_ge [of i] by simp_all
  then show ?thesis
    by (simp add: sint_word_ariths signed_take_bit_int_eq_self)
qed

text \<open>The loop of \<^verbatim>\<open>GetInstances\<close>, with the instances so far.\<close>

function instances_loop :: "go_int \<Rightarrow> go_int \<Rightarrow> Instance list \<Rightarrow> Instance list" where
  "instances_loop running i result =
     (if sint i < sint running
      then instances_loop running (i + 1) (result @ [\<lparr>Index = i, State = RunningState\<rparr>])
      else result)"
  by pat_completeness auto
termination
  by (relation "measure (\<lambda>(running, i, _). nat (sint running - sint i))") (auto simp: sint_succ)

declare instances_loop.simps [simp del]

definition Bifrost_GetInstances :: "'w Bifrost \<Rightarrow> string \<Rightarrow> ('w, Instance list) go" where
  "Bifrost_GetInstances b guid =
     go_bind (od_Get (bf_Desirer b) guid) (\<lambda>lrp. go_return (instances_loop (RunningInstances lrp) 0 []))"

text \<open>The desirer of \<^verbatim>\<open>k8s\<close> as an \<^verbatim>\<open>opi.Desirer\<close>, and the bridge \<^verbatim>\<open>initBifrost\<close> puts together.\<close>

definition opi_desirer :: "'w Desirer \<Rightarrow> 'w opi_Desirer" where
  "opi_desirer d = \<lparr>od_Desire = Desirer_Desire d, od_List = Desirer_List d, od_Get = Desirer_Get d,
     od_Update = Desirer_Update d, od_Stop = Desirer_Stop d\<rparr>"

section \<open>Environment and instances\<close>

lemma map_of_fold_assign:
  "map_of (fold (\<lambda>(k, v). map_assign k v) kvs m) k = (case map_of (rev kvs) k of Some v \<Rightarrow> Some v | None \<Rightarrow> map_of m k)"
  by (induction kvs arbitrary: m) (auto split: option.splits)

lemma map_of_order:
  assumes "range_order ord" and "gomap_wf m"
  shows "map_of (rev (ord m)) k = map_of m k"
proof -
  have "distinct (map fst (rev (ord m)))"
    using assms range_order_mset [OF assms(1), of m] unfolding gomap_wf_def
    by (metis distinct_rev mset_eq_imp_distinct_iff mset_map rev_map)
  moreover have "set (rev (ord m)) = set m"
    using range_order_set [OF assms(1)] by simp
  ultimately show ?thesis
    using assms(2) unfolding gomap_wf_def by (metis map_of_eqI map_of_inject_set)
qed

text \<open>The later map wins.\<close>

lemma mergeMaps_lookup:
  assumes "range_order ord" and "\<forall>m. env = Some m \<longrightarrow> gomap_wf m" and "gomap_wf lev"
  shows "map_of (mergeMaps ord [env, Some lev]) k
    = (case map_of lev k of Some v \<Rightarrow> Some v | None \<Rightarrow> (case env of None \<Rightarrow> None | Some m \<Rightarrow> map_of m k))"
  using assms
  by (cases env) (simp_all add: mergeMaps_def map_of_fold_assign map_of_order split: option.split)

lemma SetupEnv_wf: "gomap_wf (SetupEnv s)"
  by (simp add: gomap_wf_def SetupEnv_def)

lemma gomap_wf_fold: "gomap_wf m \<Longrightarrow> gomap_wf (fold (\<lambda>(k, v). map_assign k v) kvs m)"
  by (induction kvs arbitrary: m) (auto intro: gomap_wf_assign)

lemma mergeMaps_wf: "gomap_wf (mergeMaps ord maps)"
proof -
  have "gomap_wf (fold (\<lambda>m result. fold (\<lambda>(k, v). map_assign k v) (case m of None \<Rightarrow> [] | Some m \<Rightarrow> ord m) result) maps r)"
    if "gomap_wf r" for r
    using that by (induction maps arbitrary: r) (auto intro: gomap_wf_fold)
  then show ?thesis unfolding mergeMaps_def by (simp add: gomap_wf_def)
qed

lemma sint_word_of_nat: "n < 2 ^ 63 \<Longrightarrow> sint (of_nat n :: go_int) = int n"
  by (simp add: signed_of_nat signed_take_bit_int_eq_self)

lemma instances_loop_eq:
  assumes "int n \<le> sint running" and "0 \<le> sint running"
  shows "instances_loop running (of_nat n) acc
    = acc @ map (\<lambda>i. \<lparr>Index = of_nat i, State = RunningState\<rparr>) [n ..< nat (sint running)]"
  using assms(1)
proof (induction "nat (sint running) - n" arbitrary: n acc)
  case 0
  have "sint running < 2 ^ 63" using sint_lt [of running] by simp
  with 0 assms(2) have "sint (of_nat n :: go_int) = int n" "int n = sint running"
    by (auto intro!: sint_word_of_nat)
  then show ?case using 0 by (simp add: instances_loop.simps)
next
  case (Suc d)
  have "sint running < 2 ^ 63" using sint_lt [of running] by simp
  then have n: "sint (of_nat n :: go_int) = int n" "int n < sint running"
    using Suc.prems Suc.hyps(2) by (auto intro!: sint_word_of_nat)
  have "instances_loop running (of_nat (Suc n)) (acc @ [\<lparr>Index = of_nat n, State = RunningState\<rparr>])
      = (acc @ [\<lparr>Index = of_nat n, State = RunningState\<rparr>])
        @ map (\<lambda>i. \<lparr>Index = of_nat i, State = RunningState\<rparr>) [Suc n ..< nat (sint running)]"
    by (rule Suc.hyps(1)) (use Suc.hyps(2) n in auto)
  moreover have "[n ..< nat (sint running)] = n # [Suc n ..< nat (sint running)]"
    using n by (simp add: upt_conv_Cons)
  ultimately show ?case
    using n by (subst instances_loop.simps) (simp add: add.commute)
qed

section \<open>The URIs of an update\<close>

text \<open>The route of the cloud controller as it is sent: host names and a port.\<close>

definition route_json :: "string list \<times> int \<Rightarrow> json" where
  "route_json r = JObject [(''hostnames'', JArray (map JString (fst r))), (''port'', json_int (snd r))]"

definition port_ok :: "string list \<times> int \<Rightarrow> bool" where
  "port_ok r \<longleftrightarrow> - (2 ^ 63) \<le> snd r \<and> snd r < 2 ^ 63"

lemma route_keys: "fold_key ''port'' \<noteq> fold_key ''hostnames''" "fold_key ''hostnames'' \<noteq> fold_key ''port''"
  by code_simp+

lemma dec_route_json:
  "port_ok r \<Longrightarrow> dec_cf_route (route_json r) \<lparr>rt_Hostnames = None, rt_Port = 0\<rparr>
     = (\<lparr>rt_Hostnames = Some (fst r), rt_Port = word_of_int (snd r)\<rparr>, False)"
  by (simp add: port_ok_def dec_cf_route_def route_json_def dec_field_def dec_int_json_int route_keys
      del: fold_key.simps dec_int.simps)

lemma dec_routes_json:
  assumes "\<forall>r \<in> set rs. port_ok r"
  shows "dec_elems dec_cf_route \<lparr>rt_Hostnames = None, rt_Port = 0\<rparr> (map route_json rs) []
    = (map (\<lambda>r. \<lparr>rt_Hostnames = Some (fst r), rt_Port = word_of_int (snd r)\<rparr>) rs, False)"
  using assms by (induction rs) (simp_all add: dec_route_json)

lemma getURIs_routes:
  assumes "\<forall>r \<in> set rs. port_ok r" and "du_Routes u = Some m" and "map_of m ''cf-router'' = Some (Some (JArray (map route_json rs)))"
  shows "getURIs u w = (Return (concat (map fst rs)), w)"
  using assms by (simp add: getURIs_def routesAvailable_def deref_def unmarshal_raw_def dec_routes_json comp_def go_simps)

lemma getURIs_none: "\<not> routesAvailable (du_Routes u) \<Longrightarrow> getURIs u w = (Return [], w)"
  by (simp add: getURIs_def)

section \<open>The bridge over a Kubernetes cluster\<close>

text \<open>The bridge of \<^verbatim>\<open>initBifrost\<close>: the converter and the Kubernetes desirer.\<close>

definition k8s_bifrost :: "'w Converter \<Rightarrow> 'w Desirer \<Rightarrow> 'w Bifrost" where
  "k8s_bifrost conv d = \<lparr>bf_Converter = conv, bf_Desirer = opi_desirer d\<rparr>"

lemma k8s_bifrost_fields [simp]:
  "bf_Converter (k8s_bifrost conv d) = conv"
  "od_Desire (bf_Desirer (k8s_bifrost conv d)) = Desirer_Desire d"
  "od_List (bf_Desirer (k8s_bifrost conv d)) = Desirer_List d"
  "od_Get (bf_Desirer (k8s_bifrost conv d)) = Desirer_Get d"
  "od_Update (bf_Desirer (k8s_bifrost conv d)) = Desirer_Update d"
  "od_Stop (bf_Desirer (k8s_bifrost conv d)) = Desirer_Stop d"
  by (simp_all add: k8s_bifrost_def opi_desirer_def)

lemma Get_desired:
  assumes "kube_cluster cl \<alpha> I ch" and "I w1" and "ns \<noteq> ''''" and "Name lrp \<noteq> ''''"
    and "c_StatefulSets (\<alpha> w1) (ns, Name lrp) = Some (ss_with_ns ns (toStatefulSet ord (newStatefulSetManager cl ns) lrp))"
  shows "Desirer_Get (k8s_desirer lib rord ord cl ns ch) (Name lrp) w1 = (Return (read_back 0 lrp), w1)"
  using kube_cluster.Get_instances [OF assms] by (simp add: Desirer_Get_def toStatefulSet_to_LRP0)

lemma Get_unknown:
  assumes "kube_cluster cl \<alpha> I ch" and "I w1" and "ns \<noteq> ''''" and "g \<noteq> ''''" and "c_StatefulSets (\<alpha> w1) (ns, g) = None"
  shows "Desirer_Get (k8s_desirer lib rord ord cl ns ch) g w1 = (Error (NotFound g), w1)"
  using kube_cluster.Get_instances_missing [OF assms] by (simp add: Desirer_Get_def)

section \<open>Properties\<close>

text \<open>
  C19. The conversion of a desire request: the LRP is named by the application's GUID, runs the launcher
  with the image chosen for it, and its environment holds for every variable the launcher's value
  if the launcher sets it and the request's value otherwise. The URIs of the application survive
  in its metadata. The world changes only by choosing the image.
\<close>

theorem convert_request:
  assumes "range_order ord" and "req_Environment request = Some env" and "gomap_wf env"
    and vcap: "parseVcapApplication (map_index env ''VCAP_APPLICATION'') = Inr vcap"
    and img: "dropletToImageURI c request vcap w = (Return img, w')"
    and uris: "vcap_AppUris vcap = Some uris" "\<forall>u \<in> set uris. utf8_valid u"
  shows "\<exists>lrp. Convert ord c request w = (Return lrp, w')
    \<and> Name lrp = vcap_AppID vcap \<and> Image lrp = img \<and> Command lrp = [Launch]
    \<and> TargetInstances lrp = req_NumInstances request
    \<and> (\<forall>k. map_of (Env lrp) k = (case map_of (SetupEnv (req_StartCommand request)) k of
          Some v \<Rightarrow> Some v | None \<Rightarrow> map_of env k))
    \<and> map_of (Env lrp) ''START_COMMAND'' = Some (req_StartCommand request)
    \<and> gomap_wf (Env lrp)
    \<and> decodeRoutes (lrp_uris lrp) = Inr uris
    \<and> nilmap_index (Metadata lrp) ProcessGUID = req_ProcessGUID request
    \<and> nilmap_index (Metadata lrp) LastUpdated = req_LastUpdated request"
proof -
  have env: "map_of (mergeMaps ord [req_Environment request, Some (SetupEnv (req_StartCommand request))]) k
    = (case map_of (SetupEnv (req_StartCommand request)) k of Some v \<Rightarrow> Some v | None \<Rightarrow> map_of env k)" for k
    using mergeMaps_lookup [OF assms(1) _ SetupEnv_wf, of "Some env"] assms(2,3) by (simp split: option.split)
  have "map_of (SetupEnv (req_StartCommand request)) ''START_COMMAND'' = Some (req_StartCommand request)"
    by (simp add: SetupEnv_def)
  with env assms(2) vcap img show ?thesis
    using decodeRoutes_marshal [OF uris(2)] uris(1)
    by (simp add: Convert_def Let_def go_simps mergeMaps_wf del: marshal_strings.simps)
qed

definition sample_vcap :: string where
  "sample_vcap = print_json (JObject [(''application_id'', JString ''app''), (''application_name'', JString ''dora''),
     (''application_uris'', JArray [JString ''a.io''])])"

definition sample_request :: DesireLRPRequest where
  "sample_request = \<lparr>req_ProcessGUID = ''app-1'', req_DockerImageURL = ''img'', req_DropletHash = '''',
     req_StartCommand = ''run'', req_Environment = Some [(''PORT'', ''1''), (''VCAP_APPLICATION'', sample_vcap)],
     req_NumInstances = 2, req_LastUpdated = ''0'', req_HealthCheckType = ''port'', req_HealthCheckHTTPEndpoint = '''',
     req_HealthCheckTimeoutMs = 400\<rparr>"

lemma sample_vcap_parsed:
  "parseVcapApplication sample_vcap = Inr \<lparr>vcap_AppName = ''dora'', vcap_AppID = ''app'', vcap_Version = '''',
     vcap_AppUris = Some [''a.io''], vcap_SpaceName = ''''\<rparr>"
  by code_simp


text \<open>A registry and a cloud controller for concrete runs: the world is the list of requests made.\<close>

definition sample_http :: "HTTPRequest list http_client" where
  "sample_http = \<lparr>hc_CheckURL = (\<lambda>_. None), hc_Do = (\<lambda>r w. (Return \<lparr>rsp_StatusCode = StatusCreated, rsp_Body = '''', rsp_ReadError = None\<rparr>, w @ [r])),
     hc_Format = (\<lambda>_. '''')\<rparr>"

definition sample_cf :: "HTTPRequest list CfClient" where
  "sample_cf = \<lparr>cf_GetDropletByAppGuid = (\<lambda>g. go_return (''droplet of '' @ g)), cf_PushDroplet = (\<lambda>_ _. go_return ()),
     cf_GetAppBitsByAppGuid = (\<lambda>g. go_return \<lparr>rsp_StatusCode = StatusOK, rsp_Body = '''', rsp_ReadError = None\<rparr>)\<rparr>"

definition sample_converter :: "HTTPRequest list DropletToImageConverter" where
  "sample_converter = NewConverter sample_cf sample_http ''10.0.0.2'' ''http://127.0.0.1:8080''"

theorem convert_request_witness:
  "\<exists>lrp. Convert rev sample_converter sample_request [] = (Return lrp, []) \<and> Name lrp = ''app''
    \<and> map_of (Env lrp) ''PORT'' = Some ''8080'' \<and> map_of (Env lrp) ''VCAP_APPLICATION'' = Some sample_vcap
    \<and> decodeRoutes (lrp_uris lrp) = Inr [''a.io'']"
proof -
  let ?env = "[(''PORT'', ''1''), (''VCAP_APPLICATION'', sample_vcap)]"
  have "parseVcapApplication (map_index ?env ''VCAP_APPLICATION'') = Inr \<lparr>vcap_AppName = ''dora'', vcap_AppID = ''app'',
      vcap_Version = '''', vcap_AppUris = Some [''a.io''], vcap_SpaceName = ''''\<rparr>"
    by (simp add: sample_vcap_parsed)
  moreover have "gomap_wf ?env" by (simp add: gomap_wf_def)
  ultimately show ?thesis
    using convert_request [OF range_order_rev, of sample_request ?env _ sample_converter "[]" "''img''" "[]" "[''a.io'']"]
    by (auto simp: sample_request_def dropletToImageURI_def sample_uris_valid SetupEnv_def fun_eq_iff)
qed

text \<open>
  An app without an image of its own: its droplet is fetched by the application's GUID and posted
  once to the registry under the droplet's hash; the image is the one the registry serves under
  that hash. Any answer but 201 makes the conversion fail, with no further call.
\<close>

theorem droplet_is_staged:
  assumes "req_DockerImageURL request = ''''"
    and "cf_GetDropletByAppGuid (cv_cfClient c) (vcap_AppID vcap) w = (Return droplet, w1)"
    and "hc_CheckURL (cv_client c) (registryStageURI (cv_registryURL c) (vcap_SpaceName vcap) (vcap_AppName vcap) (req_DropletHash request)) = None"
    and "hc_Do (cv_client c) \<lparr>rq_Method = ''POST'',
        rq_URL = registryStageURI (cv_registryURL c) (vcap_SpaceName vcap) (vcap_AppName vcap) (req_DropletHash request),
        rq_Header = [(''Content-Type'', ''application/gzip'')], rq_ContentLength = of_nat (length droplet), rq_Body = droplet\<rparr> w1
      = (Return resp, w2)"
  shows "dropletToImageURI c request vcap w = (if rsp_StatusCode resp = StatusCreated
      then Return (cv_registryIP c @ ''/cloudfoundry/app-name:'' @ req_DropletHash request)
      else Error (ErrorString (''Invalid staging response: '' @ hc_Format (cv_client c) resp)), w2)"
  using assms
  by (simp add: dropletToImageURI_def stageRequest_def NewRequest_def set_header_def map_assign_def Let_def go_simps)

theorem droplet_is_staged_witness:
  "dropletToImageURI sample_converter (sample_request\<lparr>req_DockerImageURL := '''', req_DropletHash := ''hash''\<rparr>)
     \<lparr>vcap_AppName = ''dora'', vcap_AppID = ''app'', vcap_Version = '''', vcap_AppUris = None, vcap_SpaceName = ''dev''\<rparr> []
   = (Return ''10.0.0.2/cloudfoundry/app-name:hash'',
      [\<lparr>rq_Method = ''POST'', rq_URL = ''http://127.0.0.1:8080/v2/dev/dora/blobs/?guid=hash'',
        rq_Header = [(''Content-Type'', ''application/gzip'')], rq_ContentLength = 14, rq_Body = ''droplet of app''\<rparr>])"
  by (subst droplet_is_staged [where droplet = "''droplet of app''" and ?w1.0 = "[]" and resp = "\<lparr>rsp_StatusCode = StatusCreated, rsp_Body = '''', rsp_ReadError = None\<rparr>"])
    (simp_all add: sample_converter_def sample_request_def NewConverter_def sample_cf_def sample_http_def registryStageURI_def)

text \<open>
  C33. The instances reported for an app are numbered from 0 up to the number of running ones, each once
  and each as running; a count that is not positive gives none. The loop ends for every count.
\<close>

theorem instances_reported:
  "instances_loop running 0 [] = map (\<lambda>i. \<lparr>Index = of_nat i, State = RunningState\<rparr>) [0 ..< nat (sint running)]"
proof (cases "0 \<le> sint running")
  case True
  then show ?thesis using instances_loop_eq [of 0 running "[]"] by simp
next
  case False
  then show ?thesis by (simp add: instances_loop.simps)
qed

text \<open>
  The host names of an update are those of all its routes, in their order; an update without routes
  for the router has none.
\<close>

theorem update_hostnames:
  assumes "\<forall>r \<in> set rs. port_ok r"
  shows "getURIs \<lparr>du_Instances = n, du_Routes = Some (m @ [(''cf-router'', Some (JArray (map route_json rs)))]), du_Annotation = a\<rparr> w
      = (if map_of m ''cf-router'' = None then (Return (concat (map fst rs)), w)
         else getURIs \<lparr>du_Instances = n, du_Routes = Some m, du_Annotation = a\<rparr> w)
    \<and> getURIs \<lparr>du_Instances = n, du_Routes = None, du_Annotation = a\<rparr> w = (Return [], w)"
proof (cases "map_of m ''cf-router''")
  case None
  then have "map_of (m @ [(''cf-router'', Some (JArray (map route_json rs)))]) ''cf-router'' = Some (Some (JArray (map route_json rs)))"
    by (simp add: map_add_Some_iff)
  then have "getURIs \<lparr>du_Instances = n, du_Routes = Some (m @ [(''cf-router'', Some (JArray (map route_json rs)))]), du_Annotation = a\<rparr> w
      = (Return (concat (map fst rs)), w)"
    by (rule getURIs_routes [OF assms DesiredLRPUpdate.select_convs(2)])
  with None show ?thesis
    by (simp add: getURIs_none routesAvailable_def)
next
  case (Some p)
  then have "map_of (m @ [(''cf-router'', Some (JArray (map route_json rs)))]) ''cf-router'' = Some p"
    by (simp add: map_add_Some_iff)
  with Some show ?thesis
    by (simp add: getURIs_def routesAvailable_def)
qed

theorem update_hostnames_witness:
  "getURIs \<lparr>du_Instances = Some 1, du_Routes = Some ([] @ [(''cf-router'',
       Some (JArray (map route_json [([''a.io'', ''b.io''], 8080), ([''c.io''], 8080)])))]), du_Annotation = None\<rparr> ()
     = (Return [''a.io'', ''b.io'', ''c.io''], ())"
  using update_hostnames [of "[([''a.io'', ''b.io''], 8080), ([''c.io''], 8080)]" "Some 1" "[]" None "()"]
  by (simp add: port_ok_def)

text \<open>
  C18. An update over the bridge reaches the cluster: for an app that was desired, the cloud
  controller's new instance count, annotation and routes end up in the stateful set's replicas, in the
  service's routes and in the ingress, and the emitter is told the difference.
\<close>

theorem bridge_update:
  assumes "kube_cluster cl \<alpha> I ch" and "I w" and "desirable lib ns lrp uris rs (\<alpha> w)" and "\<And>k. range_order (rord k)"
    and "Metadata lrp = Some m"
    and hosts: "\<forall>r \<in> set cc_routes. port_ok r" "\<forall>h \<in> set (concat (map fst cc_routes)). utf8_valid h"
    and new: "new_rules lib (Name lrp) (concat (map fst cc_routes)) = Inr rs'"
  shows "\<exists>w' s v. go_bind (Desirer_Desire (k8s_desirer lib rord ord cl ns ch) lrp)
      (\<lambda>_. Bifrost_Update (k8s_bifrost conv (k8s_desirer lib rord ord cl ns ch))
        \<lparr>ur_ProcessGuid = Name lrp, ur_Update = Some \<lparr>du_Instances = Some n,
          du_Routes = Some [(''cf-router'', Some (JArray (map route_json cc_routes)))], du_Annotation = Some a\<rparr>\<rparr>) w
      = (Return (), w')
    \<and> c_StatefulSets (\<alpha> w') (ns, Name lrp) = Some s \<and> ss_Replicas s = Some (to_int32 (of_int32 n))
    \<and> c_Services (\<alpha> w') (ns, GetInternalServiceName (Name lrp)) = Some v
    \<and> decodeRoutes (nilmap_index (om_Annotations (svc_Meta v)) RegisteredRoutes) = Inr (concat (map fst cc_routes))
    \<and> app_rules (\<alpha> w') ns = (app_rules (\<alpha> w) ns)(Name lrp := mset rs')"
proof (rule Desire_run [where rord = rord, OF assms(1-4), of ord])
  fix w1
  let ?d = "k8s_desirer lib rord ord cl ns ch" and ?hs = "concat (map fst cc_routes)"
  let ?u = "\<lparr>du_Instances = Some n, du_Routes = Some [(''cf-router'', Some (JArray (map route_json cc_routes)))], du_Annotation = Some a\<rparr>"
  define m0 where "m0 = the (Metadata (read_back 0 lrp))"
  let ?lrp = "(read_back 0 lrp)\<lparr>TargetInstances := of_int32 n,
    Metadata := Some (map_assign VcapAppUris (marshal_strings (Some ?hs)) (map_assign LastUpdated a m0))\<rparr>"
  assume run: "Desirer_Desire ?d lrp w = (Return (), w1)" and inv1: "I w1"
    and rep: "replaces_rules ns (Name lrp) rs (desired cl ord ns lrp uris (\<alpha> w)) (\<alpha> w1)"
  have hyps: "ns \<noteq> ''''" "Name lrp \<noteq> ''''"
    using assms(3) by (auto simp: desirable_def valid_label_value_def)
  have "c_StatefulSets (\<alpha> w1) (ns, Name lrp) = Some (ss_with_ns ns (toStatefulSet ord (newStatefulSetManager cl ns) lrp))"
    using replaces_rules_frame(1) [OF rep] by (simp add: desired_stores)
  from Get_desired [OF assms(1) inv1 hyps this]
  have get: "Desirer_Get ?d (Name lrp) w1 = (Return (read_back 0 lrp), w1)" .
  have uris: "getURIs ?u w = (Return ?hs, w)" for w :: 'a
    by (rule getURIs_routes [OF hosts(1) DesiredLRPUpdate.select_convs(2)]) simp
  have meta: "Metadata (read_back 0 lrp) = Some m0"
    by (simp add: read_back_def m0_def)
  have update: "Bifrost_Update (k8s_bifrost conv ?d) \<lparr>ur_ProcessGuid = Name lrp, ur_Update = Some ?u\<rparr> w1 = Desirer_Update ?d ?lrp w1"
    using get uris meta
    by (simp add: Bifrost_Update_def deref_def Let_def go_simps del: marshal_strings.simps)
  have dec: "decodeRoutes (lrp_uris ?lrp) = Inr ?hs"
    using decodeRoutes_marshal [OF hosts(2)] by (simp del: marshal_strings.simps)
  have "Name ?lrp = Name lrp" by (simp add: read_back_def)
  then show ?thesis
  proof (rule Update_desired [where rord = rord, OF assms(1) inv1 assms(3-5) _ dec new rep])
    fix w' s v
    assume "Desirer_Update ?d ?lrp w1 = (Return (), w')" and "c_StatefulSets (\<alpha> w') (ns, Name lrp) = Some s"
      and "ss_Replicas s = Some (to_int32 (TargetInstances ?lrp))"
      and "c_Services (\<alpha> w') (ns, GetInternalServiceName (Name lrp)) = Some v"
      and "nilmap_index (om_Annotations (svc_Meta v)) RegisteredRoutes = lrp_uris ?lrp"
      and "app_rules (\<alpha> w') ns = (app_rules (\<alpha> w) ns)(Name lrp := mset rs')"
    with dec show ?thesis
      by (intro exI [of _ w'] exI [of _ s] exI [of _ v]) (simp add: run update go_simps del: marshal_strings.simps)
  qed
qed

lemma plain_single_route:
  "\<forall>r \<in> set [([''a.io''], 8080)]. port_ok r" "\<forall>h \<in> set (concat (map fst [([''a.io''], 8080 :: int)])). utf8_valid h"
  "new_rules plain_urls (Name (sample_lrp ''app'' [''A.io'', ''b.io''])) (concat (map fst [([''a.io''], 8080 :: int)]))
     = Inr [plain_rule ''app'' ''a.io'']"
  by (simp_all add: port_ok_def sample_uris_valid sample_new_rules del: new_rules.simps)

theorem bridge_update_witness:
  "\<exists>w'. go_bind (Desirer_Desire (k8s_desirer plain_urls (\<lambda>_. id) id tracker_client ''eirini'' tracker_chan)
        (sample_lrp ''app'' [''A.io'', ''b.io'']))
      (\<lambda>_. Bifrost_Update (k8s_bifrost \<lparr>co_Convert = (\<lambda>_. go_throw EOF)\<rparr>
          (k8s_desirer plain_urls (\<lambda>_. id) id tracker_client ''eirini'' tracker_chan))
        \<lparr>ur_ProcessGuid = ''app'', ur_Update = Some \<lparr>du_Instances = Some 3,
          du_Routes = Some [(''cf-router'', Some (JArray (map route_json [([''a.io''], 8080)])))], du_Annotation = Some ''1''\<rparr>\<rparr>)
      empty_tracker = (Return (), w')
    \<and> app_rules (tracker_abs w') ''eirini'' ''app'' = {#plain_rule ''app'' ''a.io''#}"
proof -
  have meta: "Metadata (sample_lrp ''app'' [''A.io'', ''b.io'']) = Some [(VcapAppUris, marshal_strings (Some [''A.io'', ''b.io''])), (LastUpdated, ''0'')]"
    by (simp add: sample_lrp_def)
  from bridge_update [where rord = "\<lambda>_. id" and ord = id and conv = "\<lparr>co_Convert = (\<lambda>_. go_throw EOF)\<rparr>" and n = 3 and a = "''1''",
      OF tk.kube_cluster_axioms tracker_inv_empty sample_desirable range_order_id meta plain_single_route]
  show ?thesis by auto
qed

text \<open>
  C32. The GUID that the listing reports for an app is the process GUID of its request, but instances are
  looked up by the application's GUID: for an app whose process GUID is another string, an update, the
  state of the app and its instances asked for under the listed GUID do not find it.
\<close>

theorem listed_guid_not_found:
  assumes "kube_cluster cl \<alpha> I ch" and "I w" and "desirable lib ns lrp uris rs (\<alpha> w)" and "\<And>k. range_order (rord k)"
    and "\<forall>n. c_StatefulSets (\<alpha> w) (ns, n) = None"
    and g: "nilmap_index (Metadata lrp) ProcessGUID = g" "g \<noteq> Name lrp" "g \<noteq> ''''"
  shows "\<exists>w1. Desirer_Desire (k8s_desirer lib rord ord cl ns ch) lrp w = (Return (), w1)
    \<and> Bifrost_List (k8s_bifrost conv (k8s_desirer lib rord ord cl ns ch)) w1
        = (Return [\<lparr>si_ProcessGuid = g, si_Annotation = nilmap_index (Metadata lrp) LastUpdated\<rparr>], w1)
    \<and> Bifrost_Update (k8s_bifrost conv (k8s_desirer lib rord ord cl ns ch)) \<lparr>ur_ProcessGuid = g, ur_Update = u\<rparr> w1
        = (Error (NotFound g), w1)
    \<and> Bifrost_GetApp (k8s_bifrost conv (k8s_desirer lib rord ord cl ns ch)) g w1 = (Return None, w1)
    \<and> Bifrost_GetInstances (k8s_bifrost conv (k8s_desirer lib rord ord cl ns ch)) g w1 = (Error (NotFound g), w1)"
proof (rule Desire_run [where rord = rord, OF assms(1-4), of ord])
  fix w1
  let ?d = "k8s_desirer lib rord ord cl ns ch" and ?s = "ss_with_ns ns (toStatefulSet ord (newStatefulSetManager cl ns) lrp)"
  assume run: "Desirer_Desire ?d lrp w = (Return (), w1)" and inv1: "I w1"
    and rep: "replaces_rules ns (Name lrp) rs (desired cl ord ns lrp uris (\<alpha> w)) (\<alpha> w1)"
  have ns: "ns \<noteq> ''''" using assms(3) by (simp add: desirable_def)
  have ss: "c_StatefulSets (\<alpha> w1) (ns, n) = (if n = Name lrp then Some ?s else None)" for n
    using replaces_rules_frame(1) [OF rep] assms(5) by (simp add: desired_stores)
  have get: "Desirer_Get ?d g w1 = (Error (NotFound g), w1)"
    using g by (intro Get_unknown [OF assms(1) inv1 ns]) (simp_all add: ss)
  obtain obs where list: "rc_List (StatefulSets cl) ns '''' w1 = (Return obs, w1)" "distinct (map (om_Name \<circ> ss_Meta) obs)"
    and obs: "set obs = {ob. \<exists>n. c_StatefulSets (\<alpha> w1) (ns, n) = Some ob}"
    using kube_resource.List_law [OF kube_cluster.axioms(1) [OF assms(1)] inv1 ns] by blast
  have "set obs = {?s}" unfolding obs ss by auto
  then have "obs = [?s]"
    using distinct_map_single [OF list(2)] by simp
  with list(1) have "Desirer_List ?d w1 = (Return [read_back 0 lrp], w1)"
    by (simp add: Desirer_List_def StatefulSetManager_List_def go_simps toStatefulSet_to_LRP0)
  then have "Bifrost_List (k8s_bifrost conv ?d) w1
      = (Return [\<lparr>si_ProcessGuid = g, si_Annotation = nilmap_index (Metadata lrp) LastUpdated\<rparr>], w1)"
    using g(1) by (simp add: Bifrost_List_def go_simps toDesiredLRPSchedulingInfo_def read_back_def)
  with run get show ?thesis
    by (intro exI [of _ w1]) (simp add: Bifrost_Update_def Bifrost_GetApp_def Bifrost_GetInstances_def go_simps)
qed


definition sample_guid_lrp :: LRP where
  "sample_guid_lrp = (sample_lrp ''app'' [''A.io'', ''b.io''])\<lparr>Metadata := Some [(ProcessGUID, ''app-1''),
     (VcapAppUris, marshal_strings (Some [''A.io'', ''b.io'']))]\<rparr>"

lemma sample_guid_lrp_fields [simp]:
  "Name sample_guid_lrp = ''app''"
  "lrp_uris sample_guid_lrp = marshal_strings (Some [''A.io'', ''b.io''])"
  "nilmap_index (Metadata sample_guid_lrp) ProcessGUID = ''app-1''"
  by (simp_all add: sample_guid_lrp_def)

lemma sample_guid_desirable:
  "desirable plain_urls ''eirini'' sample_guid_lrp [''A.io'', ''b.io'']
     [plain_rule ''app'' ''a.io'', plain_rule ''app'' ''b.io''] (tracker_abs empty_tracker)"
  using sample_desirable by (simp add: desirable_def del: marshal_strings.simps new_rules.simps)

theorem listed_guid_not_found_witness:
  "\<exists>w1. Desirer_Desire (k8s_desirer plain_urls (\<lambda>_. id) id tracker_client ''eirini'' tracker_chan) sample_guid_lrp empty_tracker
      = (Return (), w1)
    \<and> Bifrost_GetInstances (k8s_bifrost \<lparr>co_Convert = (\<lambda>_. go_throw EOF)\<rparr>
        (k8s_desirer plain_urls (\<lambda>_. id) id tracker_client ''eirini'' tracker_chan)) ''app-1'' w1 = (Error (NotFound ''app-1''), w1)"
  using listed_guid_not_found [where rord = "\<lambda>_. id" and ord = id and conv = "\<lparr>co_Convert = (\<lambda>_. go_throw EOF)\<rparr>" and g = "''app-1''",
      OF tk.kube_cluster_axioms tracker_inv_empty sample_guid_desirable range_order_id]
  by (auto simp: tracker_abs_def empty_tracker_def)

end
