(* ===== verification/Task_Desirer.thy ===== *)
theory Task_Desirer
  imports Probe_Creator Object_Tracker
begin

text \<open>
  One-off tasks as Kubernetes jobs: \<^verbatim>\<open>k8s/desiretask.go\<close>. A staging task gets the certificates of the cloud
  controller's uploader mounted and its host name resolved. The job is named by the staging GUID in
  the environment of the task. \<open>ord\<close> is the order in which the range over that environment goes.

  The lemmas: the job of a task, its creation and deletion in a cluster that keeps its promises,
  and that a task's command is not part of its job.
\<close>

section \<open>Definitions\<close>

abbreviation ActiveDeadlineSeconds :: go_int where "ActiveDeadlineSeconds \<equiv> 900"

abbreviation RestartPolicyNever :: string where "RestartPolicyNever \<equiv> ''Never''"

record 'w TaskDesirer =
  td_Namespace :: string
  td_CCUploaderIP :: string
  td_Client :: "'w kubernetes_Interface"

definition toJob :: "(gomap \<Rightarrow> gomap) \<Rightarrow> Task \<Rightarrow> Job" where
  "toJob ord task =
     (let job = \<lparr>job_Meta = zero_ObjectMeta,
            job_ActiveDeadlineSeconds = int64ptr ActiveDeadlineSeconds,
            job_Template = \<lparr>pt_Labels = [],
              pt_Spec = zero_PodSpec\<lparr>
                ps_Containers := [zero_Container\<lparr>
                  ct_Name := ''opi-task'',
                  ct_Image := task_Image task,
                  ct_Env := MapToEnvVar ord (task_Env task)\<rparr>],
                ps_RestartPolicy := RestartPolicyNever\<rparr>\<rparr>\<rparr>;
          job = job\<lparr>job_Meta := (job_Meta job)\<lparr>om_Name := map_index (task_Env task) EnvStagingGUID\<rparr>\<rparr>;
          job = job\<lparr>job_Template := (job_Template job)\<lparr>pt_Labels := [(''name'', map_index (task_Env task) EnvAppID)]\<rparr>\<rparr>
      in job\<lparr>job_Meta := (job_Meta job)\<lparr>om_Labels := [(''name'', map_index (task_Env task) EnvAppID)]\<rparr>\<rparr>)"

text \<open>\<^verbatim>\<open>Containers[0]\<close>: a job of \<open>toJob\<close> has one container, so the index is in range.\<close>

definition toStagingJob :: "(gomap \<Rightarrow> gomap) \<Rightarrow> 'w TaskDesirer \<Rightarrow> Task \<Rightarrow> Job" where
  "toStagingJob ord d task =
     (let job = toJob ord task;
          spec = pt_Spec (job_Template job);
          spec = spec\<lparr>ps_HostAliases := [\<lparr>ha_IP = td_CCUploaderIP d, ha_Hostnames = [CCUploaderInternalURL]\<rparr>]\<rparr>;
          spec = spec\<lparr>ps_Volumes := [\<lparr>vol_Name = CCCertsVolumeName, vol_SecretName = CCCertsSecretName\<rparr>]\<rparr>;
          spec = spec\<lparr>ps_Containers := (ps_Containers spec)[0 := (ps_Containers spec ! 0)\<lparr>ct_VolumeMounts :=
            [\<lparr>vm_Name = CCCertsVolumeName, vm_ReadOnly = True, vm_MountPath = CCCertsMountPath\<rparr>]\<rparr>]\<rparr>
      in job\<lparr>job_Template := (job_Template job)\<lparr>pt_Spec := spec\<rparr>\<rparr>)"

definition TaskDesirer_Desire :: "(gomap \<Rightarrow> gomap) \<Rightarrow> 'w TaskDesirer \<Rightarrow> Task \<Rightarrow> ('w, unit) go" where
  "TaskDesirer_Desire ord d task =
     go_bind (rc_Create (Jobs (td_Client d)) (td_Namespace d) (toJob ord task)) (\<lambda>_. go_return ())"

definition TaskDesirer_DesireStaging :: "(gomap \<Rightarrow> gomap) \<Rightarrow> 'w TaskDesirer \<Rightarrow> Task \<Rightarrow> ('w, unit) go" where
  "TaskDesirer_DesireStaging ord d task =
     (let job = toStagingJob ord d task in
      go_bind (rc_Create (Jobs (td_Client d)) (td_Namespace d) job) (\<lambda>_. go_return ()))"

definition TaskDesirer_Delete :: "'w TaskDesirer \<Rightarrow> string \<Rightarrow> ('w, unit) go" where
  "TaskDesirer_Delete d name =
     rc_Delete (Jobs (td_Client d)) (td_Namespace d) name (Some DeletePropagationBackground)"

text \<open>The interface \<^verbatim>\<open>opi.TaskDesirer\<close>, and the desirer as its implementation.\<close>

record 'w opi_TaskDesirer =
  otd_Desire :: "Task \<Rightarrow> ('w, unit) go"
  otd_DesireStaging :: "Task \<Rightarrow> ('w, unit) go"
  otd_Delete :: "string \<Rightarrow> ('w, unit) go"

definition k8s_task_desirer :: "(gomap \<Rightarrow> gomap) \<Rightarrow> 'w TaskDesirer \<Rightarrow> 'w opi_TaskDesirer" where
  "k8s_task_desirer ord d = \<lparr>otd_Desire = TaskDesirer_Desire ord d,
     otd_DesireStaging = TaskDesirer_DesireStaging ord d, otd_Delete = TaskDesirer_Delete d\<rparr>"

section \<open>The job of a task\<close>

lemma toJob_fields [simp]:
  "om_Name (job_Meta (toJob ord task)) = map_index (task_Env task) EnvStagingGUID"
  "om_Namespace (job_Meta (toJob ord task)) = ''''"
  "om_Labels (job_Meta (toJob ord task)) = [(''name'', map_index (task_Env task) EnvAppID)]"
  "job_ActiveDeadlineSeconds (toJob ord task) = Some 900"
  by (simp_all add: toJob_def Let_def zero_ObjectMeta_def int64ptr_def)

lemma toStagingJob_fields [simp]:
  "job_Meta (toStagingJob ord d task) = job_Meta (toJob ord task)"
  "job_ActiveDeadlineSeconds (toStagingJob ord d task) = Some 900"
  by (simp_all add: toStagingJob_def Let_def)

text \<open>The certificates are mounted where the staging task reads them.\<close>

lemma toStagingJob_pod:
  "pt_Spec (job_Template (toStagingJob ord d task)) =
     \<lparr>ps_Containers = [zero_Container\<lparr>ct_Name := ''opi-task'', ct_Image := task_Image task,
        ct_Env := MapToEnvVar ord (task_Env task),
        ct_VolumeMounts := [\<lparr>vm_Name = CCCertsVolumeName, vm_ReadOnly = True, vm_MountPath = CCCertsMountPath\<rparr>]\<rparr>],
      ps_RestartPolicy = RestartPolicyNever,
      ps_HostAliases = [\<lparr>ha_IP = td_CCUploaderIP d, ha_Hostnames = [CCUploaderInternalURL]\<rparr>],
      ps_Volumes = [\<lparr>vol_Name = CCCertsVolumeName, vol_SecretName = CCCertsSecretName\<rparr>]\<rparr>"
  by (simp add: toStagingJob_def toJob_def Let_def zero_PodSpec_def)

lemma toJob_ignores_command: "toJob ord (task\<lparr>task_Command := c\<rparr>) = toJob ord task"
  by (simp add: toJob_def)

context kube_cluster
begin

abbreviation tdes :: "string \<Rightarrow> string \<Rightarrow> 'w TaskDesirer" where
  "tdes ns ip \<equiv> \<lparr>td_Namespace = ns, td_CCUploaderIP = ip, td_Client = cl\<rparr>"

lemma DesireStaging_fresh:
  assumes "inv w" and "ns \<noteq> ''''" and "g \<noteq> ''''" and "map_index (task_Env task) EnvStagingGUID = g"
    and "c_Jobs (abs w) (ns, g) = None"
  obtains w' where "TaskDesirer_DesireStaging ord (tdes ns ip) task w = (Return (), w')" and "inv w'"
    and "abs w' = c_Jobs_update (\<lambda>st. st((ns, g) \<mapsto> job_with_ns ns (toStagingJob ord (tdes ns ip) task))) (abs w)"
proof -
  obtain w' where "rc_Create (Jobs cl) ns (toStagingJob ord (tdes ns ip) task) w
      = (Return (job_with_ns ns (toStagingJob ord (tdes ns ip) task)), w')" "inv w'"
    "abs w' = c_Jobs_update (\<lambda>st. st((ns, g) \<mapsto> job_with_ns ns (toStagingJob ord (tdes ns ip) task))) (abs w)"
    by (rule job.Create_fresh [of w ns "toStagingJob ord (tdes ns ip) task"]) (use assms in auto)
  then show thesis
    by (intro that [of w']) (simp_all add: TaskDesirer_DesireStaging_def go_simps)
qed

lemma DesireStaging_taken:
  assumes "inv w" and "ns \<noteq> ''''" and "g \<noteq> ''''" and "map_index (task_Env task) EnvStagingGUID = g"
    and "c_Jobs (abs w) (ns, g) = Some j"
  obtains w' where "TaskDesirer_DesireStaging ord (tdes ns ip) task w = (Error (AlreadyExists g), w')" and "inv w'"
    and "abs w' = abs w"
proof -
  obtain w' where "rc_Create (Jobs cl) ns (toStagingJob ord (tdes ns ip) task) w = (Error (AlreadyExists g), w')"
    "inv w'" "abs w' = abs w"
    by (rule job.Create_taken [of w ns "toStagingJob ord (tdes ns ip) task"]) (use assms in auto)
  then show thesis
    by (intro that [of w']) (simp_all add: TaskDesirer_DesireStaging_def go_simps)
qed

lemma Delete_job:
  assumes "inv w" and "ns \<noteq> ''''" and "g \<noteq> ''''" and "c_Jobs (abs w) (ns, g) = Some j"
  obtains w' where "TaskDesirer_Delete (tdes ns ip) g w = (Return (), w')" and "inv w'"
    and "abs w' = c_Jobs_update (\<lambda>st. st((ns, g) := None)) (abs w)"
proof -
  obtain w' where "rc_Delete (Jobs cl) ns g (Some DeletePropagationBackground) w = (Return (), w')" "inv w'"
    "abs w' = c_Jobs_update (\<lambda>st. st((ns, g) := None)) (abs w)"
    by (rule job.Delete_found [OF assms])
  then show thesis
    by (intro that [of w']) (simp_all add: TaskDesirer_Delete_def)
qed

end

end
