(* ===== verification/Stager.thy ===== *)
theory Stager
  imports Task_Desirer Cc_Messages
begin

text \<open>
  Staging: \<^verbatim>\<open>stager/stager.go\<close>. A staging request of the cloud controller becomes a job whose environment tells
  the recipe what to do; the completion of a staging task is reported to the cloud controller's callback
  and the job is deleted. The HTTP client is an argument of the stager; log messages are left out.

  The lemmas: the task of a request, every branch of a completion, and that a request staged
  and completed leaves no job behind.
\<close>

section \<open>Definitions\<close>

abbreviation StagerImage :: string where "StagerImage \<equiv> ''eirini/recipe''"

record StagerConfig =
  sc_CfUsername :: string
  sc_CfPassword :: string
  sc_APIAddress :: string
  sc_EiriniAddress :: string
  sc_SkipSslValidation :: bool

record 'w Stager =
  st_Desirer :: "'w opi_TaskDesirer"
  st_Config :: StagerConfig
  st_HTTPClient :: "'w http_client"

text \<open>\<open>clients\<close>: the HTTP client for a TLS configuration, by \<^verbatim>\<open>InsecureSkipVerify\<close>.\<close>

definition Stager_New :: "(bool \<Rightarrow> 'w http_client) \<Rightarrow> 'w opi_TaskDesirer \<Rightarrow> StagerConfig \<Rightarrow> 'w Stager" where
  "Stager_New clients desirer config =
     \<lparr>st_Desirer = desirer, st_Config = config, st_HTTPClient = clients (sc_SkipSslValidation config)\<rparr>"

text \<open>\<^verbatim>\<open>json.Marshal\<close> of the buildpacks cannot fail: its error branch is not reached.\<close>

definition createStagingTask :: "'w Stager \<Rightarrow> string \<Rightarrow> StagingRequestFromCC \<Rightarrow> ('w, Task) go" where
  "createStagingTask s stagingGUID request =
     go_bind (deref (sr_LifecycleData request)) (\<lambda>data.
     go_bind (go_lift (unmarshal_raw dec_BuildpackStagingData zero_BuildpackStagingData data)) (\<lambda>lifecycleData.
     let buildpacksJSON = print_json (json_list json_Buildpack (bsd_Buildpacks lifecycleData)) in
     go_return \<lparr>task_Image = StagerImage, task_Command = [], task_Env =
       [(EnvDownloadURL, bsd_AppBitsDownloadUri lifecycleData),
        (EnvDropletUploadURL, bsd_DropletUploadUri lifecycleData),
        (EnvBuildpacks, buildpacksJSON),
        (EnvAppID, sr_LogGuid request),
        (EnvStagingGUID, stagingGUID),
        (EnvCompletionCallback, sr_CompletionCallback request),
        (EnvCfUsername, sc_CfUsername (st_Config s)),
        (EnvCfPassword, sc_CfPassword (st_Config s)),
        (EnvAPIAddress, sc_APIAddress (st_Config s)),
        (EnvEiriniAddress, sc_EiriniAddress (st_Config s))]\<rparr>))"

definition Stager_Stage :: "'w Stager \<Rightarrow> string \<Rightarrow> StagingRequestFromCC \<Rightarrow> ('w, unit) go" where
  "Stager_Stage s stagingGUID request =
     go_bind (createStagingTask s stagingGUID request) (\<lambda>task. otd_DesireStaging (st_Desirer s) task)"

text \<open>
  \<^verbatim>\<open>json.Marshal\<close> of a \<^verbatim>\<open>StagingResponseForCC\<close>: of its two pointers the one that is not nil is written; the
  result is a raw message, which must be JSON.
\<close>

definition constructStagingResponse :: "TaskCallbackResponse \<Rightarrow> go_error + string" where
  "constructStagingResponse task =
     (if tcr_Failed task then
        Inr (print_json (JObject [(''error'', JObject [(''id'', JString STAGING_ERROR),
          (''message'', JString (tcr_FailureReason task))])]))
      else (case marshal_raw (tcr_Result task) of
          Inl e \<Rightarrow> Inl e
        | Inr result \<Rightarrow> Inr (CHR ''{'' # print_member (''result'', result) @ ''}'')))"

definition getCallbackURI :: "TaskCallbackResponse \<Rightarrow> go_error + string" where
  "getCallbackURI task =
     (case unmarshal dec_StagingTaskAnnotation \<lparr>sta_Lifecycle = '''', sta_CompletionCallback = ''''\<rparr> (tcr_Annotation task) of
        Inl e \<Rightarrow> Inl e
      | Inr annotation \<Rightarrow> Inr (sta_CompletionCallback annotation))"

definition executeRequest :: "'w Stager \<Rightarrow> HTTPRequest \<Rightarrow> ('w, unit) go" where
  "executeRequest s request =
     go_bind (hc_Do (st_HTTPClient s) request) (\<lambda>resp.
     if rsp_StatusCode resp \<ge> 300
     then go_throw (ErrorString (''callback-response-unsuccessful, code: '' @ show_int (rsp_StatusCode resp)))
     else go_return ())"

definition Stager_CompleteStaging :: "'w Stager \<Rightarrow> TaskCallbackResponse \<Rightarrow> ('w, unit) go" where
  "Stager_CompleteStaging s task =
     go_bind (go_lift (constructStagingResponse task)) (\<lambda>callbackBody.
     go_bind (go_lift (getCallbackURI task)) (\<lambda>callbackURI.
     go_bind (go_lift (NewRequest (st_HTTPClient s) ''POST'' callbackURI callbackBody)) (\<lambda>request.
     go_bind (executeRequest s (set_header ''Content-Type'' ''application/json'' request)) (\<lambda>_.
     otd_Delete (st_Desirer s) (tcr_TaskGuid task)))))"

text \<open>The interface \<^verbatim>\<open>eirini.Stager\<close>.\<close>

record 'w eirini_Stager =
  es_Stage :: "string \<Rightarrow> StagingRequestFromCC \<Rightarrow> ('w, unit) go"
  es_CompleteStaging :: "TaskCallbackResponse \<Rightarrow> ('w, unit) go"

definition eirini_stager :: "'w Stager \<Rightarrow> 'w eirini_Stager" where
  "eirini_stager s = \<lparr>es_Stage = Stager_Stage s, es_CompleteStaging = Stager_CompleteStaging s\<rparr>"

section \<open>The task of a request\<close>

definition staging_env :: "StagerConfig \<Rightarrow> string \<Rightarrow> StagingRequestFromCC \<Rightarrow> BuildpackStagingData \<Rightarrow> gomap" where
  "staging_env cfg guid request data =
     [(EnvDownloadURL, bsd_AppBitsDownloadUri data), (EnvDropletUploadURL, bsd_DropletUploadUri data),
      (EnvBuildpacks, print_json (json_list json_Buildpack (bsd_Buildpacks data))), (EnvAppID, sr_LogGuid request),
      (EnvStagingGUID, guid), (EnvCompletionCallback, sr_CompletionCallback request),
      (EnvCfUsername, sc_CfUsername cfg), (EnvCfPassword, sc_CfPassword cfg),
      (EnvAPIAddress, sc_APIAddress cfg), (EnvEiriniAddress, sc_EiriniAddress cfg)]"

lemma createStagingTask_run:
  assumes "sr_LifecycleData request = Some j"
    and "unmarshal_raw dec_BuildpackStagingData zero_BuildpackStagingData j = Inr data"
  shows "createStagingTask s guid request w
    = (Return \<lparr>task_Image = StagerImage, task_Command = [], task_Env = staging_env (st_Config s) guid request data\<rparr>, w)"
  using assms by (simp add: createStagingTask_def staging_env_def go_simps Let_def)

lemma createStagingTask_bad:
  assumes "sr_LifecycleData request = Some j"
    and "unmarshal_raw dec_BuildpackStagingData zero_BuildpackStagingData j = Inl e"
  shows "createStagingTask s guid request w = (Error e, w)"
  using assms by (simp add: createStagingTask_def go_simps)

lemma staging_env_lookup [simp]:
  "map_index (staging_env cfg guid request data) EnvStagingGUID = guid"
  "map_index (staging_env cfg guid request data) EnvAppID = sr_LogGuid request"
  "map_index (staging_env cfg guid request data) EnvCompletionCallback = sr_CompletionCallback request"
  "map_index (staging_env cfg guid request data) EnvBuildpacks
     = print_json (json_list json_Buildpack (bsd_Buildpacks data))"
  by (simp_all add: staging_env_def)

section \<open>Completion\<close>

text \<open>The body that is posted, for a result that the recipe wrote, and for a failure.\<close>

lemma constructStagingResponse_result:
  "\<not> tcr_Failed task \<Longrightarrow> tcr_Result task = print_json j \<Longrightarrow> json_ok j \<Longrightarrow>
     constructStagingResponse task = Inr (print_json (JObject [(''result'', j)]))"
  by (simp add: constructStagingResponse_def marshal_raw_print)

lemma constructStagingResponse_invalid:
  "\<not> tcr_Failed task \<Longrightarrow> json_text (tcr_Result task) = Inl e \<Longrightarrow> constructStagingResponse task = Inl e"
  by (simp add: constructStagingResponse_def marshal_raw_def)

lemma utf8_valid_staging_keys:
  "utf8_valid ''lifecycle''" "utf8_valid ''completion_callback''" "utf8_valid ''error''" "utf8_valid ''id''"
  "utf8_valid ''message''" "utf8_valid ''result''" "utf8_valid STAGING_ERROR"
  by code_simp+

lemma getCallbackURI_annotation:
  assumes "tcr_Annotation task = print_json (json_StagingTaskAnnotation a)"
    and "utf8_valid (sta_Lifecycle a)" "utf8_valid (sta_CompletionCallback a)"
  shows "getCallbackURI task = Inr (sta_CompletionCallback a)"
proof -
  have "json_ok (json_StagingTaskAnnotation a)"
    using assms(2,3) by (simp add: json_StagingTaskAnnotation_def utf8_valid_staging_keys)
  then show ?thesis
    using assms(1) by (simp add: getCallbackURI_def unmarshal_def json_text_print dec_json_StagingTaskAnnotation)
qed

lemma CompleteStaging_run:
  assumes "constructStagingResponse task = Inr body" and "getCallbackURI task = Inr uri"
    and "hc_CheckURL (st_HTTPClient s) uri = None"
    and "hc_Do (st_HTTPClient s) \<lparr>rq_Method = ''POST'', rq_URL = uri, rq_Header = [(''Content-Type'', ''application/json'')],
      rq_ContentLength = of_nat (length body), rq_Body = body\<rparr> w = (Return resp, w1)"
  shows "Stager_CompleteStaging s task w =
    (if rsp_StatusCode resp \<ge> 300
     then (Error (ErrorString (''callback-response-unsuccessful, code: '' @ show_int (rsp_StatusCode resp))), w1)
     else otd_Delete (st_Desirer s) (tcr_TaskGuid task) w1)"
  using assms
  by (simp add: Stager_CompleteStaging_def executeRequest_def NewRequest_def set_header_def map_assign_def go_simps)


section \<open>Properties\<close>

definition k8s_stager :: "(gomap \<Rightarrow> gomap) \<Rightarrow> 'w kubernetes_Interface \<Rightarrow> string \<Rightarrow> string \<Rightarrow> StagerConfig \<Rightarrow> 'w http_client \<Rightarrow> 'w Stager" where
  "k8s_stager ord cl ns ip cfg client = \<lparr>st_Desirer = k8s_task_desirer ord \<lparr>td_Namespace = ns, td_CCUploaderIP = ip, td_Client = cl\<rparr>,
     st_Config = cfg, st_HTTPClient = client\<rparr>"

lemma k8s_stager_fields [simp]:
  "otd_DesireStaging (st_Desirer (k8s_stager ord cl ns ip cfg client))
     = TaskDesirer_DesireStaging ord \<lparr>td_Namespace = ns, td_CCUploaderIP = ip, td_Client = cl\<rparr>"
  "otd_Delete (st_Desirer (k8s_stager ord cl ns ip cfg client))
     = TaskDesirer_Delete \<lparr>td_Namespace = ns, td_CCUploaderIP = ip, td_Client = cl\<rparr>"
  "st_Config (k8s_stager ord cl ns ip cfg client) = cfg"
  "st_HTTPClient (k8s_stager ord cl ns ip cfg client) = client"
  by (simp_all add: k8s_stager_def k8s_task_desirer_def)

text \<open>The job of a staging request in the cluster.\<close>

definition staging_job :: "(gomap \<Rightarrow> gomap) \<Rightarrow> string \<Rightarrow> string \<Rightarrow> gomap \<Rightarrow> Job" where
  "staging_job ord ns ip env =
     \<lparr>job_Meta = \<lparr>om_Name = map_index env EnvStagingGUID, om_Namespace = ns,
        om_Labels = [(''name'', map_index env EnvAppID)], om_Annotations = None\<rparr>,
      job_ActiveDeadlineSeconds = Some 900,
      job_Template = \<lparr>pt_Labels = [(''name'', map_index env EnvAppID)],
        pt_Spec = \<lparr>ps_Containers = [zero_Container\<lparr>ct_Name := ''opi-task'', ct_Image := StagerImage,
            ct_Env := map (\<lambda>(k, v). \<lparr>ev_Name = k, ev_Value = v, ev_ValueFrom = None\<rparr>) (ord env),
            ct_VolumeMounts := [\<lparr>vm_Name = CCCertsVolumeName, vm_ReadOnly = True, vm_MountPath = CCCertsMountPath\<rparr>]\<rparr>],
          ps_RestartPolicy = RestartPolicyNever,
          ps_HostAliases = [\<lparr>ha_IP = ip, ha_Hostnames = [CCUploaderInternalURL]\<rparr>],
          ps_Volumes = [\<lparr>vol_Name = CCCertsVolumeName, vol_SecretName = CCCertsSecretName\<rparr>]\<rparr>\<rparr>\<rparr>"

lemma staging_job_eq:
  "job_with_ns ns (toStagingJob ord \<lparr>td_Namespace = ns, td_CCUploaderIP = ip, td_Client = cl\<rparr>
     \<lparr>task_Image = StagerImage, task_Command = c, task_Env = env\<rparr>) = staging_job ord ns ip env"
  by (simp add: staging_job_def job_with_ns_def toStagingJob_def toJob_def Let_def zero_PodSpec_def zero_ObjectMeta_def
      int64ptr_def MapToEnvVar_def)

text \<open>
  A staging request becomes one job, named by the staging GUID: it runs the recipe's image with the
  request's data and the stager's credentials in its environment and the uploader's certificates mounted.
  Nothing else in the cluster changes. The same request again is refused and changes nothing.
\<close>

theorem stage_creates_job:
  assumes "kube_cluster cl \<alpha> I ch" and "I w" and "ns \<noteq> ''''" and "g \<noteq> ''''" and "c_Jobs (\<alpha> w) (ns, g) = None"
    and "sr_LifecycleData request = Some j"
    and "unmarshal_raw dec_BuildpackStagingData zero_BuildpackStagingData j = Inr data"
  shows "\<exists>w1 w2. Stager_Stage (k8s_stager ord cl ns ip cfg client) g request w = (Return (), w1)
    \<and> \<alpha> w1 = (\<alpha> w)\<lparr>c_Jobs := (c_Jobs (\<alpha> w))((ns, g) \<mapsto> staging_job ord ns ip (staging_env cfg g request data))\<rparr>
    \<and> Stager_Stage (k8s_stager ord cl ns ip cfg client) g request w1 = (Error (AlreadyExists g), w2) \<and> \<alpha> w2 = \<alpha> w1"
proof -
  let ?s = "k8s_stager ord cl ns ip cfg client" and ?task = "\<lparr>task_Image = StagerImage, task_Command = [], task_Env = staging_env cfg g request data\<rparr>"
  let ?d = "\<lparr>td_Namespace = ns, td_CCUploaderIP = ip, td_Client = cl\<rparr>"
  have stage: "Stager_Stage ?s g request w = TaskDesirer_DesireStaging ord ?d ?task w" for w
    by (simp add: Stager_Stage_def createStagingTask_run [OF assms(6,7)] go_simps)
  have guid: "map_index (task_Env ?task) EnvStagingGUID = g" by simp
  obtain w1 where w1: "TaskDesirer_DesireStaging ord ?d ?task w = (Return (), w1)" "I w1"
    "\<alpha> w1 = c_Jobs_update (\<lambda>st. st((ns, g) \<mapsto> job_with_ns ns (toStagingJob ord ?d ?task))) (\<alpha> w)"
    by (rule kube_cluster.DesireStaging_fresh [OF assms(1-4) guid assms(5)])
  have "c_Jobs (\<alpha> w1) (ns, g) = Some (staging_job ord ns ip (staging_env cfg g request data))"
    by (simp add: w1(3) staging_job_eq)
  from kube_cluster.DesireStaging_taken [OF assms(1) w1(2) assms(3,4) guid this]
  obtain w2 where "TaskDesirer_DesireStaging ord ?d ?task w1 = (Error (AlreadyExists g), w2)" "\<alpha> w2 = \<alpha> w1" by blast
  with w1 show ?thesis
    by (intro exI [of _ w1] exI [of _ w2]) (simp add: stage staging_job_eq)
qed

text \<open>A request and an HTTP client for concrete runs.\<close>

definition sample_staging :: StagingRequestFromCC where
  "sample_staging = zero_StagingRequestFromCC\<lparr>sr_LogGuid := ''app'', sr_CompletionCallback := ''http://cc/done'',
     sr_LifecycleData := Some (JObject [(''app_bits_download_uri'', JString ''http://cc/bits''),
       (''buildpacks'', JArray [json_Buildpack \<lparr>bp_Name = ''go'', bp_Key = ''k1'', bp_Url = '''', bp_SkipDetect = True\<rparr>])])\<rparr>"

definition sample_staging_data :: BuildpackStagingData where
  "sample_staging_data = zero_BuildpackStagingData\<lparr>bsd_AppBitsDownloadUri := ''http://cc/bits'',
     bsd_Buildpacks := Some [\<lparr>bp_Name = ''go'', bp_Key = ''k1'', bp_Url = '''', bp_SkipDetect = True\<rparr>]\<rparr>"

definition answering :: "int \<Rightarrow> 'w http_client" where
  "answering code = \<lparr>hc_CheckURL = (\<lambda>_. None), hc_Do = (\<lambda>_. go_return \<lparr>rsp_StatusCode = code, rsp_Body = '''', rsp_ReadError = None\<rparr>), hc_Format = (\<lambda>_. '''')\<rparr>"

lemma answering_simps [simp]:
  "hc_CheckURL (answering code) uri = None"
  "hc_Do (answering code) r w = (Return \<lparr>rsp_StatusCode = code, rsp_Body = '''', rsp_ReadError = None\<rparr>, w)"
  by (simp_all add: answering_def)

definition sample_config :: StagerConfig where
  "sample_config = \<lparr>sc_CfUsername = ''u'', sc_CfPassword = ''p'', sc_APIAddress = ''a'', sc_EiriniAddress = ''e'', sc_SkipSslValidation = True\<rparr>"

lemma sample_staging_decoded:
  "sr_LifecycleData sample_staging \<noteq> None"
  "unmarshal_raw dec_BuildpackStagingData zero_BuildpackStagingData (the (sr_LifecycleData sample_staging)) = Inr sample_staging_data"
  by code_simp+

theorem stage_creates_job_witness:
  "\<exists>w1. Stager_Stage (k8s_stager id tracker_client ''eirini'' ''10.0.0.1'' sample_config (answering 200)) ''guid'' sample_staging empty_tracker
      = (Return (), w1)
    \<and> store_of job_Meta (tr_Jobs w1) (''eirini'', ''guid'')
      = Some (staging_job id ''eirini'' ''10.0.0.1'' (staging_env sample_config ''guid'' sample_staging sample_staging_data))"
  using stage_creates_job [OF tk.kube_cluster_axioms tracker_inv_empty, of "''eirini''" "''guid''" sample_staging
      "the (sr_LifecycleData sample_staging)" sample_staging_data id "''10.0.0.1''" sample_config "answering 200"] sample_staging_decoded
  by (auto simp: tracker_abs_def empty_tracker_def)


text \<open>
  C23. The completion of a staging task whose job is in the cluster: its result, or its failure, is posted
  once to the callback of its annotation. The job is deleted when the cloud controller takes the report;
  any status from 300 on is an error and keeps the job, so the completion can be sent again. A result that
  is not JSON is rejected before anything is posted.
\<close>

theorem completion_reports_and_deletes:
  assumes "kube_cluster cl \<alpha> I ch" and "I w" and "ns \<noteq> ''''" and "tcr_TaskGuid task \<noteq> ''''"
    and "c_Jobs (\<alpha> w) (ns, tcr_TaskGuid task) = Some job" and uri: "getCallbackURI task = Inr uri"
    and "hc_CheckURL client uri = None"
    and post: "\<And>body. hc_Do client \<lparr>rq_Method = ''POST'', rq_URL = uri, rq_Header = [(''Content-Type'', ''application/json'')],
      rq_ContentLength = of_nat (length body), rq_Body = body\<rparr> w = (Return resp, w1 body)"
    and "\<And>body. I (w1 body) \<and> \<alpha> (w1 body) = \<alpha> w"
  shows "case constructStagingResponse task of
      Inl e \<Rightarrow> Stager_CompleteStaging (k8s_stager ord cl ns ip cfg client) task w = (Error e, w)
    | Inr body \<Rightarrow>
        if rsp_StatusCode resp \<ge> 300
        then Stager_CompleteStaging (k8s_stager ord cl ns ip cfg client) task w
          = (Error (ErrorString (''callback-response-unsuccessful, code: '' @ show_int (rsp_StatusCode resp))), w1 body)
        else \<exists>w'. Stager_CompleteStaging (k8s_stager ord cl ns ip cfg client) task w = (Return (), w')
          \<and> \<alpha> w' = (\<alpha> w)\<lparr>c_Jobs := (c_Jobs (\<alpha> w))((ns, tcr_TaskGuid task) := None)\<rparr>"
proof (cases "constructStagingResponse task")
  case (Inl e)
  then show ?thesis by (simp add: Stager_CompleteStaging_def)
next
  case (Inr body)
  let ?s = "k8s_stager ord cl ns ip cfg client"
  have run: "Stager_CompleteStaging ?s task w =
    (if rsp_StatusCode resp \<ge> 300
     then (Error (ErrorString (''callback-response-unsuccessful, code: '' @ show_int (rsp_StatusCode resp))), w1 body)
     else TaskDesirer_Delete \<lparr>td_Namespace = ns, td_CCUploaderIP = ip, td_Client = cl\<rparr> (tcr_TaskGuid task) (w1 body))"
    using CompleteStaging_run [OF Inr uri, of ?s w resp "w1 body"] assms(7) post by simp
  have "I (w1 body)" and "\<alpha> (w1 body) = \<alpha> w" using assms(9) by blast+
  moreover from this assms(5) have "c_Jobs (\<alpha> (w1 body)) (ns, tcr_TaskGuid task) = Some job" by simp
  ultimately obtain w' where "TaskDesirer_Delete \<lparr>td_Namespace = ns, td_CCUploaderIP = ip, td_Client = cl\<rparr> (tcr_TaskGuid task) (w1 body)
      = (Return (), w')" "\<alpha> w' = c_Jobs_update (\<lambda>st. st((ns, tcr_TaskGuid task) := None)) (\<alpha> w)"
    using kube_cluster.Delete_job [OF assms(1) _ assms(3,4)] by metis
  with Inr run show ?thesis by (auto intro!: exI [of _ w'])
qed

definition sample_task :: TaskCallbackResponse where
  "sample_task = zero_TaskCallbackResponse\<lparr>tcr_TaskGuid := ''guid'', tcr_Result := print_json (JObject []),
     tcr_Annotation := print_json (json_StagingTaskAnnotation \<lparr>sta_Lifecycle = '''', sta_CompletionCallback = ''http://cc/done''\<rparr>)\<rparr>"

lemma sample_task_guid [simp]: "tcr_TaskGuid sample_task = ''guid''"
  by (simp add: sample_task_def)

definition staged_tracker :: tracker where
  "staged_tracker = empty_tracker\<lparr>tr_Jobs := [staging_job id ''eirini'' '''' [(EnvStagingGUID, ''guid'')]]\<rparr>"

lemma staged_tracker_inv: "tracker_inv staged_tracker"
  by (simp add: staged_tracker_def tracker_inv_def empty_tracker_def keys_unique_def)

lemma sample_task_parsed:
  "getCallbackURI sample_task = Inr ''http://cc/done''" "constructStagingResponse sample_task = Inr (print_json (JObject [(''result'', JObject [])]))"
  by code_simp+

theorem completion_reports_and_deletes_witness:
  "\<exists>w'. Stager_CompleteStaging (k8s_stager id tracker_client ''eirini'' '''' sample_config (answering 200)) sample_task staged_tracker
      = (Return (), w') \<and> store_of job_Meta (tr_Jobs w') (''eirini'', ''guid'') = None"
proof -
  have "c_Jobs (tracker_abs staged_tracker) (''eirini'', tcr_TaskGuid sample_task)
      = Some (staging_job id ''eirini'' '''' [(EnvStagingGUID, ''guid'')])"
    by (simp add: tracker_abs_def staged_tracker_def store_of_def obj_key_def staging_job_def)
  from completion_reports_and_deletes [where client = "answering 200" and ?w1.0 = "\<lambda>_. staged_tracker" and ord = id and ip = "''''"
      and cfg = sample_config and resp = "\<lparr>rsp_StatusCode = 200, rsp_Body = '''', rsp_ReadError = None\<rparr>",
      OF tk.kube_cluster_axioms staged_tracker_inv _ _ this sample_task_parsed(1)]
  show ?thesis
    by (auto simp: sample_task_parsed(2) staged_tracker_inv tracker_abs_def)
qed

text \<open>
  A staging request without life-cycle data is not rejected: the pointer to the data is followed
  unchecked and the request handler panics.
\<close>

theorem stage_without_data_panics:
  "sr_LifecycleData request = None \<Longrightarrow>
     Stager_Stage s g request w = (Panic ''invalid memory address or nil pointer dereference'', w)"
  by (simp add: Stager_Stage_def createStagingTask_def go_simps)

theorem stage_without_data_panics_witness:
  "Stager_Stage (k8s_stager id tracker_client ''eirini'' '''' sample_config (answering 200)) ''guid'' zero_StagingRequestFromCC empty_tracker
     = (Panic ''invalid memory address or nil pointer dereference'', empty_tracker)"
  by (rule stage_without_data_panics) (simp add: zero_StagingRequestFromCC_def)

end
