(* ===== verification/Handler.thy ===== *)
theory Handler
  imports Bifrost Stager
begin

text \<open>
  The HTTP interface: package \<^verbatim>\<open>handler\<close> (\<^verbatim>\<open>handler.go\<close>, \<^verbatim>\<open>app_handler.go\<close>, \<^verbatim>\<open>stage_handler.go\<close>). A handler takes the
  response writer, the body of the request and the value of the parameter of its path, and gives the
  response it wrote. The route table is the list of what is registered, in that order; matching a path
  is that of the router package for these patterns: a parameter is one segment of the path, which is not
  empty at its end. Redirects and the answers for other paths are the router's own: an argument.

  The Protocol Buffers printer and the texts of library errors are arguments. Log messages are left out.
  The lemmas: the status of every branch, which requests reach the bridge, the JSON of the answers, and the
  requests of the cloud controller from the route table down to the cluster.
\<close>

section \<open>Decoders of the requests\<close>

definition zero_DesireLRPRequest :: DesireLRPRequest where
  "zero_DesireLRPRequest = \<lparr>req_ProcessGUID = '''', req_DockerImageURL = '''', req_DropletHash = '''', req_StartCommand = '''',
     req_Environment = None, req_NumInstances = 0, req_LastUpdated = '''', req_HealthCheckType = '''',
     req_HealthCheckHTTPEndpoint = '''', req_HealthCheckTimeoutMs = 0\<rparr>"

definition dec_DesireLRPRequest :: "DesireLRPRequest decoder" where
  "dec_DesireLRPRequest = dec_struct
     [(''process_guid'', dec_field req_ProcessGUID req_ProcessGUID_update dec_string),
      (''docker_image'', dec_field req_DockerImageURL req_DockerImageURL_update dec_string),
      (''droplet_hash'', dec_field req_DropletHash req_DropletHash_update dec_string),
      (''start_command'', dec_field req_StartCommand req_StartCommand_update dec_string),
      (''environment'', dec_field req_Environment req_Environment_update dec_map),
      (''instances'', dec_field req_NumInstances req_NumInstances_update dec_int),
      (''last_updated'', dec_field req_LastUpdated req_LastUpdated_update dec_string),
      (''health_check_type'', dec_field req_HealthCheckType req_HealthCheckType_update dec_string),
      (''health_check_http_endpoint'', dec_field req_HealthCheckHTTPEndpoint req_HealthCheckHTTPEndpoint_update dec_string),
      (''health_check_timeout_ms'', dec_field req_HealthCheckTimeoutMs req_HealthCheckTimeoutMs_update dec_uint)]"

definition dec_UpdateDesiredLRPRequest :: "UpdateDesiredLRPRequest decoder" where
  "dec_UpdateDesiredLRPRequest = dec_struct
     [(''process_guid'', dec_field ur_ProcessGuid ur_ProcessGuid_update dec_string),
      (''update'', dec_field ur_Update ur_Update_update (dec_ptr (dec_struct
         [(''instances'', dec_field du_Instances du_Instances_update (dec_ptr dec_int32 0)),
          (''routes'', dec_field du_Routes du_Routes_update dec_raw_map),
          (''annotation'', dec_field du_Annotation du_Annotation_update (dec_ptr dec_string ''''))])
         \<lparr>du_Instances = None, du_Routes = None, du_Annotation = None\<rparr>))]"

section \<open>App handlers\<close>

text \<open>The interface \<^verbatim>\<open>eirini.Bifrost\<close>.\<close>

record 'w eirini_Bifrost =
  eb_Transfer :: "DesireLRPRequest \<Rightarrow> ('w, unit) go"
  eb_List :: "('w, DesiredLRPSchedulingInfo list) go"
  eb_Update :: "UpdateDesiredLRPRequest \<Rightarrow> ('w, unit) go"
  eb_Stop :: "string \<Rightarrow> ('w, unit) go"
  eb_GetApp :: "string \<Rightarrow> ('w, DesiredLRP option) go"
  eb_GetInstances :: "string \<Rightarrow> ('w, Instance list) go"

definition eirini_bifrost :: "'w Bifrost \<Rightarrow> 'w eirini_Bifrost" where
  "eirini_bifrost b = \<lparr>eb_Transfer = Bifrost_Transfer b, eb_List = Bifrost_List b, eb_Update = Bifrost_Update b,
     eb_Stop = Bifrost_Stop b, eb_GetApp = Bifrost_GetApp b, eb_GetInstances = Bifrost_GetInstances b\<rparr>"

text \<open>\<open>pm_Infos\<close>, \<open>pm_LRP\<close>: \<^verbatim>\<open>MarshalToString\<close> of the two responses; \<open>pm_Texts\<close>: the texts of library errors.\<close>

record printers =
  pm_Infos :: "DesiredLRPSchedulingInfo list \<Rightarrow> go_error + string"
  pm_LRP :: "DesiredLRP \<Rightarrow> go_error + string"
  pm_Texts :: "go_error \<Rightarrow> string"

record 'w App =
  app_bifrost :: "'w eirini_Bifrost"
  app_printers :: printers

definition NewAppHandler :: "'w eirini_Bifrost \<Rightarrow> printers \<Rightarrow> 'w App" where
  "NewAppHandler bifrost pm = \<lparr>app_bifrost = bifrost, app_printers = pm\<rparr>"

definition App_Desire :: "'w App \<Rightarrow> ResponseWriter \<Rightarrow> string \<Rightarrow> string \<Rightarrow> ('w, ResponseWriter) go" where
  "App_Desire a rw body processGUID = (case decode_stream dec_DesireLRPRequest zero_DesireLRPRequest body of
      Inl e \<Rightarrow> go_return (WriteHeader StatusBadRequest rw)
    | Inr request \<Rightarrow>
        if processGUID \<noteq> req_ProcessGUID request then go_return (WriteHeader StatusBadRequest rw)
        else
          go_bind (go_try (eb_Transfer (app_bifrost a) request)) (\<lambda>r. case r of
              Inl e \<Rightarrow> go_return (WriteHeader StatusBadRequest rw)
            | Inr _ \<Rightarrow> go_return (WriteHeader StatusAccepted rw)))"

definition App_List :: "'w App \<Rightarrow> ResponseWriter \<Rightarrow> ('w, ResponseWriter) go" where
  "App_List a rw =
     go_bind (go_try (eb_List (app_bifrost a))) (\<lambda>r. case r of
         Inl e \<Rightarrow> go_return (WriteHeader StatusInternalServerError rw)
       | Inr infos \<Rightarrow>
           let rw = Header_Set ''Content-Type'' ''application/json'' rw in
           (case pm_Infos (app_printers a) infos of
              Inl e \<Rightarrow> go_return (WriteHeader StatusInternalServerError rw)
            | Inr result \<Rightarrow> go_return (Write result rw)))"

definition App_GetApp :: "'w App \<Rightarrow> ResponseWriter \<Rightarrow> string \<Rightarrow> ('w, ResponseWriter) go" where
  "App_GetApp a rw processGUID =
     go_bind (eb_GetApp (app_bifrost a) processGUID) (\<lambda>desiredLRP. case desiredLRP of
         None \<Rightarrow> go_return (WriteHeader StatusNotFound rw)
       | Some lrp \<Rightarrow>
           (case pm_LRP (app_printers a) lrp of
              Inl e \<Rightarrow> go_return (WriteHeader StatusInternalServerError rw)
            | Inr result \<Rightarrow> go_return (Write result rw)))"

text \<open>The error type of the response is its zero value, which is written by its name.\<close>

definition writeUpdateErrorResponse :: "'w App \<Rightarrow> ResponseWriter \<Rightarrow> go_error \<Rightarrow> int \<Rightarrow> ResponseWriter" where
  "writeUpdateErrorResponse a rw err statusCode =
     (let rw = WriteHeader statusCode rw;
          body = print_json (JObject [(''error'', JObject [(''type'', JString ''UnknownError''),
            (''message'', JString (Error_text (pm_Texts (app_printers a)) err))])])
      in Write body rw)"

definition App_Update :: "'w App \<Rightarrow> ResponseWriter \<Rightarrow> string \<Rightarrow> string \<Rightarrow> ('w, ResponseWriter) go" where
  "App_Update a rw body guid =
     (case decode_stream dec_UpdateDesiredLRPRequest \<lparr>ur_ProcessGuid = '''', ur_Update = None\<rparr> body of
        Inl e \<Rightarrow> go_return (writeUpdateErrorResponse a rw e StatusBadRequest)
      | Inr request \<Rightarrow>
          if guid \<noteq> ur_ProcessGuid request
          then go_return (writeUpdateErrorResponse a rw (ErrorString ''Process guid missmatch'') StatusBadRequest)
          else
            go_bind (go_try (eb_Update (app_bifrost a) request)) (\<lambda>r. case r of
                Inl e \<Rightarrow> go_return (writeUpdateErrorResponse a rw e StatusInternalServerError)
              | Inr _ \<Rightarrow> go_return rw))"

definition App_Stop :: "'w App \<Rightarrow> ResponseWriter \<Rightarrow> string \<Rightarrow> ('w, ResponseWriter) go" where
  "App_Stop a rw processGUID =
     (let processGUID = (if length processGUID > 36 then take 36 processGUID else processGUID) in
      go_bind (go_try (eb_Stop (app_bifrost a) processGUID)) (\<lambda>r. case r of
          Inl e \<Rightarrow> go_return (WriteHeader StatusInternalServerError rw)
        | Inr _ \<Rightarrow> go_return rw))"

definition createErrorGetInstancesResponse :: "'w App \<Rightarrow> string \<Rightarrow> go_error \<Rightarrow> GetInstancesResponse" where
  "createErrorGetInstancesResponse a guid err =
     \<lparr>gir_Error = Error_text (pm_Texts (app_printers a)) err, gir_ProcessGUID = guid, gir_Instances = []\<rparr>"

definition createGetInstancesResponse :: "'w App \<Rightarrow> string \<Rightarrow> go_error + Instance list \<Rightarrow> GetInstancesResponse" where
  "createGetInstancesResponse a guid r = (case r of
      Inl err \<Rightarrow> createErrorGetInstancesResponse a guid err
    | Inr instances \<Rightarrow> \<lparr>gir_Error = '''', gir_ProcessGUID = guid, gir_Instances = instances\<rparr>)"

definition json_GetInstancesResponse :: "GetInstancesResponse \<Rightarrow> json" where
  "json_GetInstancesResponse r = JObject (omitempty ''error'' (gir_Error r)
     @ [(''process_guid'', JString (gir_ProcessGUID r)),
        (''instances'', JArray (map (\<lambda>i. JObject [(''index'', json_int (sint (Index i))), (''state'', JString (State i))]) (gir_Instances r)))])"

text \<open>\<^verbatim>\<open>Encode\<close> writes a line; encoding this response cannot fail.\<close>

definition App_GetInstances :: "'w App \<Rightarrow> ResponseWriter \<Rightarrow> string \<Rightarrow> ('w, ResponseWriter) go" where
  "App_GetInstances a rw guid =
     go_bind (go_try (eb_GetInstances (app_bifrost a) guid)) (\<lambda>r.
     let response = createGetInstancesResponse a guid r in
     go_return (Write (print_json (json_GetInstancesResponse response) @ [CHR 0x0A]) rw))"

section \<open>Staging handlers\<close>

record 'w Stage =
  sh_stager :: "'w eirini_Stager"

definition NewStageHandler :: "'w eirini_Stager \<Rightarrow> 'w Stage" where
  "NewStageHandler stager = \<lparr>sh_stager = stager\<rparr>"

definition Stage_Stage :: "'w Stage \<Rightarrow> ResponseWriter \<Rightarrow> string \<Rightarrow> string \<Rightarrow> ('w, ResponseWriter) go" where
  "Stage_Stage s resp body stagingGUID =
     (case decode_stream dec_StagingRequestFromCC zero_StagingRequestFromCC body of
        Inl e \<Rightarrow> go_return (WriteHeader StatusBadRequest resp)
      | Inr stagingRequest \<Rightarrow>
          go_bind (go_try (es_Stage (sh_stager s) stagingGUID stagingRequest)) (\<lambda>r. case r of
              Inl e \<Rightarrow> go_return (WriteHeader StatusInternalServerError resp)
            | Inr _ \<Rightarrow> go_return (WriteHeader StatusAccepted resp)))"

definition Stage_StagingComplete :: "'w Stage \<Rightarrow> ResponseWriter \<Rightarrow> string \<Rightarrow> string \<Rightarrow> ('w, ResponseWriter) go" where
  "Stage_StagingComplete s res body stagingGUID =
     (case decode_stream dec_TaskCallbackResponse zero_TaskCallbackResponse body of
        Inl e \<Rightarrow> go_return (WriteHeader StatusBadRequest res)
      | Inr task \<Rightarrow>
          go_bind (go_try (es_CompleteStaging (sh_stager s) task)) (\<lambda>r. case r of
              Inl e \<Rightarrow> go_return (WriteHeader StatusInternalServerError res)
            | Inr _ \<Rightarrow> go_return res))"

section \<open>The route table\<close>

type_synonym 'w handle = "ResponseWriter \<Rightarrow> string \<Rightarrow> string \<Rightarrow> ('w, ResponseWriter) go"

datatype segment = Fixed string | Param

record 'w route =
  ro_Method :: string
  ro_Path :: "segment list"
  ro_Handle :: "'w handle"

definition registerAppsEndpoints :: "'w App \<Rightarrow> 'w route list" where
  "registerAppsEndpoints a =
     [\<lparr>ro_Method = ''GET'', ro_Path = [Fixed ''apps''], ro_Handle = (\<lambda>rw body p. App_List a rw)\<rparr>,
      \<lparr>ro_Method = ''PUT'', ro_Path = [Fixed ''apps'', Param], ro_Handle = App_Desire a\<rparr>,
      \<lparr>ro_Method = ''POST'', ro_Path = [Fixed ''apps'', Param], ro_Handle = App_Update a\<rparr>,
      \<lparr>ro_Method = ''PUT'', ro_Path = [Fixed ''apps'', Param, Fixed ''stop''], ro_Handle = (\<lambda>rw body p. App_Stop a rw p)\<rparr>,
      \<lparr>ro_Method = ''GET'', ro_Path = [Fixed ''apps'', Param], ro_Handle = (\<lambda>rw body p. App_GetApp a rw p)\<rparr>,
      \<lparr>ro_Method = ''GET'', ro_Path = [Fixed ''apps'', Param, Fixed ''instances''],
         ro_Handle = (\<lambda>rw body p. App_GetInstances a rw p)\<rparr>]"

definition registerStageEndpoints :: "'w Stage \<Rightarrow> 'w route list" where
  "registerStageEndpoints s =
     [\<lparr>ro_Method = ''POST'', ro_Path = [Fixed ''stage'', Param], ro_Handle = Stage_Stage s\<rparr>,
      \<lparr>ro_Method = ''PUT'', ro_Path = [Fixed ''stage'', Param, Fixed ''completed''], ro_Handle = Stage_StagingComplete s\<rparr>]"

text \<open>The value of the parameter, empty for a pattern without one.\<close>

fun match_path :: "segment list \<Rightarrow> string list \<Rightarrow> string option" where
  "match_path [] [] = Some ''''"
| "match_path (Fixed f # ps) (s # ss) = (if f = s then match_path ps ss else None)"
| "match_path (Param # ps) (s # ss) = (if ss = [] \<and> s = '''' then None
     else if match_path ps ss = None then None else Some s)"
| "match_path _ _ = None"

fun lookup_route :: "'w route list \<Rightarrow> string \<Rightarrow> string list \<Rightarrow> ('w handle \<times> string) option" where
  "lookup_route [] m ss = None"
| "lookup_route (r # rs) m ss = (case (if ro_Method r = m then match_path (ro_Path r) ss else None) of
      Some p \<Rightarrow> Some (ro_Handle r, p)
    | None \<Rightarrow> lookup_route rs m ss)"

text \<open>\<open>other\<close>: the router's own answers.\<close>

definition Handler_New :: "'w eirini_Bifrost \<Rightarrow> 'w eirini_Stager \<Rightarrow> printers \<Rightarrow> (HTTPRequest \<Rightarrow> ('w, ResponseWriter) go)
    \<Rightarrow> HTTPRequest \<Rightarrow> ('w, ResponseWriter) go" where
  "Handler_New bifrost stager pm other req =
     (let appHandler = NewAppHandler bifrost pm;
          stageHandler = NewStageHandler stager;
          table = registerAppsEndpoints appHandler @ registerStageEndpoints stageHandler
      in case split_on (CHR ''/'') (rq_URL req) of
           s # ss \<Rightarrow> (if s = '''' then
               (case lookup_route table (rq_Method req) ss of
                  Some (h, p) \<Rightarrow> h new_writer (rq_Body req) p
                | None \<Rightarrow> other req)
             else other req)
         | [] \<Rightarrow> other req)"


section \<open>Routing\<close>

definition slash_free :: "string \<Rightarrow> bool" where
  "slash_free s \<longleftrightarrow> s \<noteq> '''' \<and> CHR ''/'' \<notin> set s"

lemma split_path:
  assumes "slash_free g"
  shows "url = ''/apps/'' @ g \<Longrightarrow> split_on (CHR ''/'') url = ['''', ''apps'', g]"
    and "url = ''/apps/'' @ g @ ''/stop'' \<Longrightarrow> split_on (CHR ''/'') url = ['''', ''apps'', g, ''stop'']"
    and "url = ''/apps/'' @ g @ ''/instances'' \<Longrightarrow> split_on (CHR ''/'') url = ['''', ''apps'', g, ''instances'']"
    and "url = ''/stage/'' @ g \<Longrightarrow> split_on (CHR ''/'') url = ['''', ''stage'', g]"
    and "url = ''/stage/'' @ g @ ''/completed'' \<Longrightarrow> split_on (CHR ''/'') url = ['''', ''stage'', g, ''completed'']"
  using assms by (simp_all add: slash_free_def split_on_free split_on_append)

lemma Handler_New_split:
  assumes "split_on (CHR ''/'') (rq_URL r) = '''' # ss"
  shows "Handler_New b st pm other r =
    (case lookup_route (registerAppsEndpoints (NewAppHandler b pm) @ registerStageEndpoints (NewStageHandler st)) (rq_Method r) ss of
       Some (h, p) \<Rightarrow> h new_writer (rq_Body r) p | None \<Rightarrow> other r)"
  using assms by (simp add: Handler_New_def)

text \<open>Where the requests of the cloud controller and of the recipe end up.\<close>

lemma dispatch:
  assumes "slash_free g"
  shows "rq_Method r = ''PUT'' \<Longrightarrow> rq_URL r = ''/apps/'' @ g \<Longrightarrow>
      Handler_New b st pm other r = App_Desire (NewAppHandler b pm) new_writer (rq_Body r) g"
    and "rq_Method r = ''POST'' \<Longrightarrow> rq_URL r = ''/apps/'' @ g \<Longrightarrow>
      Handler_New b st pm other r = App_Update (NewAppHandler b pm) new_writer (rq_Body r) g"
    and "rq_Method r = ''GET'' \<Longrightarrow> rq_URL r = ''/apps/'' @ g \<Longrightarrow>
      Handler_New b st pm other r = App_GetApp (NewAppHandler b pm) new_writer g"
    and "rq_Method r = ''PUT'' \<Longrightarrow> rq_URL r = ''/apps/'' @ g @ ''/stop'' \<Longrightarrow>
      Handler_New b st pm other r = App_Stop (NewAppHandler b pm) new_writer g"
    and "rq_Method r = ''GET'' \<Longrightarrow> rq_URL r = ''/apps/'' @ g @ ''/instances'' \<Longrightarrow>
      Handler_New b st pm other r = App_GetInstances (NewAppHandler b pm) new_writer g"
    and "rq_Method r = ''POST'' \<Longrightarrow> rq_URL r = ''/stage/'' @ g \<Longrightarrow>
      Handler_New b st pm other r = Stage_Stage (NewStageHandler st) new_writer (rq_Body r) g"
    and "rq_Method r = ''PUT'' \<Longrightarrow> rq_URL r = ''/stage/'' @ g @ ''/completed'' \<Longrightarrow>
      Handler_New b st pm other r = Stage_StagingComplete (NewStageHandler st) new_writer (rq_Body r) g"
  using assms split_path [OF assms]
  by (simp_all add: Handler_New_split registerAppsEndpoints_def registerStageEndpoints_def slash_free_def
      del: split_on.simps)

text \<open>The list of apps has a fixed path.\<close>

lemma dispatch_list:
  "rq_Method r = ''GET'' \<Longrightarrow> rq_URL r = ''/apps'' \<Longrightarrow> Handler_New b st pm other r = App_List (NewAppHandler b pm) new_writer"
  by (simp add: Handler_New_def registerAppsEndpoints_def)

section \<open>Requests of the cloud controller\<close>

text \<open>A desire request as the cloud controller writes it.\<close>

definition json_DesireLRPRequest :: "DesireLRPRequest \<Rightarrow> json" where
  "json_DesireLRPRequest r = JObject
     [(''process_guid'', JString (req_ProcessGUID r)), (''docker_image'', JString (req_DockerImageURL r)),
      (''droplet_hash'', JString (req_DropletHash r)), (''start_command'', JString (req_StartCommand r)),
      (''environment'', (case req_Environment r of None \<Rightarrow> JNull | Some m \<Rightarrow> JObject (map (map_prod id JString) m))),
      (''instances'', json_int (sint (req_NumInstances r))), (''last_updated'', JString (req_LastUpdated r)),
      (''health_check_type'', JString (req_HealthCheckType r)),
      (''health_check_http_endpoint'', JString (req_HealthCheckHTTPEndpoint r)),
      (''health_check_timeout_ms'', json_int (uint (req_HealthCheckTimeoutMs r)))]"

definition request_ok :: "DesireLRPRequest \<Rightarrow> bool" where
  "request_ok r \<longleftrightarrow> list_all utf8_valid [req_ProcessGUID r, req_DockerImageURL r, req_DropletHash r, req_StartCommand r,
       req_LastUpdated r, req_HealthCheckType r, req_HealthCheckHTTPEndpoint r]
     \<and> (case req_Environment r of None \<Rightarrow> True | Some m \<Rightarrow> gomap_wf m \<and> list_all (\<lambda>(k, v). utf8_valid k \<and> utf8_valid v) m)"

lemma request_keys:
  "fold_key ''process_guid'' = ''process_guid''" "fold_key ''docker_image'' = ''docker_image''"
  "fold_key ''droplet_hash'' = ''droplet_hash''" "fold_key ''start_command'' = ''start_command''"
  "fold_key ''environment'' = ''environment''" "fold_key ''instances'' = ''instances''"
  "fold_key ''last_updated'' = ''last_updated''" "fold_key ''health_check_type'' = ''health_check_type''"
  "fold_key ''health_check_http_endpoint'' = ''health_check_http_endpoint''"
  "fold_key ''health_check_timeout_ms'' = ''health_check_timeout_ms''"
  by code_simp+

lemma request_keys_utf8:
  "list_all utf8_valid [''process_guid'', ''docker_image'', ''droplet_hash'', ''start_command'', ''environment'', ''instances'',
     ''last_updated'', ''health_check_type'', ''health_check_http_endpoint'', ''health_check_timeout_ms'']"
  by code_simp

lemma update_fresh: "k \<notin> fst ` set m \<Longrightarrow> map_assign k v m = m @ [(k, v)]"
  by (simp add: map_assign_def update_nonempty) (induction m, auto)

lemma dec_entries_strings:
  "distinct (map fst (m @ kvs)) \<Longrightarrow> dec_entries (map (map_prod id JString) kvs) m = (m @ kvs, False)"
  by (induction kvs arbitrary: m) (auto simp: update_fresh split_beta)

lemma dec_uint_json_int: "0 \<le> i \<Longrightarrow> i < 2 ^ 64 \<Longrightarrow> dec_uint (json_int i) old = (word_of_int i, False)"
proof -
  assume i: "0 \<le> i" "i < 2 ^ 64"
  obtain c cs where c: "show_nat (nat i) = c # cs" "is_digit c" by (rule show_nat_Cons)
  then have "c \<noteq> CHR ''-''" by (auto simp: is_digit_def byte_of_def)
  with c i show ?thesis
    using parse_show_int [of i] by (simp add: json_int_def show_int_def)
qed

lemma dec_json_DesireLRPRequest:
  assumes "request_ok r"
  shows "dec_DesireLRPRequest (json_DesireLRPRequest r) zero_DesireLRPRequest = (r, False)"
proof -
  have env: "dec_map (case req_Environment r of None \<Rightarrow> JNull | Some m \<Rightarrow> JObject (map (map_prod id JString) m)) None
      = (req_Environment r, False)"
    using assms by (auto simp: request_ok_def gomap_wf_def dec_entries_strings [where m = "[]", simplified] split: option.split)
  show ?thesis
    using sint_ge [of "req_NumInstances r"] sint_lt [of "req_NumInstances r"] uint_lt2p [of "req_HealthCheckTimeoutMs r"]
    by (simp add: dec_DesireLRPRequest_def json_DesireLRPRequest_def zero_DesireLRPRequest_def dec_field_def request_keys
        env dec_int_json_int dec_uint_json_int del: fold_key.simps dec_int.simps dec_uint.simps dec_map.simps)
qed

lemma json_ok_DesireLRPRequest: "request_ok r \<Longrightarrow> json_ok (json_DesireLRPRequest r)"
  using request_keys_utf8
  by (auto simp: json_DesireLRPRequest_def request_ok_def list_all_iff split: option.splits)

lemma decode_DesireLRPRequest:
  "request_ok r \<Longrightarrow> decode_stream dec_DesireLRPRequest zero_DesireLRPRequest (print_json (json_DesireLRPRequest r)) = Inr r"
  by (simp add: decode_stream_def json_stream_print json_ok_DesireLRPRequest dec_json_DesireLRPRequest)


section \<open>Properties\<close>

abbreviation request_to :: "string \<Rightarrow> string \<Rightarrow> string \<Rightarrow> HTTPRequest" where
  "request_to m url body \<equiv> \<lparr>rq_Method = m, rq_URL = url, rq_Header = [], rq_ContentLength = of_nat (length body), rq_Body = body\<rparr>"

lemma k8s_eirini_bifrost [simp]:
  "eb_Transfer (eirini_bifrost b) = Bifrost_Transfer b" "eb_List (eirini_bifrost b) = Bifrost_List b"
  "eb_Update (eirini_bifrost b) = Bifrost_Update b" "eb_Stop (eirini_bifrost b) = Bifrost_Stop b"
  "eb_GetApp (eirini_bifrost b) = Bifrost_GetApp b" "eb_GetInstances (eirini_bifrost b) = Bifrost_GetInstances b"
  by (simp_all add: eirini_bifrost_def)

lemma NewAppHandler_fields [simp]:
  "app_bifrost (NewAppHandler b pm) = b" "app_printers (NewAppHandler b pm) = pm"
  by (simp_all add: NewAppHandler_def)

text \<open>
  A desire request of the cloud controller, from the JSON on the wire: it reaches the bridge exactly as it
  was written, once, if the GUID in its path is the one in its body; the answer is 202 when the bridge
  takes it and 400 when it fails. With another GUID the bridge is not called and the answer is 400.
\<close>

theorem desire_endpoint:
  assumes "request_ok request" and "slash_free g"
  shows "Handler_New b st pm other (request_to ''PUT'' (''/apps/'' @ g) (print_json (json_DesireLRPRequest request))) w
    = (if g \<noteq> req_ProcessGUID request then (Return (WriteHeader StatusBadRequest new_writer), w)
       else (case eb_Transfer b request w of
           (Return _, w') \<Rightarrow> (Return (WriteHeader StatusAccepted new_writer), w')
         | (Error _, w') \<Rightarrow> (Return (WriteHeader StatusBadRequest new_writer), w')
         | (Panic p, w') \<Rightarrow> (Panic p, w')
         | (Blocked, w') \<Rightarrow> (Blocked, w')))"
  by (simp add: dispatch(1) [OF assms(2)] App_Desire_def decode_DesireLRPRequest [OF assms(1)] go_bind_def go_try_def
      split: prod.split outcome.split)

definition no_printers :: printers where
  "no_printers = \<lparr>pm_Infos = (\<lambda>_. Inl EOF), pm_LRP = (\<lambda>_. Inl EOF), pm_Texts = (\<lambda>_. '''')\<rparr>"

definition counting_bifrost :: "DesireLRPRequest list eirini_Bifrost" where
  "counting_bifrost = \<lparr>eb_Transfer = (\<lambda>r w. (Return (), w @ [r])), eb_List = go_return [], eb_Update = (\<lambda>_. go_return ()),
     eb_Stop = (\<lambda>_. go_return ()), eb_GetApp = (\<lambda>_. go_return None), eb_GetInstances = (\<lambda>_. go_return [])\<rparr>"

definition no_stager :: "'w eirini_Stager" where
  "no_stager = \<lparr>es_Stage = (\<lambda>_ _. go_return ()), es_CompleteStaging = (\<lambda>_. go_return ())\<rparr>"

lemma sample_request_ok: "request_ok (zero_DesireLRPRequest\<lparr>req_ProcessGUID := ''g'', req_NumInstances := 2\<rparr>)"
  by code_simp

theorem desire_endpoint_witness:
  "Handler_New counting_bifrost no_stager no_printers (\<lambda>_. go_return new_writer)
     (request_to ''PUT'' (''/apps/'' @ ''g'')
        (print_json (json_DesireLRPRequest (zero_DesireLRPRequest\<lparr>req_ProcessGUID := ''g'', req_NumInstances := 2\<rparr>)))) []
   = (Return (WriteHeader StatusAccepted new_writer), [zero_DesireLRPRequest\<lparr>req_ProcessGUID := ''g'', req_NumInstances := 2\<rparr>])"
  using desire_endpoint [OF sample_request_ok, of "''g''" counting_bifrost no_stager no_printers "\<lambda>_. go_return new_writer" "[]"]
  by (simp add: slash_free_def counting_bifrost_def)


lemma not_json_text: "json_stream ''{'' = Inl SyntaxError"
  by code_simp

lemma not_json: "decode_stream d z ''{'' = Inl SyntaxError"
  by (simp add: decode_stream_def not_json_text)




definition guid36 :: string where
  "guid36 = ''01234567-89ab-cdef-0123-456789abcdef''"

lemma guid36_facts: "valid_label_value guid36" "length guid36 = 36" "slash_free (guid36 @ ''-v1'')" "guid36 \<noteq> ''''"
  by code_simp+

lemma guid36_rules:
  "new_rules plain_urls guid36 [''A.io'', ''b.io''] = Inr [plain_rule guid36 ''a.io'', plain_rule guid36 ''b.io'']"
  by code_simp

lemma guid36_desirable:
  "desirable plain_urls ''eirini'' (sample_lrp guid36 [''A.io'', ''b.io'']) [''A.io'', ''b.io'']
     [plain_rule guid36 ''a.io'', plain_rule guid36 ''b.io''] (tracker_abs empty_tracker)"
  using guid36_facts(1)
  by (simp add: desirable_def instances_exist_def names_free_def ingress_ok_def tracker_abs_def empty_tracker_def
      guid36_rules sample_decoded del: marshal_strings.simps new_rules.simps)


text \<open>
  C10. From the wire to the cluster: a desire request with an image of its own is deployed as a stateful set
  named by the application's GUID, with the requested number of instances, the requested image and the
  process GUID in its annotations; its routes are in the ingress and with the emitter, and the answer is 202.
\<close>

theorem desire_request_deploys:
  assumes "kube_cluster cl \<alpha> I ch" and "I w" and "\<And>k. range_order (rord k)"
    and "request_ok request" and "slash_free (req_ProcessGUID request)" and "req_DockerImageURL request \<noteq> ''''"
    and conv: "Convert eord c request w = (Return lrp, w)" and "desirable lib ns lrp uris rs (\<alpha> w)"
  shows "\<exists>w' s ct. Handler_New (eirini_bifrost (k8s_bifrost \<lparr>co_Convert = Convert eord c\<rparr> (k8s_desirer lib rord ord cl ns ch))) st pm other
        (request_to ''PUT'' (''/apps/'' @ req_ProcessGUID request) (print_json (json_DesireLRPRequest request))) w
      = (Return (WriteHeader StatusAccepted new_writer), w')
    \<and> c_StatefulSets (\<alpha> w') (ns, Name lrp) = Some s \<and> ss_Replicas s = Some (to_int32 (req_NumInstances request))
    \<and> ps_Containers (pt_Spec (ss_Template s)) = [ct] \<and> ct_Image ct = req_DockerImageURL request
    \<and> nilmap_index (om_Annotations (ss_Meta s)) ProcessGUID = req_ProcessGUID request
    \<and> app_rules (\<alpha> w') ns = (app_rules (\<alpha> w) ns)(Name lrp := mset rs)
    \<and> c_sent (\<alpha> w') = c_sent (\<alpha> w) @ [[\<lparr>r_Routes = uris, r_UnregisteredRoutes = [], r_Name = GetInternalServiceName (Name lrp)\<rparr>]]"
proof (rule Desire_run [where rord = rord, OF assms(1,2,8,3), of ord])
  fix w'
  let ?d = "k8s_desirer lib rord ord cl ns ch" and ?s = "ss_with_ns ns (toStatefulSet ord (newStatefulSetManager cl ns) lrp)"
  assume run: "Desirer_Desire ?d lrp w = (Return (), w')"
    and rep: "replaces_rules ns (Name lrp) rs (desired cl ord ns lrp uris (\<alpha> w)) (\<alpha> w')"
  have lrp: "TargetInstances lrp = req_NumInstances request" "Image lrp = req_DockerImageURL request"
    "nilmap_index (Metadata lrp) ProcessGUID = req_ProcessGUID request"
    using conv assms(6)
    by (auto simp: Convert_def dropletToImageURI_def Let_def go_bind_def go_lift_def split: sum.splits)
  have "Handler_New (eirini_bifrost (k8s_bifrost \<lparr>co_Convert = Convert eord c\<rparr> ?d)) st pm other
      (request_to ''PUT'' (''/apps/'' @ req_ProcessGUID request) (print_json (json_DesireLRPRequest request))) w
    = (Return (WriteHeader StatusAccepted new_writer), w')"
    using run conv
    by (simp add: dispatch(1) [OF assms(5)] App_Desire_def decode_DesireLRPRequest [OF assms(4)] Bifrost_Transfer_def go_simps)
  moreover have "c_StatefulSets (\<alpha> w') (ns, Name lrp) = Some ?s"
    using replaces_rules_frame(1) [OF rep] by (simp add: desired_stores)
  moreover have "app_rules (\<alpha> w') ns = (app_rules (\<alpha> w) ns)(Name lrp := mset rs)"
    using replaces_rules_app [OF rep] assms(8) new_rules_wf by (auto simp: desired_stores desirable_def)
  moreover have "\<exists>ct. ps_Containers (pt_Spec (ss_Template ?s)) = [ct] \<and> ct_Image ct = req_DockerImageURL request"
    by (simp add: toStatefulSet_def ss_with_ns_def Let_def lrp)
  moreover have "c_sent (\<alpha> w') = c_sent (\<alpha> w)
      @ [[\<lparr>r_Routes = uris, r_UnregisteredRoutes = [], r_Name = GetInternalServiceName (Name lrp)\<rparr>]]"
    using replaces_rules_frame(3) [OF rep] by (simp add: desired_stores)
  moreover have "ss_Replicas ?s = Some (to_int32 (req_NumInstances request))"
    by (simp add: ss_with_ns_def lrp(1))
  ultimately show ?thesis
    using lrp(3) by (intro exI [of _ w'] exI [of _ ?s]) simp
qed


definition tracker_converter :: "tracker DropletToImageConverter" where
  "tracker_converter = NewConverter \<lparr>cf_GetDropletByAppGuid = (\<lambda>_. go_throw EOF), cf_PushDroplet = (\<lambda>_ _. go_throw EOF),
     cf_GetAppBitsByAppGuid = (\<lambda>_. go_throw EOF)\<rparr> (answering 201) '''' ''''"

lemma sample_conversion:
  "\<exists>lrp. Convert id tracker_converter sample_request empty_tracker = (Return lrp, empty_tracker)
     \<and> Name lrp = ''app'' \<and> lrp_uris lrp = marshal_strings (Some [''a.io''])"
  by (simp add: Convert_def sample_request_def sample_vcap_parsed dropletToImageURI_def Let_def go_simps del: marshal_strings.simps)

lemma sample_request_facts:
  "request_ok sample_request" "slash_free (req_ProcessGUID sample_request)" "req_DockerImageURL sample_request \<noteq> ''''"
  by code_simp+

theorem desire_request_deploys_witness:
  "\<exists>w' s. Handler_New (eirini_bifrost (k8s_bifrost \<lparr>co_Convert = Convert id tracker_converter\<rparr>
          (k8s_desirer plain_urls (\<lambda>_. id) id tracker_client ''eirini'' tracker_chan))) no_stager no_printers (\<lambda>_. go_return new_writer)
        (request_to ''PUT'' (''/apps/'' @ req_ProcessGUID sample_request) (print_json (json_DesireLRPRequest sample_request))) empty_tracker
      = (Return (WriteHeader StatusAccepted new_writer), w')
    \<and> c_StatefulSets (tracker_abs w') (''eirini'', ''app'') = Some s \<and> ss_Replicas s = Some 2"
proof -
  obtain lrp where lrp: "Convert id tracker_converter sample_request empty_tracker = (Return lrp, empty_tracker)"
    "Name lrp = ''app''" "lrp_uris lrp = marshal_strings (Some [''a.io''])"
    using sample_conversion by blast
  have "valid_label_value ''app''" by code_simp
  with lrp(2,3) have "desirable plain_urls ''eirini'' lrp [''a.io''] [plain_rule ''app'' ''a.io''] (tracker_abs empty_tracker)"
    by (simp add: desirable_def instances_exist_def names_free_def ingress_ok_def tracker_abs_def empty_tracker_def
        sample_new_rules sample_decoded del: marshal_strings.simps new_rules.simps)
  note deployed = desire_request_deploys [where rord = "\<lambda>_. id" and ord = id and st = no_stager and pm = no_printers
      and other = "\<lambda>_. go_return new_writer",
      OF tk.kube_cluster_axioms tracker_inv_empty range_order_id sample_request_facts lrp(1) this]
  have "to_int32 (req_NumInstances sample_request) = 2" by code_simp
  with deployed show ?thesis unfolding lrp(2) by metis
qed

text \<open>
  The instances endpoint answers 200 with the instances that are ready in the cluster, numbered from 0;
  for a GUID without a stateful set it answers 200 as well, with the error in the body and no instances.
\<close>

theorem instances_endpoint:
  assumes "kube_cluster cl \<alpha> I ch" and "I w" and "ns \<noteq> ''''" and "slash_free g"
    and "\<And>s. c_StatefulSets (\<alpha> w) (ns, g) = Some s \<Longrightarrow> ps_Containers (pt_Spec (ss_Template s)) \<noteq> []"
  shows "\<exists>rw. Handler_New (eirini_bifrost (k8s_bifrost conv (k8s_desirer lib rord ord cl ns ch))) st pm other
        (request_to ''GET'' (''/apps/'' @ g @ ''/instances'') body) w = (Return rw, w)
    \<and> status_of rw = StatusOK
    \<and> rw_Body rw = print_json (json_GetInstancesResponse (case c_StatefulSets (\<alpha> w) (ns, g) of
        Some s \<Rightarrow> \<lparr>gir_Error = '''', gir_ProcessGUID = g, gir_Instances =
          map (\<lambda>i. \<lparr>Index = of_nat i, State = RunningState\<rparr>) [0 ..< nat (sint (ss_ReadyReplicas s))]\<rparr>
      | None \<Rightarrow> \<lparr>gir_Error = pm_Texts pm (NotFound g), gir_ProcessGUID = g, gir_Instances = []\<rparr>)) @ [CHR 0x0A]"
proof -
  let ?d = "k8s_desirer lib rord ord cl ns ch"
  have g: "g \<noteq> ''''" using assms(4) by (simp add: slash_free_def)
  have loop: "instances_loop (of_int32 r) 0 [] = map (\<lambda>i. \<lparr>Index = of_nat i, State = RunningState\<rparr>) [0 ..< nat (sint r)]" for r
    using instances_loop_eq [of 0 "of_int32 r" "[]"] sint_of_int32 [of r]
    by (cases "0 \<le> sint r") (auto simp: instances_loop.simps)
  have get: "Bifrost_GetInstances (k8s_bifrost conv ?d) g w = (case c_StatefulSets (\<alpha> w) (ns, g) of
      Some s \<Rightarrow> Return (map (\<lambda>i. \<lparr>Index = of_nat i, State = RunningState\<rparr>) [0 ..< nat (sint (ss_ReadyReplicas s))])
    | None \<Rightarrow> Error (NotFound g), w)"
  proof (cases "c_StatefulSets (\<alpha> w) (ns, g)")
    case None
    with Get_unknown [OF assms(1-3) g] show ?thesis by (simp add: Bifrost_GetInstances_def go_simps)
  next
    case (Some s)
    with kube_cluster.Get_instances [OF assms(1-3) g] assms(5) [OF Some] show ?thesis
      by (cases "ps_Containers (pt_Spec (ss_Template s))")
        (simp_all add: Bifrost_GetInstances_def Desirer_Get_def go_simps statefulSetToLRP_def loop)
  qed
  show ?thesis
    by (subst dispatch(5) [OF assms(4)])
      (simp_all add: App_GetInstances_def go_bind_def go_try_def get createGetInstancesResponse_def
        createErrorGetInstancesResponse_def Let_def split: option.split)
qed

definition running_tracker :: tracker where
  "running_tracker = empty_tracker\<lparr>tr_StatefulSets :=
     [ss_with_ns ''eirini'' (toStatefulSet id (newStatefulSetManager tracker_client ''eirini'') (sample_lrp ''app'' []))\<lparr>ss_ReadyReplicas := 2\<rparr>]\<rparr>"

lemma running_tracker_inv: "tracker_inv running_tracker"
  by (simp add: running_tracker_def tracker_inv_def empty_tracker_def keys_unique_def)

lemma running_tracker_app:
  "c_StatefulSets (tracker_abs running_tracker) (''eirini'', ''app'') =
     Some (ss_with_ns ''eirini'' (toStatefulSet id (newStatefulSetManager tracker_client ''eirini'') (sample_lrp ''app'' []))\<lparr>ss_ReadyReplicas := 2\<rparr>)"
  by (simp add: running_tracker_def tracker_abs_def store_of_def obj_key_def)

theorem instances_endpoint_witness:
  "\<exists>rw. Handler_New (eirini_bifrost (k8s_bifrost \<lparr>co_Convert = (\<lambda>_. go_throw EOF)\<rparr>
        (k8s_desirer plain_urls (\<lambda>_. id) id tracker_client ''eirini'' tracker_chan))) no_stager no_printers (\<lambda>_. go_return new_writer)
      (request_to ''GET'' (''/apps/'' @ ''app'' @ ''/instances'') '''') running_tracker = (Return rw, running_tracker)
    \<and> rw_Body rw = print_json (json_GetInstancesResponse \<lparr>gir_Error = '''', gir_ProcessGUID = ''app'',
        gir_Instances = [\<lparr>Index = 0, State = RunningState\<rparr>, \<lparr>Index = 1, State = RunningState\<rparr>]\<rparr>) @ [CHR 0x0A]"
proof -
  have upt: "[0 ..< 2] = [0, 1 :: nat]" by code_simp
  have "slash_free ''app''" by (simp add: slash_free_def)
  from instances_endpoint [where lib = plain_urls and rord = "\<lambda>_. id" and ord = id and conv = "\<lparr>co_Convert = (\<lambda>_. go_throw EOF)\<rparr>"
      and st = no_stager and pm = no_printers and other = "\<lambda>_. go_return new_writer" and body = "''''",
      OF tk.kube_cluster_axioms running_tracker_inv _ this, of "''eirini''"]
  show ?thesis
    by (auto simp: running_tracker_app upt toStatefulSet_def ss_with_ns_def Let_def)
qed

end
