(* ===== verification/Staging_System.thy ===== *)
theory Staging_System
  imports Recipe Handler
begin

text \<open>
  The parts of staging together: the recipe that runs in the job of a staging task, the HTTP handlers it reports to,
  and the stager that tells the cloud controller and removes the job. The recipe's HTTP client is
  connected to the handlers: it cuts the address off the URL and hands the request over.
\<close>

text \<open>A connection to a server; a panic of its handler closes the connection.\<close>

definition in_process :: "string \<Rightarrow> (HTTPRequest \<Rightarrow> ('w, ResponseWriter) go) \<Rightarrow> 'w http_client" where
  "in_process addr h = \<lparr>hc_CheckURL = (\<lambda>_. None),
     hc_Do = (\<lambda>r w. case h (r\<lparr>rq_URL := drop (length addr) (rq_URL r)\<rparr>) w of
         (Return rw, w') \<Rightarrow> (Return \<lparr>rsp_StatusCode = status_of rw, rsp_Body = rw_Body rw, rsp_ReadError = None\<rparr>, w')
       | (_, w') \<Rightarrow> (Error EOF, w')),
     hc_Format = (\<lambda>_. '''')\<rparr>"

section \<open>A response on its way\<close>

definition response_ok :: "TaskCallbackResponse \<Rightarrow> bool" where
  "response_ok t = (utf8_valid (tcr_TaskGuid t) \<and> utf8_valid (tcr_FailureReason t) \<and> utf8_valid (tcr_Result t) \<and> utf8_valid (tcr_Annotation t))"

lemma response_keys_utf8:
  "list_all utf8_valid [''task_guid'', ''failed'', ''failure_reason'', ''result'', ''annotation'', ''created_at'']"
  by code_simp

lemma decode_response:
  assumes "response_ok t"
  shows "decode_stream dec_TaskCallbackResponse zero_TaskCallbackResponse (print_json (json_TaskCallbackResponse t)) = Inr t"
proof -
  have "json_ok (json_TaskCallbackResponse t)"
    using assms response_keys_utf8 by (auto simp: json_TaskCallbackResponse_def response_ok_def omitempty_def)
  then show ?thesis by (simp add: decode_stream_def json_stream_print dec_json_TaskCallbackResponse)
qed

lemma utf8_valid_annotation: "utf8_valid c \<Longrightarrow> utf8_valid (print_json (json_StagingTaskAnnotation \<lparr>sta_Lifecycle = '''', sta_CompletionCallback = c\<rparr>))"
  using utf8_valid_print_json [of "json_StagingTaskAnnotation \<lparr>sta_Lifecycle = '''', sta_CompletionCallback = c\<rparr>" "[]"]
  by (simp add: json_StagingTaskAnnotation_def utf8_valid_staging_keys)

text \<open>The report of the recipe arrives at the stager as it was sent.\<close>

lemma report_arrives:
  assumes "response_ok t" and "slash_free (tcr_TaskGuid t)"
  shows "hc_Do (in_process addr (Handler_New b st pm other)) (completion_request addr t) w
    = (case es_CompleteStaging st t w of
        (Return _, w') \<Rightarrow> (Return \<lparr>rsp_StatusCode = StatusOK, rsp_Body = '''', rsp_ReadError = None\<rparr>, w')
      | (Error _, w') \<Rightarrow> (Return \<lparr>rsp_StatusCode = StatusInternalServerError, rsp_Body = '''', rsp_ReadError = None\<rparr>, w')
      | (_, w') \<Rightarrow> (Error EOF, w'))"
  using dispatch(7) [OF assms(2), of "(completion_request addr t)\<lparr>rq_URL := ''/stage/'' @ tcr_TaskGuid t @ ''/completed''\<rparr>" b st pm other]
  by (simp add: in_process_def completion_request_def Let_def Stage_StagingComplete_def NewStageHandler_def decode_response [OF assms(1)]
      go_bind_def go_try_def split: prod.split outcome.split)

text \<open>The stager posts a report to the cloud controller and deletes the job.\<close>

definition callback_request :: "string \<Rightarrow> string \<Rightarrow> HTTPRequest" where
  "callback_request uri body = \<lparr>rq_Method = ''POST'', rq_URL = uri, rq_Header = [(''Content-Type'', ''application/json'')],
     rq_ContentLength = of_nat (length body), rq_Body = body\<rparr>"

lemma report_completes:
  assumes "response_ok t" and "slash_free (tcr_TaskGuid t)"
    and "constructStagingResponse t = Inr body" and "getCallbackURI t = Inr uri" and "hc_CheckURL (st_HTTPClient s) uri = None"
    and "hc_Do (st_HTTPClient s) (callback_request uri body) w = (Return resp, w1)" and "rsp_StatusCode resp < 300"
    and "otd_Delete (st_Desirer s) (tcr_TaskGuid t) w1 = (Return (), w2)"
  shows "hc_Do (in_process addr (Handler_New b (eirini_stager s) pm other)) (completion_request addr t) w
    = (Return \<lparr>rsp_StatusCode = StatusOK, rsp_Body = '''', rsp_ReadError = None\<rparr>, w2)"
proof -
  have "Stager_CompleteStaging s t w = (Return (), w2)"
    using CompleteStaging_run [OF assms(3-5)] assms(6-8) by (simp add: callback_request_def)
  then show ?thesis by (simp add: report_arrives [OF assms(1,2)] eirini_stager_def)
qed
section \<open>Properties\<close>

lemma success_response_ok:
  assumes "json_ok (json_StagingResult result)" and "utf8_valid (cfg_StagingGUID conf)" and "utf8_valid (cfg_CompletionCallback conf)"
  shows "response_ok (success_response conf result)"
  using assms(2) utf8_valid_print_json [OF assms(1), of "[]"] utf8_valid_annotation [OF assms(3)]
  by (simp add: response_ok_def success_response_def)

text \<open>
  The result of a staging, from the job to the cloud controller: when every step of the recipe succeeds, the cloud controller gets
  the result the builder left, with the keys of its buildpacks, at the callback of the staging request, the job of the task is
  deleted, and the recipe ends without an error.
\<close>

theorem staging_result_reaches_cloud_controller:
  assumes "in_Install (pe_Installer e) (cfg_AppID conf) workspaceDir w = (Return (), w1)"
    and "cm_Exec (pe_Commander e) ''/packs/builder'' (builder_args (pe_Conf e)) w1 = (Return (), w2)"
    and "up_Upload (pe_Uploader e) (pbc_OutputDropletLocation (pe_Conf e)) (cfg_DropletUploadURL conf) w2 = (Return (), w3)"
    and "ioutil_ReadFile (pbc_OutputMetadataLocation (pe_Conf e)) w3 = (Return contents, w3)"
    and "unmarshal dec_StagingResult zero_StagingResult contents = Inr result"
    and "sm_Modify (pe_ResultModifier e) result w3 = (Return result', w3)"
    and "json_ok (json_StagingResult result')" and "utf8_valid (cfg_StagingGUID conf)" and "slash_free (cfg_StagingGUID conf)"
    and "utf8_valid (cfg_CompletionCallback conf)" and "hc_CheckURL (st_HTTPClient s) (cfg_CompletionCallback conf) = None"
    and "hc_Do (st_HTTPClient s) (callback_request (cfg_CompletionCallback conf) (print_json (JObject [(''result'', json_StagingResult result')]))) w3
      = (Return resp, w4)" and "rsp_StatusCode resp < 300"
    and "otd_Delete (st_Desirer s) (cfg_StagingGUID conf) w4 = (Return (), w5)"
  shows "ExecuteRecipe texts (in_process (cfg_EiriniAddr conf) (Handler_New b (eirini_stager s) pm other)) e conf w = (Return (), w5)"
proof -
  let ?t = "success_response conf result'" and ?client = "in_process (cfg_EiriniAddr conf) (Handler_New b (eirini_stager s) pm other)"
  have guid: "tcr_TaskGuid ?t = cfg_StagingGUID conf" by (simp add: success_response_def)
  have body: "constructStagingResponse ?t = Inr (print_json (JObject [(''result'', json_StagingResult result')]))"
    using assms(7) by (intro constructStagingResponse_result) (simp_all add: success_response_def)
  have "getCallbackURI ?t = Inr (sta_CompletionCallback \<lparr>sta_Lifecycle = '''', sta_CompletionCallback = cfg_CompletionCallback conf\<rparr>)"
    using assms(10) by (intro getCallbackURI_annotation) (simp_all add: success_response_def)
  then have uri: "getCallbackURI ?t = Inr (cfg_CompletionCallback conf)" by simp
  have check: "hc_CheckURL ?client u = None" for u by (simp add: in_process_def)
  have sent: "hc_Do ?client (completion_request (cfg_EiriniAddr conf) ?t) w3
      = (Return \<lparr>rsp_StatusCode = StatusOK, rsp_Body = '''', rsp_ReadError = None\<rparr>, w5)"
    using assms(9,14) guid by (intro report_completes [OF success_response_ok [OF assms(7,8,10)] _ body uri assms(11-13)]) simp_all
  from ExecuteRecipe_completes [OF assms(1-6) check sent, of texts] show ?thesis by simp
qed

text \<open>
  The failure of a staging, from the job to the cloud controller: the error of the failed step arrives at the callback of the
  staging request as a staging error with its text, the job of the task is deleted, and the recipe ends with that error.
\<close>

theorem staging_failure_reaches_cloud_controller:
  fixes e conf
  defines "install \<equiv> in_Install (pe_Installer e) (cfg_AppID conf) workspaceDir"
  defines "build \<equiv> cm_Exec (pe_Commander e) ''/packs/builder'' (builder_args (pe_Conf e))"
  defines "upload \<equiv> up_Upload (pe_Uploader e) (pbc_OutputDropletLocation (pe_Conf e)) (cfg_DropletUploadURL conf)"
  assumes "install w = (Error err, w1) \<or> (\<exists>w2. install w = (Return (), w2) \<and> (build w2 = (Error err, w1)
      \<or> (\<exists>w3. build w2 = (Return (), w3) \<and> upload w3 = (Error err, w1))))"
    and "utf8_valid (Error_text texts err)" and "utf8_valid (cfg_StagingGUID conf)" and "slash_free (cfg_StagingGUID conf)"
    and "utf8_valid (cfg_CompletionCallback conf)" and "hc_CheckURL (st_HTTPClient s) (cfg_CompletionCallback conf) = None"
    and "hc_Do (st_HTTPClient s) (callback_request (cfg_CompletionCallback conf) (print_json (JObject [(''error'',
      JObject [(''id'', JString STAGING_ERROR), (''message'', JString (Error_text texts err))])]))) w1 = (Return resp, w4)"
    and "rsp_StatusCode resp < 300" and "otd_Delete (st_Desirer s) (cfg_StagingGUID conf) w4 = (Return (), w5)"
  shows "ExecuteRecipe texts (in_process (cfg_EiriniAddr conf) (Handler_New b (eirini_stager s) pm other)) e conf w = (Error err, w5)"
proof -
  let ?t = "createFailureResponse texts err (cfg_StagingGUID conf) (cfg_CompletionCallback conf)"
  let ?client = "in_process (cfg_EiriniAddr conf) (Handler_New b (eirini_stager s) pm other)"
  have ok: "response_ok ?t" and guid: "tcr_TaskGuid ?t = cfg_StagingGUID conf"
    using assms(5,6) utf8_valid_annotation [OF assms(8)] by (simp_all add: response_ok_def createFailureResponse_def zero_TaskCallbackResponse_def)
  have body: "constructStagingResponse ?t = Inr (print_json (JObject [(''error'',
      JObject [(''id'', JString STAGING_ERROR), (''message'', JString (Error_text texts err))])]))"
    by (simp add: constructStagingResponse_def createFailureResponse_def)
  have "getCallbackURI ?t = Inr (sta_CompletionCallback \<lparr>sta_Lifecycle = '''', sta_CompletionCallback = cfg_CompletionCallback conf\<rparr>)"
    using assms(8) by (intro getCallbackURI_annotation) (simp_all add: createFailureResponse_def)
  then have uri: "getCallbackURI ?t = Inr (cfg_CompletionCallback conf)" by simp
  have sent: "hc_Do ?client (failure_request texts conf err) w1
      = (Return \<lparr>rsp_StatusCode = StatusOK, rsp_Body = '''', rsp_ReadError = None\<rparr>, w5)"
    unfolding failure_request_def using assms(7,12) guid by (intro report_completes [OF ok _ body uri assms(9-11)]) simp_all
  then have "ExecuteRecipe texts ?client e conf w = (Error err, snd (hc_Do ?client (failure_request texts conf err) w1))"
    using assms(4) unfolding install_def build_def upload_def by (intro ExecuteRecipe_fails) (simp_all add: in_process_def)
  with sent show ?thesis by simp
qed

text \<open>A stager whose cloud controller and cluster record what they are asked.\<close>

record staging_world = logged_world +
  sw_deleted :: "string list"

definition recording :: "staging_world http_client" where
  "recording = \<lparr>hc_CheckURL = (\<lambda>_. None),
     hc_Do = (\<lambda>r w. (Return \<lparr>rsp_StatusCode = StatusOK, rsp_Body = '''', rsp_ReadError = None\<rparr>, w\<lparr>lw_requests := lw_requests w @ [r]\<rparr>)),
     hc_Format = (\<lambda>_. '''')\<rparr>"

definition recording_stager :: "staging_world Stager" where
  "recording_stager = \<lparr>st_Desirer = \<lparr>otd_Desire = (\<lambda>_. go_return ()), otd_DesireStaging = (\<lambda>_. go_return ()),
       otd_Delete = (\<lambda>g w. (Return (), w\<lparr>sw_deleted := sw_deleted w @ [g]\<rparr>))\<rparr>,
     st_Config = sample_config, st_HTTPClient = recording\<rparr>"

definition built_disk :: staging_world where
  "built_disk = \<lparr>os_env = [], os_cwd = [], os_umask = 0x12,
     os_files = [[''out''] \<mapsto> Directory 0x1ED, [''out'', ''result.json''] \<mapsto> File ''{}'' 0x1A4], lw_requests = [], sw_deleted = []\<rparr>"

lemma built_disk_read: "ioutil_ReadFile ''/out/result.json'' built_disk = (Return ''{}'', built_disk)"
proof -
  have plain: "list_all plain_segment [''out'', ''result.json'']" "abs_path [''out'', ''result.json''] = ''/out/result.json''" by code_simp+
  have "\<exists>m. os_files built_disk p = Some (Directory m)" if "p \<noteq> []" "strict_prefix p [''out'', ''result.json'']" for p
    using that by (auto simp: built_disk_def strict_prefix_def prefix_Cons)
  then show ?thesis
    using read_abs_path [OF plain(1), of built_disk "''{}''" "0x1A4"] plain(2) by (simp add: built_disk_def)
qed

lemma sample_facts:
  "unmarshal dec_StagingResult zero_StagingResult ''{}'' = Inr zero_StagingResult" "json_ok (json_StagingResult zero_StagingResult)"
  "utf8_valid (cfg_StagingGUID sample_conf)" "slash_free (cfg_StagingGUID sample_conf)" "utf8_valid (cfg_CompletionCallback sample_conf)"
  "utf8_valid ''exit status 1''"
  by code_simp+

definition idle_bifrost :: "'w eirini_Bifrost" where
  "idle_bifrost = \<lparr>eb_Transfer = (\<lambda>_. go_return ()), eb_List = go_return [], eb_Update = (\<lambda>_. go_return ()),
     eb_Stop = (\<lambda>_. go_return ()), eb_GetApp = (\<lambda>_. go_return None), eb_GetInstances = (\<lambda>_. go_return [])\<rparr>"

abbreviation sample_eirini :: "staging_world http_client" where
  "sample_eirini \<equiv> in_process (cfg_EiriniAddr sample_conf)
     (Handler_New idle_bifrost (eirini_stager recording_stager) no_printers (\<lambda>_. go_return new_writer))"

theorem staging_result_reaches_cloud_controller_witness:
  "\<exists>r. ExecuteRecipe (\<lambda>_. '''') sample_eirini (executor_with (go_return ()) (go_return ()) Inr) sample_conf built_disk
    = (Return (), built_disk\<lparr>lw_requests := [r], sw_deleted := [''g'']\<rparr>) \<and> rq_URL r = ''http://cc''"
proof -
  let ?r = "callback_request (cfg_CompletionCallback sample_conf) (print_json (JObject [(''result'', json_StagingResult zero_StagingResult)]))"
  have "ExecuteRecipe (\<lambda>_. '''') sample_eirini (executor_with (go_return ()) (go_return ()) Inr) sample_conf built_disk
      = (Return (), built_disk\<lparr>lw_requests := [?r], sw_deleted := [''g'']\<rparr>)"
    by (rule staging_result_reaches_cloud_controller [where ?w1.0 = built_disk and ?w2.0 = built_disk and ?w3.0 = built_disk
          and contents = "''{}''" and result = zero_StagingResult and result' = zero_StagingResult and ?w4.0 = "built_disk\<lparr>lw_requests := [?r]\<rparr>"
          and resp = "\<lparr>rsp_StatusCode = StatusOK, rsp_Body = '''', rsp_ReadError = None\<rparr>"])
      (use sample_facts built_disk_read in \<open>simp_all add: executor_with_def sample_packs_def recording_stager_def recording_def\<close>,
       simp_all add: built_disk_def sample_conf_def)
  moreover have "rq_URL ?r = ''http://cc''" by (simp add: callback_request_def sample_conf_def)
  ultimately show ?thesis by blast
qed

theorem staging_failure_reaches_cloud_controller_witness:
  "\<exists>r. ExecuteRecipe (\<lambda>_. '''') sample_eirini (executor_with (go_return ()) (go_throw (ErrorString ''exit status 1'')) Inr) sample_conf built_disk
    = (Error (ErrorString ''exit status 1''), built_disk\<lparr>lw_requests := [r], sw_deleted := [''g'']\<rparr>) \<and> rq_URL r = ''http://cc''"
proof -
  let ?r = "callback_request (cfg_CompletionCallback sample_conf) (print_json (JObject [(''error'',
      JObject [(''id'', JString STAGING_ERROR), (''message'', JString (Error_text (\<lambda>_. '''') (ErrorString ''exit status 1'')))])]))"
  have "ExecuteRecipe (\<lambda>_. '''') sample_eirini (executor_with (go_return ()) (go_throw (ErrorString ''exit status 1'')) Inr) sample_conf built_disk
      = (Error (ErrorString ''exit status 1''), built_disk\<lparr>lw_requests := [?r], sw_deleted := [''g'']\<rparr>)"
    by (rule staging_failure_reaches_cloud_controller [where ?w1.0 = built_disk and ?w4.0 = "built_disk\<lparr>lw_requests := [?r]\<rparr>"
          and resp = "\<lparr>rsp_StatusCode = StatusOK, rsp_Body = '''', rsp_ReadError = None\<rparr>"])
      (use sample_facts in \<open>simp_all add: executor_with_def recording_stager_def recording_def\<close>,
       simp_all add: built_disk_def sample_conf_def)
  moreover have "rq_URL ?r = ''http://cc''" by (simp add: callback_request_def sample_conf_def)
  ultimately show ?thesis by blast
qed

end
