(* ===== verification/Recipe_Cmd.thy ===== *)
theory Recipe_Cmd
  imports Staging_System
begin

text \<open>
  The program of the staging job: \<^verbatim>\<open>recipe/cmd/recipe.go\<close>. It reads its parameters from the environment, which the stager has filled, puts the
  parts of the recipe together and runs it. The result is the exit status of the process.

  X.509 and PEM, the Cloud Foundry client library, the HTTP clients, zip archives and processes are arguments. The lemma: in
  the environment of a staging job the recipe works on the data of the staging request.
\<close>

section \<open>Definitions\<close>

record tls_config =
  tls_Cert :: string
  tls_Key :: string
  tls_RootCAs :: string

text \<open>\<open>x5_Pair\<close>: the error of a certificate and key that do not fit; \<open>x5_AppendCerts\<close>: whether PEM certificates were found.\<close>

record 'w x509_library =
  x5_Pair :: "string \<Rightarrow> string \<Rightarrow> go_error option"
  x5_AppendCerts :: "string \<Rightarrow> bool"
  x5_Client :: "tls_config \<Rightarrow> 'w http_client"

definition LoadX509KeyPair :: "'m os_world_scheme x509_library \<Rightarrow> string \<Rightarrow> string \<Rightarrow> ('m os_world_scheme, string \<times> string) go" where
  "LoadX509KeyPair lib certFile keyFile =
     go_bind (ioutil_ReadFile certFile) (\<lambda>cert.
     go_bind (ioutil_ReadFile keyFile) (\<lambda>key.
     case x5_Pair lib cert key of Some e \<Rightarrow> go_throw e | None \<Rightarrow> go_return (cert, key)))"

text \<open>\<^verbatim>\<open>if err != nil { panic(err) }\<close>\<close>

definition or_panic :: "(go_error \<Rightarrow> string) \<Rightarrow> ('w, 'a) go \<Rightarrow> ('w, 'a) go" where
  "or_panic texts m = go_bind (go_try m) (\<lambda>r. case r of Inl e \<Rightarrow> go_panic (Error_text texts e) | Inr a \<Rightarrow> go_return a)"

definition createHTTPClient :: "(go_error \<Rightarrow> string) \<Rightarrow> 'm os_world_scheme x509_library \<Rightarrow> ('m os_world_scheme, 'm os_world_scheme http_client) go" where
  "createHTTPClient texts lib =
     (let certLocation = Join [CCCertsMountPath, ''cc_cert''];
          cacertLocation = Join [CCCertsMountPath, ''cc_ca''];
          privKeyLocation = Join [CCCertsMountPath, ''cc_priv''] in
      go_bind (or_panic texts (LoadX509KeyPair lib certLocation privKeyLocation)) (\<lambda>(cert, key).
      go_bind (or_panic texts (ioutil_ReadFile cacertLocation)) (\<lambda>cacert.
      if \<not> x5_AppendCerts lib cacert then go_panic ''append certs from pem failed''
      else go_return (x5_Client lib \<lparr>tls_Cert = cert, tls_Key = key, tls_RootCAs = cacert\<rparr>))))"

record 'w cf_config =
  cf_SkipSslValidation :: bool
  cf_Username :: string
  cf_Password :: string
  cf_ApiAddress :: string
  cf_HttpClient :: "'w http_client option"

datatype stream = Stdin | Stdout | Stderr

definition packsConf :: PacksBuilderConf where
  "packsConf = \<lparr>pbc_BuildpacksDir = ''/var/lib/buildpacks'', pbc_OutputDropletLocation = ''/out/droplet.tgz'',
     pbc_OutputBuildArtifactsCache = ''/cache/cache.tgz'', pbc_OutputMetadataLocation = ''/out/result.json''\<rparr>"

text \<open>The parts of the recipe as \<^verbatim>\<open>main\<close> puts them together.\<close>

definition recipe_executor :: "(string \<Rightarrow> go_error + zip_file list) \<Rightarrow> (stream Cmd \<Rightarrow> ('m os_world_scheme, unit) go) \<Rightarrow> 'm os_world_scheme CfClient
    \<Rightarrow> 'm os_world_scheme http_client \<Rightarrow> string \<Rightarrow> 'm os_world_scheme PacksExecutor" where
  "recipe_executor unzip run cfclient client buildpacks =
     \<lparr>pe_Conf = packsConf,
      pe_Installer = \<lparr>in_Install = PackageInstaller_Install \<lparr>pi_Cfclient = cfclient, pi_Extractor = \<lparr>ex_Extract = Unzipper_Extract unzip\<rparr>\<rparr>\<rparr>,
      pe_Uploader = \<lparr>up_Upload = DropletUploader_Upload \<lparr>du_HTTPClient = client\<rparr>\<rparr>,
      pe_Commander = \<lparr>cm_Exec = IOCommander_Exec run \<lparr>io_Stdout = Stdout, io_Stderr = Stderr, io_Stdin = Stdin\<rparr>\<rparr>,
      pe_ResultModifier = \<lparr>sm_Modify = (\<lambda>r. go_lift (BuildpacksKeyModifier_Modify \<lparr>bkm_CCBuildpacksJSON = buildpacks\<rparr> r))\<rparr>\<rparr>"

definition recipe_main :: "(go_error \<Rightarrow> string) \<Rightarrow> 'm os_world_scheme x509_library \<Rightarrow> ('m os_world_scheme cf_config \<Rightarrow> ('m os_world_scheme, 'm os_world_scheme CfClient) go)
    \<Rightarrow> (string \<Rightarrow> go_error + zip_file list) \<Rightarrow> (stream Cmd \<Rightarrow> ('m os_world_scheme, unit) go) \<Rightarrow> 'm os_world_scheme http_client
    \<Rightarrow> ('m os_world_scheme, nat) go" where
  "recipe_main texts x509 newClient unzip run defaultClient w =
     (let appID = os_Getenv EnvAppID w;
          stagingGUID = os_Getenv EnvStagingGUID w;
          completionCallback = os_Getenv EnvCompletionCallback w;
          eiriniAddress = os_Getenv EnvEiriniAddress w;
          dropletUploadURL = os_Getenv EnvDropletUploadURL w;
          buildpacks = os_Getenv EnvBuildpacks w;
          username = os_Getenv EnvCfUsername w;
          password = os_Getenv EnvCfPassword w;
          apiAddress = os_Getenv EnvAPIAddress w in
      go_bind (createHTTPClient texts x509) (\<lambda>httpClient.
      let cfg = \<lparr>cf_SkipSslValidation = True, cf_Username = username, cf_Password = password, cf_ApiAddress = apiAddress, cf_HttpClient = Some httpClient\<rparr> in
      go_bind (go_try (newClient cfg)) (\<lambda>r. case r of
          Inl err \<Rightarrow> go_return 1
        | Inr cfclient \<Rightarrow>
            go_bind (createHTTPClient texts x509) (\<lambda>client.
            let executor = recipe_executor unzip run cfclient client buildpacks;
                recipeConf = \<lparr>cfg_AppID = appID, cfg_StagingGUID = stagingGUID, cfg_CompletionCallback = completionCallback,
                  cfg_EiriniAddr = eiriniAddress, cfg_DropletUploadURL = dropletUploadURL\<rparr> in
            go_bind (go_try (ExecuteRecipe texts defaultClient executor recipeConf)) (\<lambda>r. case r of
                Inl err \<Rightarrow> go_return 1
              | Inr _ \<Rightarrow> go_return 0)))) w)"

section \<open>Property\<close>

text \<open>The configuration of the recipe for a staging request.\<close>

definition staging_conf :: "StagerConfig \<Rightarrow> string \<Rightarrow> StagingRequestFromCC \<Rightarrow> BuildpackStagingData \<Rightarrow> Config" where
  "staging_conf cfg guid request data = \<lparr>cfg_AppID = sr_LogGuid request, cfg_StagingGUID = guid, cfg_CompletionCallback = sr_CompletionCallback request,
     cfg_EiriniAddr = sc_EiriniAddress cfg, cfg_DropletUploadURL = bsd_DropletUploadUri data\<rparr>"

lemma recipe_main_staging:
  assumes "\<And>k. os_Getenv k w = map_index (staging_env cfg guid request data) k"
    and "createHTTPClient texts x509 w = (Return client, w)"
    and "newClient \<lparr>cf_SkipSslValidation = True, cf_Username = sc_CfUsername cfg, cf_Password = sc_CfPassword cfg, cf_ApiAddress = sc_APIAddress cfg,
      cf_HttpClient = Some client\<rparr> w = (Return cfclient, w)"
    and "bsd_Buildpacks data = Some bps" and "\<forall>b \<in> set bps. buildpack_ok b"
    and "ExecuteRecipe texts dc (recipe_executor unzip run cfclient client (print_json (json_list json_Buildpack (Some bps))))
      (staging_conf cfg guid request data) w = (r, w')" and "settled r"
  shows "recipe_main texts x509 newClient unzip run dc w = (Return (if r = Return () then 0 else 1), w')"
proof -
  have env: "os_Getenv EnvBuildpacks w = print_json (json_list json_Buildpack (Some bps))" "os_Getenv EnvAppID w = sr_LogGuid request"
    "os_Getenv EnvStagingGUID w = guid" "os_Getenv EnvCompletionCallback w = sr_CompletionCallback request"
    "os_Getenv EnvEiriniAddress w = sc_EiriniAddress cfg" "os_Getenv EnvDropletUploadURL w = bsd_DropletUploadUri data"
    "os_Getenv EnvCfUsername w = sc_CfUsername cfg" "os_Getenv EnvCfPassword w = sc_CfPassword cfg" "os_Getenv EnvAPIAddress w = sc_APIAddress cfg"
    using assms(1,4) by (simp_all add: staging_env_def)
  show ?thesis
    using assms(2,3,6,7) unfolding recipe_main_def env Let_def
    by (cases r) (simp_all add: staging_conf_def go_simps)
qed

text \<open>
  The hand-over from the stager to the recipe: in the environment of the job of a staging request, the recipe runs for the app, the
  task, the callback and the upload URL of that request, logs in with the stager's credentials, and replaces the names of
  exactly the buildpacks of the request; the exit status tells whether it succeeded.
\<close>

theorem recipe_runs_staging_request:
  assumes "\<And>k. os_Getenv k w = map_index (staging_env cfg guid request data) k"
    and "createHTTPClient texts x509 w = (Return client, w)"
    and "newClient \<lparr>cf_SkipSslValidation = True, cf_Username = sc_CfUsername cfg, cf_Password = sc_CfPassword cfg, cf_ApiAddress = sc_APIAddress cfg,
      cf_HttpClient = Some client\<rparr> w = (Return cfclient, w)"
    and "bsd_Buildpacks data = Some bps" and "\<forall>b \<in> set bps. buildpack_ok b"
    and "ExecuteRecipe texts dc (recipe_executor unzip run cfclient client (print_json (json_list json_Buildpack (Some bps))))
      (staging_conf cfg guid request data) w = (r, w')" and "settled r"
  shows "recipe_main texts x509 newClient unzip run dc w = (Return (if r = Return () then 0 else 1), w')
    \<and> (\<forall>result. missing_name bps (result_names result) = None \<longrightarrow>
        sm_Modify (pe_ResultModifier (recipe_executor unzip run cfclient client (os_Getenv EnvBuildpacks w))) result w
          = (Return (rename_result (buildpack_key bps) result), w))"
proof -
  have "recipe_main texts x509 newClient unzip run dc w = (Return (if r = Return () then 0 else 1), w')"
    by (rule recipe_main_staging) (fact assms)+
  moreover have "os_Getenv EnvBuildpacks w = print_json (json_list json_Buildpack (Some bps))" using assms(1,4) by simp
  ultimately show ?thesis
    using Modify_eq [OF provided_written [OF assms(5)]] by (simp add: recipe_executor_def go_simps)
qed

definition job_disk :: os_world where
  "job_disk = \<lparr>os_env = staging_env sample_config ''g'' zero_StagingRequestFromCC (zero_BuildpackStagingData\<lparr>bsd_Buildpacks := Some [ruby]\<rparr>),
     os_cwd = [], os_umask = 0x12,
     os_files = (\<lambda>p. if p \<in> {[''etc''], [''etc'', ''config''], [''etc'', ''config'', ''certs'']} then Some (Directory 0x1ED)
       else if take 3 p = [''etc'', ''config'', ''certs''] \<and> length p = 4 then Some (File ''pem'' 0x1A4) else None)\<rparr>"

definition idle_client :: "os_world http_client" where
  "idle_client = \<lparr>hc_CheckURL = (\<lambda>_. None), hc_Do = (\<lambda>_. go_return \<lparr>rsp_StatusCode = StatusOK, rsp_Body = '''', rsp_ReadError = None\<rparr>),
     hc_Format = (\<lambda>_. '''')\<rparr>"

definition any_certs :: "os_world x509_library" where
  "any_certs = \<lparr>x5_Pair = (\<lambda>_ _. None), x5_AppendCerts = (\<lambda>_. True), x5_Client = (\<lambda>_. idle_client)\<rparr>"

lemma job_disk_read:
  assumes "n \<in> {''cc_cert'', ''cc_ca'', ''cc_priv''}"
  shows "ioutil_ReadFile (Join [CCCertsMountPath, n]) job_disk = (Return ''pem'', job_disk)"
proof -
  let ?q = "[''etc'', ''config'', ''certs'', n]"
  have plain: "list_all plain_segment ?q" using assms by (auto simp: plain_segment_def)
  have dirs: "\<exists>m. os_files job_disk p = Some (Directory m)" if "p \<noteq> []" "strict_prefix p ?q" for p
    using that by (auto simp: job_disk_def strict_prefix_def prefix_Cons)
  have "Join [CCCertsMountPath, n] = abs_path ?q"
    using assms by (auto simp: plain_segment_def) (code_simp)+
  then show ?thesis
    using read_abs_path [OF plain _ dirs, of "''pem''" "0x1A4"] by (simp add: job_disk_def del: Join.simps)
qed

lemma job_client: "createHTTPClient (\<lambda>_. '''') any_certs job_disk = (Return idle_client, job_disk)"
  using job_disk_read
  by (simp add: createHTTPClient_def LoadX509KeyPair_def or_panic_def any_certs_def Let_def go_simps del: Join.simps)

theorem recipe_runs_staging_request_witness:
  "fst (recipe_main (\<lambda>_. '''') any_certs (\<lambda>_. go_return sample_cf_bits) (\<lambda>_. Inl EOF) (\<lambda>_. go_return ()) idle_client job_disk) = Return 1"
proof -
  let ?data = "zero_BuildpackStagingData\<lparr>bsd_Buildpacks := Some [ruby]\<rparr>"
  let ?run = "ExecuteRecipe (\<lambda>_. '''') idle_client
      (recipe_executor (\<lambda>_. Inl EOF) (\<lambda>_. go_return ()) sample_cf_bits idle_client (print_json (json_list json_Buildpack (Some [ruby]))))
      (staging_conf sample_config ''g'' zero_StagingRequestFromCC ?data) job_disk"
  have failed: "fst ?run = Error (ErrorString ''empty appID provided'')"
    by (subst ExecuteRecipe_fails [where w' = job_disk and err = "ErrorString ''empty appID provided''"])
      (simp_all add: idle_client_def recipe_executor_def staging_conf_def PackageInstaller_Install_def zero_StagingRequestFromCC_def)
  then show ?thesis
    using recipe_runs_staging_request [where cfg = sample_config and guid = "''g''" and request = zero_StagingRequestFromCC and data = ?data and bps = "[ruby]",
        OF _ job_client _ _ _ surjective_pairing] ruby_ok
    by (simp add: job_disk_def os_Getenv_def)
qed

end
