(* ===== verification/Blob_Store.thy ===== *)
theory Blob_Store
  imports Go_Http Go_Os
begin

text \<open>
  The registry's store of blobs: \<^verbatim>\<open>blobondemand/blonde.go\<close>. The store is a map from keys to pointers to byte
  buffers; the buffers are cells of a heap, since reading one consumes it. Copying a reader drains it.

  The locale \<open>blob_store\<close> states what the registry relies on: what a key holds after a put and after a read.
  It is interpreted on the store. SHA-256 in hexadecimal is an argument.
\<close>

section \<open>Definitions\<close>

text \<open>The heap of buffers and the map of the store; other parts of the world are in extensions of the record.\<close>

record blob_world =
  bw_heap :: "string list"
  bw_data :: "(string \<times> nat) list"

abbreviation NewInMemoryStore :: "(string \<times> nat) list" where "NewInMemoryStore \<equiv> []"

text \<open>
  \<^verbatim>\<open>io.Copy\<close> into a fresh buffer: what was read, or the error of the reader. The second result is the reader
  afterwards. The size is an \<^verbatim>\<open>int64\<close>.
\<close>

definition copy_all :: "reader \<Rightarrow> (go_error + string \<times> int64) \<times> reader" where
  "copy_all r = (case rd_Error r of
      Some e \<Rightarrow> (Inl e, r\<lparr>rd_Rest := ''''\<rparr>)
    | None \<Rightarrow> (Inr (rd_Rest r, of_nat (length (rd_Rest r))), r\<lparr>rd_Rest := ''''\<rparr>))"

definition store_as :: "(string \<Rightarrow> string) \<Rightarrow> (string \<Rightarrow> string) \<Rightarrow> reader
    \<Rightarrow> ('m blob_world_scheme, (go_error + string \<times> int64) \<times> reader) go" where
  "store_as sha256 key buf w =
     (let (r, buf') = copy_all buf in
      case r of
        Inl e \<Rightarrow> (Return (Inl e, buf'), w)
      | Inr (stored, n) \<Rightarrow>
          let id = ''sha256:'' @ sha256 stored in
          (Return (Inr (id, n), buf'),
           w\<lparr>bw_heap := bw_heap w @ [stored], bw_data := AList.update (key id) (length (bw_heap w)) (bw_data w)\<rparr>))"

definition InMemoryStore_Put :: "(string \<Rightarrow> string) \<Rightarrow> reader
    \<Rightarrow> ('m blob_world_scheme, (go_error + string \<times> int64) \<times> reader) go" where
  "InMemoryStore_Put sha256 buf = store_as sha256 (\<lambda>id. id) buf"

definition InMemoryStore_PutWithID :: "(string \<Rightarrow> string) \<Rightarrow> string \<Rightarrow> reader
    \<Rightarrow> ('m blob_world_scheme, (go_error + string \<times> int64) \<times> reader) go" where
  "InMemoryStore_PutWithID sha256 guid buf = store_as sha256 (\<lambda>id. guid) buf"

definition InMemoryStore_Has :: "string \<Rightarrow> ('m blob_world_scheme, bool) go" where
  "InMemoryStore_Has digest w = (Return (map_of (bw_data w) digest \<noteq> None), w)"

text \<open>
  \<^verbatim>\<open>Get\<close> copies the buffer to a writer, which empties it. An absent key gives a nil buffer, whose first access
  panics. The result is what was written.
\<close>

definition InMemoryStore_Get :: "string \<Rightarrow> ('m blob_world_scheme, string) go" where
  "InMemoryStore_Get digest w = (case map_of (bw_data w) digest of
      None \<Rightarrow> (Panic ''invalid memory address or nil pointer dereference'', w)
    | Some a \<Rightarrow> (Return (bw_heap w ! a), w\<lparr>bw_heap := (bw_heap w)[a := '''']\<rparr>))"

text \<open>The interface \<^verbatim>\<open>registry.BlobStore\<close>.\<close>

record 'w BlobStore =
  bs_Put :: "reader \<Rightarrow> ('w, (go_error + string \<times> int64) \<times> reader) go"
  bs_PutWithID :: "string \<Rightarrow> reader \<Rightarrow> ('w, (go_error + string \<times> int64) \<times> reader) go"
  bs_Has :: "string \<Rightarrow> ('w, bool) go"
  bs_Get :: "string \<Rightarrow> ('w, string) go"

definition in_memory_store :: "(string \<Rightarrow> string) \<Rightarrow> 'm blob_world_scheme BlobStore" where
  "in_memory_store sha256 = \<lparr>bs_Put = InMemoryStore_Put sha256, bs_PutWithID = InMemoryStore_PutWithID sha256,
     bs_Has = InMemoryStore_Has, bs_Get = InMemoryStore_Get\<rparr>"

section \<open>What the registry relies on\<close>

locale blob_store =
  fixes bs :: "'w BlobStore"
    and sha256 :: "string \<Rightarrow> string"
    and content :: "'w \<Rightarrow> string \<Rightarrow> string option"
    and other :: "'w \<Rightarrow> 'o"
    and inv :: "'w \<Rightarrow> bool"
  assumes Put_law: "inv w \<Longrightarrow> rd_Error r = None \<Longrightarrow>
      \<exists>w'. bs_Put bs r w = (Return (Inr (''sha256:'' @ sha256 (rd_Rest r), of_nat (length (rd_Rest r))), r\<lparr>rd_Rest := ''''\<rparr>), w')
        \<and> inv w' \<and> other w' = other w \<and> content w' = (content w)(''sha256:'' @ sha256 (rd_Rest r) \<mapsto> rd_Rest r)"
    and PutWithID_law: "inv w \<Longrightarrow> rd_Error r = None \<Longrightarrow>
      \<exists>w'. bs_PutWithID bs g r w = (Return (Inr (''sha256:'' @ sha256 (rd_Rest r), of_nat (length (rd_Rest r))), r\<lparr>rd_Rest := ''''\<rparr>), w')
        \<and> inv w' \<and> other w' = other w \<and> content w' = (content w)(g \<mapsto> rd_Rest r)"
    and Put_error: "inv w \<Longrightarrow> rd_Error r = Some e \<Longrightarrow> bs_Put bs r w = (Return (Inl e, r\<lparr>rd_Rest := ''''\<rparr>), w)"
    and Has_law: "inv w \<Longrightarrow> bs_Has bs d w = (Return (content w d \<noteq> None), w)"
    and Get_law: "inv w \<Longrightarrow> content w d = Some c \<Longrightarrow>
      \<exists>w'. bs_Get bs d w = (Return c, w') \<and> inv w' \<and> other w' = other w \<and> content w' = (content w)(d \<mapsto> '''')"
    and Get_missing: "inv w \<Longrightarrow> content w d = None \<Longrightarrow>
      bs_Get bs d w = (Panic ''invalid memory address or nil pointer dereference'', w)"

section \<open>The store keeps its promises\<close>

definition blob_content :: "'m blob_world_scheme \<Rightarrow> string \<Rightarrow> string option" where
  "blob_content w k = map_option (\<lambda>a. bw_heap w ! a) (map_of (bw_data w) k)"

text \<open>The keys are distinct, and no two of them share a buffer.\<close>

definition blob_inv :: "'m blob_world_scheme \<Rightarrow> bool" where
  "blob_inv w \<longleftrightarrow> distinct (map fst (bw_data w)) \<and> distinct (map snd (bw_data w))
     \<and> (\<forall>a \<in> set (map snd (bw_data w)). a < length (bw_heap w))"

lemma update_snd_distinct:
  "distinct (map fst m) \<Longrightarrow> distinct (map snd m) \<Longrightarrow> a \<notin> set (map snd m) \<Longrightarrow> distinct (map snd (AList.update k a m))"
proof (induction m)
  case (Cons x m)
  have "set (map snd (AList.update k a m)) \<subseteq> insert a (set (map snd m))"
    by (induction m) auto
  with Cons show ?case by (cases x) auto
qed simp

lemma update_snd_set: "set (map snd (AList.update k a m)) \<subseteq> insert a (set (map snd m))"
  by (induction m) auto

lemma store_as_run:
  assumes "blob_inv w" and "rd_Error r = None"
  shows "\<exists>w'. store_as sha256 key r w = (Return (Inr (''sha256:'' @ sha256 (rd_Rest r), of_nat (length (rd_Rest r))), r\<lparr>rd_Rest := ''''\<rparr>), w')
    \<and> blob_inv w' \<and> blob_content w' = (blob_content w)(key (''sha256:'' @ sha256 (rd_Rest r)) \<mapsto> rd_Rest r)
    \<and> blob_world.more w' = blob_world.more w"
proof -
  define k where "k = key (''sha256:'' @ sha256 (rd_Rest r))"
  let ?w = "w\<lparr>bw_heap := bw_heap w @ [rd_Rest r], bw_data := AList.update k (length (bw_heap w)) (bw_data w)\<rparr>"
  have range: "\<forall>a \<in> set (map snd (bw_data w)). a < length (bw_heap w)"
    using assms(1) by (simp add: blob_inv_def)
  then have "length (bw_heap w) \<notin> set (map snd (bw_data w))" by blast
  moreover have "\<forall>a \<in> set (map snd (AList.update k (length (bw_heap w)) (bw_data w))). a < Suc (length (bw_heap w))"
    using update_snd_set [of k "length (bw_heap w)" "bw_data w"] range by (force dest: less_SucI)
  ultimately have "blob_inv ?w"
    using assms(1) by (simp add: blob_inv_def distinct_update update_snd_distinct)
  moreover have "blob_content ?w = (blob_content w)(k \<mapsto> rd_Rest r)"
  proof
    fix x
    show "blob_content ?w x = ((blob_content w)(k \<mapsto> rd_Rest r)) x"
      using range by (cases "map_of (bw_data w) x") (force simp: blob_content_def update_conv' nth_append dest: map_of_SomeD)+
  qed
  ultimately show ?thesis
    using assms(2) by (intro exI [of _ ?w]) (simp add: store_as_def copy_all_def Let_def k_def)
qed

lemma Get_run:
  assumes "blob_inv w" and "blob_content w d = Some c"
  shows "\<exists>w'. InMemoryStore_Get d w = (Return c, w') \<and> blob_inv w' \<and> blob_content w' = (blob_content w)(d \<mapsto> '''')
    \<and> blob_world.more w' = blob_world.more w"
proof -
  obtain a where a: "map_of (bw_data w) d = Some a" "bw_heap w ! a = c"
    using assms(2) by (auto simp: blob_content_def)
  then have less: "a < length (bw_heap w)"
    using assms(1) by (force simp: blob_inv_def dest: map_of_SomeD)
  have inj: "inj_on snd (set (bw_data w))"
    using assms(1) by (simp add: blob_inv_def distinct_map)
  have other: "b \<noteq> a" if "map_of (bw_data w) k = Some b" "k \<noteq> d" for k b
    using inj_onD [OF inj _ map_of_SomeD [OF that(1)] map_of_SomeD [OF a(1)]] that(2) by auto
  let ?w = "w\<lparr>bw_heap := (bw_heap w)[a := '''']\<rparr>"
  have "blob_content ?w k = ((blob_content w)(d \<mapsto> '''')) k" for k
    using a less other [of k] by (cases "map_of (bw_data w) k") (auto simp: blob_content_def)
  then have "blob_content ?w = (blob_content w)(d \<mapsto> '''')" by blast
  moreover have "blob_inv ?w" using assms(1) by (simp add: blob_inv_def)
  ultimately show ?thesis
    using a by (intro exI [of _ ?w]) (simp add: InMemoryStore_Get_def)
qed

interpretation ims: blob_store "in_memory_store sha256" sha256 blob_content blob_world.more blob_inv
proof unfold_locales
  fix w :: "'a blob_world_scheme" and r :: reader and g d c e
  show "rd_Error r = Some e \<Longrightarrow> bs_Put (in_memory_store sha256) r w = (Return (Inl e, r\<lparr>rd_Rest := ''''\<rparr>), w)"
    by (simp add: in_memory_store_def InMemoryStore_Put_def store_as_def copy_all_def Let_def)
  show "bs_Has (in_memory_store sha256) d w = (Return (blob_content w d \<noteq> None), w)"
    by (simp add: in_memory_store_def InMemoryStore_Has_def blob_content_def)
  show "blob_content w d = None \<Longrightarrow> bs_Get (in_memory_store sha256) d w
      = (Panic ''invalid memory address or nil pointer dereference'', w)"
    by (simp add: in_memory_store_def InMemoryStore_Get_def blob_content_def)
  assume inv: "blob_inv w"
  show "blob_content w d = Some c \<Longrightarrow> \<exists>w'. bs_Get (in_memory_store sha256) d w = (Return c, w') \<and> blob_inv w'
      \<and> blob_world.more w' = blob_world.more w \<and> blob_content w' = (blob_content w)(d \<mapsto> '''')"
    using Get_run [OF inv] by (fastforce simp: in_memory_store_def)
  assume ok: "rd_Error r = None"
  show "\<exists>w'. bs_Put (in_memory_store sha256) r w
      = (Return (Inr (''sha256:'' @ sha256 (rd_Rest r), of_nat (length (rd_Rest r))), r\<lparr>rd_Rest := ''''\<rparr>), w')
      \<and> blob_inv w' \<and> blob_world.more w' = blob_world.more w \<and> blob_content w' = (blob_content w)(''sha256:'' @ sha256 (rd_Rest r) \<mapsto> rd_Rest r)"
    using store_as_run [OF inv ok, of sha256 "\<lambda>id. id"] by (fastforce simp: in_memory_store_def InMemoryStore_Put_def)
  show "\<exists>w'. bs_PutWithID (in_memory_store sha256) g r w
      = (Return (Inr (''sha256:'' @ sha256 (rd_Rest r), of_nat (length (rd_Rest r))), r\<lparr>rd_Rest := ''''\<rparr>), w')
      \<and> blob_inv w' \<and> blob_world.more w' = blob_world.more w \<and> blob_content w' = (blob_content w)(g \<mapsto> rd_Rest r)"
    using store_as_run [OF inv ok, of sha256 "\<lambda>id. g"] by (fastforce simp: in_memory_store_def InMemoryStore_PutWithID_def)
qed

end
