(* ===== verification/Registry.thy ===== *)
theory Registry
  imports Blob_Store
begin

text \<open>
  The image registry: \<^verbatim>\<open>registry/registry.go\<close>. It takes a droplet, moves its files below \<^verbatim>\<open>/home/vcap\<close>, stores
  the layer under its digest, and serves manifests and blobs to the container runtime. The droplet store
  maps droplet GUIDs to references of blobs; it is part of the same world as the blobs.

  Gzip and tar, the temporary file of a request, and the answers of the router for other paths
  are arguments. Messages on the console are left out. The lemmas: what a staged droplet leaves in the stores, what is
  served afterwards, and the requests that panic.
\<close>

section \<open>Definitions\<close>

record BlobRef =
  br_Digest :: string
  br_Size :: int64

record registry_world = blob_world +
  rg_droplets :: "(string \<times> BlobRef) list"

text \<open>The interface \<^verbatim>\<open>DropletStore\<close> and its implementation by a map.\<close>

record 'w DropletStore =
  dr_Get :: "string \<Rightarrow> ('w, BlobRef option) go"
  dr_Set :: "string \<Rightarrow> BlobRef \<Rightarrow> ('w, unit) go"

definition InMemoryDropletStore_Get :: "string \<Rightarrow> ('m registry_world_scheme, BlobRef option) go" where
  "InMemoryDropletStore_Get guid w = (Return (map_of (rg_droplets w) guid), w)"

definition InMemoryDropletStore_Set :: "string \<Rightarrow> BlobRef \<Rightarrow> ('m registry_world_scheme, unit) go" where
  "InMemoryDropletStore_Set guid blob w = (Return (), w\<lparr>rg_droplets := AList.update guid blob (rg_droplets w)\<rparr>)"

definition in_memory_droplets :: "'m registry_world_scheme DropletStore" where
  "in_memory_droplets = \<lparr>dr_Get = InMemoryDropletStore_Get, dr_Set = InMemoryDropletStore_Set\<rparr>"

definition Ping :: "ResponseWriter \<Rightarrow> ('w, ResponseWriter) go" where
  "Ping rw = go_return (Write ''Pong'' (WriteHeader StatusOK rw))"

record 'w BlobHandler =
  bh_blobs :: "'w BlobStore"

text \<open>The handler goes on after it has answered that there is no such blob.\<close>

definition BlobHandler_ServeHTTP :: "'w BlobHandler \<Rightarrow> ResponseWriter \<Rightarrow> string \<Rightarrow> ('w, ResponseWriter) go" where
  "BlobHandler_ServeHTTP b rw digest =
     go_bind (bs_Has (bh_blobs b) digest) (\<lambda>has.
     let rw = (if \<not> has then http_NotFound rw else rw) in
     go_bind (bs_Get (bh_blobs b) digest) (\<lambda>data.
     go_return (Write data rw)))"

record 'w ManifestHandler =
  mh_Rootfs :: BlobRef
  mh_DropletStore :: "'w DropletStore"
  mh_BlobStore :: "'w BlobStore"

text \<open>The entries of a map are written in the order of their keys.\<close>

definition config_json :: "BlobRef \<Rightarrow> BlobRef \<Rightarrow> json" where
  "config_json rootfs droplet = JObject
     [(''config'', JObject [(''user'', JString ''vcap'')]),
      (''rootfs'', JObject [(''diff_ids'', JArray [JString (br_Digest rootfs), JString (br_Digest droplet)]),
         (''type'', JString ''layers'')])]"

definition manifest_json :: "BlobRef \<Rightarrow> BlobRef \<Rightarrow> string \<Rightarrow> int64 \<Rightarrow> json" where
  "manifest_json rootfs droplet configDigest configSize = JObject
     [(''config'', JObject [(''digest'', JString configDigest),
         (''mediaType'', JString ''application/vnd.docker.container.image.v1+json''), (''size'', json_int (sint configSize))]),
      (''layers'', JArray
         [JObject [(''digest'', JString (br_Digest rootfs)), (''mediaType'', JString ''application/vnd.docker.image.rootfs.diff.tar''),
            (''size'', json_int (sint (br_Size rootfs)))],
          JObject [(''digest'', JString (br_Digest droplet)), (''mediaType'', JString ''application/vnd.docker.image.rootfs.diff.tar.gzip''),
            (''size'', json_int (sint (br_Size droplet)))]]),
      (''mediaType'', JString ''application/vnd.docker.distribution.manifest.v2+json''),
      (''schemaVersion'', json_int 2)]"

text \<open>
  A droplet that is not in the store is a nil pointer. Encoding the configuration cannot fail. No header has been
  set before, so adding one sets it.
\<close>

definition ManifestHandler_ServeHTTP :: "'w ManifestHandler \<Rightarrow> ResponseWriter \<Rightarrow> string \<Rightarrow> ('w, ResponseWriter) go" where
  "ManifestHandler_ServeHTTP b rw dropletGuid =
     go_bind (dr_Get (mh_DropletStore b) dropletGuid) (\<lambda>p.
     go_bind (deref p) (\<lambda>droplet.
     let config = print_json (config_json (mh_Rootfs b) droplet) in
     go_bind (bs_Put (mh_BlobStore b) \<lparr>rd_Rest = config, rd_Error = None\<rparr>) (\<lambda>(r, _). case r of
         Inl e \<Rightarrow> go_return (http_Error ''couldnt store config json for droplet'' 500 rw)
       | Inr (configDigest, configSize) \<Rightarrow>
           go_return (Write (print_json (manifest_json (mh_Rootfs b) droplet configDigest configSize) @ [CHR 0x0A])
             (Header_Set ''Content-Type'' ''application/vnd.docker.distribution.manifest.v2+json'' rw)))))"

text \<open>
  The tar library: what \<^verbatim>\<open>Next\<close> gives of an archive until its end or an error; an entry may fail while its
  content is copied. \<open>tl_Pack\<close> is the archive written for the entries, \<open>tl_Close\<close> the error of \<^verbatim>\<open>Close\<close>.
\<close>

record tar_entry =
  te_Name :: string
  te_Content :: string
  te_Error :: "go_error option"

record tar_library =
  tl_Gunzip :: "string \<Rightarrow> go_error + string"
  tl_Entries :: "string \<Rightarrow> tar_entry list \<times> go_error option"
  tl_Pack :: "tar_entry list \<Rightarrow> string"
  tl_Close :: "tar_entry list \<Rightarrow> go_error option"

text \<open>The temporary file of a request: created, opened again for reading, removed at the end.\<close>

record 'w temp_file =
  tf_Create :: "('w, unit) go"
  tf_Open :: "('w, unit) go"
  tf_Remove :: "('w, unit) go"

definition relocate :: "tar_entry \<Rightarrow> tar_entry" where
  "relocate hdr = hdr\<lparr>te_Name := Join [''/home/vcap'', te_Name hdr]\<rparr>"

text \<open>The loop over the archive, with the entries written so far and the error after the last entry.\<close>

fun copy_layer :: "tar_entry list \<Rightarrow> go_error option \<Rightarrow> tar_entry list \<Rightarrow> go_error + tar_entry list" where
  "copy_layer [] end written = (case end of Some e \<Rightarrow> Inl e | None \<Rightarrow> Inr written)"
| "copy_layer (hdr # hdrs) end written = (case te_Error hdr of
      Some e \<Rightarrow> Inl e
    | None \<Rightarrow> copy_layer hdrs end (written @ [relocate hdr]))"

record 'w layer_stager =
  ls_blobs :: "'w BlobStore"
  ls_droplets :: "'w DropletStore"

text \<open>
  The part of the handler between the creation of the temporary file and its removal. The digest is written
  as a format string; it has no verbs.
\<close>

definition stage_layer :: "(go_error \<Rightarrow> string) \<Rightarrow> tar_library \<Rightarrow> 'w temp_file \<Rightarrow> 'w layer_stager \<Rightarrow> ResponseWriter \<Rightarrow> string \<Rightarrow> string
    \<Rightarrow> ('w, ResponseWriter) go" where
  "stage_layer texts lib tf s rw guid body =
     (let fail = (\<lambda>e. go_return (http_Error (Error_text texts e) StatusInternalServerError rw)) in
      case tl_Gunzip lib body of
        Inl e \<Rightarrow> fail e
      | Inr archive \<Rightarrow>
          (case copy_layer (fst (tl_Entries lib archive)) (snd (tl_Entries lib archive)) [] of
             Inl e \<Rightarrow> fail e
           | Inr layer \<Rightarrow>
               (case tl_Close lib layer of
                  Some e \<Rightarrow> fail e
                | None \<Rightarrow>
                    go_bind (go_try (tf_Open tf)) (\<lambda>r. case r of
                        Inl e \<Rightarrow> fail e
                      | Inr _ \<Rightarrow>
                          go_bind (bs_Put (ls_blobs s) \<lparr>rd_Rest = tl_Pack lib layer, rd_Error = None\<rparr>) (\<lambda>(r, layerTar). case r of
                              Inl e \<Rightarrow> fail e
                            | Inr (digest, n) \<Rightarrow>
                                go_bind (bs_PutWithID (ls_blobs s) guid layerTar) (\<lambda>(r, _). case r of
                                    Inl e \<Rightarrow> fail e
                                  | Inr _ \<Rightarrow>
                                      go_bind (dr_Set (ls_droplets s) guid \<lparr>br_Digest = digest, br_Size = n\<rparr>) (\<lambda>_.
                                      go_return (Write digest (WriteHeader StatusCreated rw)))))))))"

text \<open>A deferred call runs however the function ends; its own result is dropped.\<close>

definition go_defer :: "('w, 'a) go \<Rightarrow> ('w, unit) go \<Rightarrow> ('w, 'a) go" where
  "go_defer m d w = (case m w of (r, w') \<Rightarrow> (r, snd (d w')))"

definition Stager_ServeHTTP :: "(go_error \<Rightarrow> string) \<Rightarrow> tar_library \<Rightarrow> 'w temp_file \<Rightarrow> 'w layer_stager \<Rightarrow> ResponseWriter \<Rightarrow> string \<Rightarrow> string
    \<Rightarrow> ('w, ResponseWriter) go" where
  "Stager_ServeHTTP texts lib tf s rw guid body =
     (if guid = '''' then go_return (http_Error ''guid parameter is required'' StatusInternalServerError rw)
      else
        go_bind (go_try (tf_Create tf)) (\<lambda>r. case r of
            Inl e \<Rightarrow> go_return (http_Error (Error_text texts e) StatusInternalServerError rw)
          | Inr _ \<Rightarrow> go_defer (stage_layer texts lib tf s rw guid body) (tf_Remove tf)))"

text \<open>
  The route table, for a method, the segments of the path and the \<^verbatim>\<open>guid\<close> of the query; a variable of a
  pattern is one segment, which is not empty.
\<close>

definition Registry_NewHandler ::
  "(go_error \<Rightarrow> string) \<Rightarrow> tar_library \<Rightarrow> 'w temp_file \<Rightarrow> BlobRef \<Rightarrow> 'w DropletStore \<Rightarrow> 'w BlobStore
     \<Rightarrow> ('w, ResponseWriter) go \<Rightarrow> string \<Rightarrow> string list \<Rightarrow> string \<Rightarrow> string \<Rightarrow> ('w, ResponseWriter) go" where
  "Registry_NewHandler texts lib tf rootfsBlob dropletStore blobs other method path query body =
     (case path of
        [v] \<Rightarrow> if v = ''v2'' then Ping new_writer else other
      | [v, space, app, kind, x] \<Rightarrow>
          if v \<noteq> ''v2'' \<or> space = '''' \<or> app = '''' then other
          else if kind = ''blobs'' \<and> x = '''' \<and> method = ''POST''
            then Stager_ServeHTTP texts lib tf \<lparr>ls_blobs = blobs, ls_droplets = dropletStore\<rparr> new_writer query body
          else if kind = ''blobs'' \<and> x \<noteq> '''' \<and> method = ''GET''
            then BlobHandler_ServeHTTP \<lparr>bh_blobs = blobs\<rparr> new_writer x
          else if kind = ''manifests'' \<and> x \<noteq> ''''
            then ManifestHandler_ServeHTTP \<lparr>mh_Rootfs = rootfsBlob, mh_DropletStore = dropletStore, mh_BlobStore = blobs\<rparr> new_writer x
          else other
      | _ \<Rightarrow> other)"

section \<open>The stores together\<close>

text \<open>
  What the handlers rely on: a store of blobs, and a store of references beside it, each of which leaves the
  other alone.
\<close>

locale registry_stores = blob_store +
  fixes ds :: "'a DropletStore"
    and refs :: "'a \<Rightarrow> string \<Rightarrow> BlobRef option"
  assumes Get_ref: "inv w \<Longrightarrow> dr_Get ds g w = (Return (refs w g), w)"
    and Set_ref: "inv w \<Longrightarrow> \<exists>w'. dr_Set ds g b w = (Return (), w') \<and> inv w' \<and> content w' = content w
      \<and> refs w' = (refs w)(g \<mapsto> b)"
    and refs_other: "other w' = other w \<Longrightarrow> refs w' = refs w"
begin

text \<open>The references of droplets name blobs that are there.\<close>

definition resolved :: "'a \<Rightarrow> bool" where
  "resolved w \<longleftrightarrow> (\<forall>g b. refs w g = Some b \<longrightarrow> content w (br_Digest b) \<noteq> None)"

lemma PutE:
  assumes "inv w"
  obtains w' where "bs_Put bs \<lparr>rd_Rest = c, rd_Error = None\<rparr> w
      = (Return (Inr (''sha256:'' @ sha256 c, of_nat (length c)), \<lparr>rd_Rest = '''', rd_Error = None\<rparr>), w')"
    and "inv w'" and "content w' = (content w)(''sha256:'' @ sha256 c \<mapsto> c)" and "refs w' = refs w"
proof -
  obtain w' where "bs_Put bs \<lparr>rd_Rest = c, rd_Error = None\<rparr> w
      = (Return (Inr (''sha256:'' @ sha256 c, of_nat (length c)), \<lparr>rd_Rest = '''', rd_Error = None\<rparr>), w')"
    "inv w'" "other w' = other w" "content w' = (content w)(''sha256:'' @ sha256 c \<mapsto> c)"
    using Put_law [OF assms, of "\<lparr>rd_Rest = c, rd_Error = None\<rparr>"] by auto
  with that refs_other [of w' w] show thesis by metis
qed

lemma PutWithIDE:
  assumes "inv w"
  obtains w' where "bs_PutWithID bs g \<lparr>rd_Rest = c, rd_Error = None\<rparr> w
      = (Return (Inr (''sha256:'' @ sha256 c, of_nat (length c)), \<lparr>rd_Rest = '''', rd_Error = None\<rparr>), w')"
    and "inv w'" and "content w' = (content w)(g \<mapsto> c)" and "refs w' = refs w"
proof -
  obtain w' where "bs_PutWithID bs g \<lparr>rd_Rest = c, rd_Error = None\<rparr> w
      = (Return (Inr (''sha256:'' @ sha256 c, of_nat (length c)), \<lparr>rd_Rest = '''', rd_Error = None\<rparr>), w')"
    "inv w'" "other w' = other w" "content w' = (content w)(g \<mapsto> c)"
    using PutWithID_law [OF assms, of "\<lparr>rd_Rest = c, rd_Error = None\<rparr>" g] by auto
  with that refs_other [of w' w] show thesis by metis
qed

lemma GetE:
  assumes "inv w" and "content w d = Some c"
  obtains w' where "bs_Get bs d w = (Return c, w')" and "inv w'" and "content w' = (content w)(d \<mapsto> '''')" and "refs w' = refs w"
  using Get_law [OF assms] refs_other [of _ w] by metis

text \<open>A blob is served, and empty afterwards.\<close>

lemma serve_blob:
  assumes "inv w" and "content w d = Some c"
  shows "\<exists>w'. BlobHandler_ServeHTTP \<lparr>bh_blobs = bs\<rparr> rw d w = (Return (Write c rw), w') \<and> inv w'
    \<and> content w' = (content w)(d \<mapsto> '''') \<and> refs w' = refs w"
proof -
  obtain w' where "bs_Get bs d w = (Return c, w')" "inv w'" "content w' = (content w)(d \<mapsto> '''')" "refs w' = refs w"
    using GetE [OF assms] .
  moreover have "bs_Has bs d w = (Return True, w)" using Has_law [OF assms(1)] assms(2) by simp
  ultimately show ?thesis by (simp add: BlobHandler_ServeHTTP_def go_simps)
qed

lemma serve_missing:
  assumes "inv w" and "content w d = None"
  shows "BlobHandler_ServeHTTP \<lparr>bh_blobs = bs\<rparr> rw d w = (Panic ''invalid memory address or nil pointer dereference'', w)"
  using Has_law [OF assms(1), of d] Get_missing [OF assms] assms(2) by (simp add: BlobHandler_ServeHTTP_def go_simps)

text \<open>The manifest of a droplet, whose configuration is stored as a blob.\<close>

lemma serve_manifest:
  fixes rootfs ref
  defines "config \<equiv> print_json (config_json rootfs ref)"
  assumes "inv w" and "refs w g = Some ref"
  shows "\<exists>w'. ManifestHandler_ServeHTTP \<lparr>mh_Rootfs = rootfs, mh_DropletStore = ds, mh_BlobStore = bs\<rparr> rw g w
      = (Return (Write (print_json (manifest_json rootfs ref (''sha256:'' @ sha256 config) (of_nat (length config))) @ [CHR 0x0A])
          (Header_Set ''Content-Type'' ''application/vnd.docker.distribution.manifest.v2+json'' rw)), w')
    \<and> inv w' \<and> content w' = (content w)(''sha256:'' @ sha256 config \<mapsto> config) \<and> refs w' = refs w"
proof -
  obtain w' where "bs_Put bs \<lparr>rd_Rest = config, rd_Error = None\<rparr> w
      = (Return (Inr (''sha256:'' @ sha256 config, of_nat (length config)), \<lparr>rd_Rest = '''', rd_Error = None\<rparr>), w')"
    "inv w'" "content w' = (content w)(''sha256:'' @ sha256 config \<mapsto> config)" "refs w' = refs w"
    by (rule PutE [OF assms(2), of config])
  then show ?thesis
    using Get_ref [OF assms(2)] assms(3) by (simp add: ManifestHandler_ServeHTTP_def Let_def go_simps flip: config_def)
qed

lemma unknown_manifest:
  "inv w \<Longrightarrow> refs w g = None \<Longrightarrow> ManifestHandler_ServeHTTP \<lparr>mh_Rootfs = rootfs, mh_DropletStore = ds, mh_BlobStore = bs\<rparr> rw g w
    = (Panic ''invalid memory address or nil pointer dereference'', w)"
  using Get_ref by (simp add: ManifestHandler_ServeHTTP_def go_simps)

text \<open>Storing a layer: its digest, an empty blob under the GUID, and the reference.\<close>

lemma store_layer:
  fixes lib layer
  defines "tar \<equiv> tl_Pack lib layer"
  assumes "inv w" and "tl_Gunzip lib body = Inr archive" and "copy_layer (fst (tl_Entries lib archive)) (snd (tl_Entries lib archive)) [] = Inr layer"
    and "tl_Close lib layer = None" and "tf_Open tf w = (Return (), w)"
  shows "\<exists>w'. stage_layer texts lib tf \<lparr>ls_blobs = bs, ls_droplets = ds\<rparr> rw g body w
      = (Return (Write (''sha256:'' @ sha256 tar) (WriteHeader StatusCreated rw)), w')
    \<and> inv w' \<and> content w' = (content w)(''sha256:'' @ sha256 tar \<mapsto> tar, g \<mapsto> '''')
    \<and> refs w' = (refs w)(g \<mapsto> \<lparr>br_Digest = ''sha256:'' @ sha256 tar, br_Size = of_nat (length tar)\<rparr>)"
proof -
  obtain w1 where w1: "bs_Put bs \<lparr>rd_Rest = tar, rd_Error = None\<rparr> w
      = (Return (Inr (''sha256:'' @ sha256 tar, of_nat (length tar)), \<lparr>rd_Rest = '''', rd_Error = None\<rparr>), w1)"
    "inv w1" "content w1 = (content w)(''sha256:'' @ sha256 tar \<mapsto> tar)" "refs w1 = refs w"
    by (rule PutE [OF assms(2), of tar])
  obtain w2 where w2: "bs_PutWithID bs g \<lparr>rd_Rest = '''', rd_Error = None\<rparr> w1
      = (Return (Inr (''sha256:'' @ sha256 '''', of_nat (length ('''' :: string))), \<lparr>rd_Rest = '''', rd_Error = None\<rparr>), w2)"
    "inv w2" "content w2 = (content w1)(g \<mapsto> '''')" "refs w2 = refs w1"
    by (rule PutWithIDE [OF w1(2), of g "''''"])
  obtain w3 where w3: "dr_Set ds g \<lparr>br_Digest = ''sha256:'' @ sha256 tar, br_Size = of_nat (length tar)\<rparr> w2 = (Return (), w3)"
    "inv w3" "content w3 = content w2" "refs w3 = (refs w2)(g \<mapsto> \<lparr>br_Digest = ''sha256:'' @ sha256 tar, br_Size = of_nat (length tar)\<rparr>)"
    using Set_ref [OF w2(2)] by blast
  show ?thesis
    using w1 w2 w3 assms(3-6) by (simp add: stage_layer_def Let_def go_simps flip: tar_def)
qed

text \<open>What comes before the store either fails, which changes nothing, or gives a layer.\<close>

lemma stage_layer_cases:
  assumes "inv w" and open_file: "snd (tf_Open tf w) = w" "\<And>e. fst (tf_Open tf w) \<noteq> Panic e" "fst (tf_Open tf w) \<noteq> Blocked"
  obtains (failed) e where "stage_layer texts lib tf \<lparr>ls_blobs = bs, ls_droplets = ds\<rparr> rw g body w
      = (Return (http_Error (Error_text texts e) StatusInternalServerError rw), w)"
    | (stored) archive layer where "tl_Gunzip lib body = Inr archive"
      and "copy_layer (fst (tl_Entries lib archive)) (snd (tl_Entries lib archive)) [] = Inr layer"
      and "tl_Close lib layer = None" and "tf_Open tf w = (Return (), w)"
proof -
  obtain r where r: "tf_Open tf w = (r, w)" using open_file(1) by (cases "tf_Open tf w") simp
  then show thesis
    using that open_file(2,3)
    by (cases r; cases "tl_Gunzip lib body"; fastforce simp: stage_layer_def Let_def go_simps split: sum.splits option.splits)
qed

end

text \<open>A call that fails or returns and leaves the stores alone.\<close>

definition quiet :: "('w, unit) go \<Rightarrow> bool" where
  "quiet f \<longleftrightarrow> (\<forall>w. f w = (Return (), w) \<or> (\<exists>e. f w = (Error e, w)))"

lemma quiet_defer: "quiet f \<Longrightarrow> go_defer m f w = m w"
  by (auto simp: go_defer_def quiet_def split: prod.split) (metis snd_conv)

lemma copy_layer_ok: "\<forall>h \<in> set hdrs. te_Error h = None \<Longrightarrow> copy_layer hdrs None acc = Inr (acc @ map relocate hdrs)"
  by (induction hdrs arbitrary: acc) simp_all

context registry_stores
begin

lemma serve_stage:
  fixes lib hdrs
  defines "tar \<equiv> tl_Pack lib (map relocate hdrs)"
  assumes "inv w" and "g \<noteq> ''''" and "tl_Gunzip lib body = Inr archive" and "tl_Entries lib archive = (hdrs, None)"
    and "\<forall>h \<in> set hdrs. te_Error h = None" and "tl_Close lib (map relocate hdrs) = None"
    and "tf_Create tf w = (Return (), w)" and "tf_Open tf w = (Return (), w)" and "quiet (tf_Remove tf)"
  shows "\<exists>w'. Stager_ServeHTTP texts lib tf \<lparr>ls_blobs = bs, ls_droplets = ds\<rparr> rw g body w
      = (Return (Write (''sha256:'' @ sha256 tar) (WriteHeader StatusCreated rw)), w')
    \<and> inv w' \<and> content w' = (content w)(''sha256:'' @ sha256 tar \<mapsto> tar, g \<mapsto> '''')
    \<and> refs w' = (refs w)(g \<mapsto> \<lparr>br_Digest = ''sha256:'' @ sha256 tar, br_Size = of_nat (length tar)\<rparr>)"
proof -
  have "copy_layer (fst (tl_Entries lib archive)) (snd (tl_Entries lib archive)) [] = Inr (map relocate hdrs)"
    using assms(5,6) by (simp add: copy_layer_ok)
  then obtain w' where "stage_layer texts lib tf \<lparr>ls_blobs = bs, ls_droplets = ds\<rparr> rw g body w
      = (Return (Write (''sha256:'' @ sha256 tar) (WriteHeader StatusCreated rw)), w')"
    "inv w'" "content w' = (content w)(''sha256:'' @ sha256 tar \<mapsto> tar, g \<mapsto> '''')"
    "refs w' = (refs w)(g \<mapsto> \<lparr>br_Digest = ''sha256:'' @ sha256 tar, br_Size = of_nat (length tar)\<rparr>)"
    using store_layer [OF assms(2,4) _ assms(7,9)] unfolding tar_def by metis
  then show ?thesis
    using assms(3,8) by (simp add: Stager_ServeHTTP_def go_simps quiet_defer [OF assms(10)])
qed

text \<open>Every request keeps the invariant, whatever the archive and the file do.\<close>

lemma resolved_stage:
  assumes "inv w" and "resolved w" and "quiet (tf_Create tf)" and "quiet (tf_Open tf)" and "quiet (tf_Remove tf)"
  shows "\<exists>rw' w'. Stager_ServeHTTP texts lib tf \<lparr>ls_blobs = bs, ls_droplets = ds\<rparr> rw g body w = (Return rw', w') \<and> inv w' \<and> resolved w'"
proof (cases "g = '''' \<or> (\<exists>e. tf_Create tf w = (Error e, w))")
  case True
  then show ?thesis using assms by (auto simp: Stager_ServeHTTP_def go_simps)
next
  case False
  have quiet_open: "snd (tf_Open tf w) = w" "\<And>e. fst (tf_Open tf w) \<noteq> Panic e" "fst (tf_Open tf w) \<noteq> Blocked"
    using assms(4) unfolding quiet_def by (metis fst_conv snd_conv outcome.distinct)+
  have "\<exists>rw' w'. stage_layer texts lib tf \<lparr>ls_blobs = bs, ls_droplets = ds\<rparr> rw g body w = (Return rw', w') \<and> inv w' \<and> resolved w'"
    using assms(1) quiet_open
  proof (cases rule: stage_layer_cases [where texts = texts and lib = lib and rw = rw and g = g and body = body])
    case (stored archive layer)
    then show ?thesis
      using store_layer [OF assms(1) stored, of texts rw g] assms(2) by (fastforce simp: resolved_def split: if_splits)
  qed (use assms in auto)
  moreover have "tf_Create tf w = (Return (), w)" using False assms(3) by (auto simp: quiet_def)
  ultimately show ?thesis
    using False by (auto simp: Stager_ServeHTTP_def go_simps quiet_defer [OF assms(5)])
qed

lemma resolved_manifest:
  "inv w \<Longrightarrow> resolved w \<Longrightarrow> ManifestHandler_ServeHTTP \<lparr>mh_Rootfs = rootfs, mh_DropletStore = ds, mh_BlobStore = bs\<rparr> rw g w = (r, w')
    \<Longrightarrow> inv w' \<and> resolved w'"
  using serve_manifest [of w g _ rootfs rw] unknown_manifest [of w g rootfs rw]
  by (cases "refs w g") (fastforce simp: resolved_def)+

lemma resolved_blob:
  "inv w \<Longrightarrow> resolved w \<Longrightarrow> BlobHandler_ServeHTTP \<lparr>bh_blobs = bs\<rparr> rw d w = (r, w') \<Longrightarrow> inv w' \<and> resolved w'"
  using serve_blob [of w d _ rw] serve_missing [of w d rw]
  by (cases "content w d") (fastforce simp: resolved_def)+

lemma resolved_request:
  assumes "inv w" and "resolved w" and "quiet (tf_Create tf)" and "quiet (tf_Open tf)" and "quiet (tf_Remove tf)"
    and "snd (other_handler w) = w"
  shows "inv (snd (Registry_NewHandler texts lib tf rootfs ds bs other_handler verb path query body w))
    \<and> resolved (snd (Registry_NewHandler texts lib tf rootfs ds bs other_handler verb path query body w))"
proof -
  define keeps where "keeps m \<longleftrightarrow> inv (snd (m w)) \<and> resolved (snd (m w))" for m :: "('a, ResponseWriter) go"
  have "keeps (Stager_ServeHTTP texts lib tf \<lparr>ls_blobs = bs, ls_droplets = ds\<rparr> new_writer query body)"
    using resolved_stage [OF assms(1-5), of texts lib new_writer query body] by (auto simp: keeps_def)
  moreover have "keeps (ManifestHandler_ServeHTTP \<lparr>mh_Rootfs = rootfs, mh_DropletStore = ds, mh_BlobStore = bs\<rparr> new_writer x)"
    "keeps (BlobHandler_ServeHTTP \<lparr>bh_blobs = bs\<rparr> new_writer x)" for x
    using resolved_manifest [OF assms(1,2) surjective_pairing] resolved_blob [OF assms(1,2) surjective_pairing] by (simp_all add: keeps_def)
  moreover have "keeps other_handler" "keeps (Ping new_writer)"
    using assms(1,2,6) by (simp_all add: keeps_def Ping_def)
  ultimately have "keeps (Registry_NewHandler texts lib tf rootfs ds bs other_handler verb path query body)"
    by (simp add: Registry_NewHandler_def split: list.split)
  then show ?thesis by (simp add: keeps_def)
qed

end

section \<open>The registry on the stores in memory\<close>

definition droplet_refs :: "'m registry_world_scheme \<Rightarrow> string \<Rightarrow> BlobRef option" where
  "droplet_refs w = map_of (rg_droplets w)"

interpretation mem: registry_stores "in_memory_store sha256" sha256 blob_content blob_world.more blob_inv in_memory_droplets droplet_refs
proof unfold_locales
  fix w w' :: "'a registry_world_scheme" and g b
  show "dr_Get in_memory_droplets g w = (Return (droplet_refs w g), w)"
    by (simp add: in_memory_droplets_def InMemoryDropletStore_Get_def droplet_refs_def)
  assume "blob_world.more w' = blob_world.more w"
  then show "droplet_refs w' = droplet_refs w" by (cases w; cases w') (simp add: droplet_refs_def)
next
  fix w :: "'a registry_world_scheme" and g b
  assume inv: "blob_inv w"
  let ?w = "w\<lparr>rg_droplets := AList.update g b (rg_droplets w)\<rparr>"
  have "blob_inv ?w" "blob_content ?w = blob_content w"
    using inv by (simp_all add: blob_inv_def blob_content_def fun_eq_iff)
  then show "\<exists>w'. dr_Set in_memory_droplets g b w = (Return (), w') \<and> blob_inv w' \<and> blob_content w' = blob_content w
      \<and> droplet_refs w' = (droplet_refs w)(g \<mapsto> b)"
    by (intro exI [of _ ?w]) (simp add: in_memory_droplets_def InMemoryDropletStore_Set_def droplet_refs_def update_conv')
qed

abbreviation mem_registry ::
  "(string \<Rightarrow> string) \<Rightarrow> (go_error \<Rightarrow> string) \<Rightarrow> tar_library \<Rightarrow> 'm registry_world_scheme temp_file \<Rightarrow> BlobRef
     \<Rightarrow> ('m registry_world_scheme, ResponseWriter) go \<Rightarrow> string \<Rightarrow> string list \<Rightarrow> string \<Rightarrow> string
     \<Rightarrow> ('m registry_world_scheme, ResponseWriter) go" where
  "mem_registry sha256 texts lib tf rootfs \<equiv> Registry_NewHandler texts lib tf rootfs in_memory_droplets (in_memory_store sha256)"

lemma registry_routes:
  assumes "space \<noteq> ''''" and "app \<noteq> ''''" and "x \<noteq> ''''"
  shows "Registry_NewHandler texts lib tf rootfs ds bs other ''POST'' [''v2'', space, app, ''blobs'', ''''] g body
      = Stager_ServeHTTP texts lib tf \<lparr>ls_blobs = bs, ls_droplets = ds\<rparr> new_writer g body"
    and "Registry_NewHandler texts lib tf rootfs ds bs other ''GET'' [''v2'', space, app, ''blobs'', x] q body
      = BlobHandler_ServeHTTP \<lparr>bh_blobs = bs\<rparr> new_writer x"
    and "Registry_NewHandler texts lib tf rootfs ds bs other m [''v2'', space, app, ''manifests'', x] q body
      = ManifestHandler_ServeHTTP \<lparr>mh_Rootfs = rootfs, mh_DropletStore = ds, mh_BlobStore = bs\<rparr> new_writer x"
  using assms by (simp_all add: Registry_NewHandler_def)

text \<open>A small world for the witnesses: archives are names in a row, and a digest is the text itself.\<close>

definition sample_tar :: tar_library where
  "sample_tar = \<lparr>tl_Gunzip = Inr, tl_Entries = (\<lambda>a. ([\<lparr>te_Name = a, te_Content = ''x'', te_Error = None\<rparr>], None)),
     tl_Pack = (\<lambda>es. concat (map te_Name es)), tl_Close = (\<lambda>_. None)\<rparr>"

definition no_file :: "'w temp_file" where
  "no_file = \<lparr>tf_Create = go_return (), tf_Open = go_return (), tf_Remove = go_return ()\<rparr>"

definition empty_registry :: registry_world where
  "empty_registry = \<lparr>bw_heap = [], bw_data = NewInMemoryStore, rg_droplets = []\<rparr>"

definition sample_rootfs :: BlobRef where
  "sample_rootfs = \<lparr>br_Digest = ''sha256:rootfs'', br_Size = 7\<rparr>"

lemma no_file_quiet [simp]: "quiet (tf_Create no_file)" "quiet (tf_Open no_file)" "quiet (tf_Remove no_file)"
  by (simp_all add: quiet_def no_file_def)

lemma empty_registry_inv [simp]: "blob_inv empty_registry" "droplet_refs empty_registry = Map.empty" "blob_content empty_registry = Map.empty"
  by (simp_all add: blob_inv_def empty_registry_def droplet_refs_def blob_content_def fun_eq_iff)

section \<open>Properties\<close>

text \<open>
  C14. A droplet that is posted can be run: the answer is 201 with the digest of the layer whose files are below the
  home directory; the manifest of its GUID lists the root file system and that layer with their sizes, and
  its configuration; the layer and the configuration are served under the digests the manifest names.
\<close>

theorem staged_droplet_is_served:
  fixes lib hdrs rootfs sha256
  defines "tar \<equiv> tl_Pack lib (map relocate hdrs)"
  defines "digest \<equiv> ''sha256:'' @ sha256 tar"
  defines "ref \<equiv> \<lparr>br_Digest = digest, br_Size = of_nat (length tar)\<rparr>"
  defines "config \<equiv> print_json (config_json rootfs ref)"
  assumes "blob_inv w" and "g \<noteq> ''''" and "tl_Gunzip lib body = Inr archive" and "tl_Entries lib archive = (hdrs, None)"
    and "\<forall>h \<in> set hdrs. te_Error h = None" and "tl_Close lib (map relocate hdrs) = None"
    and "tf_Create tf w = (Return (), w)" and "tf_Open tf w = (Return (), w)" and "quiet (tf_Remove tf)"
    and "g \<noteq> digest" and "sha256 config \<noteq> sha256 tar" and "space \<noteq> ''''" and "app \<noteq> ''''"
  shows "\<exists>w1 w2 w3 w4 rw1 rw2 rw3 rw4.
      mem_registry sha256 texts lib tf rootfs other ''POST'' [''v2'', space, app, ''blobs'', ''''] g body w = (Return rw1, w1)
    \<and> status_of rw1 = StatusCreated \<and> rw_Body rw1 = digest
    \<and> mem_registry sha256 texts lib tf rootfs other ''GET'' [''v2'', space, app, ''manifests'', g] q '''' w1 = (Return rw2, w2)
    \<and> status_of rw2 = StatusOK
    \<and> rw_Body rw2 = print_json (manifest_json rootfs ref (''sha256:'' @ sha256 config) (of_nat (length config))) @ [CHR 0x0A]
    \<and> mem_registry sha256 texts lib tf rootfs other ''GET'' [''v2'', space, app, ''blobs'', digest] q '''' w2 = (Return rw3, w3)
    \<and> status_of rw3 = StatusOK \<and> rw_Body rw3 = tar
    \<and> mem_registry sha256 texts lib tf rootfs other ''GET'' [''v2'', space, app, ''blobs'', ''sha256:'' @ sha256 config] q '''' w3 = (Return rw4, w4)
    \<and> status_of rw4 = StatusOK \<and> rw_Body rw4 = config"
proof -
  have slash: "digest \<noteq> ''''" by (simp add: digest_def)
  obtain w1 where w1: "Stager_ServeHTTP texts lib tf \<lparr>ls_blobs = in_memory_store sha256, ls_droplets = in_memory_droplets\<rparr> new_writer g body w
      = (Return (Write digest (WriteHeader StatusCreated new_writer)), w1)" "blob_inv w1"
    "blob_content w1 = (blob_content w)(digest \<mapsto> tar, g \<mapsto> '''')" "droplet_refs w1 = (droplet_refs w)(g \<mapsto> ref)"
    using mem.serve_stage [OF assms(5-13)] unfolding tar_def digest_def ref_def by blast
  then have "droplet_refs w1 g = Some ref" by simp
  then obtain w2 where w2: "ManifestHandler_ServeHTTP \<lparr>mh_Rootfs = rootfs, mh_DropletStore = in_memory_droplets, mh_BlobStore = in_memory_store sha256\<rparr> new_writer g w1
      = (Return (Write (print_json (manifest_json rootfs ref (''sha256:'' @ sha256 config) (of_nat (length config))) @ [CHR 0x0A])
          (Header_Set ''Content-Type'' ''application/vnd.docker.distribution.manifest.v2+json'' new_writer)), w2)" "blob_inv w2"
    "blob_content w2 = (blob_content w1)(''sha256:'' @ sha256 config \<mapsto> config)"
    using mem.serve_manifest [OF w1(2), of g ref rootfs sha256 new_writer] unfolding config_def by blast
  have "blob_content w2 digest = Some tar" using w1(3) w2(3) assms(14,15) by (simp add: digest_def)
  then obtain w3 where w3: "BlobHandler_ServeHTTP \<lparr>bh_blobs = in_memory_store sha256\<rparr> new_writer digest w2 = (Return (Write tar new_writer), w3)"
    "blob_inv w3" "blob_content w3 = (blob_content w2)(digest \<mapsto> '''')"
    using mem.serve_blob [OF w2(2)] by blast
  have "blob_content w3 (''sha256:'' @ sha256 config) = Some config" using w2(3) w3(3) assms(15) by (simp add: digest_def)
  then obtain w4 where "BlobHandler_ServeHTTP \<lparr>bh_blobs = in_memory_store sha256\<rparr> new_writer (''sha256:'' @ sha256 config) w3
      = (Return (Write config new_writer), w4)"
    using mem.serve_blob [OF w3(2)] by blast
  with w1(1) w2(1) w3(1) show ?thesis
    using assms(6,16,17) slash by (simp add: registry_routes)
qed

lemma sample_digests: "print_json (config_json r ref) \<noteq> ''/home/vcap/app''"
  by (simp add: config_json_def)

theorem staged_droplet_is_served_witness:
  "\<exists>w1 w2 rw1 rw2. mem_registry (\<lambda>s. s) (\<lambda>_. '''') sample_tar no_file sample_rootfs (go_return new_writer)
      ''POST'' [''v2'', ''space'', ''app'', ''blobs'', ''''] ''guid'' ''app'' empty_registry = (Return rw1, w1)
    \<and> rw_Body rw1 = ''sha256:/home/vcap/app''
    \<and> mem_registry (\<lambda>s. s) (\<lambda>_. '''') sample_tar no_file sample_rootfs (go_return new_writer)
      ''GET'' [''v2'', ''space'', ''app'', ''manifests'', ''guid''] '''' '''' w1 = (Return rw2, w2) \<and> status_of rw2 = StatusOK"
proof -
  have name: "Join [''/home/vcap'', ''app''] = ''/home/vcap/app''" by code_simp
  show ?thesis
    using staged_droplet_is_served [of empty_registry "''guid''" sample_tar "''app''" "''app''"
        "[\<lparr>te_Name = ''app'', te_Content = ''x'', te_Error = None\<rparr>]" no_file "\<lambda>s. s" sample_rootfs "''space''" "''app''" "\<lambda>_. ''''"
        "go_return new_writer" "''''"] sample_digests
    by (auto simp: sample_tar_def no_file_def quiet_def relocate_def name simp del: Join.simps)
qed

text \<open>
  C24. No request leaves a droplet whose reference names no blob: the invariant of the store and the resolution of all
  references survive every request, to every path, of every method, with every archive, however the
  temporary file fails.
\<close>

theorem references_resolve:
  assumes "blob_inv w" and "\<forall>g b. droplet_refs w g = Some b \<longrightarrow> blob_content w (br_Digest b) \<noteq> None"
    and "quiet (tf_Create tf)" and "quiet (tf_Open tf)" and "quiet (tf_Remove tf)" and "snd (other w) = w"
    and "mem_registry sha256 texts lib tf rootfs other verb path query body w = (r, w')"
  shows "blob_inv w' \<and> (\<forall>g b. droplet_refs w' g = Some b \<longrightarrow> blob_content w' (br_Digest b) \<noteq> None)"
proof -
  have "mem.resolved w" using assms(2) by (simp add: mem.resolved_def)
  from mem.resolved_request [where verb = verb and path = path and other_handler = other, OF assms(1) this assms(3-6)] show ?thesis
    using assms(7) by (metis mem.resolved_def snd_conv)
qed

theorem references_resolve_witness:
  "blob_inv (snd (mem_registry (\<lambda>s. s) (\<lambda>_. '''') sample_tar no_file sample_rootfs (go_return new_writer)
      ''POST'' [''v2'', ''space'', ''app'', ''blobs'', ''''] ''guid'' ''app'' empty_registry))"
  using references_resolve [of empty_registry no_file "go_return new_writer", OF _ _ _ _ _ _ surjective_pairing] by simp

text \<open>
  C37. Reading a blob empties it: the first request for a digest is answered with the content, every later one with
  an empty body and the same status 200.
\<close>

theorem blob_is_served_once:
  assumes "blob_inv w" and "blob_content w d = Some c" and "d \<noteq> ''''" and "space \<noteq> ''''" and "app \<noteq> ''''"
  shows "\<exists>w1 w2 rw1 rw2. mem_registry sha256 texts lib tf rootfs other ''GET'' [''v2'', space, app, ''blobs'', d] q '''' w = (Return rw1, w1)
    \<and> mem_registry sha256 texts lib tf rootfs other ''GET'' [''v2'', space, app, ''blobs'', d] q '''' w1 = (Return rw2, w2)
    \<and> rw_Body rw1 = c \<and> rw_Body rw2 = '''' \<and> status_of rw1 = StatusOK \<and> status_of rw2 = StatusOK
    \<and> blob_content w2 d = Some ''''"
proof -
  obtain w1 where w1: "BlobHandler_ServeHTTP \<lparr>bh_blobs = in_memory_store sha256\<rparr> new_writer d w = (Return (Write c new_writer), w1)"
    "blob_inv w1" "blob_content w1 d = Some ''''"
    using mem.serve_blob [OF assms(1,2)] by (metis fun_upd_same)
  obtain w2 where "BlobHandler_ServeHTTP \<lparr>bh_blobs = in_memory_store sha256\<rparr> new_writer d w1 = (Return (Write '''' new_writer), w2)"
    "blob_content w2 d = Some ''''"
    using mem.serve_blob [OF w1(2,3)] by (metis fun_upd_same)
  with w1(1) show ?thesis using assms(3-5) by (simp add: registry_routes)
qed

definition one_blob :: registry_world where
  "one_blob = \<lparr>bw_heap = [''data''], bw_data = [(''d'', 0)], rg_droplets = []\<rparr>"

theorem blob_is_served_once_witness:
  "\<exists>w1 w2 rw1 rw2. mem_registry (\<lambda>s. s) (\<lambda>_. '''') sample_tar no_file sample_rootfs (go_return new_writer)
      ''GET'' [''v2'', ''space'', ''app'', ''blobs'', ''d''] '''' '''' one_blob = (Return rw1, w1)
    \<and> mem_registry (\<lambda>s. s) (\<lambda>_. '''') sample_tar no_file sample_rootfs (go_return new_writer)
      ''GET'' [''v2'', ''space'', ''app'', ''blobs'', ''d''] '''' '''' w1 = (Return rw2, w2)
    \<and> rw_Body rw1 = ''data'' \<and> rw_Body rw2 = ''''"
  using blob_is_served_once [of one_blob "''d''" "''data''" "''space''" "''app''"]
  by (simp add: one_blob_def blob_inv_def blob_content_def) metis

text \<open>
  Requests for what is not there panic instead of ending in 404: a digest the store does not hold, although the
  handler has found that out, and the manifest of a droplet that has not been posted. Neither changes
  the stores.
\<close>

theorem unknown_requests_panic:
  assumes "blob_inv w" and "x \<noteq> ''''" and "space \<noteq> ''''" and "app \<noteq> ''''"
  shows "(blob_content w x = None \<longrightarrow>
      mem_registry sha256 texts lib tf rootfs other ''GET'' [''v2'', space, app, ''blobs'', x] q body w
        = (Panic ''invalid memory address or nil pointer dereference'', w))
    \<and> (droplet_refs w x = None \<longrightarrow>
      mem_registry sha256 texts lib tf rootfs other method [''v2'', space, app, ''manifests'', x] q body w
        = (Panic ''invalid memory address or nil pointer dereference'', w))"
  using mem.serve_missing [OF assms(1)] mem.unknown_manifest [OF assms(1)] assms(2-4) by (simp add: registry_routes)

theorem unknown_requests_panic_witness:
  "fst (mem_registry (\<lambda>s. s) (\<lambda>_. '''') sample_tar no_file sample_rootfs (go_return new_writer)
      ''GET'' [''v2'', ''space'', ''app'', ''blobs'', ''d''] '''' '''' empty_registry)
   = Panic ''invalid memory address or nil pointer dereference''"
  using unknown_requests_panic [of empty_registry "''d''" "''space''" "''app''"] by simp

text \<open>
  The layer is rooted at the home directory: a file whose name in the droplet never climbs above where it started
  ends below \<^verbatim>\<open>/home/vcap\<close>, at the cleaned name, with the same content.
\<close>

theorem relocated_below_home:
  assumes "inside 0 (segments (te_Name hdr))"
  shows "te_Name (relocate hdr) = abs_path ([''home'', ''vcap''] @ clean_segments True (segments (te_Name hdr)) [])
    \<and> te_Content (relocate hdr) = te_Content hdr"
proof -
  have "abs_path [''home'', ''vcap''] = ''/home/vcap''" by (simp add: abs_path_def)
  then show ?thesis
    using Join_inside [of "[''home'', ''vcap'']" "te_Name hdr"] assms by (simp add: relocate_def plain_segment_def del: Join.simps)
qed

theorem relocated_below_home_witness:
  "te_Name (relocate \<lparr>te_Name = ''./app/../run.sh'', te_Content = ''x'', te_Error = None\<rparr>) = ''/home/vcap/run.sh''"
proof -
  have "inside 0 (segments ''./app/../run.sh'')" "clean_segments True (segments ''./app/../run.sh'') [] = [''run.sh'']" by code_simp+
  then show ?thesis
    using relocated_below_home [of "\<lparr>te_Name = ''./app/../run.sh'', te_Content = ''x'', te_Error = None\<rparr>"] by (simp add: abs_path_def)
qed

end
