(* ===== verification/World_Parts.thy ===== *)
theory World_Parts
  imports Prelude
begin

text \<open>
  Parts of a world. The components of the program are modelled each over the world it touches: the objects of
  a cluster, the files of a container, the recorded calls of a test double. When components are put together
  the world holds all of these, and each component runs in its own part: \<open>zoom\<close> runs a computation of a part
  in the whole. The locale \<open>world_part\<close> states when a getter and an updater pick out a part; in it, running in
  a part commutes with the control flow of Go, so a component behaves in the whole as it does alone.
\<close>

named_theorems zoom_simps \<open>rules that move a part of the world through the control flow\<close>

definition zoom :: "('w \<Rightarrow> 'p) \<Rightarrow> (('p \<Rightarrow> 'p) \<Rightarrow> 'w \<Rightarrow> 'w) \<Rightarrow> ('p, 'a) go \<Rightarrow> ('w, 'a) go" where
  "zoom get upd m w = (case m (get w) of (r, p) \<Rightarrow> (r, upd (\<lambda>_. p) w))"

definition zoom_chan :: "(('p \<Rightarrow> 'p) \<Rightarrow> 'w \<Rightarrow> 'w) \<Rightarrow> ('m, 'p) chan \<Rightarrow> ('m, 'w) chan" where
  "zoom_chan upd ch = (case ch of NilChan \<Rightarrow> NilChan | Chan deliver \<Rightarrow> Chan (\<lambda>m. upd (deliver m)))"

lemma zoom_run [go_simps]: "m (get w) = (r, p) \<Longrightarrow> zoom get upd m w = (r, upd (\<lambda>_. p) w)"
  by (simp add: zoom_def)

lemma fst_zoom [simp]: "fst (zoom get upd m w) = fst (m (get w))"
  and snd_zoom [simp]: "snd (zoom get upd m w) = upd (\<lambda>_. snd (m (get w))) w"
  by (simp_all add: zoom_def split: prod.split)

locale world_part =
  fixes get :: "'w \<Rightarrow> 'p" and upd :: "('p \<Rightarrow> 'p) \<Rightarrow> 'w \<Rightarrow> 'w"
  assumes get_upd [simp]: "get (upd f w) = f (get w)"
    and upd_get [simp]: "upd (\<lambda>_. get w) w = w"
    and upd_upd [simp]: "upd f (upd g w) = upd (\<lambda>p. f (g p)) w"
begin

lemma upd_const: "upd (\<lambda>_. f (get w)) w = upd f w"
  using upd_upd [of f "\<lambda>_. get w" w] by simp

lemma zoom_return [zoom_simps]: "zoom get upd (go_return a) = go_return a"
  and zoom_throw [zoom_simps]: "zoom get upd (go_throw e) = go_throw e"
  and zoom_panic [zoom_simps]: "zoom get upd (go_panic msg) = go_panic msg"
  by (rule ext, simp add: zoom_def)+

lemma zoom_lift [zoom_simps]: "zoom get upd (go_lift r) = go_lift r"
  by (rule ext) (cases r; simp add: zoom_def)

lemma zoom_deref [zoom_simps]: "zoom get upd (deref p) = deref p"
  by (simp add: deref_def zoom_simps split: option.split)

lemma zoom_bind [zoom_simps]: "zoom get upd (go_bind m k) = go_bind (zoom get upd m) (\<lambda>a. zoom get upd (k a))"
  by (rule ext) (simp add: zoom_def go_bind_def split: prod.split outcome.split)

lemma zoom_try [zoom_simps]: "zoom get upd (go_try m) = go_try (zoom get upd m)"
  by (rule ext) (simp add: zoom_def go_try_def split: prod.split outcome.split)

lemma zoom_if [zoom_simps]: "zoom get upd (if c then m else m') = (if c then zoom get upd m else zoom get upd m')"
  by simp

lemma zoom_send [zoom_simps]: "zoom get upd (chan_send ch m) = chan_send (zoom_chan upd ch) m"
  by (rule ext) (cases ch; simp add: zoom_def zoom_chan_def upd_const)

end

text \<open>A part of a part.\<close>

lemma world_part_comp:
  assumes "world_part get upd" and "world_part get' upd'"
  shows "world_part (\<lambda>w. get' (get w)) (\<lambda>f. upd (upd' f))"
  using assms by (simp add: world_part_def) (metis assms(1) world_part.upd_const)

end
