(* ===== verification/Counterfeiter.thy ===== *)
theory Counterfeiter
  imports World_Parts
begin

text \<open>
  The test doubles that counterfeiter generates for the interfaces of the program, in general. A double keeps, for
  every method of the interface, an optional stub, the arguments of the calls so far, the results it was told to
  give, for all calls and for single ones, and for the whole double a map of all invocations by method name.

  \<open>fake_method\<close> groups the four fields a method has in the generated struct; \<open>spy_call\<close> is the body of a generated
  method. A stub is a function of its arguments; the results of a method are the struct the generated code stores, with the error
  as an optional value. Indices are integers, since the generated code takes an \<^verbatim>\<open>int\<close> and a negative one panics.
  The mutexes guard the fields of the double only: a call is one step.

  The locale \<open>spy_method\<close> is the interface between a method and the struct it is part of. In it: what a double
  answers to a sequence of calls, as a function of what it was told, and that the two records it keeps of its calls agree.
\<close>

section \<open>A method of a double\<close>

record ('a, 'r) fake_method =
  fm_Stub :: "('a \<Rightarrow> 'r) option"
  fm_ArgsForCall :: "'a list"
  fm_Returns :: 'r
  fm_ReturnsOnCall :: "int \<rightharpoonup> 'r"

text \<open>The fields of a method in a new struct, with the zero value of its results.\<close>

definition new_method :: "'r \<Rightarrow> ('a, 'r) fake_method" where
  "new_method zero = \<lparr>fm_Stub = None, fm_ArgsForCall = [], fm_Returns = zero, fm_ReturnsOnCall = Map.empty\<rparr>"

text \<open>What the next call answers: the stub if there is one, or the result set for this call, or the one for all calls.\<close>

definition answer :: "('a, 'r) fake_method \<Rightarrow> 'r option \<Rightarrow> 'a \<Rightarrow> 'r" where
  "answer m ret args = (case fm_Stub m of
      Some stub \<Rightarrow> stub args
    | None \<Rightarrow> (case ret of Some r \<Rightarrow> r | None \<Rightarrow> fm_Returns m))"

definition spy_call :: "('f \<Rightarrow> ('a, 'r) fake_method) \<Rightarrow> ((('a, 'r) fake_method \<Rightarrow> ('a, 'r) fake_method) \<Rightarrow> 'f \<Rightarrow> 'f)
    \<Rightarrow> (string \<Rightarrow> 'i list \<Rightarrow> 'f \<Rightarrow> 'f) \<Rightarrow> string \<Rightarrow> 'i list \<Rightarrow> 'a \<Rightarrow> ('f, 'r) go" where
  "spy_call part part_update recordInvocation key vals args fake =
     (let ret = fm_ReturnsOnCall (part fake) (int (length (fm_ArgsForCall (part fake))));
          fake = part_update (\<lambda>m. m\<lparr>fm_ArgsForCall := fm_ArgsForCall m @ [args]\<rparr>) fake;
          fake = recordInvocation key vals fake
      in (Return (answer (part fake) ret args), fake))"

definition method_CallCount :: "('a, 'r) fake_method \<Rightarrow> int" where
  "method_CallCount m = int (length (fm_ArgsForCall m))"

definition method_ArgsForCall :: "int \<Rightarrow> ('a, 'r) fake_method \<Rightarrow> 'a outcome" where
  "method_ArgsForCall i m = (if 0 \<le> i \<and> i < int (length (fm_ArgsForCall m))
     then Return (fm_ArgsForCall m ! nat i) else Panic ''index out of range'')"

definition method_Returns :: "'r \<Rightarrow> ('a, 'r) fake_method \<Rightarrow> ('a, 'r) fake_method" where
  "method_Returns results m = m\<lparr>fm_Stub := None, fm_Returns := results\<rparr>"

definition method_ReturnsOnCall :: "int \<Rightarrow> 'r \<Rightarrow> ('a, 'r) fake_method \<Rightarrow> ('a, 'r) fake_method" where
  "method_ReturnsOnCall i results m =
     m\<lparr>fm_Stub := None, fm_ReturnsOnCall := (fm_ReturnsOnCall m)(i \<mapsto> results)\<rparr>"

text \<open>How Go's callers read the results: an error alone, or a value with an error.\<close>

definition only_error :: "go_error option \<Rightarrow> ('w, unit) go" where
  "only_error err = (case err of None \<Rightarrow> go_return () | Some e \<Rightarrow> go_throw e)"

definition with_error :: "'r \<times> go_error option \<Rightarrow> ('w, 'r) go" where
  "with_error res = (case snd res of None \<Rightarrow> go_return (fst res) | Some e \<Rightarrow> go_throw e)"

section \<open>The invocations of a double\<close>

record 'i invocation_log =
  invocations :: "string \<rightharpoonup> 'i list list"

text \<open>A key that is absent, or a map that is nil, counts as no invocations.\<close>

definition invocations_of :: "(string \<rightharpoonup> 'i list list) \<Rightarrow> string \<Rightarrow> 'i list list" where
  "invocations_of invs key = (case invs key of None \<Rightarrow> [] | Some is \<Rightarrow> is)"

definition log_invocation :: "string \<Rightarrow> 'i list \<Rightarrow> ('i, 'm) invocation_log_scheme \<Rightarrow> ('i, 'm) invocation_log_scheme" where
  "log_invocation key args fake =
     fake\<lparr>invocations := (invocations fake)(key \<mapsto> invocations_of (invocations fake) key @ [args])\<rparr>"

definition copied_invocations :: "('i, 'm) invocation_log_scheme \<Rightarrow> (string \<rightharpoonup> 'i list list)" where
  "copied_invocations fake = invocations fake"

lemma only_error_run [simp, go_simps]:
  "only_error None w = (Return (), w)"
  "only_error (Some e) w = (Error e, w)"
  by (simp_all add: only_error_def)

lemma with_error_run [simp, go_simps]:
  "with_error (r, None) w = (Return r, w)"
  "with_error (r, Some e) w = (Error e, w)"
  by (simp_all add: with_error_def)

lemma settled_only_error [simp]: "settled (fst (only_error err w))"
  and settled_with_error [simp]: "settled (fst (with_error res w))"
  by (simp_all add: only_error_def with_error_def split: option.split)

lemma snd_only_error [simp]: "snd (only_error err w) = w"
  and snd_with_error [simp]: "snd (with_error res w) = w"
  by (simp_all add: only_error_def with_error_def split: option.split)

lemma invocations_of_simps [simp]:
  "invocations_of Map.empty k = []"
  "invocations_of (invs(k \<mapsto> is)) k' = (if k' = k then is else invocations_of invs k')"
  by (simp_all add: invocations_of_def)

lemma new_method_fields [simp]:
  "fm_Stub (new_method z) = None" "fm_ArgsForCall (new_method z) = []"
  "fm_Returns (new_method z) = z" "fm_ReturnsOnCall (new_method z) = Map.empty"
  by (simp_all add: new_method_def)

section \<open>A method in its struct\<close>

text \<open>The result of the call with index \<open>n\<close>, as a function of what the double was told.\<close>

definition scripted :: "('a, 'r) fake_method \<Rightarrow> nat \<Rightarrow> 'a \<Rightarrow> 'r" where
  "scripted m n args = answer m (fm_ReturnsOnCall m (int n)) args"

lemma scripted_after:
  "scripted (method_Returns r m) n args = (case fm_ReturnsOnCall m (int n) of Some r' \<Rightarrow> r' | None \<Rightarrow> r)"
  "scripted (method_ReturnsOnCall i r m) n args = (if int n = i then r else
     case fm_ReturnsOnCall m (int n) of Some r' \<Rightarrow> r' | None \<Rightarrow> fm_Returns m)"
  by (simp_all add: scripted_def answer_def method_Returns_def method_ReturnsOnCall_def split: option.split)

lemma scripted_log [simp]: "scripted (m\<lparr>fm_ArgsForCall := as\<rparr>) n args = scripted m n args"
  by (simp add: scripted_def answer_def split: option.split)

text \<open>The two records a double keeps of the calls of a method agree.\<close>

definition agree :: "(string \<rightharpoonup> 'i list list) \<Rightarrow> string \<Rightarrow> ('a \<Rightarrow> 'i list) \<Rightarrow> ('a, 'r) fake_method \<Rightarrow> bool" where
  "agree invs key vals m \<longleftrightarrow> invocations_of invs key = map vals (fm_ArgsForCall m)"

locale spy_method = world_part part part_update
  for part :: "'f \<Rightarrow> ('a, 'r) fake_method" and part_update :: "(('a, 'r) fake_method \<Rightarrow> ('a, 'r) fake_method) \<Rightarrow> 'f \<Rightarrow> 'f" +
  fixes record_inv :: "string \<Rightarrow> 'i list \<Rightarrow> 'f \<Rightarrow> 'f" and invs :: "'f \<Rightarrow> (string \<rightharpoonup> 'i list list)"
    and key :: string and vals :: "'a \<Rightarrow> 'i list"
  assumes part_record [simp]: "part (record_inv k is f) = part f"
    and inv_record [simp]: "invs (record_inv k is f) = (invs f)(k \<mapsto> invocations_of (invs f) k @ [is])"
    and inv_part [simp]: "invs (part_update g f) = invs f"
    and record_part: "record_inv k is (part_update g f) = part_update g (record_inv k is f)"
begin

abbreviation call :: "'a \<Rightarrow> ('f, 'r) go" where
  "call args \<equiv> spy_call part part_update record_inv key (vals args) args"

lemma call_run:
  "call args f = (Return (scripted (part f) (length (fm_ArgsForCall (part f))) args),
     record_inv key (vals args) (part_update (\<lambda>m. m\<lparr>fm_ArgsForCall := fm_ArgsForCall m @ [args]\<rparr>) f))"
  by (simp add: spy_call_def scripted_def answer_def Let_def split: option.split)

lemma call_counts: "method_CallCount (part (snd (call args f))) = method_CallCount (part f) + 1"
  by (simp add: call_run method_CallCount_def)

lemma call_remembers:
  "method_ArgsForCall (method_CallCount (part f)) (part (snd (call args f))) = Return args"
  by (simp add: call_run method_ArgsForCall_def method_CallCount_def nth_append)

lemma calls_keep_args:
  "method_ArgsForCall i (part f) = Return a \<Longrightarrow> method_ArgsForCall i (part (snd (call args f))) = Return a"
  by (auto simp: call_run method_ArgsForCall_def nth_append nat_less_iff split: if_splits)

text \<open>The answer of the double after it was told what to return.\<close>

lemma Returns_answers:
  assumes "fm_ReturnsOnCall (part f) (method_CallCount (part f)) = None"
  shows "fst (call args (part_update (method_Returns r) f)) = Return r"
  using assms by (simp add: call_run scripted_after method_CallCount_def) (simp add: method_Returns_def)

lemma ReturnsOnCall_answers:
  "fst (call args (part_update (method_ReturnsOnCall (method_CallCount (part f)) r) f)) = Return r"
  by (simp add: call_run scripted_after method_CallCount_def) (simp add: method_ReturnsOnCall_def)

abbreviation agrees :: "'f \<Rightarrow> bool" where
  "agrees f \<equiv> agree (invs f) key vals (part f)"

lemma agrees_call: "agrees f \<Longrightarrow> agrees (snd (call args f))"
  by (simp add: agree_def call_run)

lemma agrees_Returns: "agrees f \<Longrightarrow> agrees (part_update (method_Returns r) f)"
  and agrees_ReturnsOnCall: "agrees f \<Longrightarrow> agrees (part_update (method_ReturnsOnCall i r) f)"
  and agrees_Stub: "agrees f \<Longrightarrow> agrees (part_update (\<lambda>m. m\<lparr>fm_Stub := s\<rparr>) f)"
  by (simp_all add: agree_def method_Returns_def method_ReturnsOnCall_def)

end

end
