(* ===== verification/Interface_Values.thy ===== *)
theory Interface_Values
  imports Counterfeiter Bifrost Cc_Messages
begin

text \<open>
  The values the test doubles record as \<^verbatim>\<open>interface{}\<close>: one constructor for every type of argument of the doubled interfaces.
  Contexts are left out, here as everywhere in the model: the program only hands them on.
  A pointer that is recorded is the value it points to when the call is made.
\<close>

datatype interface_value =
    AnyString string
  | AnyBytes string
  | AnyStrings "string list"
  | AnyLRP LRP
  | AnyTask Task
  | AnyDesireLRPRequest DesireLRPRequest
  | AnyUpdateDesiredLRPRequest UpdateDesiredLRPRequest
  | AnyStagingRequestFromCC StagingRequestFromCC
  | AnyTaskCallbackResponse TaskCallbackResponse
  | AnyStagingResult StagingResult

end
