(* ===== verification/Route_Fakes.thy ===== *)
theory Route_Fakes
  imports Interface_Values Route_Emitter
begin

text \<open>
  The test doubles of the route emitter and the collector (\<^verbatim>\<open>route/routefakes\<close>): see \<open>Counterfeiter\<close>. The recording publisher
  satisfies the interface \<open>message_bus\<close> of the emitter whatever errors it is told to return.
\<close>

section \<open>\<^verbatim>\<open>route/routefakes/fake_publisher.go\<close>\<close>

record FakePublisher = "interface_value invocation_log" +
  fakePublisher_publish :: "(string \<times> string, go_error option) fake_method"

definition new_FakePublisher :: FakePublisher where
  "new_FakePublisher = \<lparr>invocations = Map.empty,
     fakePublisher_publish = new_method None\<rparr>"

definition FakePublisher_recordInvocation :: "string \<Rightarrow> interface_value list \<Rightarrow> FakePublisher \<Rightarrow> FakePublisher" where
  "FakePublisher_recordInvocation key args fake = log_invocation key args fake"

definition FakePublisher_Publish :: "string \<Rightarrow> string \<Rightarrow> (FakePublisher, unit) go" where
  "FakePublisher_Publish subj data =
     go_bind (spy_call fakePublisher_publish fakePublisher_publish_update FakePublisher_recordInvocation
         ''Publish'' [AnyString subj, AnyBytes data] (subj, data)) only_error"

definition FakePublisher_PublishCallCount :: "FakePublisher \<Rightarrow> int" where
  "FakePublisher_PublishCallCount fake = method_CallCount (fakePublisher_publish fake)"

definition FakePublisher_PublishArgsForCall :: "int \<Rightarrow> FakePublisher \<Rightarrow> (string \<times> string) outcome" where
  "FakePublisher_PublishArgsForCall i fake = method_ArgsForCall i (fakePublisher_publish fake)"

definition FakePublisher_PublishReturns :: "go_error option \<Rightarrow> FakePublisher \<Rightarrow> FakePublisher" where
  "FakePublisher_PublishReturns result1 fake = fakePublisher_publish_update (method_Returns result1) fake"

definition FakePublisher_PublishReturnsOnCall :: "int \<Rightarrow> go_error option \<Rightarrow> FakePublisher \<Rightarrow> FakePublisher" where
  "FakePublisher_PublishReturnsOnCall i result1 fake = fakePublisher_publish_update (method_ReturnsOnCall i result1) fake"

definition FakePublisher_Invocations :: "FakePublisher \<Rightarrow> (string \<rightharpoonup> interface_value list list)" where
  "FakePublisher_Invocations fake = copied_invocations fake"

definition fake_publisher :: "FakePublisher Publisher" where
  "fake_publisher = \<lparr>pub_Publish = FakePublisher_Publish\<rparr>"

text \<open>Every method is a part of the double.\<close>

interpretation publisher_Publish: spy_method fakePublisher_publish fakePublisher_publish_update FakePublisher_recordInvocation invocations
    "''Publish''" "\<lambda>(subj, data). [AnyString subj, AnyBytes data]"
  by unfold_locales (auto simp: FakePublisher_recordInvocation_def log_invocation_def)

section \<open>\<^verbatim>\<open>route/routefakes/fake_lister.go\<close>\<close>

record FakeLister = "interface_value invocation_log" +
  fakeLister_listRoutes :: "(unit, Routes list \<times> go_error option) fake_method"

definition new_FakeLister :: FakeLister where
  "new_FakeLister = \<lparr>invocations = Map.empty,
     fakeLister_listRoutes = new_method ([], None)\<rparr>"

definition FakeLister_recordInvocation :: "string \<Rightarrow> interface_value list \<Rightarrow> FakeLister \<Rightarrow> FakeLister" where
  "FakeLister_recordInvocation key args fake = log_invocation key args fake"

definition FakeLister_ListRoutes :: "(FakeLister, Routes list) go" where
  "FakeLister_ListRoutes =
     go_bind (spy_call fakeLister_listRoutes fakeLister_listRoutes_update FakeLister_recordInvocation
         ''ListRoutes'' [] ()) with_error"

definition FakeLister_ListRoutesCallCount :: "FakeLister \<Rightarrow> int" where
  "FakeLister_ListRoutesCallCount fake = method_CallCount (fakeLister_listRoutes fake)"

definition FakeLister_ListRoutesReturns :: "Routes list \<Rightarrow> go_error option \<Rightarrow> FakeLister \<Rightarrow> FakeLister" where
  "FakeLister_ListRoutesReturns result1 result2 fake = fakeLister_listRoutes_update (method_Returns (result1, result2)) fake"

definition FakeLister_ListRoutesReturnsOnCall :: "int \<Rightarrow> Routes list \<Rightarrow> go_error option \<Rightarrow> FakeLister \<Rightarrow> FakeLister" where
  "FakeLister_ListRoutesReturnsOnCall i result1 result2 fake = fakeLister_listRoutes_update (method_ReturnsOnCall i (result1, result2)) fake"

definition FakeLister_Invocations :: "FakeLister \<Rightarrow> (string \<rightharpoonup> interface_value list list)" where
  "FakeLister_Invocations fake = copied_invocations fake"

definition fake_lister :: "FakeLister Lister" where
  "fake_lister = \<lparr>li_ListRoutes = FakeLister_ListRoutes\<rparr>"

text \<open>Every method is a part of the double.\<close>

interpretation lister_ListRoutes: spy_method fakeLister_listRoutes fakeLister_listRoutes_update FakeLister_recordInvocation invocations
    "''ListRoutes''" "\<lambda>_. []"
  by unfold_locales (auto simp: FakeLister_recordInvocation_def log_invocation_def)

section \<open>\<^verbatim>\<open>route/routefakes/fake_task_scheduler.go\<close>\<close>

text \<open>A scheduled task has no result, and the double never runs it: the test takes it from the recorded arguments.\<close>

record 'w FakeTaskScheduler = "('w, unit) go invocation_log" +
  fakeTaskScheduler_schedule :: "(('w, unit) go, unit) fake_method"

definition new_FakeTaskScheduler :: "'w FakeTaskScheduler" where
  "new_FakeTaskScheduler = \<lparr>invocations = Map.empty, fakeTaskScheduler_schedule = new_method ()\<rparr>"

definition FakeTaskScheduler_recordInvocation :: "string \<Rightarrow> ('w, unit) go list \<Rightarrow> 'w FakeTaskScheduler \<Rightarrow> 'w FakeTaskScheduler" where
  "FakeTaskScheduler_recordInvocation key args fake = log_invocation key args fake"

definition FakeTaskScheduler_Schedule :: "('w, 'w FakeTaskScheduler) TaskScheduler" where
  "FakeTaskScheduler_Schedule task =
     spy_call fakeTaskScheduler_schedule fakeTaskScheduler_schedule_update FakeTaskScheduler_recordInvocation
       ''Schedule'' [task] task"

definition FakeTaskScheduler_ScheduleCallCount :: "'w FakeTaskScheduler \<Rightarrow> int" where
  "FakeTaskScheduler_ScheduleCallCount fake = method_CallCount (fakeTaskScheduler_schedule fake)"

definition FakeTaskScheduler_ScheduleArgsForCall :: "int \<Rightarrow> 'w FakeTaskScheduler \<Rightarrow> ('w, unit) go outcome" where
  "FakeTaskScheduler_ScheduleArgsForCall i fake = method_ArgsForCall i (fakeTaskScheduler_schedule fake)"

definition FakeTaskScheduler_Invocations :: "'w FakeTaskScheduler \<Rightarrow> (string \<rightharpoonup> ('w, unit) go list list)" where
  "FakeTaskScheduler_Invocations fake = copied_invocations fake"

interpretation taskScheduler_Schedule: spy_method fakeTaskScheduler_schedule fakeTaskScheduler_schedule_update
    FakeTaskScheduler_recordInvocation invocations "''Schedule''" "\<lambda>task. [task]"
  by unfold_locales (auto simp: FakeTaskScheduler_recordInvocation_def log_invocation_def)

section \<open>The publisher as a message bus\<close>

text \<open>The arguments of the publications so far. They are recorded whatever the double is told to answer.\<close>

abbreviation publishArgsForCall :: "FakePublisher \<Rightarrow> (string \<times> string) list" where
  "publishArgsForCall fake \<equiv> fm_ArgsForCall (fakePublisher_publish fake)"

lemma FakePublisher_Publish_run:
  "FakePublisher_Publish subj data fake =
     only_error (scripted (fakePublisher_publish fake) (length (publishArgsForCall fake)) (subj, data))
       (FakePublisher_recordInvocation ''Publish'' [AnyString subj, AnyBytes data]
         (fakePublisher_publish_update (\<lambda>m. m\<lparr>fm_ArgsForCall := fm_ArgsForCall m @ [(subj, data)]\<rparr>) fake))"
  using publisher_Publish.call_run [of "(subj, data)" fake] by (simp add: FakePublisher_Publish_def go_bind_def)

interpretation fp: message_bus fake_publisher publishArgsForCall
  by unfold_locales (simp_all add: fake_publisher_def FakePublisher_Publish_run)

end
