(* ===== verification/Route_System.thy ===== *)
theory Route_System
  imports Route_Fakes
begin

text \<open>
  The goroutines of the route emitter together: the emitter's endless loop, the collector's ticks and the
  senders of the service manager, as a step relation over an unbuffered channel; and a router that
  reads the published messages.
\<close>

section \<open>A router that reads the messages\<close>

text \<open>The URIs and the app of a message, and the routes of every app after it.\<close>

definition read_message :: "string \<Rightarrow> go_error + string list option \<times> string" where
  "read_message data = unmarshal (dec_struct
     [(''uris'', \<lambda>j (u, a). let (u', b) = dec_list dec_string '''' j u in ((u', a), b)),
      (''app'', \<lambda>j (u, a). let (a', b) = dec_string j a in ((u, a'), b))]) (None, '''') data"

definition router_reads :: "string \<times> string \<Rightarrow> (string \<Rightarrow> string set) \<Rightarrow> string \<Rightarrow> string set" where
  "router_reads m v = (case read_message (snd m) of
      Inl _ \<Rightarrow> v
    | Inr (uris, app) \<Rightarrow>
        (let us = (case uris of None \<Rightarrow> {} | Some us \<Rightarrow> set us) in
         if fst m = registerSubject then v(app := v app \<union> us)
         else if fst m = unregisterSubject then v(app := v app - us)
         else v))"

definition routes_valid :: "Routes \<Rightarrow> bool" where
  "routes_valid r \<longleftrightarrow> utf8_valid (r_Name r) \<and> list_all utf8_valid (r_Routes r) \<and> list_all utf8_valid (r_UnregisteredRoutes r)"

lemma valid_keys:
  "utf8_valid ''host''" "utf8_valid ''port''" "utf8_valid ''tls_port''" "utf8_valid ''uris''" "utf8_valid ''app''"
  by code_simp+

lemma key_of_field:
  "fold_key ''host'' \<noteq> fold_key ''uris''" "fold_key ''host'' \<noteq> fold_key ''app''"
  "fold_key ''port'' \<noteq> fold_key ''uris''" "fold_key ''port'' \<noteq> fold_key ''app''"
  "fold_key ''tls_port'' \<noteq> fold_key ''uris''" "fold_key ''tls_port'' \<noteq> fold_key ''app''"
  "fold_key ''app'' \<noteq> fold_key ''uris''"
  by code_simp+

lemma read_route_message:
  assumes "utf8_valid host" and "list_all utf8_valid routes" and "utf8_valid name"
  shows "read_message (route_message host routes name) = Inr (Some routes, name)"
proof -
  let ?j = "registryMessage_json \<lparr>rm_Host = host, rm_Port = httpPort, rm_TLSPort = tlsPort, rm_URIs = Some routes, rm_App = name\<rparr>"
  have "json_ok ?j"
    using assms by (auto simp: registryMessage_json_def json_strings_def valid_keys list_all_iff simp del: utf8_valid.simps)
  then have "json_text (route_message host routes name) = Inr ?j"
    unfolding route_message_def by (rule json_text_print)
  then show ?thesis
    using key_of_field [symmetric]
    by (simp add: read_message_def unmarshal_def registryMessage_json_def json_strings_def key_of_field del: fold_key.simps)
qed

lemma router_reads_messages:
  assumes "utf8_valid host" and "routes_valid r"
  shows "fold router_reads (messages_of host r) v = apply_routes r v"
  using assms
  by (auto simp: messages_of_def router_reads_def routes_valid_def read_route_message apply_routes_def fun_eq_iff)

lemma router_reads_batch:
  assumes "utf8_valid host" and "\<forall>r \<in> set rs. routes_valid r"
  shows "fold router_reads (concat (map (messages_of host) rs)) v = fold apply_routes rs v"
  using assms by (induction rs arbitrary: v) (simp_all add: router_reads_messages)

section \<open>The goroutines\<close>

text \<open>
  The world, the batches whose senders are blocked in their send, the batches the emitter has taken, and
  all batches anyone ever began to send. A send on the unbuffered channel completes when the emitter
  takes the batch, which then makes one round of its loop.
\<close>

record 'w route_sys =
  rs_world :: 'w
  rs_pending :: "Routes list list"
  rs_taken :: "Routes list list"
  rs_begun :: "Routes list list"

inductive route_step :: "'w Emitter \<Rightarrow> 'w route_sys \<Rightarrow> 'w route_sys \<Rightarrow> bool" for e where
  begin_send: "route_step e s (s\<lparr>rs_pending := rs_pending s @ [b], rs_begun := rs_begun s @ [b]\<rparr>)"
| rendezvous: "\<lbrakk>rs_pending s = xs @ b # ys; Emitter_round e b (rs_world s) = (Return (), w')\<rbrakk> \<Longrightarrow>
    route_step e s (s\<lparr>rs_world := w', rs_pending := xs @ ys, rs_taken := rs_taken s @ [b]\<rparr>)"

inductive route_reach :: "'w Emitter \<Rightarrow> 'w \<Rightarrow> 'w route_sys \<Rightarrow> bool" for e w where
  start: "route_reach e w \<lparr>rs_world = w, rs_pending = [], rs_taken = [], rs_begun = []\<rparr>"
| step: "\<lbrakk>route_reach e w s; route_step e s s'\<rbrakk> \<Longrightarrow> route_reach e w s'"

inductive_cases route_stepE: "route_step e s s'"

context message_bus
begin

lemma round_run:
  "\<exists>w'. Emitter_round (NewEmitter pub host) b w = (Return (), w') \<and> log w' = log w @ concat (map (messages_of host) b)"
proof -
  obtain w' where "emit (NewEmitter pub host) b w = (Return (), w')" "log w' = log w @ concat (map (messages_of host) b)"
    using emit_run by blast
  then show ?thesis
    by (intro exI [of _ w']) (simp add: Emitter_round_def go_simps)
qed

lemma reach_invariant:
  assumes "route_reach (NewEmitter pub host) w s"
  shows "log (rs_world s) = log w @ concat (map (messages_of host) (concat (rs_taken s)))
    \<and> mset (rs_taken s) + mset (rs_pending s) = mset (rs_begun s)"
  using assms
proof (induction rule: route_reach.induct)
  case (step s s')
  from step.hyps(2) show ?case
  proof (cases rule: route_step.cases)
    case (rendezvous xs b ys w')
    moreover from this(3) have "log w' = log (rs_world s) @ concat (map (messages_of host) b)"
      using round_run [of host b "rs_world s"] by auto
    moreover have "mset (rs_begun s) = mset (rs_taken s) + mset (xs @ b # ys)"
      using step.IH rendezvous(2) by simp
    ultimately show ?thesis
      using step.IH by simp
  qed (use step.IH in simp)
qed simp

lemma pending_taken:
  assumes "route_reach (NewEmitter pub host) w s"
  shows "\<exists>s'. route_reach (NewEmitter pub host) w s' \<and> rs_pending s' = [] \<and> rs_begun s' = rs_begun s"
  using assms
proof (induction "length (rs_pending s)" arbitrary: s)
  case 0
  then show ?case by auto
next
  case (Suc n)
  then obtain b ys where pending: "rs_pending s = [] @ b # ys" by (cases "rs_pending s") auto
  obtain w' where "Emitter_round (NewEmitter pub host) b (rs_world s) = (Return (), w')"
    using round_run by blast
  from route_step.rendezvous [OF pending this]
  have "route_reach (NewEmitter pub host) w (s\<lparr>rs_world := w', rs_pending := ys, rs_taken := rs_taken s @ [b]\<rparr>)"
    using Suc.prems by (auto intro: route_reach.step)
  from Suc.hyps(1) [OF _ this] show ?case
    using Suc.hyps(2) pending by auto
qed

end

section \<open>The collector\<close>

lemma apply_known_routes:
  assumes "\<forall>r \<in> set rs. set (r_Routes r) \<subseteq> v (r_Name r) \<and> r_UnregisteredRoutes r = []"
  shows "fold apply_routes rs v = v"
  using assms
proof (induction rs)
  case (Cons r rs)
  then have "apply_routes r v = v"
    by (auto simp: apply_routes_def fun_eq_iff)
  with Cons show ?case by simp
qed simp

lemma router_view_append: "router_view (bs @ [rs]) = fold apply_routes rs (router_view bs)"
  by (simp add: router_view_def)

context kube_cluster
begin

lemma collect_run:
  assumes "inv w" and "ns \<noteq> ''''" and sync: "routes_in_sync ns (abs w)"
    and readable: "\<And>n s. c_Services (abs w) (ns, n) = Some s \<Longrightarrow> isCFService n \<Longrightarrow> \<not> isHeadless n \<Longrightarrow>
      \<exists>uris. decodeRoutes (nilmap_index (om_Annotations (svc_Meta s)) RegisteredRoutes) = Inr uris"
  shows "\<exists>w' rs. collectRoutes \<lparr>col_RouteLister = NewServiceRouteLister cl ns, col_Work = ch\<rparr> w = (Return (), w')
    \<and> inv w' \<and> abs w' = (abs w)\<lparr>c_sent := c_sent (abs w) @ [rs]\<rparr>
    \<and> set rs = {r. \<exists>n s. c_Services (abs w) (ns, n) = Some s \<and> announced s r}
    \<and> routes_in_sync ns (abs w')"
proof -
  obtain rs where list: "ListRoutes \<lparr>srl_client = cl, srl_namespace = ns\<rparr> w = (Return rs, w)"
    and rs: "set rs = {r. \<exists>n s. c_Services (abs w) (ns, n) = Some s \<and> announced s r}"
    by (rule ListRoutes_run [OF assms(1,2)]) (use readable in \<open>blast, blast\<close>)
  obtain w' where send: "chan_send ch rs w = (Return (), w')" "inv w'" "abs w' = (abs w)\<lparr>c_sent := c_sent (abs w) @ [rs]\<rparr>"
    by (rule send_run [OF assms(1)])
  have "set (r_Routes r) \<subseteq> router_view (c_sent (abs w)) (r_Name r) \<and> r_UnregisteredRoutes r = []" if "r \<in> set rs" for r
  proof -
    from that rs obtain n s where "c_Services (abs w) (ns, n) = Some s" "announced s r" by blast
    then show ?thesis
      using sync svc.stored_name [OF assms(1)]
      by (auto simp: announced_def routes_in_sync_def annotated_routes_def service_routes_def)
  qed
  then have "routes_in_sync ns (abs w')"
    using sync by (simp add: routes_in_sync_def send(3) router_view_append apply_known_routes annotated_routes_def fun_eq_iff)
  with list send rs show ?thesis
    by (intro exI [of _ w'] exI [of _ rs]) (simp add: collectRoutes_def NewServiceRouteLister_def go_simps)
qed

end

section \<open>Properties\<close>

text \<open>
  C8. The emitter publishes every registration and withdrawal of a batch, in order, one message each,
  and a publication that fails does not keep the later ones from being made.
\<close>

theorem emit_publishes_batch:
  assumes "message_bus pub log"
  shows "\<exists>w'. emit (NewEmitter pub host) batch w = (Return (), w') \<and> log w' = log w @ concat (map (messages_of host) batch)"
  by (rule message_bus.emit_run [OF assms])

theorem emit_publishes_batch_witness:
  "\<exists>w'. emit (NewEmitter fake_publisher ''10.0.0.1'')
      [\<lparr>r_Routes = [''a.io''], r_UnregisteredRoutes = [''b.io''], r_Name = ''cf-app''\<rparr>]
      (FakePublisher_PublishReturns (Some (ErrorString ''nats'')) new_FakePublisher) = (Return (), w')
    \<and> publishArgsForCall w' = [(registerSubject, route_message ''10.0.0.1'' [''a.io''] ''cf-app''),
        (unregisterSubject, route_message ''10.0.0.1'' [''b.io''] ''cf-app'')]"
  using emit_publishes_batch [OF fp.message_bus_axioms, of "''10.0.0.1''"
      "[\<lparr>r_Routes = [''a.io''], r_UnregisteredRoutes = [''b.io''], r_Name = ''cf-app''\<rparr>]"
      "FakePublisher_PublishReturns (Some (ErrorString ''nats'')) new_FakePublisher"]
  by (simp add: messages_of_def FakePublisher_PublishReturns_def method_Returns_def new_FakePublisher_def)

text \<open>
  C15. On the wire: a router that reads the JSON messages published for a sequence of batches knows for
  every service exactly the routes that the batches say.
\<close>

theorem wire_messages_refine_view:
  assumes "message_bus pub log" and "utf8_valid host" and "\<forall>b \<in> set batches. \<forall>r \<in> set b. routes_valid r" and "log w = []"
  shows "\<exists>w'. Schedule_rounds (Emitter_round (NewEmitter pub host)) batches w = (Return (), w')
    \<and> fold router_reads (log w') (\<lambda>_. {}) = router_view batches"
proof -
  have "\<exists>w'. Schedule_rounds (Emitter_round (NewEmitter pub host)) batches w = (Return (), w')
    \<and> log w' = log w @ concat (map (messages_of host) (concat batches))" for w
  proof (induction batches arbitrary: w)
    case (Cons b batches)
    obtain w1 where "Emitter_round (NewEmitter pub host) b w = (Return (), w1)"
      "log w1 = log w @ concat (map (messages_of host) b)"
      using message_bus.round_run [OF assms(1)] by blast
    moreover obtain w2 where "Schedule_rounds (Emitter_round (NewEmitter pub host)) batches w1 = (Return (), w2)"
      "log w2 = log w1 @ concat (map (messages_of host) (concat batches))"
      using Cons.IH by blast
    ultimately show ?case
      by (intro exI [of _ w2]) (simp add: go_simps)
  qed simp
  then obtain w' where "Schedule_rounds (Emitter_round (NewEmitter pub host)) batches w = (Return (), w')"
    and "log w' = concat (map (messages_of host) (concat batches))"
    using assms(4) by (metis append_Nil)
  moreover have "fold router_reads (concat (map (messages_of host) (concat batches))) (\<lambda>_. {}) = router_view batches"
    unfolding router_view_def using assms(2,3) by (intro router_reads_batch) auto
  ultimately show ?thesis by auto
qed

theorem wire_messages_refine_view_witness:
  "\<exists>w'. Schedule_rounds (Emitter_round (NewEmitter fake_publisher ''a.io''))
      [[\<lparr>r_Routes = [''a.io''], r_UnregisteredRoutes = [], r_Name = ''b.io''\<rparr>],
       [\<lparr>r_Routes = [''b.io''], r_UnregisteredRoutes = [''a.io''], r_Name = ''b.io''\<rparr>]] new_FakePublisher = (Return (), w')
    \<and> fold router_reads (publishArgsForCall w') (\<lambda>_. {}) ''b.io'' = {''b.io''}"
proof -
  let ?bs = "[[\<lparr>r_Routes = [''a.io''], r_UnregisteredRoutes = [], r_Name = ''b.io''\<rparr>],
       [\<lparr>r_Routes = [''b.io''], r_UnregisteredRoutes = [''a.io''], r_Name = ''b.io''\<rparr>]]"
  have "\<forall>b \<in> set ?bs. \<forall>r \<in> set b. routes_valid r"
    by (simp add: routes_valid_def sample_uris_valid del: utf8_valid.simps)
  from wire_messages_refine_view [OF fp.message_bus_axioms sample_uris_valid(1) this, of new_FakePublisher]
  obtain w' where "Schedule_rounds (Emitter_round (NewEmitter fake_publisher ''a.io'')) ?bs new_FakePublisher = (Return (), w')"
    and "fold router_reads (publishArgsForCall w') (\<lambda>_. {}) = router_view ?bs"
    by (auto simp: new_FakePublisher_def)
  moreover have "router_view ?bs ''b.io'' = {''b.io''}"
    by (auto simp: router_view_def apply_routes_def)
  ultimately show ?thesis
    by (intro exI [of _ w']) (simp only: simp_thms)
qed





end
