(* ===== verification/Opi_Cmd.thy ===== *)
theory Opi_Cmd
  imports Recipe_Cmd Registry Route_System
begin

text \<open>
  The commands of \<^verbatim>\<open>opi\<close>: \<^verbatim>\<open>cmd/opi/cmd/connect.go\<close>, \<^verbatim>\<open>registry.go\<close> and \<^verbatim>\<open>simulator.go\<close>. A command puts the parts of the program together and serves them;
  its result here is what it serves. The outcome \<open>Error\<close> is the end of the process with status 1.

  YAML, the command line, the libraries that connect to Kubernetes, to the cloud controller and to NATS, and the HTTP server are arguments. The
  lemmas: the served parts are those of the other theories, so that their properties hold of the program.
\<close>

section \<open>Configuration\<close>

record Properties =
  pr_KubeConfig :: string
  pr_KubeNamespace :: string
  pr_KubeEndpoint :: string
  pr_NatsPassword :: string
  pr_NatsIP :: string
  pr_RegistryEndpoint :: string
  pr_CcUploaderIP :: string
  pr_CcAPI :: string
  pr_Backend :: string
  pr_CfUsername :: string
  pr_CfPassword :: string
  pr_CcUser :: string
  pr_CcPassword :: string
  pr_RegistryAddress :: string
  pr_EiriniAddress :: string
  pr_SkipSslValidation :: bool
  pr_InsecureSkipVerify :: bool

record eirini_Config =
  ec_Properties :: Properties

text \<open>
  \<open>lib_BuildConfig\<close> and \<open>lib_NewForConfig\<close>: \<^verbatim>\<open>clientcmd.BuildConfigFromFlags\<close> and \<^verbatim>\<open>kubernetes.NewForConfig\<close>; \<open>lib_Http\<close>: the HTTP client for a TLS
  configuration, by \<^verbatim>\<open>InsecureSkipVerify\<close>; the other fields are arguments of the parts.
\<close>

record 'w opi_library =
  lib_ReadFile :: "string \<Rightarrow> ('w, string) go"
  lib_Yaml :: "string \<Rightarrow> go_error + eirini_Config"
  lib_BuildConfig :: "string \<Rightarrow> string \<Rightarrow> go_error + string"
  lib_NewForConfig :: "string \<Rightarrow> go_error + 'w kubernetes_Interface"
  lib_NewCfClient :: "'w cf_config \<Rightarrow> ('w, 'w CfClient) go"
  lib_Http :: "bool \<Rightarrow> 'w http_client"
  lib_NatsConnect :: "string \<Rightarrow> ('w, 'w Publisher) go"
  lib_Urls :: url_library
  lib_RuleOrder :: "nat \<Rightarrow> rule_map \<Rightarrow> rule_map"
  lib_EnvOrder :: "gomap \<Rightarrow> gomap"
  lib_Printers :: printers
  lib_Other :: "HTTPRequest \<Rightarrow> ('w, ResponseWriter) go"

section \<open>connect\<close>

definition exitWithError :: "go_error option \<Rightarrow> ('w, unit) go" where
  "exitWithError err = (case err of None \<Rightarrow> go_return () | Some e \<Rightarrow> go_throw e)"

text \<open>A call and the check of its error.\<close>

definition or_exit :: "('w, 'a) go \<Rightarrow> ('w, 'a) go" where
  "or_exit m = go_bind (go_try m) (\<lambda>r. case r of
      Inl e \<Rightarrow> go_bind (exitWithError (Some e)) (\<lambda>_. go_throw e)
    | Inr a \<Rightarrow> go_bind (exitWithError None) (\<lambda>_. go_return a))"

definition setConfigFromFile :: "'w opi_library \<Rightarrow> string \<Rightarrow> ('w, eirini_Config) go" where
  "setConfigFromFile lib file_path =
     go_bind (or_exit (lib_ReadFile lib file_path)) (\<lambda>fileBytes.
     or_exit (go_lift (lib_Yaml lib fileBytes)))"

definition createKubeClient :: "'w opi_library \<Rightarrow> eirini_Config \<Rightarrow> ('w, 'w kubernetes_Interface) go" where
  "createKubeClient lib cfg =
     go_bind (or_exit (go_lift (lib_BuildConfig lib '''' (pr_KubeConfig (ec_Properties cfg))))) (\<lambda>config.
     or_exit (go_lift (lib_NewForConfig lib config)))"

definition initStager :: "'w opi_library \<Rightarrow> eirini_Config \<Rightarrow> ('w, 'w Stager) go" where
  "initStager lib cfg =
     (let p = ec_Properties cfg in
      go_bind (createKubeClient lib cfg) (\<lambda>clientset.
      let taskDesirer = \<lparr>td_Namespace = pr_KubeNamespace p, td_CCUploaderIP = pr_CcUploaderIP p, td_Client = clientset\<rparr>;
          stagerCfg = \<lparr>sc_CfUsername = pr_CfUsername p, sc_CfPassword = pr_CfPassword p, sc_APIAddress = pr_CcAPI p,
            sc_EiriniAddress = pr_EiriniAddress p, sc_SkipSslValidation = pr_SkipSslValidation p\<rparr>
      in go_return (Stager_New (lib_Http lib) (k8s_task_desirer (lib_EnvOrder lib) taskDesirer) stagerCfg)))"

definition initBifrost :: "'w opi_library \<Rightarrow> eirini_Config \<Rightarrow> (Routes list, 'w) chan \<Rightarrow> ('w, 'w Bifrost) go" where
  "initBifrost lib cfg workChan =
     (let p = ec_Properties cfg;
          cfClientConfig = \<lparr>cf_SkipSslValidation = pr_SkipSslValidation p, cf_Username = pr_CfUsername p, cf_Password = pr_CfPassword p,
            cf_ApiAddress = pr_CcAPI p, cf_HttpClient = None\<rparr> in
      go_bind (or_exit (lib_NewCfClient lib cfClientConfig)) (\<lambda>cfClient.
      let client = lib_Http lib (pr_InsecureSkipVerify p);
          kubeNamespace = pr_KubeNamespace p in
      go_bind (createKubeClient lib cfg) (\<lambda>clientset.
      let desirer = NewDesirer (lib_Urls lib) (lib_RuleOrder lib) kubeNamespace clientset (UseStatefulSets (lib_EnvOrder lib)) workChan;
          registryIP = pr_RegistryAddress p;
          converter = NewConverter cfClient client registryIP ''http://127.0.0.1:8080''
      in go_return \<lparr>bf_Converter = \<lparr>co_Convert = Convert (lib_EnvOrder lib) converter\<rparr>, bf_Desirer = opi_desirer desirer\<rparr>)))"

text \<open>The emitter and the collector whose loops are started.\<close>

definition launchRouteEmitter :: "'w opi_library \<Rightarrow> string \<Rightarrow> string \<Rightarrow> string \<Rightarrow> string \<Rightarrow> string \<Rightarrow> (Routes list, 'w) chan
    \<Rightarrow> ('w, 'w Emitter \<times> 'w Collector) go" where
  "launchRouteEmitter lib kubeConf kubeEndpoint namespace natsPassword natsIP workChan =
     go_bind (or_exit (lib_NatsConnect lib (''nats://nats:'' @ natsPassword @ ''@'' @ natsIP @ '':4222''))) (\<lambda>nc.
     go_bind (or_exit (go_lift (lib_BuildConfig lib '''' kubeConf))) (\<lambda>config.
     go_bind (or_exit (go_lift (lib_NewForConfig lib config))) (\<lambda>clientset.
     let lister = NewServiceRouteLister clientset namespace;
         rc = \<lparr>col_RouteLister = lister, col_Work = workChan\<rparr>;
         re = NewEmitter \<lparr>pub_Publish = NATSPublisher_Publish \<lparr>np_NatsClient = nc\<rparr>\<rparr> kubeEndpoint
     in go_return (re, rc))))"

record 'w connected =
  cn_Handler :: "HTTPRequest \<Rightarrow> ('w, ResponseWriter) go"
  cn_Emitter :: "'w Emitter"
  cn_Collector :: "'w Collector"

text \<open>\<open>flag\<close>: the value of the option \<^verbatim>\<open>config\<close>; \<open>workChan\<close>: the channel it makes.\<close>

definition connect :: "'w opi_library \<Rightarrow> go_error + string \<Rightarrow> (Routes list, 'w) chan \<Rightarrow> ('w, 'w connected) go" where
  "connect lib flag workChan =
     go_bind (or_exit (go_lift flag)) (\<lambda>file_path.
     go_bind (setConfigFromFile lib file_path) (\<lambda>cfg.
     go_bind (initStager lib cfg) (\<lambda>stager.
     go_bind (initBifrost lib cfg workChan) (\<lambda>bifrost.
     let p = ec_Properties cfg in
     go_bind (launchRouteEmitter lib (pr_KubeConfig p) (pr_KubeEndpoint p) (pr_KubeNamespace p) (pr_NatsPassword p) (pr_NatsIP p) workChan) (\<lambda>(re, rc).
     go_return \<lparr>cn_Handler = Handler_New (eirini_bifrost bifrost) (eirini_stager stager) (lib_Printers lib) (lib_Other lib),
       cn_Emitter = re, cn_Collector = rc\<rparr>)))))"

section \<open>registry\<close>

text \<open>The stores start empty; the handler is served for ever.\<close>

definition reg :: "(string \<Rightarrow> string) \<Rightarrow> (string \<Rightarrow> ('m registry_world_scheme, reader) go) \<Rightarrow> go_error + string
    \<Rightarrow> ('m registry_world_scheme, BlobRef \<times> 'm registry_world_scheme DropletStore \<times> 'm registry_world_scheme BlobStore) go" where
  "reg sha256 openFile flag w =
     go_bind (or_exit (go_lift flag)) (\<lambda>file_path.
     go_bind (or_exit (openFile file_path)) (\<lambda>rootfsTar.
     go_bind (bs_Put (in_memory_store sha256) rootfsTar) (\<lambda>(r, _).
     go_bind (or_exit (go_lift r)) (\<lambda>(rootfsDigest, rootfsSize).
     go_return (\<lparr>br_Digest = rootfsDigest, br_Size = rootfsSize\<rparr>, in_memory_droplets, in_memory_store sha256)))))
     (w\<lparr>bw_data := NewInMemoryStore, rg_droplets := []\<rparr>)"

section \<open>simulator\<close>

definition DesirerSimulator :: "'w opi_Desirer" where
  "DesirerSimulator = \<lparr>od_Desire = (\<lambda>lrps. go_return ()),
     od_List = go_panic ''not implemented'',
     od_Get = (\<lambda>name. if name \<noteq> ''jeff'' then go_throw (ErrorString ''this is not jeff'')
       else go_return (zero_LRP\<lparr>Name := ''jeff'', TargetInstances := 4, RunningInstances := 2, Metadata := Some []\<rparr>)),
     od_Update = (\<lambda>updated. go_return ()),
     od_Stop = (\<lambda>guid. go_panic ''not implemented'')\<rparr>"

definition ConverterSimulator :: "'w Converter" where
  "ConverterSimulator = \<lparr>co_Convert = (\<lambda>request. go_return zero_LRP)\<rparr>"

definition StagerSimulator :: "'w eirini_Stager" where
  "StagerSimulator = \<lparr>es_Stage = (\<lambda>stagingGUID request. go_return ()), es_CompleteStaging = (\<lambda>task. go_return ())\<rparr>"

definition simulate :: "printers \<Rightarrow> (HTTPRequest \<Rightarrow> ('w, ResponseWriter) go) \<Rightarrow> HTTPRequest \<Rightarrow> ('w, ResponseWriter) go" where
  "simulate pm other = Handler_New (eirini_bifrost \<lparr>bf_Converter = ConverterSimulator, bf_Desirer = DesirerSimulator\<rparr>) StagerSimulator pm other"

section \<open>Properties\<close>

lemma or_exit_run [simp, go_simps]:
  "m w = (Return a, w') \<Longrightarrow> or_exit m w = (Return a, w')"
  "m w = (Error e, w') \<Longrightarrow> or_exit m w = (Error e, w')"
  by (simp_all add: or_exit_def exitWithError_def go_simps)

text \<open>
  The program that \<^verbatim>\<open>opi connect\<close> serves, when the libraries connect: its handler is the one over the bridge and the stager of the
  configured namespace, and the emitter and the collector use the same namespace, NATS server and channel. The properties of these parts
  are thus properties of the running program.
\<close>

theorem connect_serves_the_parts:
  fixes lib cfg ch
  defines "p \<equiv> ec_Properties cfg"
  assumes "lib_ReadFile lib file_path w = (Return contents, w)" and "lib_Yaml lib contents = Inr cfg"
    and "lib_BuildConfig lib '''' (pr_KubeConfig p) = Inr kc" and "lib_NewForConfig lib kc = Inr cl"
    and "lib_NewCfClient lib \<lparr>cf_SkipSslValidation = pr_SkipSslValidation p, cf_Username = pr_CfUsername p, cf_Password = pr_CfPassword p,
      cf_ApiAddress = pr_CcAPI p, cf_HttpClient = None\<rparr> w = (Return cf, w)"
    and "lib_NatsConnect lib (''nats://nats:'' @ pr_NatsPassword p @ ''@'' @ pr_NatsIP p @ '':4222'') w = (Return nc, w)"
  shows "connect lib (Inr file_path) ch w = (Return
     \<lparr>cn_Handler = Handler_New
        (eirini_bifrost (k8s_bifrost \<lparr>co_Convert = Convert (lib_EnvOrder lib)
            (NewConverter cf (lib_Http lib (pr_InsecureSkipVerify p)) (pr_RegistryAddress p) ''http://127.0.0.1:8080'')\<rparr>
          (k8s_desirer (lib_Urls lib) (lib_RuleOrder lib) (lib_EnvOrder lib) cl (pr_KubeNamespace p) ch)))
        (eirini_stager (k8s_stager (lib_EnvOrder lib) cl (pr_KubeNamespace p) (pr_CcUploaderIP p)
          \<lparr>sc_CfUsername = pr_CfUsername p, sc_CfPassword = pr_CfPassword p, sc_APIAddress = pr_CcAPI p, sc_EiriniAddress = pr_EiriniAddress p,
           sc_SkipSslValidation = pr_SkipSslValidation p\<rparr> (lib_Http lib (pr_SkipSslValidation p))))
        (lib_Printers lib) (lib_Other lib),
      cn_Emitter = \<lparr>em_publisher = nc, em_kubeEndpoint = pr_KubeEndpoint p\<rparr>,
      cn_Collector = \<lparr>col_RouteLister = NewServiceRouteLister cl (pr_KubeNamespace p), col_Work = ch\<rparr>\<rparr>, w)"
proof -
  have kube: "createKubeClient lib cfg w = (Return cl, w)"
    using assms(4,5) by (simp add: createKubeClient_def p_def go_simps)
  have nats: "\<lparr>pub_Publish = NATSPublisher_Publish \<lparr>np_NatsClient = nc\<rparr>\<rparr> = nc"
    by (cases nc) (simp add: NATSPublisher_Publish_def fun_eq_iff)
  show ?thesis
    using assms(2-7) kube
    by (simp add: connect_def setConfigFromFile_def initStager_def initBifrost_def launchRouteEmitter_def Let_def go_simps p_def
        Stager_New_def k8s_stager_def k8s_bifrost_def k8s_desirer_def NewEmitter_def nats)
qed

text \<open>
  The registry starts with a consistent store that holds the root file system under its digest, and serves it: a request for the digest
  that the manifests will name is answered with the content of the file.
\<close>

theorem registry_serves_rootfs:
  assumes "openFile file_path w0 = (Return \<lparr>rd_Rest = rootfs, rd_Error = None\<rparr>, w0)" and "w0 = w\<lparr>bw_data := NewInMemoryStore, rg_droplets := []\<rparr>"
    and "space \<noteq> ''''" and "app \<noteq> ''''"
  shows "\<exists>ref w1 w2 rw. reg sha256 openFile (Inr file_path) w = (Return (ref, in_memory_droplets, in_memory_store sha256), w1)
    \<and> blob_inv w1 \<and> (\<forall>g. droplet_refs w1 g = None) \<and> ref = \<lparr>br_Digest = ''sha256:'' @ sha256 rootfs, br_Size = of_nat (length rootfs)\<rparr>
    \<and> mem_registry sha256 texts lib tf ref other ''GET'' [''v2'', space, app, ''blobs'', br_Digest ref] q '''' w1 = (Return rw, w2)
    \<and> status_of rw = StatusOK \<and> rw_Body rw = rootfs"
proof -
  let ?ref = "\<lparr>br_Digest = ''sha256:'' @ sha256 rootfs, br_Size = of_nat (length rootfs)\<rparr> :: BlobRef"
  have start: "blob_inv w0" "droplet_refs w0 = Map.empty" using assms(2) by (simp_all add: blob_inv_def droplet_refs_def)
  obtain w1 where w1: "bs_Put (in_memory_store sha256) \<lparr>rd_Rest = rootfs, rd_Error = None\<rparr> w0
      = (Return (Inr (''sha256:'' @ sha256 rootfs, of_nat (length rootfs)), \<lparr>rd_Rest = '''', rd_Error = None\<rparr>), w1)"
    "blob_inv w1" "blob_content w1 = (blob_content w0)(''sha256:'' @ sha256 rootfs \<mapsto> rootfs)" "droplet_refs w1 = droplet_refs w0"
    by (rule mem.PutE [OF start(1), of sha256 rootfs])
  then have "reg sha256 openFile (Inr file_path) w = (Return (?ref, in_memory_droplets, in_memory_store sha256), w1)"
    using assms(1,2) by (simp add: reg_def go_simps)
  moreover obtain w2 where "BlobHandler_ServeHTTP \<lparr>bh_blobs = in_memory_store sha256\<rparr> new_writer (''sha256:'' @ sha256 rootfs) w1
      = (Return (Write rootfs new_writer), w2)"
    using mem.serve_blob [OF w1(2)] w1(3) by (metis fun_upd_same)
  ultimately show ?thesis
    using w1(2,4) start(2) assms(3,4) by (simp add: registry_routes)
qed

text \<open>
  The simulator knows one app, \<^verbatim>\<open>jeff\<close>, with two running instances; of every other app it says that it is not jeff. It changes nothing, and
  it panics on the requests to list and to stop apps.
\<close>

theorem simulator_knows_jeff:
  assumes "slash_free g"
  shows "\<exists>rw. simulate pm other (request_to ''GET'' (''/apps/'' @ g @ ''/instances'') body) w = (Return rw, w) \<and> status_of rw = StatusOK
    \<and> rw_Body rw = print_json (json_GetInstancesResponse (if g = ''jeff''
        then \<lparr>gir_Error = '''', gir_ProcessGUID = g, gir_Instances = [\<lparr>Index = 0, State = RunningState\<rparr>, \<lparr>Index = 1, State = RunningState\<rparr>]\<rparr>
        else \<lparr>gir_Error = ''this is not jeff'', gir_ProcessGUID = g, gir_Instances = []\<rparr>)) @ [CHR 0x0A]
    \<and> fst (simulate pm other (request_to ''PUT'' (''/apps/'' @ g @ ''/stop'') body) w) = Panic ''not implemented''"
proof -
  have "sint (2 :: go_int) = 2" "instances_loop 2 0 [] = [\<lparr>Index = 0, State = RunningState\<rparr>, \<lparr>Index = 1, State = RunningState\<rparr>]"
    by code_simp+
  then show ?thesis
    by (simp add: simulate_def dispatch [OF assms] App_GetInstances_def App_Stop_def Bifrost_GetInstances_def Bifrost_Stop_def
        DesirerSimulator_def createGetInstancesResponse_def createErrorGetInstancesResponse_def Let_def go_simps)
qed

text \<open>Witnesses: a library that connects to the in-memory cluster.\<close>

definition sample_properties :: Properties where
  "sample_properties = \<lparr>pr_KubeConfig = ''k'', pr_KubeNamespace = ''eirini'', pr_KubeEndpoint = ''e'', pr_NatsPassword = ''p'', pr_NatsIP = ''n'',
     pr_RegistryEndpoint = '''', pr_CcUploaderIP = ''u'', pr_CcAPI = ''api'', pr_Backend = '''', pr_CfUsername = ''me'', pr_CfPassword = ''pw'', pr_CcUser = '''',
     pr_CcPassword = '''', pr_RegistryAddress = ''r'', pr_EiriniAddress = ''a'', pr_SkipSslValidation = False, pr_InsecureSkipVerify = True\<rparr>"

definition sample_library :: "tracker opi_library" where
  "sample_library = \<lparr>lib_ReadFile = (\<lambda>_. go_return ''yaml''), lib_Yaml = (\<lambda>_. Inr \<lparr>ec_Properties = sample_properties\<rparr>),
     lib_BuildConfig = (\<lambda>_ k. Inr k), lib_NewForConfig = (\<lambda>_. Inr tracker_client), lib_NewCfClient = (\<lambda>_. go_return sample_cf_bits),
     lib_Http = (\<lambda>_. \<lparr>hc_CheckURL = (\<lambda>_. None), hc_Do = (\<lambda>_. go_throw EOF), hc_Format = (\<lambda>_. '''')\<rparr>),
     lib_NatsConnect = (\<lambda>_. go_return \<lparr>pub_Publish = (\<lambda>_ _. go_return ())\<rparr>), lib_Urls = plain_urls, lib_RuleOrder = (\<lambda>_. id), lib_EnvOrder = id,
     lib_Printers = no_printers, lib_Other = (\<lambda>_. go_return new_writer)\<rparr>"

theorem connect_serves_the_parts_witness:
  "\<exists>c. connect sample_library (Inr ''opi.yml'') tracker_chan empty_tracker = (Return c, empty_tracker)
     \<and> col_RouteLister (cn_Collector c) = NewServiceRouteLister tracker_client ''eirini''"
  using connect_serves_the_parts [where lib = sample_library and file_path = "''opi.yml''" and cfg = "\<lparr>ec_Properties = sample_properties\<rparr>" and ch = tracker_chan
      and w = empty_tracker and contents = "''yaml''" and kc = "''k''" and cl = tracker_client and cf = sample_cf_bits and nc = "\<lparr>pub_Publish = (\<lambda>_ _. go_return ())\<rparr>"]
  by (simp add: sample_library_def sample_properties_def)

theorem registry_serves_rootfs_witness:
  "\<exists>ref w1 w2 rw. reg (\<lambda>s. s) (\<lambda>_. go_return \<lparr>rd_Rest = ''rootfs'', rd_Error = None\<rparr>) (Inr ''r.tar'') empty_registry
      = (Return (ref, in_memory_droplets, in_memory_store (\<lambda>s. s)), w1)
    \<and> mem_registry (\<lambda>s. s) (\<lambda>_. '''') sample_tar no_file ref (go_return new_writer) ''GET'' [''v2'', ''space'', ''app'', ''blobs'', br_Digest ref] '''' '''' w1
      = (Return rw, w2) \<and> rw_Body rw = ''rootfs''"
  using registry_serves_rootfs [where openFile = "\<lambda>_. go_return \<lparr>rd_Rest = ''rootfs'', rd_Error = None\<rparr>" and file_path = "''r.tar''"
      and w = empty_registry and rootfs = "''rootfs''" and space = "''space''" and app = "''app''" and ?sha256.0 = "\<lambda>s. s" and texts = "\<lambda>_. ''''" and lib = sample_tar
      and tf = no_file and other = "go_return new_writer" and q = "''''"]
  by (auto simp del: in_memory_droplets_def)

theorem simulator_knows_jeff_witness:
  "\<exists>rw. simulate no_printers (\<lambda>_. go_return new_writer) (request_to ''GET'' (''/apps/'' @ ''jeff'' @ ''/instances'') '''') () = (Return rw, ())
     \<and> status_of rw = StatusOK"
  using simulator_knows_jeff [of "''jeff''" no_printers "\<lambda>_. go_return new_writer" "''''" "()"] by (auto simp: slash_free_def)

end
