(* ===== verification/Opi_Main.thy ===== *)
theory Opi_Main
  imports Opi_Cmd
begin

text \<open>
  The program \<^verbatim>\<open>opi\<close>: \<^verbatim>\<open>cmd/opi/main.go\<close>, \<^verbatim>\<open>cmd/opi/cmd/root.go\<close> and the commands that \<^verbatim>\<open>connect.go\<close>, \<^verbatim>\<open>registry.go\<close> and \<^verbatim>\<open>simulator.go\<close> register. The
  result of the program is its exit status; an \<open>Error\<close> inside a command is the end of the process with status 1.

  The command line library \<^verbatim>\<open>cobra\<close> and what the commands run on (\<open>platform\<close>: the server of \<^verbatim>\<open>net/http\<close>, the start of goroutines and
  the arguments of \<open>Opi_Cmd\<close>) are arguments. What is relied on of \<^verbatim>\<open>cobra\<close> is \<open>finds_commands\<close>: a command is found
  by its name and run with the value of its option.
\<close>

section \<open>Commands\<close>

record cobra_Flag =
  fl_Name :: string
  fl_Shorthand :: string
  fl_Value :: string
  fl_Usage :: string

text \<open>\<open>cmd_Run\<close> is given the options by name, as \<^verbatim>\<open>cmd.Flags().GetString\<close> reads them.\<close>

record 'w cobra_Command =
  cmd_Use :: string
  cmd_Short :: string
  cmd_Long :: string
  cmd_Flags :: "cobra_Flag list"
  cmd_Run :: "((string \<Rightarrow> go_error + string) \<Rightarrow> ('w, unit) go) option"

record 'w cobra_root =
  root_Command :: "'w cobra_Command"
  root_Commands :: "'w cobra_Command list"

type_synonym 'w cobra = "'w cobra_root \<Rightarrow> string list \<Rightarrow> ('w, unit) go"

definition StringP :: "string \<Rightarrow> string \<Rightarrow> string \<Rightarrow> string \<Rightarrow> 'w cobra_Command \<Rightarrow> 'w cobra_Command" where
  "StringP name shorthand val usage c = c\<lparr>cmd_Flags := cmd_Flags c
     @ [\<lparr>fl_Name = name, fl_Shorthand = shorthand, fl_Value = val, fl_Usage = usage\<rparr>]\<rparr>"

definition AddCommand :: "'w cobra_Command \<Rightarrow> 'w cobra_root \<Rightarrow> 'w cobra_root" where
  "AddCommand c r = r\<lparr>root_Commands := root_Commands r @ [c]\<rparr>"

record 'm platform =
  pl_Library :: "'m registry_world_scheme opi_library"
  pl_Chan :: "(Routes list, 'm registry_world_scheme) chan"
  pl_Go :: "'m registry_world_scheme Emitter \<Rightarrow> 'm registry_world_scheme Collector \<Rightarrow> ('m registry_world_scheme, unit) go"
  pl_ListenAndServe :: "string \<Rightarrow> (HTTPRequest \<Rightarrow> ('m registry_world_scheme, ResponseWriter) go)
    \<Rightarrow> ('m registry_world_scheme, go_error) go"
  pl_ServeRegistry :: "string \<Rightarrow> (string \<Rightarrow> string list \<Rightarrow> string \<Rightarrow> string \<Rightarrow> ('m registry_world_scheme, ResponseWriter) go)
    \<Rightarrow> ('m registry_world_scheme, go_error) go"
  pl_Open :: "string \<Rightarrow> ('m registry_world_scheme, reader) go"
  pl_Sha256 :: "string \<Rightarrow> string"
  pl_Texts :: "go_error \<Rightarrow> string"
  pl_Tar :: tar_library
  pl_Temp :: "'m registry_world_scheme temp_file"
  pl_NotFound :: "('m registry_world_scheme, ResponseWriter) go"

text \<open>\<^verbatim>\<open>log.Fatal\<close> of the error with which a server ends.\<close>

definition log_Fatal :: "('w, go_error) go \<Rightarrow> ('w, unit) go" where
  "log_Fatal m = go_bind m go_throw"

definition connectCmd :: "'m platform \<Rightarrow> 'm registry_world_scheme cobra_Command" where
  "connectCmd env = \<lparr>cmd_Use = ''connect'', cmd_Short = ''connects CloudFoundry with Kubernetes'', cmd_Long = '''', cmd_Flags = [],
     cmd_Run = Some (\<lambda>flags.
       go_bind (connect (pl_Library env) (flags ''config'') (pl_Chan env)) (\<lambda>c.
       go_bind (pl_Go env (cn_Emitter c) (cn_Collector c)) (\<lambda>_.
       log_Fatal (pl_ListenAndServe env ''0.0.0.0:8085'' (cn_Handler c)))))\<rparr>"

definition registryCmd :: "'m platform \<Rightarrow> 'm registry_world_scheme cobra_Command" where
  "registryCmd env = \<lparr>cmd_Use = ''registry'', cmd_Short = ''starts the eirini registry'', cmd_Long = '''', cmd_Flags = [],
     cmd_Run = Some (\<lambda>flags.
       go_bind (reg (pl_Sha256 env) (pl_Open env) (flags ''rootfs'')) (\<lambda>(rootfs, droplets, blobs).
       log_Fatal (pl_ServeRegistry env ''0.0.0.0:8080''
         (Registry_NewHandler (pl_Texts env) (pl_Tar env) (pl_Temp env) rootfs droplets blobs (pl_NotFound env)))))\<rparr>"

definition simulatorCmd :: "'m platform \<Rightarrow> 'm registry_world_scheme cobra_Command" where
  "simulatorCmd env = \<lparr>cmd_Use = ''simulator'', cmd_Short = ''Simulate pre-defined state of the Kubernetes cluster.'', cmd_Long = '''',
     cmd_Flags = [],
     cmd_Run = Some (\<lambda>_. log_Fatal (pl_ListenAndServe env ''0.0.0.0:8085''
       (simulate (lib_Printers (pl_Library env)) (lib_Other (pl_Library env)))))\<rparr>"

definition rootCmd :: "'w cobra_Command" where
  "rootCmd = \<lparr>cmd_Use = ''opi'', cmd_Short = ''put a K8s behind CF'', cmd_Long = ''some long description'', cmd_Flags = [], cmd_Run = None\<rparr>"

definition initConnect :: "'w cobra_Command \<Rightarrow> 'w cobra_Command" where
  "initConnect c = StringP ''config'' ''c'' '''' ''Path to the erini config file'' c"

definition initRegistry :: "'w cobra_Command \<Rightarrow> 'w cobra_Command" where
  "initRegistry c = StringP ''rootfs'' ''r'' '''' ''Path to the rootfs tarball'' c"

definition init :: "'m platform \<Rightarrow> 'm registry_world_scheme cobra_root" where
  "init env = AddCommand (simulatorCmd env) (AddCommand (initRegistry (registryCmd env)) (AddCommand (initConnect (connectCmd env))
     \<lparr>root_Command = rootCmd, root_Commands = []\<rparr>))"

definition Execute :: "'m registry_world_scheme cobra \<Rightarrow> 'm platform \<Rightarrow> string list \<Rightarrow> ('m registry_world_scheme, int) go" where
  "Execute cobra env args = go_bind (go_try (cobra (init env) args)) (\<lambda>r. case r of
      Inl err \<Rightarrow> go_return 1
    | Inr _ \<Rightarrow> go_return 0)"

definition opi_main :: "'m registry_world_scheme cobra \<Rightarrow> 'm platform \<Rightarrow> string list \<Rightarrow> ('m registry_world_scheme, int) go" where
  "opi_main cobra env args = Execute cobra env args"

section \<open>The command line\<close>

text \<open>
  What is relied on of \<^verbatim>\<open>cobra\<close>, with the arguments after the name of the program: a command is found by its name and runs; its option
  has the value that follows the name of the option, or its default; a word that is no command is an error, and nothing runs.
\<close>

definition finds_commands :: "'w cobra \<Rightarrow> bool" where
  "finds_commands cobra \<longleftrightarrow> (\<forall>r. distinct (map cmd_Use (root_Commands r)) \<longrightarrow>
     (\<forall>c \<in> set (root_Commands r). \<forall>run. cmd_Run c = Some run \<longrightarrow>
        (\<exists>flags. cobra r [cmd_Use c] = run flags \<and> (\<forall>f. cmd_Flags c = [f] \<longrightarrow> flags (fl_Name f) = Inr (fl_Value f)))
        \<and> (\<forall>f v. cmd_Flags c = [f] \<longrightarrow>
            (\<exists>flags. cobra r [cmd_Use c, ''--'' @ fl_Name f, v] = run flags \<and> flags (fl_Name f) = Inr v)))
     \<and> (\<forall>name rest w. name \<notin> cmd_Use ` set (root_Commands r) \<and> name \<noteq> ''help'' \<and> take 1 name \<notin> {'''', ''-''} \<longrightarrow>
        (\<exists>e. cobra r (name # rest) w = (Error e, w))))"

lemma init_commands:
  "root_Commands (init env) = [initConnect (connectCmd env), initRegistry (registryCmd env), simulatorCmd env]"
  "cmd_Use (initConnect (connectCmd env)) = ''connect''" "cmd_Use (initRegistry (registryCmd env)) = ''registry''"
  "cmd_Use (simulatorCmd env) = ''simulator''"
  "distinct (map cmd_Use (root_Commands (init env)))"
  by (simp_all add: init_def AddCommand_def initConnect_def initRegistry_def connectCmd_def registryCmd_def simulatorCmd_def StringP_def)

lemma init_runs:
  "cmd_Run (initConnect (connectCmd env)) = Some (\<lambda>flags.
     go_bind (connect (pl_Library env) (flags ''config'') (pl_Chan env)) (\<lambda>c.
     go_bind (pl_Go env (cn_Emitter c) (cn_Collector c)) (\<lambda>_.
     log_Fatal (pl_ListenAndServe env ''0.0.0.0:8085'' (cn_Handler c)))))"
  "cmd_Run (initRegistry (registryCmd env)) = Some (\<lambda>flags.
     go_bind (reg (pl_Sha256 env) (pl_Open env) (flags ''rootfs'')) (\<lambda>(rootfs, droplets, blobs).
     log_Fatal (pl_ServeRegistry env ''0.0.0.0:8080''
       (Registry_NewHandler (pl_Texts env) (pl_Tar env) (pl_Temp env) rootfs droplets blobs (pl_NotFound env)))))"
  "cmd_Run (simulatorCmd env) = Some (\<lambda>_. log_Fatal (pl_ListenAndServe env ''0.0.0.0:8085''
     (simulate (lib_Printers (pl_Library env)) (lib_Other (pl_Library env)))))"
  "cmd_Flags (initConnect (connectCmd env)) = [\<lparr>fl_Name = ''config'', fl_Shorthand = ''c'', fl_Value = '''', fl_Usage = ''Path to the erini config file''\<rparr>]"
  "cmd_Flags (initRegistry (registryCmd env)) = [\<lparr>fl_Name = ''rootfs'', fl_Shorthand = ''r'', fl_Value = '''', fl_Usage = ''Path to the rootfs tarball''\<rparr>]"
  by (simp_all add: initConnect_def initRegistry_def connectCmd_def registryCmd_def simulatorCmd_def StringP_def)

lemma finds_commandsD:
  assumes "finds_commands cobra" and "c \<in> set (root_Commands (init env))" and "cmd_Run c = Some run"
  shows "\<exists>flags. cobra (init env) [cmd_Use c] = run flags"
    and "cmd_Flags c = [f] \<Longrightarrow> \<exists>flags. cobra (init env) [cmd_Use c, ''--'' @ fl_Name f, v] = run flags \<and> flags (fl_Name f) = Inr v"
  using assms init_commands(5) [of env] unfolding finds_commands_def by blast+

lemma init_members:
  "initConnect (connectCmd env) \<in> set (root_Commands (init env))" "initRegistry (registryCmd env) \<in> set (root_Commands (init env))"
  "simulatorCmd env \<in> set (root_Commands (init env))"
  unfolding init_commands(1) by (intro list.set_intros)+

lemma connect_runs:
  assumes "finds_commands cobra"
  shows "cobra (init env) [''connect'', ''--config'', file_path]
      = go_bind (connect (pl_Library env) (Inr file_path) (pl_Chan env)) (\<lambda>c.
        go_bind (pl_Go env (cn_Emitter c) (cn_Collector c)) (\<lambda>_.
        log_Fatal (pl_ListenAndServe env ''0.0.0.0:8085'' (cn_Handler c))))"
  using finds_commandsD(2) [OF assms init_members(1) init_runs(1,4), where v = file_path, of env] by (auto simp: init_commands)

lemma registry_runs:
  assumes "finds_commands cobra"
  shows "cobra (init env) [''registry'', ''--rootfs'', file_path]
      = go_bind (reg (pl_Sha256 env) (pl_Open env) (Inr file_path)) (\<lambda>(rootfs, droplets, blobs).
        log_Fatal (pl_ServeRegistry env ''0.0.0.0:8080''
          (Registry_NewHandler (pl_Texts env) (pl_Tar env) (pl_Temp env) rootfs droplets blobs (pl_NotFound env))))"
  using finds_commandsD(2) [OF assms init_members(2) init_runs(2,5), where v = file_path, of env] by (auto simp: init_commands)

lemma simulator_runs:
  assumes "finds_commands cobra"
  shows "cobra (init env) [''simulator''] = log_Fatal (pl_ListenAndServe env ''0.0.0.0:8085''
        (simulate (lib_Printers (pl_Library env)) (lib_Other (pl_Library env))))"
  using finds_commandsD(1) [OF assms init_members(3) init_runs(3)] by (simp add: init_commands)

text \<open>
  C40. What \<^verbatim>\<open>opi connect --config\<close> does when the libraries connect: it starts the emitter and the collector and then serves, on port 8085, the handlers
  over the bridge and the stager of the configured namespace; it ends, with status 1, only when the server does.
\<close>

theorem opi_connect_serves:
  fixes env :: "'m platform" and cfg
  defines "lib \<equiv> pl_Library env" and "ch \<equiv> pl_Chan env" and "p \<equiv> ec_Properties cfg"
  assumes "finds_commands cobra"
    and "lib_ReadFile lib file_path w = (Return contents, w)" and "lib_Yaml lib contents = Inr cfg"
    and "lib_BuildConfig lib '''' (pr_KubeConfig p) = Inr kc" and "lib_NewForConfig lib kc = Inr cl"
    and "lib_NewCfClient lib \<lparr>cf_SkipSslValidation = pr_SkipSslValidation p, cf_Username = pr_CfUsername p, cf_Password = pr_CfPassword p,
      cf_ApiAddress = pr_CcAPI p, cf_HttpClient = None\<rparr> w = (Return cf, w)"
    and "lib_NatsConnect lib (''nats://nats:'' @ pr_NatsPassword p @ ''@'' @ pr_NatsIP p @ '':4222'') w = (Return nc, w)"
    and "pl_Go env \<lparr>em_publisher = nc, em_kubeEndpoint = pr_KubeEndpoint p\<rparr>
      \<lparr>col_RouteLister = NewServiceRouteLister cl (pr_KubeNamespace p), col_Work = ch\<rparr> w = (Return (), w1)"
    and "pl_ListenAndServe env ''0.0.0.0:8085'' (Handler_New
        (eirini_bifrost (k8s_bifrost \<lparr>co_Convert = Convert (lib_EnvOrder lib)
            (NewConverter cf (lib_Http lib (pr_InsecureSkipVerify p)) (pr_RegistryAddress p) ''http://127.0.0.1:8080'')\<rparr>
          (k8s_desirer (lib_Urls lib) (lib_RuleOrder lib) (lib_EnvOrder lib) cl (pr_KubeNamespace p) ch)))
        (eirini_stager (k8s_stager (lib_EnvOrder lib) cl (pr_KubeNamespace p) (pr_CcUploaderIP p)
          \<lparr>sc_CfUsername = pr_CfUsername p, sc_CfPassword = pr_CfPassword p, sc_APIAddress = pr_CcAPI p, sc_EiriniAddress = pr_EiriniAddress p,
           sc_SkipSslValidation = pr_SkipSslValidation p\<rparr> (lib_Http lib (pr_SkipSslValidation p))))
        (lib_Printers lib) (lib_Other lib)) w1 = (Return e, w2)"
  shows "opi_main cobra env [''connect'', ''--config'', file_path] w = (Return 1, w2)"
  using connect_serves_the_parts [where lib = lib and cfg = cfg and ch = ch, folded p_def, OF assms(5-10)] assms(11,12)
  by (simp add: opi_main_def Execute_def connect_runs [OF assms(4)] lib_def [symmetric] ch_def [symmetric] log_Fatal_def go_simps)

text \<open>A word that is no command of the program ends it with status 1; nothing is connected or served.\<close>

theorem opi_rejects_unknown_commands:
  assumes "finds_commands cobra" and "name \<notin> {''connect'', ''registry'', ''simulator'', ''help''}" and "take 1 name \<notin> {'''', ''-''}"
  shows "opi_main cobra env (name # rest) w = (Return 1, w)"
proof -
  have "name \<notin> cmd_Use ` set (root_Commands (init env))"
    using assms(2) by (simp add: init_commands)
  then obtain e where "cobra (init env) (name # rest) w = (Error e, w)"
    using assms init_commands(5) [of env] unfolding finds_commands_def by blast
  then show ?thesis by (simp add: opi_main_def Execute_def go_simps)
qed

section \<open>Witnesses\<close>

text \<open>A command line that finds commands by name, and a platform on the in-memory cluster whose server records what it serves by ending.\<close>

definition plain_cobra :: "'w cobra" where
  "plain_cobra r args = (case args of [] \<Rightarrow> go_return ()
    | name # rest \<Rightarrow> (case find (\<lambda>c. cmd_Use c = name) (root_Commands r) of
        None \<Rightarrow> go_throw (ErrorString ''unknown command'')
      | Some c \<Rightarrow> (case cmd_Run c of None \<Rightarrow> go_return ()
        | Some run \<Rightarrow> run (\<lambda>n. case find (\<lambda>f. fl_Name f = n) (cmd_Flags c) of
            None \<Rightarrow> Inl (ErrorString ''flag accessed but not defined'')
          | Some f \<Rightarrow> Inr (case rest of [opt, v] \<Rightarrow> (if opt = ''--'' @ n then v else fl_Value f) | _ \<Rightarrow> fl_Value f)))))"

lemma find_distinct: "distinct (map g xs) \<Longrightarrow> x \<in> set xs \<Longrightarrow> find (\<lambda>y. g y = g x) xs = Some x"
  by (induction xs) (auto simp: image_iff)

lemma find_missing: "y \<notin> g ` set xs \<Longrightarrow> find (\<lambda>x. g x = y) xs = None"
  by (auto simp: find_None_iff)

lemma plain_cobra_finds: "finds_commands plain_cobra"
  by (auto simp: finds_commands_def plain_cobra_def find_distinct find_missing)

text \<open>A process that notes what it starts and serves, and libraries that connect.\<close>

record opi_process = registry_world +
  op_noted :: "string list"

type_synonym noted = "\<lparr>op_noted :: string list\<rparr>"

definition note_text :: "string \<Rightarrow> (opi_process, unit) go" where
  "note_text s w = (Return (), w\<lparr>op_noted := op_noted w @ [s]\<rparr>)"

definition no_resource :: "('o, 'w) resource_interface" where
  "no_resource = \<lparr>rc_Create = (\<lambda>_ _. go_throw EOF), rc_Get = (\<lambda>_ _. go_throw EOF), rc_List = (\<lambda>_ _. go_throw EOF),
     rc_Update = (\<lambda>_ _. go_throw EOF), rc_Delete = (\<lambda>_ _ _. go_throw EOF)\<rparr>"

definition no_kubernetes :: "'w kubernetes_Interface" where
  "no_kubernetes = \<lparr>StatefulSets = no_resource, Services = no_resource, Ingresses = no_resource, Jobs = no_resource\<rparr>"

definition no_cf :: "'w CfClient" where
  "no_cf = \<lparr>cf_GetDropletByAppGuid = (\<lambda>_. go_throw EOF), cf_PushDroplet = (\<lambda>_ _. go_throw EOF), cf_GetAppBitsByAppGuid = (\<lambda>_. go_throw EOF)\<rparr>"

definition process_library :: "opi_process opi_library" where
  "process_library = \<lparr>lib_ReadFile = (\<lambda>_. go_return ''yaml''), lib_Yaml = (\<lambda>_. Inr \<lparr>ec_Properties = sample_properties\<rparr>),
     lib_BuildConfig = (\<lambda>_ k. Inr k), lib_NewForConfig = (\<lambda>_. Inr no_kubernetes), lib_NewCfClient = (\<lambda>_. go_return no_cf),
     lib_Http = (\<lambda>_. \<lparr>hc_CheckURL = (\<lambda>_. None), hc_Do = (\<lambda>_. go_throw EOF), hc_Format = (\<lambda>_. '''')\<rparr>),
     lib_NatsConnect = (\<lambda>_. go_return \<lparr>pub_Publish = (\<lambda>_ _. go_return ())\<rparr>), lib_Urls = plain_urls, lib_RuleOrder = (\<lambda>_. id), lib_EnvOrder = id,
     lib_Printers = no_printers, lib_Other = (\<lambda>_. go_return new_writer)\<rparr>"

definition process_platform :: "noted platform" where
  "process_platform = \<lparr>pl_Library = process_library, pl_Chan = NilChan, pl_Go = (\<lambda>_ _. note_text ''emitter and collector''),
     pl_ListenAndServe = (\<lambda>address _. go_bind (note_text address) (\<lambda>_. go_return EOF)),
     pl_ServeRegistry = (\<lambda>address _. go_bind (note_text address) (\<lambda>_. go_return EOF)), pl_Open = (\<lambda>_. go_throw EOF), pl_Sha256 = (\<lambda>s. s),
     pl_Texts = (\<lambda>_. ''''), pl_Tar = sample_tar, pl_Temp = no_file, pl_NotFound = go_return new_writer\<rparr>"

definition process_start :: opi_process where
  "process_start = \<lparr>bw_heap = [], bw_data = NewInMemoryStore, rg_droplets = [], op_noted = []\<rparr>"

theorem opi_connect_serves_witness:
  "opi_main plain_cobra process_platform [''connect'', ''--config'', ''opi.yml''] process_start
     = (Return 1, process_start\<lparr>op_noted := [''emitter and collector'', ''0.0.0.0:8085'']\<rparr>)"
  by (rule opi_connect_serves [OF plain_cobra_finds, where cfg = "\<lparr>ec_Properties = sample_properties\<rparr>" and e = EOF
      and ?w1.0 = "process_start\<lparr>op_noted := [''emitter and collector'']\<rparr>"])
    (simp_all add: process_platform_def process_library_def sample_properties_def note_text_def process_start_def go_simps)

theorem opi_rejects_unknown_commands_witness:
  "opi_main plain_cobra process_platform [''conect''] process_start = (Return 1, process_start)"
  by (rule opi_rejects_unknown_commands [OF plain_cobra_finds]) simp_all

end
