(* ===== verification/Launch_Cmd.thy ===== *)
theory Launch_Cmd
  imports Go_Os Json_Print
begin

text \<open>
  The launcher of an app's container: \<^verbatim>\<open>launcher/launchcmd/launch.go\<close>. It finds the start command and the index of the
  instance and replaces itself by the launcher of the buildpack life cycle.

  The outcome \<open>Return\<close> is the program that runs next, with its arguments and environment; \<open>Error\<close> is the end of the
  process with status 1 and the text of the error. Whether the system can execute a program is an argument.
\<close>

section \<open>Definitions\<close>

record exec_call =
  xc_Path :: string
  xc_Args :: "string list"
  xc_Env :: "string list"

definition check :: "('w, 'a) go \<Rightarrow> string \<Rightarrow> ('w, 'a) go" where
  "check m action = go_bind (go_try m) (\<lambda>r. case r of
      Inl err \<Rightarrow> go_throw (Wrapped (''failed to '' @ action) err)
    | Inr a \<Rightarrow> go_return a)"

definition parsePodIndex :: "string \<Rightarrow> go_error + string" where
  "parsePodIndex podName =
     (let sl = split_on (CHR ''-'') podName in
      if length sl \<le> 1 then Inl (ErrorString (''Could not parse pod name from '' @ podName))
      else Inr (sl ! (length sl - 1)))"

definition readCommand :: "string \<Rightarrow> ('m os_world_scheme, string) go" where
  "readCommand path =
     go_bind (check (os_Open path) ''read start command'') (\<lambda>stagingInfo.
     check (case rd_Error stagingInfo of
         Some e \<Rightarrow> go_throw e
       | None \<Rightarrow> go_lift (decode_stream (dec_struct [(''start_command'', dec_string)]) '''' (rd_Rest stagingInfo)))
       ''parse start command'')"

definition launch_main :: "(string \<Rightarrow> go_error option) \<Rightarrow> string list \<Rightarrow> ('m os_world_scheme, exec_call) go" where
  "launch_main exec args w =
     go_bind (if os_Getenv ''START_COMMAND'' w = '''' then readCommand ''/home/vcap/staging_info.yml''
              else go_return (os_Getenv ''START_COMMAND'' w)) (\<lambda>command.
     go_bind (check (go_lift (parsePodIndex (os_Getenv ''POD_NAME'' w))) ''parse pod index'') (\<lambda>index.
     go_bind (check (os_Setenv ''INSTANCE_INDEX'' index) ''setting instance index env var'') (\<lambda>_.
     go_bind (check (os_Setenv ''CF_INSTANCE_INDEX'' index) ''setting instance index env var'') (\<lambda>_ w.
     let launcherPath = (if length args > 1 then args ! 1 else '''');
         launcherPath = (if launcherPath = '''' then ''/lifecycle/launcher'' else launcherPath);
         args = [launcherPath, ''/home/vcap/app'', command, '''']
     in check (case exec launcherPath of
            Some e \<Rightarrow> go_throw e
          | None \<Rightarrow> go_return \<lparr>xc_Path = launcherPath, xc_Args = args, xc_Env = os_Environ w\<rparr>) ''execute launcher'' w)))) w"

section \<open>Lemmas\<close>

lemma check_run [simp]:
  "m w = (Return a, w') \<Longrightarrow> check m action w = (Return a, w')"
  "m w = (Error e, w') \<Longrightarrow> check m action w = (Error (Wrapped (''failed to '' @ action) e), w')"
  by (simp_all add: check_def go_simps)

lemma split_last: "CHR ''-'' \<notin> set i \<Longrightarrow> \<exists>ss. ss \<noteq> [] \<and> split_on (CHR ''-'') (n @ CHR ''-'' # i) = ss @ [i]"
  by (rule exI [of _ "split_on (CHR ''-'') n"]) (simp add: split_on_snoc split_on_free)

text \<open>The index is what follows the last hyphen of the pod's name.\<close>

lemma parsePodIndex_last: "CHR ''-'' \<notin> set i \<Longrightarrow> parsePodIndex (n @ CHR ''-'' # i) = Inr i"
  using split_last [of i n] by (auto simp: parsePodIndex_def Let_def nth_append)

lemma parsePodIndex_none: "CHR ''-'' \<notin> set n \<Longrightarrow> parsePodIndex n = Inl (ErrorString (''Could not parse pod name from '' @ n))"
  by (simp add: parsePodIndex_def split_on_free)

lemma show_nat_no: "CHR ''-'' \<notin> set (show_nat i)" "CHR 0x00 \<notin> set (show_nat i)"
  using show_nat_digits [of i] by (auto simp: is_digit_def byte_of_def)

text \<open>Where the start command comes from: the environment, or else the staging information in the droplet.\<close>

definition start_command :: "'m os_world_scheme \<Rightarrow> string \<Rightarrow> bool" where
  "start_command w command \<longleftrightarrow> (if os_Getenv ''START_COMMAND'' w \<noteq> '''' then command = os_Getenv ''START_COMMAND'' w
     else \<exists>text. os_Open ''/home/vcap/staging_info.yml'' w = (Return \<lparr>rd_Rest = text, rd_Error = None\<rparr>, w)
       \<and> decode_stream (dec_struct [(''start_command'', dec_string)]) '''' text = Inr command)"

lemma start_command_run:
  "start_command w command \<Longrightarrow> go_bind (if os_Getenv ''START_COMMAND'' w = '''' then readCommand ''/home/vcap/staging_info.yml''
     else go_return (os_Getenv ''START_COMMAND'' w)) k w = k command w"
  by (auto simp: start_command_def readCommand_def go_simps split: if_splits)

section \<open>Properties\<close>

text \<open>
  C38. In a pod of a stateful set, whose name ends in a hyphen and the ordinal of the instance, the app is launched with that ordinal as
  its instance index and with the start command of its environment or, failing that, of its staging information; the rest of
  the environment is as it was.
\<close>

theorem launch_sets_instance_index:
  assumes "os_Getenv ''POD_NAME'' w = n @ CHR ''-'' # show_nat i" and "start_command w command"
    and "exec ''/lifecycle/launcher'' = None"
  shows "\<exists>w'. launch_main exec [self] w = (Return \<lparr>xc_Path = ''/lifecycle/launcher'',
        xc_Args = [''/lifecycle/launcher'', ''/home/vcap/app'', command, ''''], xc_Env = os_Environ w'\<rparr>, w')
    \<and> os_Getenv ''INSTANCE_INDEX'' w' = show_nat i \<and> os_Getenv ''CF_INSTANCE_INDEX'' w' = show_nat i
    \<and> (\<forall>k. k \<notin> {''INSTANCE_INDEX'', ''CF_INSTANCE_INDEX''} \<longrightarrow> os_Getenv k w' = os_Getenv k w)"
proof -
  have set: "os_Setenv k (show_nat i) w = (Return (), w\<lparr>os_env := map_assign k (show_nat i) (os_env w)\<rparr>)"
    if "k \<in> {''INSTANCE_INDEX'', ''CF_INSTANCE_INDEX''}" for k and w :: "'a os_world_scheme"
    using that show_nat_no by (auto simp: os_Setenv_def)
  show ?thesis
    unfolding launch_main_def start_command_run [OF assms(2)]
    using assms(1,3) parsePodIndex_last [OF show_nat_no(1)] by (simp add: set go_simps Let_def) (simp add: os_Getenv_def)
qed

definition sample_pod :: os_world where
  "sample_pod = \<lparr>os_env = [(''POD_NAME'', ''my-app-3''), (''START_COMMAND'', ''run'')], os_cwd = [], os_umask = 0x12, os_files = Map.empty\<rparr>"

theorem launch_sets_instance_index_witness:
  "\<exists>w' call. launch_main (\<lambda>_. None) [''launch''] sample_pod = (Return call, w') \<and> os_Getenv ''CF_INSTANCE_INDEX'' w' = ''3''"
proof -
  have "show_nat 3 = ''3''" by code_simp
  then show ?thesis
    using launch_sets_instance_index [of sample_pod "''my-app''" 3 "''run''" "\<lambda>_. None" "''launch''"]
    by (auto simp: sample_pod_def os_Getenv_def start_command_def)
qed

end
