(* ===== verification/K8s_Fakes.thy ===== *)
theory K8s_Fakes
  imports Interface_Values
begin

text \<open>
  The test doubles of the managers of package \<^verbatim>\<open>k8s\<close> (\<^verbatim>\<open>k8s/k8sfakes\<close>), generated code of one pattern: see \<open>Counterfeiter\<close>.
  A nil pointer that \<open>Get\<close> answers without an error is a panic of the caller, who follows it.
\<close>

section \<open>\<^verbatim>\<open>k8s/k8sfakes/fake_instance_manager.go\<close>\<close>

record FakeInstanceManager = "interface_value invocation_log" +
  fakeInstanceManager_list :: "(unit, LRP list \<times> go_error option) fake_method"
  fakeInstanceManager_exists :: "(string, bool \<times> go_error option) fake_method"
  fakeInstanceManager_get :: "(string, LRP option \<times> go_error option) fake_method"
  fakeInstanceManager_create :: "(LRP, go_error option) fake_method"
  fakeInstanceManager_delete :: "(string, go_error option) fake_method"
  fakeInstanceManager_update :: "(LRP, go_error option) fake_method"

definition new_FakeInstanceManager :: FakeInstanceManager where
  "new_FakeInstanceManager = \<lparr>invocations = Map.empty,
     fakeInstanceManager_list = new_method ([], None),
     fakeInstanceManager_exists = new_method (False, None),
     fakeInstanceManager_get = new_method (None, None),
     fakeInstanceManager_create = new_method None,
     fakeInstanceManager_delete = new_method None,
     fakeInstanceManager_update = new_method None\<rparr>"

definition FakeInstanceManager_recordInvocation :: "string \<Rightarrow> interface_value list \<Rightarrow> FakeInstanceManager \<Rightarrow> FakeInstanceManager" where
  "FakeInstanceManager_recordInvocation key args fake = log_invocation key args fake"

definition FakeInstanceManager_List :: "(FakeInstanceManager, LRP list) go" where
  "FakeInstanceManager_List =
     go_bind (spy_call fakeInstanceManager_list fakeInstanceManager_list_update FakeInstanceManager_recordInvocation
         ''List'' [] ()) with_error"

definition FakeInstanceManager_ListCallCount :: "FakeInstanceManager \<Rightarrow> int" where
  "FakeInstanceManager_ListCallCount fake = method_CallCount (fakeInstanceManager_list fake)"

definition FakeInstanceManager_ListReturns :: "LRP list \<Rightarrow> go_error option \<Rightarrow> FakeInstanceManager \<Rightarrow> FakeInstanceManager" where
  "FakeInstanceManager_ListReturns result1 result2 fake = fakeInstanceManager_list_update (method_Returns (result1, result2)) fake"

definition FakeInstanceManager_ListReturnsOnCall :: "int \<Rightarrow> LRP list \<Rightarrow> go_error option \<Rightarrow> FakeInstanceManager \<Rightarrow> FakeInstanceManager" where
  "FakeInstanceManager_ListReturnsOnCall i result1 result2 fake = fakeInstanceManager_list_update (method_ReturnsOnCall i (result1, result2)) fake"

definition FakeInstanceManager_Exists :: "string \<Rightarrow> (FakeInstanceManager, bool) go" where
  "FakeInstanceManager_Exists name =
     go_bind (spy_call fakeInstanceManager_exists fakeInstanceManager_exists_update FakeInstanceManager_recordInvocation
         ''Exists'' [AnyString name] name) with_error"

definition FakeInstanceManager_ExistsCallCount :: "FakeInstanceManager \<Rightarrow> int" where
  "FakeInstanceManager_ExistsCallCount fake = method_CallCount (fakeInstanceManager_exists fake)"

definition FakeInstanceManager_ExistsArgsForCall :: "int \<Rightarrow> FakeInstanceManager \<Rightarrow> string outcome" where
  "FakeInstanceManager_ExistsArgsForCall i fake = method_ArgsForCall i (fakeInstanceManager_exists fake)"

definition FakeInstanceManager_ExistsReturns :: "bool \<Rightarrow> go_error option \<Rightarrow> FakeInstanceManager \<Rightarrow> FakeInstanceManager" where
  "FakeInstanceManager_ExistsReturns result1 result2 fake = fakeInstanceManager_exists_update (method_Returns (result1, result2)) fake"

definition FakeInstanceManager_ExistsReturnsOnCall :: "int \<Rightarrow> bool \<Rightarrow> go_error option \<Rightarrow> FakeInstanceManager \<Rightarrow> FakeInstanceManager" where
  "FakeInstanceManager_ExistsReturnsOnCall i result1 result2 fake = fakeInstanceManager_exists_update (method_ReturnsOnCall i (result1, result2)) fake"

definition FakeInstanceManager_Get :: "string \<Rightarrow> (FakeInstanceManager, LRP option) go" where
  "FakeInstanceManager_Get name =
     go_bind (spy_call fakeInstanceManager_get fakeInstanceManager_get_update FakeInstanceManager_recordInvocation
         ''Get'' [AnyString name] name) with_error"

definition FakeInstanceManager_GetCallCount :: "FakeInstanceManager \<Rightarrow> int" where
  "FakeInstanceManager_GetCallCount fake = method_CallCount (fakeInstanceManager_get fake)"

definition FakeInstanceManager_GetArgsForCall :: "int \<Rightarrow> FakeInstanceManager \<Rightarrow> string outcome" where
  "FakeInstanceManager_GetArgsForCall i fake = method_ArgsForCall i (fakeInstanceManager_get fake)"

definition FakeInstanceManager_GetReturns :: "LRP option \<Rightarrow> go_error option \<Rightarrow> FakeInstanceManager \<Rightarrow> FakeInstanceManager" where
  "FakeInstanceManager_GetReturns result1 result2 fake = fakeInstanceManager_get_update (method_Returns (result1, result2)) fake"

definition FakeInstanceManager_GetReturnsOnCall :: "int \<Rightarrow> LRP option \<Rightarrow> go_error option \<Rightarrow> FakeInstanceManager \<Rightarrow> FakeInstanceManager" where
  "FakeInstanceManager_GetReturnsOnCall i result1 result2 fake = fakeInstanceManager_get_update (method_ReturnsOnCall i (result1, result2)) fake"

definition FakeInstanceManager_Create :: "LRP \<Rightarrow> (FakeInstanceManager, unit) go" where
  "FakeInstanceManager_Create lrp =
     go_bind (spy_call fakeInstanceManager_create fakeInstanceManager_create_update FakeInstanceManager_recordInvocation
         ''Create'' [AnyLRP lrp] lrp) only_error"

definition FakeInstanceManager_CreateCallCount :: "FakeInstanceManager \<Rightarrow> int" where
  "FakeInstanceManager_CreateCallCount fake = method_CallCount (fakeInstanceManager_create fake)"

definition FakeInstanceManager_CreateArgsForCall :: "int \<Rightarrow> FakeInstanceManager \<Rightarrow> LRP outcome" where
  "FakeInstanceManager_CreateArgsForCall i fake = method_ArgsForCall i (fakeInstanceManager_create fake)"

definition FakeInstanceManager_CreateReturns :: "go_error option \<Rightarrow> FakeInstanceManager \<Rightarrow> FakeInstanceManager" where
  "FakeInstanceManager_CreateReturns result1 fake = fakeInstanceManager_create_update (method_Returns result1) fake"

definition FakeInstanceManager_CreateReturnsOnCall :: "int \<Rightarrow> go_error option \<Rightarrow> FakeInstanceManager \<Rightarrow> FakeInstanceManager" where
  "FakeInstanceManager_CreateReturnsOnCall i result1 fake = fakeInstanceManager_create_update (method_ReturnsOnCall i result1) fake"

definition FakeInstanceManager_Delete :: "string \<Rightarrow> (FakeInstanceManager, unit) go" where
  "FakeInstanceManager_Delete name =
     go_bind (spy_call fakeInstanceManager_delete fakeInstanceManager_delete_update FakeInstanceManager_recordInvocation
         ''Delete'' [AnyString name] name) only_error"

definition FakeInstanceManager_DeleteCallCount :: "FakeInstanceManager \<Rightarrow> int" where
  "FakeInstanceManager_DeleteCallCount fake = method_CallCount (fakeInstanceManager_delete fake)"

definition FakeInstanceManager_DeleteArgsForCall :: "int \<Rightarrow> FakeInstanceManager \<Rightarrow> string outcome" where
  "FakeInstanceManager_DeleteArgsForCall i fake = method_ArgsForCall i (fakeInstanceManager_delete fake)"

definition FakeInstanceManager_DeleteReturns :: "go_error option \<Rightarrow> FakeInstanceManager \<Rightarrow> FakeInstanceManager" where
  "FakeInstanceManager_DeleteReturns result1 fake = fakeInstanceManager_delete_update (method_Returns result1) fake"

definition FakeInstanceManager_DeleteReturnsOnCall :: "int \<Rightarrow> go_error option \<Rightarrow> FakeInstanceManager \<Rightarrow> FakeInstanceManager" where
  "FakeInstanceManager_DeleteReturnsOnCall i result1 fake = fakeInstanceManager_delete_update (method_ReturnsOnCall i result1) fake"

definition FakeInstanceManager_Update :: "LRP \<Rightarrow> (FakeInstanceManager, unit) go" where
  "FakeInstanceManager_Update lrp =
     go_bind (spy_call fakeInstanceManager_update fakeInstanceManager_update_update FakeInstanceManager_recordInvocation
         ''Update'' [AnyLRP lrp] lrp) only_error"

definition FakeInstanceManager_UpdateCallCount :: "FakeInstanceManager \<Rightarrow> int" where
  "FakeInstanceManager_UpdateCallCount fake = method_CallCount (fakeInstanceManager_update fake)"

definition FakeInstanceManager_UpdateArgsForCall :: "int \<Rightarrow> FakeInstanceManager \<Rightarrow> LRP outcome" where
  "FakeInstanceManager_UpdateArgsForCall i fake = method_ArgsForCall i (fakeInstanceManager_update fake)"

definition FakeInstanceManager_UpdateReturns :: "go_error option \<Rightarrow> FakeInstanceManager \<Rightarrow> FakeInstanceManager" where
  "FakeInstanceManager_UpdateReturns result1 fake = fakeInstanceManager_update_update (method_Returns result1) fake"

definition FakeInstanceManager_UpdateReturnsOnCall :: "int \<Rightarrow> go_error option \<Rightarrow> FakeInstanceManager \<Rightarrow> FakeInstanceManager" where
  "FakeInstanceManager_UpdateReturnsOnCall i result1 fake = fakeInstanceManager_update_update (method_ReturnsOnCall i result1) fake"

definition FakeInstanceManager_Invocations :: "FakeInstanceManager \<Rightarrow> (string \<rightharpoonup> interface_value list list)" where
  "FakeInstanceManager_Invocations fake = copied_invocations fake"

definition fake_instance_manager :: "FakeInstanceManager InstanceManager" where
  "fake_instance_manager = \<lparr>im_List = FakeInstanceManager_List, im_Exists = FakeInstanceManager_Exists,
     im_Get = (\<lambda>name. go_bind (FakeInstanceManager_Get name) deref), im_Create = FakeInstanceManager_Create,
     im_Delete = FakeInstanceManager_Delete, im_Update = FakeInstanceManager_Update\<rparr>"

text \<open>Every method is a part of the double.\<close>

interpretation instanceManager_List: spy_method fakeInstanceManager_list fakeInstanceManager_list_update FakeInstanceManager_recordInvocation invocations
    "''List''" "\<lambda>_. []"
  by unfold_locales (auto simp: FakeInstanceManager_recordInvocation_def log_invocation_def)

interpretation instanceManager_Exists: spy_method fakeInstanceManager_exists fakeInstanceManager_exists_update FakeInstanceManager_recordInvocation invocations
    "''Exists''" "\<lambda>name. [AnyString name]"
  by unfold_locales (auto simp: FakeInstanceManager_recordInvocation_def log_invocation_def)

interpretation instanceManager_Get: spy_method fakeInstanceManager_get fakeInstanceManager_get_update FakeInstanceManager_recordInvocation invocations
    "''Get''" "\<lambda>name. [AnyString name]"
  by unfold_locales (auto simp: FakeInstanceManager_recordInvocation_def log_invocation_def)

interpretation instanceManager_Create: spy_method fakeInstanceManager_create fakeInstanceManager_create_update FakeInstanceManager_recordInvocation invocations
    "''Create''" "\<lambda>lrp. [AnyLRP lrp]"
  by unfold_locales (auto simp: FakeInstanceManager_recordInvocation_def log_invocation_def)

interpretation instanceManager_Delete: spy_method fakeInstanceManager_delete fakeInstanceManager_delete_update FakeInstanceManager_recordInvocation invocations
    "''Delete''" "\<lambda>name. [AnyString name]"
  by unfold_locales (auto simp: FakeInstanceManager_recordInvocation_def log_invocation_def)

interpretation instanceManager_Update: spy_method fakeInstanceManager_update fakeInstanceManager_update_update FakeInstanceManager_recordInvocation invocations
    "''Update''" "\<lambda>lrp. [AnyLRP lrp]"
  by unfold_locales (auto simp: FakeInstanceManager_recordInvocation_def log_invocation_def)

section \<open>\<^verbatim>\<open>k8s/k8sfakes/fake_service_manager.go\<close>\<close>

record FakeServiceManager = "interface_value invocation_log" +
  fakeServiceManager_create :: "(LRP, go_error option) fake_method"
  fakeServiceManager_createHeadless :: "(LRP, go_error option) fake_method"
  fakeServiceManager_update :: "(LRP, go_error option) fake_method"
  fakeServiceManager_delete :: "(string, go_error option) fake_method"
  fakeServiceManager_deleteHeadless :: "(string, go_error option) fake_method"

definition new_FakeServiceManager :: FakeServiceManager where
  "new_FakeServiceManager = \<lparr>invocations = Map.empty,
     fakeServiceManager_create = new_method None,
     fakeServiceManager_createHeadless = new_method None,
     fakeServiceManager_update = new_method None,
     fakeServiceManager_delete = new_method None,
     fakeServiceManager_deleteHeadless = new_method None\<rparr>"

definition FakeServiceManager_recordInvocation :: "string \<Rightarrow> interface_value list \<Rightarrow> FakeServiceManager \<Rightarrow> FakeServiceManager" where
  "FakeServiceManager_recordInvocation key args fake = log_invocation key args fake"

definition FakeServiceManager_Create :: "LRP \<Rightarrow> (FakeServiceManager, unit) go" where
  "FakeServiceManager_Create lrp =
     go_bind (spy_call fakeServiceManager_create fakeServiceManager_create_update FakeServiceManager_recordInvocation
         ''Create'' [AnyLRP lrp] lrp) only_error"

definition FakeServiceManager_CreateCallCount :: "FakeServiceManager \<Rightarrow> int" where
  "FakeServiceManager_CreateCallCount fake = method_CallCount (fakeServiceManager_create fake)"

definition FakeServiceManager_CreateArgsForCall :: "int \<Rightarrow> FakeServiceManager \<Rightarrow> LRP outcome" where
  "FakeServiceManager_CreateArgsForCall i fake = method_ArgsForCall i (fakeServiceManager_create fake)"

definition FakeServiceManager_CreateReturns :: "go_error option \<Rightarrow> FakeServiceManager \<Rightarrow> FakeServiceManager" where
  "FakeServiceManager_CreateReturns result1 fake = fakeServiceManager_create_update (method_Returns result1) fake"

definition FakeServiceManager_CreateReturnsOnCall :: "int \<Rightarrow> go_error option \<Rightarrow> FakeServiceManager \<Rightarrow> FakeServiceManager" where
  "FakeServiceManager_CreateReturnsOnCall i result1 fake = fakeServiceManager_create_update (method_ReturnsOnCall i result1) fake"

definition FakeServiceManager_CreateHeadless :: "LRP \<Rightarrow> (FakeServiceManager, unit) go" where
  "FakeServiceManager_CreateHeadless lrp =
     go_bind (spy_call fakeServiceManager_createHeadless fakeServiceManager_createHeadless_update FakeServiceManager_recordInvocation
         ''CreateHeadless'' [AnyLRP lrp] lrp) only_error"

definition FakeServiceManager_CreateHeadlessCallCount :: "FakeServiceManager \<Rightarrow> int" where
  "FakeServiceManager_CreateHeadlessCallCount fake = method_CallCount (fakeServiceManager_createHeadless fake)"

definition FakeServiceManager_CreateHeadlessArgsForCall :: "int \<Rightarrow> FakeServiceManager \<Rightarrow> LRP outcome" where
  "FakeServiceManager_CreateHeadlessArgsForCall i fake = method_ArgsForCall i (fakeServiceManager_createHeadless fake)"

definition FakeServiceManager_CreateHeadlessReturns :: "go_error option \<Rightarrow> FakeServiceManager \<Rightarrow> FakeServiceManager" where
  "FakeServiceManager_CreateHeadlessReturns result1 fake = fakeServiceManager_createHeadless_update (method_Returns result1) fake"

definition FakeServiceManager_CreateHeadlessReturnsOnCall :: "int \<Rightarrow> go_error option \<Rightarrow> FakeServiceManager \<Rightarrow> FakeServiceManager" where
  "FakeServiceManager_CreateHeadlessReturnsOnCall i result1 fake = fakeServiceManager_createHeadless_update (method_ReturnsOnCall i result1) fake"

definition FakeServiceManager_Update :: "LRP \<Rightarrow> (FakeServiceManager, unit) go" where
  "FakeServiceManager_Update lrp =
     go_bind (spy_call fakeServiceManager_update fakeServiceManager_update_update FakeServiceManager_recordInvocation
         ''Update'' [AnyLRP lrp] lrp) only_error"

definition FakeServiceManager_UpdateCallCount :: "FakeServiceManager \<Rightarrow> int" where
  "FakeServiceManager_UpdateCallCount fake = method_CallCount (fakeServiceManager_update fake)"

definition FakeServiceManager_UpdateArgsForCall :: "int \<Rightarrow> FakeServiceManager \<Rightarrow> LRP outcome" where
  "FakeServiceManager_UpdateArgsForCall i fake = method_ArgsForCall i (fakeServiceManager_update fake)"

definition FakeServiceManager_UpdateReturns :: "go_error option \<Rightarrow> FakeServiceManager \<Rightarrow> FakeServiceManager" where
  "FakeServiceManager_UpdateReturns result1 fake = fakeServiceManager_update_update (method_Returns result1) fake"

definition FakeServiceManager_UpdateReturnsOnCall :: "int \<Rightarrow> go_error option \<Rightarrow> FakeServiceManager \<Rightarrow> FakeServiceManager" where
  "FakeServiceManager_UpdateReturnsOnCall i result1 fake = fakeServiceManager_update_update (method_ReturnsOnCall i result1) fake"

definition FakeServiceManager_Delete :: "string \<Rightarrow> (FakeServiceManager, unit) go" where
  "FakeServiceManager_Delete appName =
     go_bind (spy_call fakeServiceManager_delete fakeServiceManager_delete_update FakeServiceManager_recordInvocation
         ''Delete'' [AnyString appName] appName) only_error"

definition FakeServiceManager_DeleteCallCount :: "FakeServiceManager \<Rightarrow> int" where
  "FakeServiceManager_DeleteCallCount fake = method_CallCount (fakeServiceManager_delete fake)"

definition FakeServiceManager_DeleteArgsForCall :: "int \<Rightarrow> FakeServiceManager \<Rightarrow> string outcome" where
  "FakeServiceManager_DeleteArgsForCall i fake = method_ArgsForCall i (fakeServiceManager_delete fake)"

definition FakeServiceManager_DeleteReturns :: "go_error option \<Rightarrow> FakeServiceManager \<Rightarrow> FakeServiceManager" where
  "FakeServiceManager_DeleteReturns result1 fake = fakeServiceManager_delete_update (method_Returns result1) fake"

definition FakeServiceManager_DeleteReturnsOnCall :: "int \<Rightarrow> go_error option \<Rightarrow> FakeServiceManager \<Rightarrow> FakeServiceManager" where
  "FakeServiceManager_DeleteReturnsOnCall i result1 fake = fakeServiceManager_delete_update (method_ReturnsOnCall i result1) fake"

definition FakeServiceManager_DeleteHeadless :: "string \<Rightarrow> (FakeServiceManager, unit) go" where
  "FakeServiceManager_DeleteHeadless appName =
     go_bind (spy_call fakeServiceManager_deleteHeadless fakeServiceManager_deleteHeadless_update FakeServiceManager_recordInvocation
         ''DeleteHeadless'' [AnyString appName] appName) only_error"

definition FakeServiceManager_DeleteHeadlessCallCount :: "FakeServiceManager \<Rightarrow> int" where
  "FakeServiceManager_DeleteHeadlessCallCount fake = method_CallCount (fakeServiceManager_deleteHeadless fake)"

definition FakeServiceManager_DeleteHeadlessArgsForCall :: "int \<Rightarrow> FakeServiceManager \<Rightarrow> string outcome" where
  "FakeServiceManager_DeleteHeadlessArgsForCall i fake = method_ArgsForCall i (fakeServiceManager_deleteHeadless fake)"

definition FakeServiceManager_DeleteHeadlessReturns :: "go_error option \<Rightarrow> FakeServiceManager \<Rightarrow> FakeServiceManager" where
  "FakeServiceManager_DeleteHeadlessReturns result1 fake = fakeServiceManager_deleteHeadless_update (method_Returns result1) fake"

definition FakeServiceManager_DeleteHeadlessReturnsOnCall :: "int \<Rightarrow> go_error option \<Rightarrow> FakeServiceManager \<Rightarrow> FakeServiceManager" where
  "FakeServiceManager_DeleteHeadlessReturnsOnCall i result1 fake = fakeServiceManager_deleteHeadless_update (method_ReturnsOnCall i result1) fake"

definition FakeServiceManager_Invocations :: "FakeServiceManager \<Rightarrow> (string \<rightharpoonup> interface_value list list)" where
  "FakeServiceManager_Invocations fake = copied_invocations fake"

definition fake_service_manager :: "FakeServiceManager ServiceManager" where
  "fake_service_manager = \<lparr>svm_Create = FakeServiceManager_Create, svm_CreateHeadless = FakeServiceManager_CreateHeadless,
     svm_Update = FakeServiceManager_Update, svm_Delete = FakeServiceManager_Delete,
     svm_DeleteHeadless = FakeServiceManager_DeleteHeadless\<rparr>"

text \<open>Every method is a part of the double.\<close>

interpretation serviceManager_Create: spy_method fakeServiceManager_create fakeServiceManager_create_update FakeServiceManager_recordInvocation invocations
    "''Create''" "\<lambda>lrp. [AnyLRP lrp]"
  by unfold_locales (auto simp: FakeServiceManager_recordInvocation_def log_invocation_def)

interpretation serviceManager_CreateHeadless: spy_method fakeServiceManager_createHeadless fakeServiceManager_createHeadless_update FakeServiceManager_recordInvocation invocations
    "''CreateHeadless''" "\<lambda>lrp. [AnyLRP lrp]"
  by unfold_locales (auto simp: FakeServiceManager_recordInvocation_def log_invocation_def)

interpretation serviceManager_Update: spy_method fakeServiceManager_update fakeServiceManager_update_update FakeServiceManager_recordInvocation invocations
    "''Update''" "\<lambda>lrp. [AnyLRP lrp]"
  by unfold_locales (auto simp: FakeServiceManager_recordInvocation_def log_invocation_def)

interpretation serviceManager_Delete: spy_method fakeServiceManager_delete fakeServiceManager_delete_update FakeServiceManager_recordInvocation invocations
    "''Delete''" "\<lambda>appName. [AnyString appName]"
  by unfold_locales (auto simp: FakeServiceManager_recordInvocation_def log_invocation_def)

interpretation serviceManager_DeleteHeadless: spy_method fakeServiceManager_deleteHeadless fakeServiceManager_deleteHeadless_update FakeServiceManager_recordInvocation invocations
    "''DeleteHeadless''" "\<lambda>appName. [AnyString appName]"
  by unfold_locales (auto simp: FakeServiceManager_recordInvocation_def log_invocation_def)

section \<open>\<^verbatim>\<open>k8s/k8sfakes/fake_ingress_manager.go\<close>\<close>

record FakeIngressManager = "interface_value invocation_log" +
  fakeIngressManager_update :: "(LRP, go_error option) fake_method"
  fakeIngressManager_delete :: "(string, go_error option) fake_method"

definition new_FakeIngressManager :: FakeIngressManager where
  "new_FakeIngressManager = \<lparr>invocations = Map.empty,
     fakeIngressManager_update = new_method None,
     fakeIngressManager_delete = new_method None\<rparr>"

definition FakeIngressManager_recordInvocation :: "string \<Rightarrow> interface_value list \<Rightarrow> FakeIngressManager \<Rightarrow> FakeIngressManager" where
  "FakeIngressManager_recordInvocation key args fake = log_invocation key args fake"

definition FakeIngressManager_Update :: "LRP \<Rightarrow> (FakeIngressManager, unit) go" where
  "FakeIngressManager_Update lrp =
     go_bind (spy_call fakeIngressManager_update fakeIngressManager_update_update FakeIngressManager_recordInvocation
         ''Update'' [AnyLRP lrp] lrp) only_error"

definition FakeIngressManager_UpdateCallCount :: "FakeIngressManager \<Rightarrow> int" where
  "FakeIngressManager_UpdateCallCount fake = method_CallCount (fakeIngressManager_update fake)"

definition FakeIngressManager_UpdateArgsForCall :: "int \<Rightarrow> FakeIngressManager \<Rightarrow> LRP outcome" where
  "FakeIngressManager_UpdateArgsForCall i fake = method_ArgsForCall i (fakeIngressManager_update fake)"

definition FakeIngressManager_UpdateReturns :: "go_error option \<Rightarrow> FakeIngressManager \<Rightarrow> FakeIngressManager" where
  "FakeIngressManager_UpdateReturns result1 fake = fakeIngressManager_update_update (method_Returns result1) fake"

definition FakeIngressManager_UpdateReturnsOnCall :: "int \<Rightarrow> go_error option \<Rightarrow> FakeIngressManager \<Rightarrow> FakeIngressManager" where
  "FakeIngressManager_UpdateReturnsOnCall i result1 fake = fakeIngressManager_update_update (method_ReturnsOnCall i result1) fake"

definition FakeIngressManager_Delete :: "string \<Rightarrow> (FakeIngressManager, unit) go" where
  "FakeIngressManager_Delete lrpName =
     go_bind (spy_call fakeIngressManager_delete fakeIngressManager_delete_update FakeIngressManager_recordInvocation
         ''Delete'' [AnyString lrpName] lrpName) only_error"

definition FakeIngressManager_DeleteCallCount :: "FakeIngressManager \<Rightarrow> int" where
  "FakeIngressManager_DeleteCallCount fake = method_CallCount (fakeIngressManager_delete fake)"

definition FakeIngressManager_DeleteArgsForCall :: "int \<Rightarrow> FakeIngressManager \<Rightarrow> string outcome" where
  "FakeIngressManager_DeleteArgsForCall i fake = method_ArgsForCall i (fakeIngressManager_delete fake)"

definition FakeIngressManager_DeleteReturns :: "go_error option \<Rightarrow> FakeIngressManager \<Rightarrow> FakeIngressManager" where
  "FakeIngressManager_DeleteReturns result1 fake = fakeIngressManager_delete_update (method_Returns result1) fake"

definition FakeIngressManager_DeleteReturnsOnCall :: "int \<Rightarrow> go_error option \<Rightarrow> FakeIngressManager \<Rightarrow> FakeIngressManager" where
  "FakeIngressManager_DeleteReturnsOnCall i result1 fake = fakeIngressManager_delete_update (method_ReturnsOnCall i result1) fake"

definition FakeIngressManager_Invocations :: "FakeIngressManager \<Rightarrow> (string \<rightharpoonup> interface_value list list)" where
  "FakeIngressManager_Invocations fake = copied_invocations fake"

definition fake_ingress_manager :: "FakeIngressManager IngressManager" where
  "fake_ingress_manager = \<lparr>igm_Update = FakeIngressManager_Update, igm_Delete = FakeIngressManager_Delete\<rparr>"

text \<open>Every method is a part of the double.\<close>

interpretation ingressManager_Update: spy_method fakeIngressManager_update fakeIngressManager_update_update FakeIngressManager_recordInvocation invocations
    "''Update''" "\<lambda>lrp. [AnyLRP lrp]"
  by unfold_locales (auto simp: FakeIngressManager_recordInvocation_def log_invocation_def)

interpretation ingressManager_Delete: spy_method fakeIngressManager_delete fakeIngressManager_delete_update FakeIngressManager_recordInvocation invocations
    "''Delete''" "\<lambda>lrpName. [AnyString lrpName]"
  by unfold_locales (auto simp: FakeIngressManager_recordInvocation_def log_invocation_def)

section \<open>\<^verbatim>\<open>k8s/k8sfakes/fake_probe_creator.go\<close>\<close>

record FakeProbeCreator = "interface_value invocation_log" +
  fakeProbeCreator_spy :: "(LRP, Probe option) fake_method"

definition new_FakeProbeCreator :: FakeProbeCreator where
  "new_FakeProbeCreator = \<lparr>invocations = Map.empty,
     fakeProbeCreator_spy = new_method None\<rparr>"

definition FakeProbeCreator_recordInvocation :: "string \<Rightarrow> interface_value list \<Rightarrow> FakeProbeCreator \<Rightarrow> FakeProbeCreator" where
  "FakeProbeCreator_recordInvocation key args fake = log_invocation key args fake"

definition FakeProbeCreator_Spy :: "LRP \<Rightarrow> (FakeProbeCreator, Probe option) go" where
  "FakeProbeCreator_Spy lrp =
     spy_call fakeProbeCreator_spy fakeProbeCreator_spy_update FakeProbeCreator_recordInvocation
         ''ProbeCreator'' [AnyLRP lrp] lrp"

definition FakeProbeCreator_CallCount :: "FakeProbeCreator \<Rightarrow> int" where
  "FakeProbeCreator_CallCount fake = method_CallCount (fakeProbeCreator_spy fake)"

definition FakeProbeCreator_ArgsForCall :: "int \<Rightarrow> FakeProbeCreator \<Rightarrow> LRP outcome" where
  "FakeProbeCreator_ArgsForCall i fake = method_ArgsForCall i (fakeProbeCreator_spy fake)"

definition FakeProbeCreator_Returns :: "Probe option \<Rightarrow> FakeProbeCreator \<Rightarrow> FakeProbeCreator" where
  "FakeProbeCreator_Returns result1 fake = fakeProbeCreator_spy_update (method_Returns result1) fake"

definition FakeProbeCreator_ReturnsOnCall :: "int \<Rightarrow> Probe option \<Rightarrow> FakeProbeCreator \<Rightarrow> FakeProbeCreator" where
  "FakeProbeCreator_ReturnsOnCall i result1 fake = fakeProbeCreator_spy_update (method_ReturnsOnCall i result1) fake"

definition FakeProbeCreator_Invocations :: "FakeProbeCreator \<Rightarrow> (string \<rightharpoonup> interface_value list list)" where
  "FakeProbeCreator_Invocations fake = copied_invocations fake"

text \<open>Every method is a part of the double.\<close>

interpretation probeCreator_Spy: spy_method fakeProbeCreator_spy fakeProbeCreator_spy_update FakeProbeCreator_recordInvocation invocations
    "''ProbeCreator''" "\<lambda>lrp. [AnyLRP lrp]"
  by unfold_locales (auto simp: FakeProbeCreator_recordInvocation_def log_invocation_def)

end
