(* ===== verification/Opi_Fakes.thy ===== *)
theory Opi_Fakes
  imports Interface_Values Task_Desirer
begin

text \<open>
  The test doubles of the desirers and of the converter (\<^verbatim>\<open>opi/opifakes\<close>, \<^verbatim>\<open>bifrost/bifrostfakes\<close>): see \<open>Counterfeiter\<close>.
  A nil pointer that \<open>Get\<close> answers without an error is a panic of the bridge, which follows it.
\<close>

section \<open>\<^verbatim>\<open>opi/opifakes/fake_desirer.go\<close>\<close>

record FakeDesirer = "interface_value invocation_log" +
  fakeDesirer_desire :: "(LRP, go_error option) fake_method"
  fakeDesirer_list :: "(unit, LRP list \<times> go_error option) fake_method"
  fakeDesirer_get :: "(string, LRP option \<times> go_error option) fake_method"
  fakeDesirer_update :: "(LRP, go_error option) fake_method"
  fakeDesirer_stop :: "(string, go_error option) fake_method"

definition new_FakeDesirer :: FakeDesirer where
  "new_FakeDesirer = \<lparr>invocations = Map.empty,
     fakeDesirer_desire = new_method None,
     fakeDesirer_list = new_method ([], None),
     fakeDesirer_get = new_method (None, None),
     fakeDesirer_update = new_method None,
     fakeDesirer_stop = new_method None\<rparr>"

definition FakeDesirer_recordInvocation :: "string \<Rightarrow> interface_value list \<Rightarrow> FakeDesirer \<Rightarrow> FakeDesirer" where
  "FakeDesirer_recordInvocation key args fake = log_invocation key args fake"

definition FakeDesirer_Desire :: "LRP \<Rightarrow> (FakeDesirer, unit) go" where
  "FakeDesirer_Desire lrp =
     go_bind (spy_call fakeDesirer_desire fakeDesirer_desire_update FakeDesirer_recordInvocation
         ''Desire'' [AnyLRP lrp] lrp) only_error"

definition FakeDesirer_DesireCallCount :: "FakeDesirer \<Rightarrow> int" where
  "FakeDesirer_DesireCallCount fake = method_CallCount (fakeDesirer_desire fake)"

definition FakeDesirer_DesireArgsForCall :: "int \<Rightarrow> FakeDesirer \<Rightarrow> LRP outcome" where
  "FakeDesirer_DesireArgsForCall i fake = method_ArgsForCall i (fakeDesirer_desire fake)"

definition FakeDesirer_DesireReturns :: "go_error option \<Rightarrow> FakeDesirer \<Rightarrow> FakeDesirer" where
  "FakeDesirer_DesireReturns result1 fake = fakeDesirer_desire_update (method_Returns result1) fake"

definition FakeDesirer_DesireReturnsOnCall :: "int \<Rightarrow> go_error option \<Rightarrow> FakeDesirer \<Rightarrow> FakeDesirer" where
  "FakeDesirer_DesireReturnsOnCall i result1 fake = fakeDesirer_desire_update (method_ReturnsOnCall i result1) fake"

definition FakeDesirer_List :: "(FakeDesirer, LRP list) go" where
  "FakeDesirer_List =
     go_bind (spy_call fakeDesirer_list fakeDesirer_list_update FakeDesirer_recordInvocation
         ''List'' [] ()) with_error"

definition FakeDesirer_ListCallCount :: "FakeDesirer \<Rightarrow> int" where
  "FakeDesirer_ListCallCount fake = method_CallCount (fakeDesirer_list fake)"

definition FakeDesirer_ListReturns :: "LRP list \<Rightarrow> go_error option \<Rightarrow> FakeDesirer \<Rightarrow> FakeDesirer" where
  "FakeDesirer_ListReturns result1 result2 fake = fakeDesirer_list_update (method_Returns (result1, result2)) fake"

definition FakeDesirer_ListReturnsOnCall :: "int \<Rightarrow> LRP list \<Rightarrow> go_error option \<Rightarrow> FakeDesirer \<Rightarrow> FakeDesirer" where
  "FakeDesirer_ListReturnsOnCall i result1 result2 fake = fakeDesirer_list_update (method_ReturnsOnCall i (result1, result2)) fake"

definition FakeDesirer_Get :: "string \<Rightarrow> (FakeDesirer, LRP option) go" where
  "FakeDesirer_Get name =
     go_bind (spy_call fakeDesirer_get fakeDesirer_get_update FakeDesirer_recordInvocation
         ''Get'' [AnyString name] name) with_error"

definition FakeDesirer_GetCallCount :: "FakeDesirer \<Rightarrow> int" where
  "FakeDesirer_GetCallCount fake = method_CallCount (fakeDesirer_get fake)"

definition FakeDesirer_GetArgsForCall :: "int \<Rightarrow> FakeDesirer \<Rightarrow> string outcome" where
  "FakeDesirer_GetArgsForCall i fake = method_ArgsForCall i (fakeDesirer_get fake)"

definition FakeDesirer_GetReturns :: "LRP option \<Rightarrow> go_error option \<Rightarrow> FakeDesirer \<Rightarrow> FakeDesirer" where
  "FakeDesirer_GetReturns result1 result2 fake = fakeDesirer_get_update (method_Returns (result1, result2)) fake"

definition FakeDesirer_GetReturnsOnCall :: "int \<Rightarrow> LRP option \<Rightarrow> go_error option \<Rightarrow> FakeDesirer \<Rightarrow> FakeDesirer" where
  "FakeDesirer_GetReturnsOnCall i result1 result2 fake = fakeDesirer_get_update (method_ReturnsOnCall i (result1, result2)) fake"

definition FakeDesirer_Update :: "LRP \<Rightarrow> (FakeDesirer, unit) go" where
  "FakeDesirer_Update lrp =
     go_bind (spy_call fakeDesirer_update fakeDesirer_update_update FakeDesirer_recordInvocation
         ''Update'' [AnyLRP lrp] lrp) only_error"

definition FakeDesirer_UpdateCallCount :: "FakeDesirer \<Rightarrow> int" where
  "FakeDesirer_UpdateCallCount fake = method_CallCount (fakeDesirer_update fake)"

definition FakeDesirer_UpdateArgsForCall :: "int \<Rightarrow> FakeDesirer \<Rightarrow> LRP outcome" where
  "FakeDesirer_UpdateArgsForCall i fake = method_ArgsForCall i (fakeDesirer_update fake)"

definition FakeDesirer_UpdateReturns :: "go_error option \<Rightarrow> FakeDesirer \<Rightarrow> FakeDesirer" where
  "FakeDesirer_UpdateReturns result1 fake = fakeDesirer_update_update (method_Returns result1) fake"

definition FakeDesirer_UpdateReturnsOnCall :: "int \<Rightarrow> go_error option \<Rightarrow> FakeDesirer \<Rightarrow> FakeDesirer" where
  "FakeDesirer_UpdateReturnsOnCall i result1 fake = fakeDesirer_update_update (method_ReturnsOnCall i result1) fake"

definition FakeDesirer_Stop :: "string \<Rightarrow> (FakeDesirer, unit) go" where
  "FakeDesirer_Stop name =
     go_bind (spy_call fakeDesirer_stop fakeDesirer_stop_update FakeDesirer_recordInvocation
         ''Stop'' [AnyString name] name) only_error"

definition FakeDesirer_StopCallCount :: "FakeDesirer \<Rightarrow> int" where
  "FakeDesirer_StopCallCount fake = method_CallCount (fakeDesirer_stop fake)"

definition FakeDesirer_StopArgsForCall :: "int \<Rightarrow> FakeDesirer \<Rightarrow> string outcome" where
  "FakeDesirer_StopArgsForCall i fake = method_ArgsForCall i (fakeDesirer_stop fake)"

definition FakeDesirer_StopReturns :: "go_error option \<Rightarrow> FakeDesirer \<Rightarrow> FakeDesirer" where
  "FakeDesirer_StopReturns result1 fake = fakeDesirer_stop_update (method_Returns result1) fake"

definition FakeDesirer_StopReturnsOnCall :: "int \<Rightarrow> go_error option \<Rightarrow> FakeDesirer \<Rightarrow> FakeDesirer" where
  "FakeDesirer_StopReturnsOnCall i result1 fake = fakeDesirer_stop_update (method_ReturnsOnCall i result1) fake"

definition FakeDesirer_Invocations :: "FakeDesirer \<Rightarrow> (string \<rightharpoonup> interface_value list list)" where
  "FakeDesirer_Invocations fake = copied_invocations fake"

definition fake_desirer :: "FakeDesirer opi_Desirer" where
  "fake_desirer = \<lparr>od_Desire = FakeDesirer_Desire, od_List = FakeDesirer_List,
     od_Get = (\<lambda>name. go_bind (FakeDesirer_Get name) deref), od_Update = FakeDesirer_Update, od_Stop = FakeDesirer_Stop\<rparr>"

text \<open>Every method is a part of the double.\<close>

interpretation desirer_Desire: spy_method fakeDesirer_desire fakeDesirer_desire_update FakeDesirer_recordInvocation invocations
    "''Desire''" "\<lambda>lrp. [AnyLRP lrp]"
  by unfold_locales (auto simp: FakeDesirer_recordInvocation_def log_invocation_def)

interpretation desirer_List: spy_method fakeDesirer_list fakeDesirer_list_update FakeDesirer_recordInvocation invocations
    "''List''" "\<lambda>_. []"
  by unfold_locales (auto simp: FakeDesirer_recordInvocation_def log_invocation_def)

interpretation desirer_Get: spy_method fakeDesirer_get fakeDesirer_get_update FakeDesirer_recordInvocation invocations
    "''Get''" "\<lambda>name. [AnyString name]"
  by unfold_locales (auto simp: FakeDesirer_recordInvocation_def log_invocation_def)

interpretation desirer_Update: spy_method fakeDesirer_update fakeDesirer_update_update FakeDesirer_recordInvocation invocations
    "''Update''" "\<lambda>lrp. [AnyLRP lrp]"
  by unfold_locales (auto simp: FakeDesirer_recordInvocation_def log_invocation_def)

interpretation desirer_Stop: spy_method fakeDesirer_stop fakeDesirer_stop_update FakeDesirer_recordInvocation invocations
    "''Stop''" "\<lambda>name. [AnyString name]"
  by unfold_locales (auto simp: FakeDesirer_recordInvocation_def log_invocation_def)

section \<open>\<^verbatim>\<open>opi/opifakes/fake_task_desirer.go\<close>\<close>

record FakeTaskDesirer = "interface_value invocation_log" +
  fakeTaskDesirer_desire :: "(Task, go_error option) fake_method"
  fakeTaskDesirer_desireStaging :: "(Task, go_error option) fake_method"
  fakeTaskDesirer_delete :: "(string, go_error option) fake_method"

definition new_FakeTaskDesirer :: FakeTaskDesirer where
  "new_FakeTaskDesirer = \<lparr>invocations = Map.empty,
     fakeTaskDesirer_desire = new_method None,
     fakeTaskDesirer_desireStaging = new_method None,
     fakeTaskDesirer_delete = new_method None\<rparr>"

definition FakeTaskDesirer_recordInvocation :: "string \<Rightarrow> interface_value list \<Rightarrow> FakeTaskDesirer \<Rightarrow> FakeTaskDesirer" where
  "FakeTaskDesirer_recordInvocation key args fake = log_invocation key args fake"

definition FakeTaskDesirer_Desire :: "Task \<Rightarrow> (FakeTaskDesirer, unit) go" where
  "FakeTaskDesirer_Desire task =
     go_bind (spy_call fakeTaskDesirer_desire fakeTaskDesirer_desire_update FakeTaskDesirer_recordInvocation
         ''Desire'' [AnyTask task] task) only_error"

definition FakeTaskDesirer_DesireCallCount :: "FakeTaskDesirer \<Rightarrow> int" where
  "FakeTaskDesirer_DesireCallCount fake = method_CallCount (fakeTaskDesirer_desire fake)"

definition FakeTaskDesirer_DesireArgsForCall :: "int \<Rightarrow> FakeTaskDesirer \<Rightarrow> Task outcome" where
  "FakeTaskDesirer_DesireArgsForCall i fake = method_ArgsForCall i (fakeTaskDesirer_desire fake)"

definition FakeTaskDesirer_DesireReturns :: "go_error option \<Rightarrow> FakeTaskDesirer \<Rightarrow> FakeTaskDesirer" where
  "FakeTaskDesirer_DesireReturns result1 fake = fakeTaskDesirer_desire_update (method_Returns result1) fake"

definition FakeTaskDesirer_DesireReturnsOnCall :: "int \<Rightarrow> go_error option \<Rightarrow> FakeTaskDesirer \<Rightarrow> FakeTaskDesirer" where
  "FakeTaskDesirer_DesireReturnsOnCall i result1 fake = fakeTaskDesirer_desire_update (method_ReturnsOnCall i result1) fake"

definition FakeTaskDesirer_DesireStaging :: "Task \<Rightarrow> (FakeTaskDesirer, unit) go" where
  "FakeTaskDesirer_DesireStaging task =
     go_bind (spy_call fakeTaskDesirer_desireStaging fakeTaskDesirer_desireStaging_update FakeTaskDesirer_recordInvocation
         ''DesireStaging'' [AnyTask task] task) only_error"

definition FakeTaskDesirer_DesireStagingCallCount :: "FakeTaskDesirer \<Rightarrow> int" where
  "FakeTaskDesirer_DesireStagingCallCount fake = method_CallCount (fakeTaskDesirer_desireStaging fake)"

definition FakeTaskDesirer_DesireStagingArgsForCall :: "int \<Rightarrow> FakeTaskDesirer \<Rightarrow> Task outcome" where
  "FakeTaskDesirer_DesireStagingArgsForCall i fake = method_ArgsForCall i (fakeTaskDesirer_desireStaging fake)"

definition FakeTaskDesirer_DesireStagingReturns :: "go_error option \<Rightarrow> FakeTaskDesirer \<Rightarrow> FakeTaskDesirer" where
  "FakeTaskDesirer_DesireStagingReturns result1 fake = fakeTaskDesirer_desireStaging_update (method_Returns result1) fake"

definition FakeTaskDesirer_DesireStagingReturnsOnCall :: "int \<Rightarrow> go_error option \<Rightarrow> FakeTaskDesirer \<Rightarrow> FakeTaskDesirer" where
  "FakeTaskDesirer_DesireStagingReturnsOnCall i result1 fake = fakeTaskDesirer_desireStaging_update (method_ReturnsOnCall i result1) fake"

definition FakeTaskDesirer_Delete :: "string \<Rightarrow> (FakeTaskDesirer, unit) go" where
  "FakeTaskDesirer_Delete name =
     go_bind (spy_call fakeTaskDesirer_delete fakeTaskDesirer_delete_update FakeTaskDesirer_recordInvocation
         ''Delete'' [AnyString name] name) only_error"

definition FakeTaskDesirer_DeleteCallCount :: "FakeTaskDesirer \<Rightarrow> int" where
  "FakeTaskDesirer_DeleteCallCount fake = method_CallCount (fakeTaskDesirer_delete fake)"

definition FakeTaskDesirer_DeleteArgsForCall :: "int \<Rightarrow> FakeTaskDesirer \<Rightarrow> string outcome" where
  "FakeTaskDesirer_DeleteArgsForCall i fake = method_ArgsForCall i (fakeTaskDesirer_delete fake)"

definition FakeTaskDesirer_DeleteReturns :: "go_error option \<Rightarrow> FakeTaskDesirer \<Rightarrow> FakeTaskDesirer" where
  "FakeTaskDesirer_DeleteReturns result1 fake = fakeTaskDesirer_delete_update (method_Returns result1) fake"

definition FakeTaskDesirer_DeleteReturnsOnCall :: "int \<Rightarrow> go_error option \<Rightarrow> FakeTaskDesirer \<Rightarrow> FakeTaskDesirer" where
  "FakeTaskDesirer_DeleteReturnsOnCall i result1 fake = fakeTaskDesirer_delete_update (method_ReturnsOnCall i result1) fake"

definition FakeTaskDesirer_Invocations :: "FakeTaskDesirer \<Rightarrow> (string \<rightharpoonup> interface_value list list)" where
  "FakeTaskDesirer_Invocations fake = copied_invocations fake"

definition fake_task_desirer :: "FakeTaskDesirer opi_TaskDesirer" where
  "fake_task_desirer = \<lparr>otd_Desire = FakeTaskDesirer_Desire, otd_DesireStaging = FakeTaskDesirer_DesireStaging,
     otd_Delete = FakeTaskDesirer_Delete\<rparr>"

text \<open>Every method is a part of the double.\<close>

interpretation taskDesirer_Desire: spy_method fakeTaskDesirer_desire fakeTaskDesirer_desire_update FakeTaskDesirer_recordInvocation invocations
    "''Desire''" "\<lambda>task. [AnyTask task]"
  by unfold_locales (auto simp: FakeTaskDesirer_recordInvocation_def log_invocation_def)

interpretation taskDesirer_DesireStaging: spy_method fakeTaskDesirer_desireStaging fakeTaskDesirer_desireStaging_update FakeTaskDesirer_recordInvocation invocations
    "''DesireStaging''" "\<lambda>task. [AnyTask task]"
  by unfold_locales (auto simp: FakeTaskDesirer_recordInvocation_def log_invocation_def)

interpretation taskDesirer_Delete: spy_method fakeTaskDesirer_delete fakeTaskDesirer_delete_update FakeTaskDesirer_recordInvocation invocations
    "''Delete''" "\<lambda>name. [AnyString name]"
  by unfold_locales (auto simp: FakeTaskDesirer_recordInvocation_def log_invocation_def)

section \<open>\<^verbatim>\<open>bifrost/bifrostfakes/fake_converter.go\<close>\<close>

record FakeConverter = "interface_value invocation_log" +
  fakeConverter_convert :: "(DesireLRPRequest, LRP \<times> go_error option) fake_method"

definition new_FakeConverter :: FakeConverter where
  "new_FakeConverter = \<lparr>invocations = Map.empty,
     fakeConverter_convert = new_method (zero_LRP, None)\<rparr>"

definition FakeConverter_recordInvocation :: "string \<Rightarrow> interface_value list \<Rightarrow> FakeConverter \<Rightarrow> FakeConverter" where
  "FakeConverter_recordInvocation key args fake = log_invocation key args fake"

definition FakeConverter_Convert :: "DesireLRPRequest \<Rightarrow> (FakeConverter, LRP) go" where
  "FakeConverter_Convert request =
     go_bind (spy_call fakeConverter_convert fakeConverter_convert_update FakeConverter_recordInvocation
         ''Convert'' [AnyDesireLRPRequest request] request) with_error"

definition FakeConverter_ConvertCallCount :: "FakeConverter \<Rightarrow> int" where
  "FakeConverter_ConvertCallCount fake = method_CallCount (fakeConverter_convert fake)"

definition FakeConverter_ConvertArgsForCall :: "int \<Rightarrow> FakeConverter \<Rightarrow> DesireLRPRequest outcome" where
  "FakeConverter_ConvertArgsForCall i fake = method_ArgsForCall i (fakeConverter_convert fake)"

definition FakeConverter_ConvertReturns :: "LRP \<Rightarrow> go_error option \<Rightarrow> FakeConverter \<Rightarrow> FakeConverter" where
  "FakeConverter_ConvertReturns result1 result2 fake = fakeConverter_convert_update (method_Returns (result1, result2)) fake"

definition FakeConverter_ConvertReturnsOnCall :: "int \<Rightarrow> LRP \<Rightarrow> go_error option \<Rightarrow> FakeConverter \<Rightarrow> FakeConverter" where
  "FakeConverter_ConvertReturnsOnCall i result1 result2 fake = fakeConverter_convert_update (method_ReturnsOnCall i (result1, result2)) fake"

definition FakeConverter_Invocations :: "FakeConverter \<Rightarrow> (string \<rightharpoonup> interface_value list list)" where
  "FakeConverter_Invocations fake = copied_invocations fake"

definition fake_converter :: "FakeConverter Converter" where
  "fake_converter = \<lparr>co_Convert = FakeConverter_Convert\<rparr>"

text \<open>Every method is a part of the double.\<close>

interpretation converter_Convert: spy_method fakeConverter_convert fakeConverter_convert_update FakeConverter_recordInvocation invocations
    "''Convert''" "\<lambda>request. [AnyDesireLRPRequest request]"
  by unfold_locales (auto simp: FakeConverter_recordInvocation_def log_invocation_def)

end
