(* ===== verification/Eirini_Fakes.thy ===== *)
theory Eirini_Fakes
  imports Interface_Values Handler Recipe
begin

text \<open>
  The test doubles of the interfaces of \<^verbatim>\<open>models.go\<close> (\<^verbatim>\<open>eirinifakes\<close>): bridge, stager, cloud controller client and extractor.
  See \<open>Counterfeiter\<close>.
\<close>

section \<open>\<^verbatim>\<open>eirinifakes/fake_bifrost.go\<close>\<close>

record FakeBifrost = "interface_value invocation_log" +
  fakeBifrost_transfer :: "(DesireLRPRequest, go_error option) fake_method"
  fakeBifrost_list :: "(unit, DesiredLRPSchedulingInfo list \<times> go_error option) fake_method"
  fakeBifrost_update :: "(UpdateDesiredLRPRequest, go_error option) fake_method"
  fakeBifrost_stop :: "(string, go_error option) fake_method"
  fakeBifrost_getApp :: "(string, DesiredLRP option) fake_method"
  fakeBifrost_getInstances :: "(string, Instance list \<times> go_error option) fake_method"

definition new_FakeBifrost :: FakeBifrost where
  "new_FakeBifrost = \<lparr>invocations = Map.empty,
     fakeBifrost_transfer = new_method None,
     fakeBifrost_list = new_method ([], None),
     fakeBifrost_update = new_method None,
     fakeBifrost_stop = new_method None,
     fakeBifrost_getApp = new_method None,
     fakeBifrost_getInstances = new_method ([], None)\<rparr>"

definition FakeBifrost_recordInvocation :: "string \<Rightarrow> interface_value list \<Rightarrow> FakeBifrost \<Rightarrow> FakeBifrost" where
  "FakeBifrost_recordInvocation key args fake = log_invocation key args fake"

definition FakeBifrost_Transfer :: "DesireLRPRequest \<Rightarrow> (FakeBifrost, unit) go" where
  "FakeBifrost_Transfer request =
     go_bind (spy_call fakeBifrost_transfer fakeBifrost_transfer_update FakeBifrost_recordInvocation
         ''Transfer'' [AnyDesireLRPRequest request] request) only_error"

definition FakeBifrost_TransferCallCount :: "FakeBifrost \<Rightarrow> int" where
  "FakeBifrost_TransferCallCount fake = method_CallCount (fakeBifrost_transfer fake)"

definition FakeBifrost_TransferArgsForCall :: "int \<Rightarrow> FakeBifrost \<Rightarrow> DesireLRPRequest outcome" where
  "FakeBifrost_TransferArgsForCall i fake = method_ArgsForCall i (fakeBifrost_transfer fake)"

definition FakeBifrost_TransferReturns :: "go_error option \<Rightarrow> FakeBifrost \<Rightarrow> FakeBifrost" where
  "FakeBifrost_TransferReturns result1 fake = fakeBifrost_transfer_update (method_Returns result1) fake"

definition FakeBifrost_TransferReturnsOnCall :: "int \<Rightarrow> go_error option \<Rightarrow> FakeBifrost \<Rightarrow> FakeBifrost" where
  "FakeBifrost_TransferReturnsOnCall i result1 fake = fakeBifrost_transfer_update (method_ReturnsOnCall i result1) fake"

definition FakeBifrost_List :: "(FakeBifrost, DesiredLRPSchedulingInfo list) go" where
  "FakeBifrost_List =
     go_bind (spy_call fakeBifrost_list fakeBifrost_list_update FakeBifrost_recordInvocation
         ''List'' [] ()) with_error"

definition FakeBifrost_ListCallCount :: "FakeBifrost \<Rightarrow> int" where
  "FakeBifrost_ListCallCount fake = method_CallCount (fakeBifrost_list fake)"

definition FakeBifrost_ListArgsForCall :: "int \<Rightarrow> FakeBifrost \<Rightarrow> unit outcome" where
  "FakeBifrost_ListArgsForCall i fake = method_ArgsForCall i (fakeBifrost_list fake)"

definition FakeBifrost_ListReturns :: "DesiredLRPSchedulingInfo list \<Rightarrow> go_error option \<Rightarrow> FakeBifrost \<Rightarrow> FakeBifrost" where
  "FakeBifrost_ListReturns result1 result2 fake = fakeBifrost_list_update (method_Returns (result1, result2)) fake"

definition FakeBifrost_ListReturnsOnCall :: "int \<Rightarrow> DesiredLRPSchedulingInfo list \<Rightarrow> go_error option \<Rightarrow> FakeBifrost \<Rightarrow> FakeBifrost" where
  "FakeBifrost_ListReturnsOnCall i result1 result2 fake = fakeBifrost_list_update (method_ReturnsOnCall i (result1, result2)) fake"

definition FakeBifrost_Update :: "UpdateDesiredLRPRequest \<Rightarrow> (FakeBifrost, unit) go" where
  "FakeBifrost_Update update =
     go_bind (spy_call fakeBifrost_update fakeBifrost_update_update FakeBifrost_recordInvocation
         ''Update'' [AnyUpdateDesiredLRPRequest update] update) only_error"

definition FakeBifrost_UpdateCallCount :: "FakeBifrost \<Rightarrow> int" where
  "FakeBifrost_UpdateCallCount fake = method_CallCount (fakeBifrost_update fake)"

definition FakeBifrost_UpdateArgsForCall :: "int \<Rightarrow> FakeBifrost \<Rightarrow> UpdateDesiredLRPRequest outcome" where
  "FakeBifrost_UpdateArgsForCall i fake = method_ArgsForCall i (fakeBifrost_update fake)"

definition FakeBifrost_UpdateReturns :: "go_error option \<Rightarrow> FakeBifrost \<Rightarrow> FakeBifrost" where
  "FakeBifrost_UpdateReturns result1 fake = fakeBifrost_update_update (method_Returns result1) fake"

definition FakeBifrost_UpdateReturnsOnCall :: "int \<Rightarrow> go_error option \<Rightarrow> FakeBifrost \<Rightarrow> FakeBifrost" where
  "FakeBifrost_UpdateReturnsOnCall i result1 fake = fakeBifrost_update_update (method_ReturnsOnCall i result1) fake"

definition FakeBifrost_Stop :: "string \<Rightarrow> (FakeBifrost, unit) go" where
  "FakeBifrost_Stop guid =
     go_bind (spy_call fakeBifrost_stop fakeBifrost_stop_update FakeBifrost_recordInvocation
         ''Stop'' [AnyString guid] guid) only_error"

definition FakeBifrost_StopCallCount :: "FakeBifrost \<Rightarrow> int" where
  "FakeBifrost_StopCallCount fake = method_CallCount (fakeBifrost_stop fake)"

definition FakeBifrost_StopArgsForCall :: "int \<Rightarrow> FakeBifrost \<Rightarrow> string outcome" where
  "FakeBifrost_StopArgsForCall i fake = method_ArgsForCall i (fakeBifrost_stop fake)"

definition FakeBifrost_StopReturns :: "go_error option \<Rightarrow> FakeBifrost \<Rightarrow> FakeBifrost" where
  "FakeBifrost_StopReturns result1 fake = fakeBifrost_stop_update (method_Returns result1) fake"

definition FakeBifrost_StopReturnsOnCall :: "int \<Rightarrow> go_error option \<Rightarrow> FakeBifrost \<Rightarrow> FakeBifrost" where
  "FakeBifrost_StopReturnsOnCall i result1 fake = fakeBifrost_stop_update (method_ReturnsOnCall i result1) fake"

definition FakeBifrost_GetApp :: "string \<Rightarrow> (FakeBifrost, DesiredLRP option) go" where
  "FakeBifrost_GetApp guid =
     spy_call fakeBifrost_getApp fakeBifrost_getApp_update FakeBifrost_recordInvocation
         ''GetApp'' [AnyString guid] guid"

definition FakeBifrost_GetAppCallCount :: "FakeBifrost \<Rightarrow> int" where
  "FakeBifrost_GetAppCallCount fake = method_CallCount (fakeBifrost_getApp fake)"

definition FakeBifrost_GetAppArgsForCall :: "int \<Rightarrow> FakeBifrost \<Rightarrow> string outcome" where
  "FakeBifrost_GetAppArgsForCall i fake = method_ArgsForCall i (fakeBifrost_getApp fake)"

definition FakeBifrost_GetAppReturns :: "DesiredLRP option \<Rightarrow> FakeBifrost \<Rightarrow> FakeBifrost" where
  "FakeBifrost_GetAppReturns result1 fake = fakeBifrost_getApp_update (method_Returns result1) fake"

definition FakeBifrost_GetAppReturnsOnCall :: "int \<Rightarrow> DesiredLRP option \<Rightarrow> FakeBifrost \<Rightarrow> FakeBifrost" where
  "FakeBifrost_GetAppReturnsOnCall i result1 fake = fakeBifrost_getApp_update (method_ReturnsOnCall i result1) fake"

definition FakeBifrost_GetInstances :: "string \<Rightarrow> (FakeBifrost, Instance list) go" where
  "FakeBifrost_GetInstances guid =
     go_bind (spy_call fakeBifrost_getInstances fakeBifrost_getInstances_update FakeBifrost_recordInvocation
         ''GetInstances'' [AnyString guid] guid) with_error"

definition FakeBifrost_GetInstancesCallCount :: "FakeBifrost \<Rightarrow> int" where
  "FakeBifrost_GetInstancesCallCount fake = method_CallCount (fakeBifrost_getInstances fake)"

definition FakeBifrost_GetInstancesArgsForCall :: "int \<Rightarrow> FakeBifrost \<Rightarrow> string outcome" where
  "FakeBifrost_GetInstancesArgsForCall i fake = method_ArgsForCall i (fakeBifrost_getInstances fake)"

definition FakeBifrost_GetInstancesReturns :: "Instance list \<Rightarrow> go_error option \<Rightarrow> FakeBifrost \<Rightarrow> FakeBifrost" where
  "FakeBifrost_GetInstancesReturns result1 result2 fake = fakeBifrost_getInstances_update (method_Returns (result1, result2)) fake"

definition FakeBifrost_GetInstancesReturnsOnCall :: "int \<Rightarrow> Instance list \<Rightarrow> go_error option \<Rightarrow> FakeBifrost \<Rightarrow> FakeBifrost" where
  "FakeBifrost_GetInstancesReturnsOnCall i result1 result2 fake = fakeBifrost_getInstances_update (method_ReturnsOnCall i (result1, result2)) fake"

definition FakeBifrost_Invocations :: "FakeBifrost \<Rightarrow> (string \<rightharpoonup> interface_value list list)" where
  "FakeBifrost_Invocations fake = copied_invocations fake"

definition fake_bifrost :: "FakeBifrost eirini_Bifrost" where
  "fake_bifrost = \<lparr>eb_Transfer = FakeBifrost_Transfer, eb_List = FakeBifrost_List, eb_Update = FakeBifrost_Update,
     eb_Stop = FakeBifrost_Stop, eb_GetApp = FakeBifrost_GetApp, eb_GetInstances = FakeBifrost_GetInstances\<rparr>"

text \<open>Every method is a part of the double.\<close>

interpretation bifrost_Transfer: spy_method fakeBifrost_transfer fakeBifrost_transfer_update FakeBifrost_recordInvocation invocations
    "''Transfer''" "\<lambda>request. [AnyDesireLRPRequest request]"
  by unfold_locales (auto simp: FakeBifrost_recordInvocation_def log_invocation_def)

interpretation bifrost_List: spy_method fakeBifrost_list fakeBifrost_list_update FakeBifrost_recordInvocation invocations
    "''List''" "\<lambda>_. []"
  by unfold_locales (auto simp: FakeBifrost_recordInvocation_def log_invocation_def)

interpretation bifrost_Update: spy_method fakeBifrost_update fakeBifrost_update_update FakeBifrost_recordInvocation invocations
    "''Update''" "\<lambda>update. [AnyUpdateDesiredLRPRequest update]"
  by unfold_locales (auto simp: FakeBifrost_recordInvocation_def log_invocation_def)

interpretation bifrost_Stop: spy_method fakeBifrost_stop fakeBifrost_stop_update FakeBifrost_recordInvocation invocations
    "''Stop''" "\<lambda>guid. [AnyString guid]"
  by unfold_locales (auto simp: FakeBifrost_recordInvocation_def log_invocation_def)

interpretation bifrost_GetApp: spy_method fakeBifrost_getApp fakeBifrost_getApp_update FakeBifrost_recordInvocation invocations
    "''GetApp''" "\<lambda>guid. [AnyString guid]"
  by unfold_locales (auto simp: FakeBifrost_recordInvocation_def log_invocation_def)

interpretation bifrost_GetInstances: spy_method fakeBifrost_getInstances fakeBifrost_getInstances_update FakeBifrost_recordInvocation invocations
    "''GetInstances''" "\<lambda>guid. [AnyString guid]"
  by unfold_locales (auto simp: FakeBifrost_recordInvocation_def log_invocation_def)

section \<open>\<^verbatim>\<open>eirinifakes/fake_stager.go\<close>\<close>

record FakeStager = "interface_value invocation_log" +
  fakeStager_stage :: "(string \<times> StagingRequestFromCC, go_error option) fake_method"
  fakeStager_completeStaging :: "(TaskCallbackResponse, go_error option) fake_method"

definition new_FakeStager :: FakeStager where
  "new_FakeStager = \<lparr>invocations = Map.empty,
     fakeStager_stage = new_method None,
     fakeStager_completeStaging = new_method None\<rparr>"

definition FakeStager_recordInvocation :: "string \<Rightarrow> interface_value list \<Rightarrow> FakeStager \<Rightarrow> FakeStager" where
  "FakeStager_recordInvocation key args fake = log_invocation key args fake"

definition FakeStager_Stage :: "string \<Rightarrow> StagingRequestFromCC \<Rightarrow> (FakeStager, unit) go" where
  "FakeStager_Stage arg1 arg2 =
     go_bind (spy_call fakeStager_stage fakeStager_stage_update FakeStager_recordInvocation
         ''Stage'' [AnyString arg1, AnyStagingRequestFromCC arg2] (arg1, arg2)) only_error"

definition FakeStager_StageCallCount :: "FakeStager \<Rightarrow> int" where
  "FakeStager_StageCallCount fake = method_CallCount (fakeStager_stage fake)"

definition FakeStager_StageArgsForCall :: "int \<Rightarrow> FakeStager \<Rightarrow> (string \<times> StagingRequestFromCC) outcome" where
  "FakeStager_StageArgsForCall i fake = method_ArgsForCall i (fakeStager_stage fake)"

definition FakeStager_StageReturns :: "go_error option \<Rightarrow> FakeStager \<Rightarrow> FakeStager" where
  "FakeStager_StageReturns result1 fake = fakeStager_stage_update (method_Returns result1) fake"

definition FakeStager_StageReturnsOnCall :: "int \<Rightarrow> go_error option \<Rightarrow> FakeStager \<Rightarrow> FakeStager" where
  "FakeStager_StageReturnsOnCall i result1 fake = fakeStager_stage_update (method_ReturnsOnCall i result1) fake"

definition FakeStager_CompleteStaging :: "TaskCallbackResponse \<Rightarrow> (FakeStager, unit) go" where
  "FakeStager_CompleteStaging arg1 =
     go_bind (spy_call fakeStager_completeStaging fakeStager_completeStaging_update FakeStager_recordInvocation
         ''CompleteStaging'' [AnyTaskCallbackResponse arg1] arg1) only_error"

definition FakeStager_CompleteStagingCallCount :: "FakeStager \<Rightarrow> int" where
  "FakeStager_CompleteStagingCallCount fake = method_CallCount (fakeStager_completeStaging fake)"

definition FakeStager_CompleteStagingArgsForCall :: "int \<Rightarrow> FakeStager \<Rightarrow> TaskCallbackResponse outcome" where
  "FakeStager_CompleteStagingArgsForCall i fake = method_ArgsForCall i (fakeStager_completeStaging fake)"

definition FakeStager_CompleteStagingReturns :: "go_error option \<Rightarrow> FakeStager \<Rightarrow> FakeStager" where
  "FakeStager_CompleteStagingReturns result1 fake = fakeStager_completeStaging_update (method_Returns result1) fake"

definition FakeStager_CompleteStagingReturnsOnCall :: "int \<Rightarrow> go_error option \<Rightarrow> FakeStager \<Rightarrow> FakeStager" where
  "FakeStager_CompleteStagingReturnsOnCall i result1 fake = fakeStager_completeStaging_update (method_ReturnsOnCall i result1) fake"

definition FakeStager_Invocations :: "FakeStager \<Rightarrow> (string \<rightharpoonup> interface_value list list)" where
  "FakeStager_Invocations fake = copied_invocations fake"

definition fake_stager :: "FakeStager eirini_Stager" where
  "fake_stager = \<lparr>es_Stage = FakeStager_Stage, es_CompleteStaging = FakeStager_CompleteStaging\<rparr>"

text \<open>Every method is a part of the double.\<close>

interpretation stager_Stage: spy_method fakeStager_stage fakeStager_stage_update FakeStager_recordInvocation invocations
    "''Stage''" "\<lambda>(arg1, arg2). [AnyString arg1, AnyStagingRequestFromCC arg2]"
  by unfold_locales (auto simp: FakeStager_recordInvocation_def log_invocation_def)

interpretation stager_CompleteStaging: spy_method fakeStager_completeStaging fakeStager_completeStaging_update FakeStager_recordInvocation invocations
    "''CompleteStaging''" "\<lambda>arg1. [AnyTaskCallbackResponse arg1]"
  by unfold_locales (auto simp: FakeStager_recordInvocation_def log_invocation_def)

section \<open>\<^verbatim>\<open>eirinifakes/fake_cf_client.go\<close>\<close>

record FakeCfClient = "interface_value invocation_log" +
  fakeCfClient_getDropletByAppGuid :: "(string, string \<times> go_error option) fake_method"
  fakeCfClient_pushDroplet :: "(string \<times> string, go_error option) fake_method"
  fakeCfClient_getAppBitsByAppGuid :: "(string, HTTPResponse option \<times> go_error option) fake_method"

definition new_FakeCfClient :: FakeCfClient where
  "new_FakeCfClient = \<lparr>invocations = Map.empty,
     fakeCfClient_getDropletByAppGuid = new_method ('''', None),
     fakeCfClient_pushDroplet = new_method None,
     fakeCfClient_getAppBitsByAppGuid = new_method (None, None)\<rparr>"

definition FakeCfClient_recordInvocation :: "string \<Rightarrow> interface_value list \<Rightarrow> FakeCfClient \<Rightarrow> FakeCfClient" where
  "FakeCfClient_recordInvocation key args fake = log_invocation key args fake"

definition FakeCfClient_GetDropletByAppGuid :: "string \<Rightarrow> (FakeCfClient, string) go" where
  "FakeCfClient_GetDropletByAppGuid arg1 =
     go_bind (spy_call fakeCfClient_getDropletByAppGuid fakeCfClient_getDropletByAppGuid_update FakeCfClient_recordInvocation
         ''GetDropletByAppGuid'' [AnyString arg1] arg1) with_error"

definition FakeCfClient_GetDropletByAppGuidCallCount :: "FakeCfClient \<Rightarrow> int" where
  "FakeCfClient_GetDropletByAppGuidCallCount fake = method_CallCount (fakeCfClient_getDropletByAppGuid fake)"

definition FakeCfClient_GetDropletByAppGuidArgsForCall :: "int \<Rightarrow> FakeCfClient \<Rightarrow> string outcome" where
  "FakeCfClient_GetDropletByAppGuidArgsForCall i fake = method_ArgsForCall i (fakeCfClient_getDropletByAppGuid fake)"

definition FakeCfClient_GetDropletByAppGuidReturns :: "string \<Rightarrow> go_error option \<Rightarrow> FakeCfClient \<Rightarrow> FakeCfClient" where
  "FakeCfClient_GetDropletByAppGuidReturns result1 result2 fake = fakeCfClient_getDropletByAppGuid_update (method_Returns (result1, result2)) fake"

definition FakeCfClient_GetDropletByAppGuidReturnsOnCall :: "int \<Rightarrow> string \<Rightarrow> go_error option \<Rightarrow> FakeCfClient \<Rightarrow> FakeCfClient" where
  "FakeCfClient_GetDropletByAppGuidReturnsOnCall i result1 result2 fake = fakeCfClient_getDropletByAppGuid_update (method_ReturnsOnCall i (result1, result2)) fake"

definition FakeCfClient_PushDroplet :: "string \<Rightarrow> string \<Rightarrow> (FakeCfClient, unit) go" where
  "FakeCfClient_PushDroplet arg1 arg2 =
     go_bind (spy_call fakeCfClient_pushDroplet fakeCfClient_pushDroplet_update FakeCfClient_recordInvocation
         ''PushDroplet'' [AnyString arg1, AnyString arg2] (arg1, arg2)) only_error"

definition FakeCfClient_PushDropletCallCount :: "FakeCfClient \<Rightarrow> int" where
  "FakeCfClient_PushDropletCallCount fake = method_CallCount (fakeCfClient_pushDroplet fake)"

definition FakeCfClient_PushDropletArgsForCall :: "int \<Rightarrow> FakeCfClient \<Rightarrow> (string \<times> string) outcome" where
  "FakeCfClient_PushDropletArgsForCall i fake = method_ArgsForCall i (fakeCfClient_pushDroplet fake)"

definition FakeCfClient_PushDropletReturns :: "go_error option \<Rightarrow> FakeCfClient \<Rightarrow> FakeCfClient" where
  "FakeCfClient_PushDropletReturns result1 fake = fakeCfClient_pushDroplet_update (method_Returns result1) fake"

definition FakeCfClient_PushDropletReturnsOnCall :: "int \<Rightarrow> go_error option \<Rightarrow> FakeCfClient \<Rightarrow> FakeCfClient" where
  "FakeCfClient_PushDropletReturnsOnCall i result1 fake = fakeCfClient_pushDroplet_update (method_ReturnsOnCall i result1) fake"

definition FakeCfClient_GetAppBitsByAppGuid :: "string \<Rightarrow> (FakeCfClient, HTTPResponse option) go" where
  "FakeCfClient_GetAppBitsByAppGuid arg1 =
     go_bind (spy_call fakeCfClient_getAppBitsByAppGuid fakeCfClient_getAppBitsByAppGuid_update FakeCfClient_recordInvocation
         ''GetAppBitsByAppGuid'' [AnyString arg1] arg1) with_error"

definition FakeCfClient_GetAppBitsByAppGuidCallCount :: "FakeCfClient \<Rightarrow> int" where
  "FakeCfClient_GetAppBitsByAppGuidCallCount fake = method_CallCount (fakeCfClient_getAppBitsByAppGuid fake)"

definition FakeCfClient_GetAppBitsByAppGuidArgsForCall :: "int \<Rightarrow> FakeCfClient \<Rightarrow> string outcome" where
  "FakeCfClient_GetAppBitsByAppGuidArgsForCall i fake = method_ArgsForCall i (fakeCfClient_getAppBitsByAppGuid fake)"

definition FakeCfClient_GetAppBitsByAppGuidReturns :: "HTTPResponse option \<Rightarrow> go_error option \<Rightarrow> FakeCfClient \<Rightarrow> FakeCfClient" where
  "FakeCfClient_GetAppBitsByAppGuidReturns result1 result2 fake = fakeCfClient_getAppBitsByAppGuid_update (method_Returns (result1, result2)) fake"

definition FakeCfClient_GetAppBitsByAppGuidReturnsOnCall :: "int \<Rightarrow> HTTPResponse option \<Rightarrow> go_error option \<Rightarrow> FakeCfClient \<Rightarrow> FakeCfClient" where
  "FakeCfClient_GetAppBitsByAppGuidReturnsOnCall i result1 result2 fake = fakeCfClient_getAppBitsByAppGuid_update (method_ReturnsOnCall i (result1, result2)) fake"

definition FakeCfClient_Invocations :: "FakeCfClient \<Rightarrow> (string \<rightharpoonup> interface_value list list)" where
  "FakeCfClient_Invocations fake = copied_invocations fake"

definition fake_cf_client :: "FakeCfClient CfClient" where
  "fake_cf_client = \<lparr>cf_GetDropletByAppGuid = FakeCfClient_GetDropletByAppGuid, cf_PushDroplet = FakeCfClient_PushDroplet,
     cf_GetAppBitsByAppGuid = (\<lambda>guid. go_bind (FakeCfClient_GetAppBitsByAppGuid guid) deref)\<rparr>"

text \<open>Every method is a part of the double.\<close>

interpretation cfClient_GetDropletByAppGuid: spy_method fakeCfClient_getDropletByAppGuid fakeCfClient_getDropletByAppGuid_update FakeCfClient_recordInvocation invocations
    "''GetDropletByAppGuid''" "\<lambda>arg1. [AnyString arg1]"
  by unfold_locales (auto simp: FakeCfClient_recordInvocation_def log_invocation_def)

interpretation cfClient_PushDroplet: spy_method fakeCfClient_pushDroplet fakeCfClient_pushDroplet_update FakeCfClient_recordInvocation invocations
    "''PushDroplet''" "\<lambda>(arg1, arg2). [AnyString arg1, AnyString arg2]"
  by unfold_locales (auto simp: FakeCfClient_recordInvocation_def log_invocation_def)

interpretation cfClient_GetAppBitsByAppGuid: spy_method fakeCfClient_getAppBitsByAppGuid fakeCfClient_getAppBitsByAppGuid_update FakeCfClient_recordInvocation invocations
    "''GetAppBitsByAppGuid''" "\<lambda>arg1. [AnyString arg1]"
  by unfold_locales (auto simp: FakeCfClient_recordInvocation_def log_invocation_def)

section \<open>\<^verbatim>\<open>eirinifakes/fake_extractor.go\<close>\<close>

record FakeExtractor = "interface_value invocation_log" +
  fakeExtractor_extract :: "(string \<times> string, go_error option) fake_method"

definition new_FakeExtractor :: FakeExtractor where
  "new_FakeExtractor = \<lparr>invocations = Map.empty,
     fakeExtractor_extract = new_method None\<rparr>"

definition FakeExtractor_recordInvocation :: "string \<Rightarrow> interface_value list \<Rightarrow> FakeExtractor \<Rightarrow> FakeExtractor" where
  "FakeExtractor_recordInvocation key args fake = log_invocation key args fake"

definition FakeExtractor_Extract :: "string \<Rightarrow> string \<Rightarrow> (FakeExtractor, unit) go" where
  "FakeExtractor_Extract src targetDir =
     go_bind (spy_call fakeExtractor_extract fakeExtractor_extract_update FakeExtractor_recordInvocation
         ''Extract'' [AnyString src, AnyString targetDir] (src, targetDir)) only_error"

definition FakeExtractor_ExtractCallCount :: "FakeExtractor \<Rightarrow> int" where
  "FakeExtractor_ExtractCallCount fake = method_CallCount (fakeExtractor_extract fake)"

definition FakeExtractor_ExtractArgsForCall :: "int \<Rightarrow> FakeExtractor \<Rightarrow> (string \<times> string) outcome" where
  "FakeExtractor_ExtractArgsForCall i fake = method_ArgsForCall i (fakeExtractor_extract fake)"

definition FakeExtractor_ExtractReturns :: "go_error option \<Rightarrow> FakeExtractor \<Rightarrow> FakeExtractor" where
  "FakeExtractor_ExtractReturns result1 fake = fakeExtractor_extract_update (method_Returns result1) fake"

definition FakeExtractor_ExtractReturnsOnCall :: "int \<Rightarrow> go_error option \<Rightarrow> FakeExtractor \<Rightarrow> FakeExtractor" where
  "FakeExtractor_ExtractReturnsOnCall i result1 fake = fakeExtractor_extract_update (method_ReturnsOnCall i result1) fake"

definition FakeExtractor_Invocations :: "FakeExtractor \<Rightarrow> (string \<rightharpoonup> interface_value list list)" where
  "FakeExtractor_Invocations fake = copied_invocations fake"

definition fake_extractor :: "FakeExtractor Extractor" where
  "fake_extractor = \<lparr>ex_Extract = FakeExtractor_Extract\<rparr>"

text \<open>Every method is a part of the double.\<close>

interpretation extractor_Extract: spy_method fakeExtractor_extract fakeExtractor_extract_update FakeExtractor_recordInvocation invocations
    "''Extract''" "\<lambda>(src, targetDir). [AnyString src, AnyString targetDir]"
  by unfold_locales (auto simp: FakeExtractor_recordInvocation_def log_invocation_def)

section \<open>What the double of the bridge records\<close>

text \<open>A double that was only used through its methods.\<close>

inductive used_bifrost :: "FakeBifrost \<Rightarrow> bool" where
  new: "used_bifrost new_FakeBifrost"
| Transfer: "used_bifrost fake \<Longrightarrow> used_bifrost (snd (FakeBifrost_Transfer request fake))"
| List: "used_bifrost fake \<Longrightarrow> used_bifrost (snd (FakeBifrost_List fake))"
| Update: "used_bifrost fake \<Longrightarrow> used_bifrost (snd (FakeBifrost_Update update fake))"
| Stop: "used_bifrost fake \<Longrightarrow> used_bifrost (snd (FakeBifrost_Stop guid fake))"
| GetApp: "used_bifrost fake \<Longrightarrow> used_bifrost (snd (FakeBifrost_GetApp guid fake))"
| GetInstances: "used_bifrost fake \<Longrightarrow> used_bifrost (snd (FakeBifrost_GetInstances guid fake))"
| TransferReturns: "used_bifrost fake \<Longrightarrow> used_bifrost (FakeBifrost_TransferReturns r1 fake)"
| TransferReturnsOnCall: "used_bifrost fake \<Longrightarrow> used_bifrost (FakeBifrost_TransferReturnsOnCall i r1 fake)"
| ListReturns: "used_bifrost fake \<Longrightarrow> used_bifrost (FakeBifrost_ListReturns r1 r2 fake)"
| ListReturnsOnCall: "used_bifrost fake \<Longrightarrow> used_bifrost (FakeBifrost_ListReturnsOnCall i r1 r2 fake)"
| UpdateReturns: "used_bifrost fake \<Longrightarrow> used_bifrost (FakeBifrost_UpdateReturns r1 fake)"
| UpdateReturnsOnCall: "used_bifrost fake \<Longrightarrow> used_bifrost (FakeBifrost_UpdateReturnsOnCall i r1 fake)"
| StopReturns: "used_bifrost fake \<Longrightarrow> used_bifrost (FakeBifrost_StopReturns r1 fake)"
| StopReturnsOnCall: "used_bifrost fake \<Longrightarrow> used_bifrost (FakeBifrost_StopReturnsOnCall i r1 fake)"
| GetAppReturns: "used_bifrost fake \<Longrightarrow> used_bifrost (FakeBifrost_GetAppReturns r1 fake)"
| GetAppReturnsOnCall: "used_bifrost fake \<Longrightarrow> used_bifrost (FakeBifrost_GetAppReturnsOnCall i r1 fake)"
| GetInstancesReturns: "used_bifrost fake \<Longrightarrow> used_bifrost (FakeBifrost_GetInstancesReturns r1 r2 fake)"
| GetInstancesReturnsOnCall: "used_bifrost fake \<Longrightarrow> used_bifrost (FakeBifrost_GetInstancesReturnsOnCall i r1 r2 fake)"

lemmas bifrost_double_defs = FakeBifrost_Transfer_def FakeBifrost_TransferReturns_def FakeBifrost_TransferReturnsOnCall_def FakeBifrost_List_def FakeBifrost_ListReturns_def FakeBifrost_ListReturnsOnCall_def FakeBifrost_Update_def FakeBifrost_UpdateReturns_def FakeBifrost_UpdateReturnsOnCall_def FakeBifrost_Stop_def FakeBifrost_StopReturns_def FakeBifrost_StopReturnsOnCall_def FakeBifrost_GetApp_def FakeBifrost_GetAppReturns_def FakeBifrost_GetAppReturnsOnCall_def FakeBifrost_GetInstances_def FakeBifrost_GetInstancesReturns_def FakeBifrost_GetInstancesReturnsOnCall_def

lemmas bifrost_double_runs = bifrost_Transfer.call_run bifrost_List.call_run bifrost_Update.call_run bifrost_Stop.call_run bifrost_GetApp.call_run bifrost_GetInstances.call_run

text \<open>The arguments kept for the calls of a method, as the values an invocation records.\<close>

definition bifrost_calls :: "FakeBifrost \<Rightarrow> string \<Rightarrow> interface_value list list" where
  "bifrost_calls fake key = (
     if key = ''Transfer'' then map (\<lambda>a. [AnyDesireLRPRequest a]) (fm_ArgsForCall (fakeBifrost_transfer fake)) else
     if key = ''List'' then map (\<lambda>_. []) (fm_ArgsForCall (fakeBifrost_list fake)) else
     if key = ''Update'' then map (\<lambda>a. [AnyUpdateDesiredLRPRequest a]) (fm_ArgsForCall (fakeBifrost_update fake)) else
     if key = ''Stop'' then map (\<lambda>a. [AnyString a]) (fm_ArgsForCall (fakeBifrost_stop fake)) else
     if key = ''GetApp'' then map (\<lambda>a. [AnyString a]) (fm_ArgsForCall (fakeBifrost_getApp fake)) else
     if key = ''GetInstances'' then map (\<lambda>a. [AnyString a]) (fm_ArgsForCall (fakeBifrost_getInstances fake)) else [])"



end
