(* ===== verification/Recipe_Fakes.thy ===== *)
theory Recipe_Fakes
  imports Interface_Values Recipe
begin

text \<open>
  The test doubles of the steps of the staging recipe (\<^verbatim>\<open>recipe/recipefakes\<close>): see \<open>Counterfeiter\<close>.
\<close>

section \<open>\<^verbatim>\<open>recipe/recipefakes/fake_installer.go\<close>\<close>

record FakeInstaller = "interface_value invocation_log" +
  fakeInstaller_install :: "(string \<times> string, go_error option) fake_method"

definition new_FakeInstaller :: FakeInstaller where
  "new_FakeInstaller = \<lparr>invocations = Map.empty,
     fakeInstaller_install = new_method None\<rparr>"

definition FakeInstaller_recordInvocation :: "string \<Rightarrow> interface_value list \<Rightarrow> FakeInstaller \<Rightarrow> FakeInstaller" where
  "FakeInstaller_recordInvocation key args fake = log_invocation key args fake"

definition FakeInstaller_Install :: "string \<Rightarrow> string \<Rightarrow> (FakeInstaller, unit) go" where
  "FakeInstaller_Install appID targetDir =
     go_bind (spy_call fakeInstaller_install fakeInstaller_install_update FakeInstaller_recordInvocation
         ''Install'' [AnyString appID, AnyString targetDir] (appID, targetDir)) only_error"

definition FakeInstaller_InstallCallCount :: "FakeInstaller \<Rightarrow> int" where
  "FakeInstaller_InstallCallCount fake = method_CallCount (fakeInstaller_install fake)"

definition FakeInstaller_InstallArgsForCall :: "int \<Rightarrow> FakeInstaller \<Rightarrow> (string \<times> string) outcome" where
  "FakeInstaller_InstallArgsForCall i fake = method_ArgsForCall i (fakeInstaller_install fake)"

definition FakeInstaller_InstallReturns :: "go_error option \<Rightarrow> FakeInstaller \<Rightarrow> FakeInstaller" where
  "FakeInstaller_InstallReturns result1 fake = fakeInstaller_install_update (method_Returns result1) fake"

definition FakeInstaller_InstallReturnsOnCall :: "int \<Rightarrow> go_error option \<Rightarrow> FakeInstaller \<Rightarrow> FakeInstaller" where
  "FakeInstaller_InstallReturnsOnCall i result1 fake = fakeInstaller_install_update (method_ReturnsOnCall i result1) fake"

definition FakeInstaller_Invocations :: "FakeInstaller \<Rightarrow> (string \<rightharpoonup> interface_value list list)" where
  "FakeInstaller_Invocations fake = copied_invocations fake"

definition fake_installer :: "FakeInstaller Installer" where
  "fake_installer = \<lparr>in_Install = FakeInstaller_Install\<rparr>"

text \<open>Every method is a part of the double.\<close>

interpretation installer_Install: spy_method fakeInstaller_install fakeInstaller_install_update FakeInstaller_recordInvocation invocations
    "''Install''" "\<lambda>(appID, targetDir). [AnyString appID, AnyString targetDir]"
  by unfold_locales (auto simp: FakeInstaller_recordInvocation_def log_invocation_def)

section \<open>\<^verbatim>\<open>recipe/recipefakes/fake_commander.go\<close>\<close>

record FakeCommander = "interface_value invocation_log" +
  fakeCommander_exec :: "(string \<times> string list, go_error option) fake_method"

definition new_FakeCommander :: FakeCommander where
  "new_FakeCommander = \<lparr>invocations = Map.empty,
     fakeCommander_exec = new_method None\<rparr>"

definition FakeCommander_recordInvocation :: "string \<Rightarrow> interface_value list \<Rightarrow> FakeCommander \<Rightarrow> FakeCommander" where
  "FakeCommander_recordInvocation key args fake = log_invocation key args fake"

definition FakeCommander_Exec :: "string \<Rightarrow> string list \<Rightarrow> (FakeCommander, unit) go" where
  "FakeCommander_Exec cmd args =
     go_bind (spy_call fakeCommander_exec fakeCommander_exec_update FakeCommander_recordInvocation
         ''Exec'' [AnyString cmd, AnyStrings args] (cmd, args)) only_error"

definition FakeCommander_ExecCallCount :: "FakeCommander \<Rightarrow> int" where
  "FakeCommander_ExecCallCount fake = method_CallCount (fakeCommander_exec fake)"

definition FakeCommander_ExecArgsForCall :: "int \<Rightarrow> FakeCommander \<Rightarrow> (string \<times> string list) outcome" where
  "FakeCommander_ExecArgsForCall i fake = method_ArgsForCall i (fakeCommander_exec fake)"

definition FakeCommander_ExecReturns :: "go_error option \<Rightarrow> FakeCommander \<Rightarrow> FakeCommander" where
  "FakeCommander_ExecReturns result1 fake = fakeCommander_exec_update (method_Returns result1) fake"

definition FakeCommander_ExecReturnsOnCall :: "int \<Rightarrow> go_error option \<Rightarrow> FakeCommander \<Rightarrow> FakeCommander" where
  "FakeCommander_ExecReturnsOnCall i result1 fake = fakeCommander_exec_update (method_ReturnsOnCall i result1) fake"

definition FakeCommander_Invocations :: "FakeCommander \<Rightarrow> (string \<rightharpoonup> interface_value list list)" where
  "FakeCommander_Invocations fake = copied_invocations fake"

definition fake_commander :: "FakeCommander Commander" where
  "fake_commander = \<lparr>cm_Exec = FakeCommander_Exec\<rparr>"

text \<open>Every method is a part of the double.\<close>

interpretation commander_Exec: spy_method fakeCommander_exec fakeCommander_exec_update FakeCommander_recordInvocation invocations
    "''Exec''" "\<lambda>(cmd, args). [AnyString cmd, AnyStrings args]"
  by unfold_locales (auto simp: FakeCommander_recordInvocation_def log_invocation_def)

section \<open>\<^verbatim>\<open>recipe/recipefakes/fake_uploader.go\<close>\<close>

record FakeUploader = "interface_value invocation_log" +
  fakeUploader_upload :: "(string \<times> string, go_error option) fake_method"

definition new_FakeUploader :: FakeUploader where
  "new_FakeUploader = \<lparr>invocations = Map.empty,
     fakeUploader_upload = new_method None\<rparr>"

definition FakeUploader_recordInvocation :: "string \<Rightarrow> interface_value list \<Rightarrow> FakeUploader \<Rightarrow> FakeUploader" where
  "FakeUploader_recordInvocation key args fake = log_invocation key args fake"

definition FakeUploader_Upload :: "string \<Rightarrow> string \<Rightarrow> (FakeUploader, unit) go" where
  "FakeUploader_Upload src url =
     go_bind (spy_call fakeUploader_upload fakeUploader_upload_update FakeUploader_recordInvocation
         ''Upload'' [AnyString src, AnyString url] (src, url)) only_error"

definition FakeUploader_UploadCallCount :: "FakeUploader \<Rightarrow> int" where
  "FakeUploader_UploadCallCount fake = method_CallCount (fakeUploader_upload fake)"

definition FakeUploader_UploadArgsForCall :: "int \<Rightarrow> FakeUploader \<Rightarrow> (string \<times> string) outcome" where
  "FakeUploader_UploadArgsForCall i fake = method_ArgsForCall i (fakeUploader_upload fake)"

definition FakeUploader_UploadReturns :: "go_error option \<Rightarrow> FakeUploader \<Rightarrow> FakeUploader" where
  "FakeUploader_UploadReturns result1 fake = fakeUploader_upload_update (method_Returns result1) fake"

definition FakeUploader_UploadReturnsOnCall :: "int \<Rightarrow> go_error option \<Rightarrow> FakeUploader \<Rightarrow> FakeUploader" where
  "FakeUploader_UploadReturnsOnCall i result1 fake = fakeUploader_upload_update (method_ReturnsOnCall i result1) fake"

definition FakeUploader_Invocations :: "FakeUploader \<Rightarrow> (string \<rightharpoonup> interface_value list list)" where
  "FakeUploader_Invocations fake = copied_invocations fake"

definition fake_uploader :: "FakeUploader Uploader" where
  "fake_uploader = \<lparr>up_Upload = FakeUploader_Upload\<rparr>"

text \<open>Every method is a part of the double.\<close>

interpretation uploader_Upload: spy_method fakeUploader_upload fakeUploader_upload_update FakeUploader_recordInvocation invocations
    "''Upload''" "\<lambda>(src, url). [AnyString src, AnyString url]"
  by unfold_locales (auto simp: FakeUploader_recordInvocation_def log_invocation_def)

section \<open>\<^verbatim>\<open>recipe/recipefakes/fake_staging_result_modifier.go\<close>\<close>

record FakeStagingResultModifier = "interface_value invocation_log" +
  fakeStagingResultModifier_modify :: "(StagingResult, StagingResult \<times> go_error option) fake_method"

definition new_FakeStagingResultModifier :: FakeStagingResultModifier where
  "new_FakeStagingResultModifier = \<lparr>invocations = Map.empty,
     fakeStagingResultModifier_modify = new_method (zero_StagingResult, None)\<rparr>"

definition FakeStagingResultModifier_recordInvocation :: "string \<Rightarrow> interface_value list \<Rightarrow> FakeStagingResultModifier \<Rightarrow> FakeStagingResultModifier" where
  "FakeStagingResultModifier_recordInvocation key args fake = log_invocation key args fake"

definition FakeStagingResultModifier_Modify :: "StagingResult \<Rightarrow> (FakeStagingResultModifier, StagingResult) go" where
  "FakeStagingResultModifier_Modify result =
     go_bind (spy_call fakeStagingResultModifier_modify fakeStagingResultModifier_modify_update FakeStagingResultModifier_recordInvocation
         ''Modify'' [AnyStagingResult result] result) with_error"

definition FakeStagingResultModifier_ModifyCallCount :: "FakeStagingResultModifier \<Rightarrow> int" where
  "FakeStagingResultModifier_ModifyCallCount fake = method_CallCount (fakeStagingResultModifier_modify fake)"

definition FakeStagingResultModifier_ModifyArgsForCall :: "int \<Rightarrow> FakeStagingResultModifier \<Rightarrow> StagingResult outcome" where
  "FakeStagingResultModifier_ModifyArgsForCall i fake = method_ArgsForCall i (fakeStagingResultModifier_modify fake)"

definition FakeStagingResultModifier_ModifyReturns :: "StagingResult \<Rightarrow> go_error option \<Rightarrow> FakeStagingResultModifier \<Rightarrow> FakeStagingResultModifier" where
  "FakeStagingResultModifier_ModifyReturns result1 result2 fake = fakeStagingResultModifier_modify_update (method_Returns (result1, result2)) fake"

definition FakeStagingResultModifier_ModifyReturnsOnCall :: "int \<Rightarrow> StagingResult \<Rightarrow> go_error option \<Rightarrow> FakeStagingResultModifier \<Rightarrow> FakeStagingResultModifier" where
  "FakeStagingResultModifier_ModifyReturnsOnCall i result1 result2 fake = fakeStagingResultModifier_modify_update (method_ReturnsOnCall i (result1, result2)) fake"

definition FakeStagingResultModifier_Invocations :: "FakeStagingResultModifier \<Rightarrow> (string \<rightharpoonup> interface_value list list)" where
  "FakeStagingResultModifier_Invocations fake = copied_invocations fake"

definition fake_result_modifier :: "FakeStagingResultModifier StagingResultModifier" where
  "fake_result_modifier = \<lparr>sm_Modify = FakeStagingResultModifier_Modify\<rparr>"

text \<open>Every method is a part of the double.\<close>

interpretation stagingResultModifier_Modify: spy_method fakeStagingResultModifier_modify fakeStagingResultModifier_modify_update FakeStagingResultModifier_recordInvocation invocations
    "''Modify''" "\<lambda>result. [AnyStagingResult result]"
  by unfold_locales (auto simp: FakeStagingResultModifier_recordInvocation_def log_invocation_def)

end
