(* ===== verification/Component_Doubles.thy ===== *)
theory Component_Doubles
  imports K8s_Fakes Opi_Fakes Eirini_Fakes Recipe_Fakes
begin

text \<open>
  Components against the test doubles of the parts they call. The doubles record every call and answer what they were told, so
  these theorems say, for every script of answers, which calls a component makes, with which arguments, and what
  it makes of the answers.

  The world of such a run holds one double for every part; each is a part of the world in the sense of \<open>world_part\<close>.
\<close>

section \<open>Managers in a part of the world\<close>

definition zoom_InstanceManager :: "('w \<Rightarrow> 'p) \<Rightarrow> (('p \<Rightarrow> 'p) \<Rightarrow> 'w \<Rightarrow> 'w) \<Rightarrow> 'p InstanceManager \<Rightarrow> 'w InstanceManager" where
  "zoom_InstanceManager get upd m = \<lparr>im_List = zoom get upd (im_List m), im_Exists = (\<lambda>name. zoom get upd (im_Exists m name)),
     im_Get = (\<lambda>name. zoom get upd (im_Get m name)), im_Create = (\<lambda>lrp. zoom get upd (im_Create m lrp)),
     im_Delete = (\<lambda>name. zoom get upd (im_Delete m name)), im_Update = (\<lambda>lrp. zoom get upd (im_Update m lrp))\<rparr>"

definition zoom_ServiceManager :: "('w \<Rightarrow> 'p) \<Rightarrow> (('p \<Rightarrow> 'p) \<Rightarrow> 'w \<Rightarrow> 'w) \<Rightarrow> 'p ServiceManager \<Rightarrow> 'w ServiceManager" where
  "zoom_ServiceManager get upd m = \<lparr>svm_Create = (\<lambda>lrp. zoom get upd (svm_Create m lrp)),
     svm_CreateHeadless = (\<lambda>lrp. zoom get upd (svm_CreateHeadless m lrp)), svm_Update = (\<lambda>lrp. zoom get upd (svm_Update m lrp)),
     svm_Delete = (\<lambda>name. zoom get upd (svm_Delete m name)), svm_DeleteHeadless = (\<lambda>name. zoom get upd (svm_DeleteHeadless m name))\<rparr>"

definition zoom_IngressManager :: "('w \<Rightarrow> 'p) \<Rightarrow> (('p \<Rightarrow> 'p) \<Rightarrow> 'w \<Rightarrow> 'w) \<Rightarrow> 'p IngressManager \<Rightarrow> 'w IngressManager" where
  "zoom_IngressManager get upd m = \<lparr>igm_Update = (\<lambda>lrp. zoom get upd (igm_Update m lrp)),
     igm_Delete = (\<lambda>name. zoom get upd (igm_Delete m name))\<rparr>"

section \<open>The desirer against its three managers\<close>

record manager_doubles =
  md_instances :: FakeInstanceManager
  md_services :: FakeServiceManager
  md_ingress :: FakeIngressManager

interpretation md_instances: world_part md_instances md_instances_update
  by unfold_locales (auto simp: comp_def)

interpretation md_services: world_part md_services md_services_update
  by unfold_locales (auto simp: comp_def)

interpretation md_ingress: world_part md_ingress md_ingress_update
  by unfold_locales (auto simp: comp_def)

definition spied_desirer :: "manager_doubles Desirer" where
  "spied_desirer = \<lparr>ds_IngressManager = zoom_IngressManager md_ingress md_ingress_update fake_ingress_manager,
     ds_InstanceManager = zoom_InstanceManager md_instances md_instances_update fake_instance_manager,
     ds_ServiceManager = zoom_ServiceManager md_services md_services_update fake_service_manager\<rparr>"

text \<open>What the next call of a method will be answered.\<close>

definition next_answer :: "('a, 'r) fake_method \<Rightarrow> 'a \<Rightarrow> 'r" where
  "next_answer m args = scripted m (length (fm_ArgsForCall m)) args"

text \<open>The outcome of steps made in turn until one fails, and the number of steps that were begun.\<close>

fun first_error :: "go_error option list \<Rightarrow> unit outcome" where
  "first_error [] = Return ()"
| "first_error (None # es) = first_error es"
| "first_error (Some e # es) = Error e"

fun begun :: "go_error option list \<Rightarrow> nat" where
  "begun [] = 0"
| "begun (None # es) = Suc (begun es)"
| "begun (Some e # es) = 1"

lemmas double_defs = spied_desirer_def zoom_InstanceManager_def zoom_ServiceManager_def zoom_IngressManager_def
  fake_instance_manager_def fake_service_manager_def fake_ingress_manager_def
  FakeInstanceManager_Exists_def FakeInstanceManager_Create_def FakeInstanceManager_Update_def FakeInstanceManager_Delete_def
  FakeServiceManager_Create_def FakeServiceManager_Update_def FakeServiceManager_Delete_def
  FakeIngressManager_Update_def FakeIngressManager_Delete_def
  FakeInstanceManager_recordInvocation_def FakeServiceManager_recordInvocation_def FakeIngressManager_recordInvocation_def

lemmas double_runs = instanceManager_Exists.call_run instanceManager_Create.call_run instanceManager_Update.call_run
  instanceManager_Delete.call_run serviceManager_Create.call_run serviceManager_Update.call_run serviceManager_Delete.call_run
  ingressManager_Update.call_run ingressManager_Delete.call_run

abbreviation calls :: "('a, 'r) fake_method \<Rightarrow> 'a list" where
  "calls \<equiv> fm_ArgsForCall"

text \<open>The calls of a method after a step that is only made under a condition.\<close>

definition called_if :: "bool \<Rightarrow> 'a \<Rightarrow> 'a list \<Rightarrow> 'a list" where
  "called_if c a as = (if c then as @ [a] else as)"

lemmas spied_run = zoom_def go_bind_def next_answer_def log_invocation_def with_error_def only_error_def called_if_def Let_def


text \<open>
  An update goes to the instances, the service and the ingress in this order; a stop to the instances, the ingress and the service, so
  that an ingress that fails keeps the service from being deleted.
\<close>

theorem update_calls_in_order:
  "let answers = [next_answer (fakeInstanceManager_update (md_instances w)) lrp,
         next_answer (fakeServiceManager_update (md_services w)) lrp, next_answer (fakeIngressManager_update (md_ingress w)) lrp];
       (r, w') = Desirer_Update spied_desirer lrp w
   in r = first_error answers
    \<and> calls (fakeInstanceManager_update (md_instances w')) = calls (fakeInstanceManager_update (md_instances w)) @ [lrp]
    \<and> calls (fakeServiceManager_update (md_services w'))
        = called_if (1 < begun answers) lrp (calls (fakeServiceManager_update (md_services w)))
    \<and> calls (fakeIngressManager_update (md_ingress w'))
        = called_if (2 < begun answers) lrp (calls (fakeIngressManager_update (md_ingress w)))"
  by (auto simp: Desirer_Update_def double_defs double_runs spied_run split: option.splits)

theorem stop_calls_in_order:
  "let answers = [next_answer (fakeInstanceManager_delete (md_instances w)) name,
         next_answer (fakeIngressManager_delete (md_ingress w)) name, next_answer (fakeServiceManager_delete (md_services w)) name];
       (r, w') = Desirer_Stop spied_desirer name w
   in r = first_error answers
    \<and> calls (fakeInstanceManager_delete (md_instances w')) = calls (fakeInstanceManager_delete (md_instances w)) @ [name]
    \<and> calls (fakeIngressManager_delete (md_ingress w'))
        = called_if (1 < begun answers) name (calls (fakeIngressManager_delete (md_ingress w)))
    \<and> calls (fakeServiceManager_delete (md_services w'))
        = called_if (2 < begun answers) name (calls (fakeServiceManager_delete (md_services w)))"
  by (auto simp: Desirer_Stop_def double_defs double_runs spied_run split: option.splits)

section \<open>The recipe against its steps\<close>

text \<open>The container of the recipe, its file system included, with a double for every step and the requests a server got.\<close>

record recipe_doubles = logged_world +
  rd_installer :: FakeInstaller
  rd_commander :: FakeCommander
  rd_uploader :: FakeUploader
  rd_modifier :: FakeStagingResultModifier

definition test_server :: "int \<Rightarrow> 'm logged_world_scheme http_client" where
  "test_server code = \<lparr>hc_CheckURL = (\<lambda>_. None),
     hc_Do = (\<lambda>r w. (Return \<lparr>rsp_StatusCode = code, rsp_Body = '''', rsp_ReadError = None\<rparr>, w\<lparr>lw_requests := lw_requests w @ [r]\<rparr>)),
     hc_Format = (\<lambda>_. '''')\<rparr>"

definition spied_executor :: "PacksBuilderConf \<Rightarrow> recipe_doubles PacksExecutor" where
  "spied_executor packs = \<lparr>pe_Conf = packs,
     pe_Installer = \<lparr>in_Install = (\<lambda>a d. zoom rd_installer rd_installer_update (in_Install fake_installer a d))\<rparr>,
     pe_Uploader = \<lparr>up_Upload = (\<lambda>f u. zoom rd_uploader rd_uploader_update (up_Upload fake_uploader f u))\<rparr>,
     pe_Commander = \<lparr>cm_Exec = (\<lambda>c as. zoom rd_commander rd_commander_update (cm_Exec fake_commander c as))\<rparr>,
     pe_ResultModifier = \<lparr>sm_Modify = (\<lambda>r. zoom rd_modifier rd_modifier_update (sm_Modify fake_result_modifier r))\<rparr>\<rparr>"

lemmas recipe_double_defs = spied_executor_def fake_installer_def fake_commander_def fake_uploader_def fake_result_modifier_def
  FakeInstaller_Install_def FakeCommander_Exec_def FakeUploader_Upload_def FakeStagingResultModifier_Modify_def
  FakeInstaller_recordInvocation_def FakeCommander_recordInvocation_def FakeUploader_recordInvocation_def
  FakeStagingResultModifier_recordInvocation_def

lemmas recipe_double_runs = installer_Install.call_run [of "(a, d)" for a d, unfolded prod.case]
  commander_Exec.call_run [of "(c, as)" for c as, unfolded prod.case] uploader_Upload.call_run [of "(f, u)" for f u, unfolded prod.case]
  stagingResultModifier_Modify.call_run

lemma spied_install:
  "in_Install (pe_Installer (spied_executor packs)) a d w =
     (case next_answer (fakeInstaller_install (rd_installer w)) (a, d) of None \<Rightarrow> Return () | Some e \<Rightarrow> Error e,
      w\<lparr>rd_installer := FakeInstaller_recordInvocation ''Install'' [AnyString a, AnyString d]
        (fakeInstaller_install_update (\<lambda>m. m\<lparr>fm_ArgsForCall := fm_ArgsForCall m @ [(a, d)]\<rparr>) (rd_installer w))\<rparr>)"
  by (simp add: recipe_double_defs recipe_double_runs spied_run split: option.split)

lemma spied_exec:
  "cm_Exec (pe_Commander (spied_executor packs)) c as w =
     (case next_answer (fakeCommander_exec (rd_commander w)) (c, as) of None \<Rightarrow> Return () | Some e \<Rightarrow> Error e,
      w\<lparr>rd_commander := FakeCommander_recordInvocation ''Exec'' [AnyString c, AnyStrings as]
        (fakeCommander_exec_update (\<lambda>m. m\<lparr>fm_ArgsForCall := fm_ArgsForCall m @ [(c, as)]\<rparr>) (rd_commander w))\<rparr>)"
  by (simp add: recipe_double_defs recipe_double_runs spied_run split: option.split)

lemma spied_upload:
  "up_Upload (pe_Uploader (spied_executor packs)) f u w =
     (case next_answer (fakeUploader_upload (rd_uploader w)) (f, u) of None \<Rightarrow> Return () | Some e \<Rightarrow> Error e,
      w\<lparr>rd_uploader := FakeUploader_recordInvocation ''Upload'' [AnyString f, AnyString u]
        (fakeUploader_upload_update (\<lambda>m. m\<lparr>fm_ArgsForCall := fm_ArgsForCall m @ [(f, u)]\<rparr>) (rd_uploader w))\<rparr>)"
  by (simp add: recipe_double_defs recipe_double_runs spied_run split: option.split)

lemma failure_reported:
  "respondWithFailure texts (test_server code) err conf w = (Return (), w\<lparr>lw_requests := lw_requests w @ [failure_request texts conf err]\<rparr>)"
  by (subst respondWithFailure_run) (simp_all add: test_server_def)

text \<open>Once the droplet is uploaded, the steps before it are not called again.\<close>

definition same_steps :: "recipe_doubles \<Rightarrow> recipe_doubles \<Rightarrow> bool" where
  "same_steps w w' \<longleftrightarrow> rd_installer w' = rd_installer w \<and> rd_commander w' = rd_commander w \<and> rd_uploader w' = rd_uploader w"

lemma same_steps_bind:
  assumes "same_steps w (snd (m w))" and "\<And>a w'. same_steps w' (snd (k a w'))"
  shows "same_steps w (snd (go_bind m k w))"
  using assms(1) assms(2) [of "snd (m w)"] by (auto simp: go_bind_def same_steps_def split: prod.split outcome.split)

lemma send_same_steps: "same_steps w (snd (sendCompleteResponse (test_server code) addr t w))"
  by (simp add: sendCompleteResponse_def test_server_def NewRequest_def same_steps_def go_bind_def go_try_def Let_def)

lemma create_same_steps: "same_steps w (snd (createSuccessResponse (spied_executor packs) conf w))"
  unfolding createSuccessResponse_def getStagingResult_def go_bind_assoc
  by (intro same_steps_bind)
    (auto simp: same_steps_def go_try_def ioutil_ReadFile_def os_Open_def go_bind_def recipe_double_defs recipe_double_runs spied_run go_lift_def
      split: prod.split outcome.split option.split sum.split node.split)


end
