(* ===== verification/Kube_Parts.thy ===== *)
theory Kube_Parts
  imports Kube_Api World_Parts
begin

text \<open>
  A cluster as a part of a larger world. The client of Kubernetes and the channel to the route emitter work on the part of the world
  that is the cluster; \<open>kube_cluster_zoom\<close> carries every promise of the API over to the larger world, so that all lemmas of the
  locale \<open>kube_cluster\<close> hold there.
\<close>

definition zoom_resource :: "('w \<Rightarrow> 'p) \<Rightarrow> (('p \<Rightarrow> 'p) \<Rightarrow> 'w \<Rightarrow> 'w) \<Rightarrow> ('o, 'p) resource_interface \<Rightarrow> ('o, 'w) resource_interface" where
  "zoom_resource get put rc = \<lparr>rc_Create = (\<lambda>ns ob. zoom get put (rc_Create rc ns ob)), rc_Get = (\<lambda>ns n. zoom get put (rc_Get rc ns n)),
     rc_List = (\<lambda>ns s. zoom get put (rc_List rc ns s)), rc_Update = (\<lambda>ns ob. zoom get put (rc_Update rc ns ob)),
     rc_Delete = (\<lambda>ns n pol. zoom get put (rc_Delete rc ns n pol))\<rparr>"

definition zoom_kubernetes :: "('w \<Rightarrow> 'p) \<Rightarrow> (('p \<Rightarrow> 'p) \<Rightarrow> 'w \<Rightarrow> 'w) \<Rightarrow> 'p kubernetes_Interface \<Rightarrow> 'w kubernetes_Interface" where
  "zoom_kubernetes get put cl = \<lparr>StatefulSets = zoom_resource get put (StatefulSets cl), Services = zoom_resource get put (Services cl),
     Ingresses = zoom_resource get put (Ingresses cl), Jobs = zoom_resource get put (Jobs cl)\<rparr>"

text \<open>A predicate \<open>P\<close> of the rest of the world is kept by every call: what lies outside the cluster is not touched.\<close>

lemma kube_resource_zoom:
  assumes part: "world_part get put" and rc: "kube_resource rc meta with_ns sel upd ab iv" and frame: "\<And>f w. P w \<Longrightarrow> P (put f w)"
  shows "kube_resource (zoom_resource get put rc) meta with_ns sel upd (\<lambda>w. ab (get w)) (\<lambda>w. iv (get w) \<and> P w)"
proof -
  note get_put = world_part.get_upd [OF part] and put_get = world_part.upd_get [OF part]
  note laws = kube_resource.Get_law [OF rc] kube_resource.Create_law [OF rc] kube_resource.Update_law [OF rc] kube_resource.Delete_law [OF rc]
  show ?thesis
  proof (unfold_locales, goal_cases)
    case (1 w ns n)
    then show ?case by (simp add: zoom_resource_def zoom_def laws(1) put_get)
  next
    case (2 w ns)
    then obtain obs where "rc_List rc ns '''' (get w) = (Return obs, get w)" "distinct (map (om_Name \<circ> meta) obs)"
      "set obs = {ob. \<exists>n. sel (ab (get w)) (ns, n) = Some ob}"
      using kube_resource.List_law [OF rc] by blast
    then show ?case by (simp add: zoom_resource_def zoom_def put_get)
  next
    case (3 w ns v)
    then obtain obs where "rc_List rc ns (''name='' @ v) (get w) = (Return obs, get w)"
      "set obs = {ob. (\<exists>n. sel (ab (get w)) (ns, n) = Some ob) \<and> map_of (om_Labels (meta ob)) ''name'' = Some v}"
      using kube_resource.List_name_law [OF rc] by blast
    then show ?case by (simp add: zoom_resource_def zoom_def put_get)
  next
    case (4 w ns ob)
    then show ?case using laws(2) [of "get w" ns ob] by (simp add: zoom_resource_def get_put frame)
  next
    case (5 w ns ob)
    then show ?case using laws(3) [of "get w" ns ob] by (simp add: zoom_resource_def get_put frame)
  next
    case (6 w ns n pol)
    then show ?case using laws(4) [of "get w" ns n pol] by (simp add: zoom_resource_def get_put frame)
  next
    case (7 w ns n ob)
    then show ?case using kube_resource.stored_name [OF rc] by blast
  next
    case (8 f c)
    show ?case by (rule kube_resource.sel_upd [OF rc])
  qed
qed

theorem kube_cluster_zoom:
  assumes part: "world_part get put" and cl: "kube_cluster cl ab iv ch" and frame: "\<And>f w. P w \<Longrightarrow> P (put f w)"
  shows "kube_cluster (zoom_kubernetes get put cl) (\<lambda>w. ab (get w)) (\<lambda>w. iv (get w) \<and> P w) (zoom_chan put ch)"
proof -
  have kinds:
    "kube_resource (StatefulSets cl) ss_Meta ss_with_ns c_StatefulSets c_StatefulSets_update ab iv"
    "kube_resource (Services cl) svc_Meta svc_with_ns c_Services c_Services_update ab iv"
    "kube_resource (Ingresses cl) ing_Meta ing_with_ns c_Ingresses c_Ingresses_update ab iv"
    "kube_resource (Jobs cl) job_Meta job_with_ns c_Jobs c_Jobs_update ab iv"
    using cl by (simp_all add: kube_cluster_def)
  note zoomed = kube_resource_zoom [where P = P, OF part _ frame]
  have "chan_send (zoom_chan put ch) m = zoom get put (chan_send ch m)" for m
    by (rule world_part.zoom_send [OF part, symmetric])
  moreover note kube_cluster.send_law [OF cl]
  ultimately show ?thesis
    using zoomed [OF kinds(1)] zoomed [OF kinds(2)]
      zoomed [OF kinds(3)] zoomed [OF kinds(4)]
    by (simp add: kube_cluster_def kube_cluster_axioms_def zoom_kubernetes_def world_part.get_upd [OF part] frame)
qed

end
