(* ===== verification/Files_Only.thy ===== *)
theory Files_Only
  imports Recipe
begin

text \<open>
  Computations that change nothing but the file system. Whatever else the world of a container holds next to its files
  stays as it is while the recipe unpacks an app: in particular the part of the world that is the cluster.
\<close>

named_theorems files_only_intros \<open>which computations change files only\<close>

definition files_only :: "('m os_world_scheme, 'a) go \<Rightarrow> bool" where
  "files_only m \<longleftrightarrow> (\<forall>w. \<exists>fs. snd (m w) = w\<lparr>os_files := fs\<rparr>)"

lemma files_onlyI: "(\<And>w. \<exists>fs. snd (m w) = w\<lparr>os_files := fs\<rparr>) \<Longrightarrow> files_only m"
  by (simp add: files_only_def)

lemma files_onlyE:
  assumes "files_only m" and "m w = (r, w')"
  obtains fs where "w' = w\<lparr>os_files := fs\<rparr>"
  using assms by (metis files_only_def snd_conv)

lemma unchanged_files: "\<exists>fs. w = w\<lparr>os_files := fs\<rparr>" for w :: "'m os_world_scheme"
  by (intro exI [of _ "os_files w"]) simp

lemma files_only_set_node: "\<exists>fs. set_node q n w = w\<lparr>os_files := fs\<rparr>"
  by (auto simp: set_node_def)

lemma files_only_return [files_only_intros]: "files_only (go_return a)"
  and files_only_throw [files_only_intros]: "files_only (go_throw e)"
  and files_only_lift [files_only_intros]: "files_only (go_lift r)"
  by (auto intro!: files_onlyI unchanged_files simp: go_lift_def split: sum.split)

lemma files_only_bind [files_only_intros]:
  assumes "files_only m" and "\<And>a. files_only (k a)"
  shows "files_only (go_bind m k)"
proof (rule files_onlyI)
  fix w
  obtain r w1 where m: "m w = (r, w1)" by fastforce
  then obtain fs where w1: "w1 = w\<lparr>os_files := fs\<rparr>" by (rule files_onlyE [OF assms(1)])
  show "\<exists>fs. snd (go_bind m k w) = w\<lparr>os_files := fs\<rparr>"
  proof (cases r)
    case (Return a)
    obtain r' w2 where k: "k a w1 = (r', w2)" by fastforce
    then obtain fs' where "w2 = w1\<lparr>os_files := fs'\<rparr>" by (rule files_onlyE [OF assms(2)])
    with m k Return w1 show ?thesis by (auto simp: go_simps)
  qed (use m w1 in \<open>auto simp: go_bind_def\<close>)
qed

lemma files_only_try [files_only_intros]: "files_only m \<Longrightarrow> files_only (go_try m)"
  by (auto simp: files_only_def go_try_def split: prod.split outcome.split) (metis snd_conv)+

lemma files_only_Create [files_only_intros]: "files_only (os_Create p)"
  and files_only_Chmod [files_only_intros]: "files_only (os_Chmod p mode)"
  and files_only_Open [files_only_intros]: "files_only (os_Open p)"
  by (rule files_onlyI, auto simp: os_Create_def os_Chmod_def os_Open_def intro: unchanged_files files_only_set_node
      split: sum.split option.split node.split)+

lemma files_only_copy [files_only_intros]: "files_only (copy_to_file h r)"
  by (rule files_onlyI) (auto simp: copy_to_file_def Let_def intro: unchanged_files files_only_set_node split: option.split node.split)

lemma files_only_mkdirs: "\<exists>fs. snd (mkdirs perm d ss w) = w\<lparr>os_files := fs\<rparr>"
proof (induction ss arbitrary: d w)
  case Nil
  then show ?case using unchanged_files by simp
next
  case (Cons s ss)
  have "\<exists>fs. snd (mkdirs perm (d @ [s]) ss (set_node (d @ [s]) n w)) = w\<lparr>os_files := fs\<rparr>" for n
    using Cons [of "d @ [s]" "set_node (d @ [s]) n w"] by (auto simp: set_node_def)
  with Cons unchanged_files show ?case by (auto split: option.split node.split)
qed

lemma files_only_MkdirAll [files_only_intros]: "files_only (os_MkdirAll p perm)"
  by (rule files_onlyI) (simp add: os_MkdirAll_def files_only_mkdirs)

lemma files_only_ReadFile [files_only_intros]: "files_only (ioutil_ReadFile p)"
  unfolding ioutil_ReadFile_def by (intro files_only_intros) (auto intro: files_only_intros split: option.split)

lemma files_only_extract_files [files_only_intros]: "files_only (extract_files t fs)"
proof (induction fs)
  case Nil
  show ?case unfolding extract_files.simps by (rule files_only_return)
next
  case (Cons f fs)
  then show ?case
    unfolding extract_files.simps Let_def by (auto simp: Let_def extract_one_def extractFile_def intro!: files_only_intros)
qed

lemma files_only_Extract [files_only_intros]: "files_only (Unzipper_Extract unzip src t)"
  by (auto simp: Unzipper_Extract_def intro!: files_only_intros)

lemma files_only_Install:
  assumes "files_only (cf_GetAppBitsByAppGuid (pi_Cfclient d) appID)" and "\<And>src t. files_only (ex_Extract (pi_Extractor d) src t)"
  shows "files_only (PackageInstaller_Install d appID targetDir)"
  using assms unfolding PackageInstaller_Install_def PackageInstaller_download_def Let_def
  by (auto intro!: files_only_intros split: sum.split)

lemma files_only_Upload:
  assumes "\<And>r. files_only (hc_Do client r)"
  shows "files_only (DropletUploader_Upload \<lparr>du_HTTPClient = client\<rparr> p url)"
  using assms unfolding DropletUploader_Upload_def uploadFile_def DropletUploader_do_def Let_def
  by (auto intro!: files_only_intros split: option.split)

end
