(* ===== verification/Staging_Cycle.thy ===== *)
theory Staging_Cycle
  imports Recipe_Cmd Kube_Parts Files_Only
begin

text \<open>
  The life of a staging task, over all the programs that take part in it: the request of the cloud controller comes in at Eirini's
  handlers, the stager puts a job into the cluster, the cluster starts the recipe in the container of that job, the recipe
  reports to Eirini's handlers, the stager tells the cloud controller and removes the job.

  The world holds the files and the environment of the container, the cluster as a part (\<open>Kube_Parts\<close>), and the
  requests the cloud controller got. How a container is started is an argument of the theorems, with what is relied on as a
  hypothesis: the process finds the variables of the job's container in its environment.
\<close>

section \<open>The system\<close>

record 'k eirini_world = os_world +
  ew_cluster :: 'k
  ew_callbacks :: "HTTPRequest list"

interpretation ew: world_part ew_cluster ew_cluster_update
  by unfold_locales (auto simp: comp_def)

text \<open>A cloud controller that answers every request with one status.\<close>

definition cloud_controller :: "int \<Rightarrow> 'k eirini_world http_client" where
  "cloud_controller code = \<lparr>hc_CheckURL = (\<lambda>_. None),
     hc_Do = (\<lambda>r w. (Return \<lparr>rsp_StatusCode = code, rsp_Body = '''', rsp_ReadError = None\<rparr>, w\<lparr>ew_callbacks := ew_callbacks w @ [r]\<rparr>)),
     hc_Format = (\<lambda>_. '''')\<rparr>"

definition cycle_stager :: "(gomap \<Rightarrow> gomap) \<Rightarrow> 'k kubernetes_Interface \<Rightarrow> string \<Rightarrow> string \<Rightarrow> StagerConfig \<Rightarrow> int \<Rightarrow> 'k eirini_world Stager" where
  "cycle_stager ord cl ns ip cfg code = k8s_stager ord (zoom_kubernetes ew_cluster ew_cluster_update cl) ns ip cfg (cloud_controller code)"

definition stage_post :: "string \<Rightarrow> string \<Rightarrow> HTTPRequest" where
  "stage_post g body = \<lparr>rq_Method = ''POST'', rq_URL = ''/stage/'' @ g, rq_Header = [],
     rq_ContentLength = of_nat (length body), rq_Body = body\<rparr>"

text \<open>The variables of the container of a job.\<close>

definition container_env :: "Job \<Rightarrow> gomap" where
  "container_env job = map (\<lambda>e. (ev_Name e, ev_Value e)) (concat (map ct_Env (ps_Containers (pt_Spec (job_Template job)))))"

definition starts_jobs :: "(Job \<Rightarrow> 'k eirini_world \<Rightarrow> 'k eirini_world) \<Rightarrow> bool" where
  "starts_jobs start \<longleftrightarrow> (\<forall>job w. (\<forall>k. os_Getenv k (start job w) = map_index (container_env job) k)
     \<and> ew_cluster (start job w) = ew_cluster w \<and> ew_callbacks (start job w) = ew_callbacks w)"

text \<open>The steps of a recipe before the report.\<close>

definition recipe_steps :: "'w PacksExecutor \<Rightarrow> Config \<Rightarrow> ('w, unit) go" where
  "recipe_steps e conf =
     go_bind (in_Install (pe_Installer e) (cfg_AppID conf) workspaceDir) (\<lambda>_.
     go_bind (cm_Exec (pe_Commander e) ''/packs/builder'' (builder_args (pe_Conf e))) (\<lambda>_.
     up_Upload (pe_Uploader e) (pbc_OutputDropletLocation (pe_Conf e)) (cfg_DropletUploadURL conf)))"

section \<open>Its parts\<close>

text \<open>The variables are those of the request, in whatever order they were put into the job.\<close>

lemma container_env_staging:
  assumes "range_order ord"
  shows "map_index (container_env (staging_job ord ns ip (staging_env cfg g request data))) k = map_index (staging_env cfg g request data) k"
proof -
  let ?env = "staging_env cfg g request data"
  have "container_env (staging_job ord ns ip ?env) = ord ?env"
    by (simp add: container_env_def staging_job_def zero_Container_def comp_def case_prod_beta)
  moreover have "distinct (map fst ?env)" by (simp add: staging_env_def)
  then have "map_of (ord ?env) = map_of ?env"
    using range_order_mset [OF assms, of ?env] by (metis map_of_inject_set mset_map mset_eq_imp_distinct_iff set_mset_mset)
  ultimately show ?thesis by (simp add: map_index_def)
qed

text \<open>The cluster in the world, and a world that differs from another in the cluster only.\<close>

lemma cluster_in_world:
  assumes "kube_cluster cl \<alpha> I ch"
  shows "kube_cluster (zoom_kubernetes ew_cluster ew_cluster_update cl) (\<lambda>w. \<alpha> (ew_cluster w))
    (\<lambda>w'. I (ew_cluster w') \<and> (\<exists>k. w' = w\<lparr>ew_cluster := k\<rparr>)) (zoom_chan ew_cluster_update ch)"
  by (rule kube_cluster_zoom [OF ew.world_part_axioms assms]) auto

lemma request_is_staged:
  assumes "kube_cluster cl \<alpha> I ch" and "I (ew_cluster w)" and "ns \<noteq> ''''" and "slash_free g" and "c_Jobs (\<alpha> (ew_cluster w)) (ns, g) = None"
    and "decode_stream dec_StagingRequestFromCC zero_StagingRequestFromCC body = Inr request" and "sr_LifecycleData request = Some j"
    and "unmarshal_raw dec_BuildpackStagingData zero_BuildpackStagingData j = Inr data"
  obtains k where
    "Handler_New b (eirini_stager (cycle_stager ord cl ns ip cfg code)) pm other (stage_post g body) w
       = (Return (WriteHeader StatusAccepted new_writer), w\<lparr>ew_cluster := k\<rparr>)"
    and "I k" and "\<alpha> k = (\<alpha> (ew_cluster w))\<lparr>c_Jobs := (c_Jobs (\<alpha> (ew_cluster w)))((ns, g) \<mapsto> staging_job ord ns ip (staging_env cfg g request data))\<rparr>"
proof -
  let ?cl = "zoom_kubernetes ew_cluster ew_cluster_update cl :: 'a eirini_world kubernetes_Interface"
  let ?d = "\<lparr>td_Namespace = ns, td_CCUploaderIP = ip, td_Client = ?cl\<rparr>"
  let ?task = "\<lparr>task_Image = StagerImage, task_Command = [], task_Env = staging_env cfg g request data\<rparr>"
  have g: "g \<noteq> ''''" "map_index (task_Env ?task) EnvStagingGUID = g" using assms(4) by (simp_all add: slash_free_def)
  have "I (ew_cluster w) \<and> (\<exists>k. w = w\<lparr>ew_cluster := k\<rparr>)" using assms(2) by (auto intro: exI [of _ "ew_cluster w"])
  then obtain w' where run: "TaskDesirer_DesireStaging ord ?d ?task w = (Return (), w')" and w': "I (ew_cluster w') \<and> (\<exists>k. w' = w\<lparr>ew_cluster := k\<rparr>)"
    and \<alpha>: "\<alpha> (ew_cluster w') = c_Jobs_update (\<lambda>st. st((ns, g) \<mapsto> job_with_ns ns (toStagingJob ord ?d ?task))) (\<alpha> (ew_cluster w))"
    by (rule kube_cluster.DesireStaging_fresh [OF cluster_in_world [OF assms(1)] _ assms(3) g assms(5)])
  from w' obtain k where k: "w' = w\<lparr>ew_cluster := k\<rparr>" "I k" by auto
  have "Stager_Stage (cycle_stager ord cl ns ip cfg code) g request w = (Return (), w')"
    using run by (simp add: cycle_stager_def Stager_Stage_def createStagingTask_run [OF assms(7,8)] go_simps)
  then have "Handler_New b (eirini_stager (cycle_stager ord cl ns ip cfg code)) pm other (stage_post g body) w
      = (Return (WriteHeader StatusAccepted new_writer), w')"
    by (subst dispatch(6) [OF assms(4)])
      (simp_all add: stage_post_def Stage_Stage_def NewStageHandler_def assms(6) eirini_stager_def go_simps)
  with k \<alpha> show thesis by (intro that [of k]) (simp_all add: staging_job_eq)
qed

text \<open>The job of a completed task is removed.\<close>

lemma job_is_removed:
  assumes "kube_cluster cl \<alpha> I ch" and "I (ew_cluster w)" and "ns \<noteq> ''''" and "g \<noteq> ''''" and "c_Jobs (\<alpha> (ew_cluster w)) (ns, g) = Some job"
  obtains k where "otd_Delete (st_Desirer (cycle_stager ord cl ns ip cfg code)) g w = (Return (), w\<lparr>ew_cluster := k\<rparr>)"
    and "\<alpha> k = (\<alpha> (ew_cluster w))\<lparr>c_Jobs := (c_Jobs (\<alpha> (ew_cluster w)))((ns, g) := None)\<rparr>"
proof -
  have "I (ew_cluster w) \<and> (\<exists>k. w = w\<lparr>ew_cluster := k\<rparr>)" using assms(2) by (auto intro: exI [of _ "ew_cluster w"])
  then obtain w' where "TaskDesirer_Delete \<lparr>td_Namespace = ns, td_CCUploaderIP = ip, td_Client = zoom_kubernetes ew_cluster ew_cluster_update cl\<rparr> g w
      = (Return (), w')" and "I (ew_cluster w') \<and> (\<exists>k. w' = w\<lparr>ew_cluster := k\<rparr>)"
    and "\<alpha> (ew_cluster w') = c_Jobs_update (\<lambda>st. st((ns, g) := None)) (\<alpha> (ew_cluster w))"
    by (rule kube_cluster.Delete_job [OF cluster_in_world [OF assms(1)] _ assms(3-5)])
  then show thesis by (auto simp: cycle_stager_def intro!: that)
qed

lemma recipe_steps_done:
  assumes "recipe_steps e conf w = (Return (), w3)"
  obtains w1 w2 where "in_Install (pe_Installer e) (cfg_AppID conf) workspaceDir w = (Return (), w1)"
    and "cm_Exec (pe_Commander e) ''/packs/builder'' (builder_args (pe_Conf e)) w1 = (Return (), w2)"
    and "up_Upload (pe_Uploader e) (pbc_OutputDropletLocation (pe_Conf e)) (cfg_DropletUploadURL conf) w2 = (Return (), w3)"
  using assms unfolding recipe_steps_def by (auto elim!: go_bind_ReturnE)

lemma recipe_steps_failed:
  assumes "recipe_steps e conf w = (Error err, w')"
  shows "in_Install (pe_Installer e) (cfg_AppID conf) workspaceDir w = (Error err, w')
    \<or> (\<exists>w1. in_Install (pe_Installer e) (cfg_AppID conf) workspaceDir w = (Return (), w1)
      \<and> (cm_Exec (pe_Commander e) ''/packs/builder'' (builder_args (pe_Conf e)) w1 = (Error err, w')
        \<or> (\<exists>w2. cm_Exec (pe_Commander e) ''/packs/builder'' (builder_args (pe_Conf e)) w1 = (Return (), w2)
          \<and> up_Upload (pe_Uploader e) (pbc_OutputDropletLocation (pe_Conf e)) (cfg_DropletUploadURL conf) w2 = (Error err, w'))))"
  using assms unfolding recipe_steps_def by (auto simp: go_bind_cases)

lemma files_only_recipe_steps:
  assumes "\<And>a. files_only (cf_GetAppBitsByAppGuid cfclient a)" and "\<And>c. files_only (run c)" and "\<And>r. files_only (hc_Do client r)"
  shows "files_only (recipe_steps (recipe_executor unzip run cfclient client buildpacks) conf)"
  using assms unfolding recipe_steps_def
  by (auto simp: recipe_executor_def IOCommander_Exec_def intro!: files_only_intros files_only_Install files_only_Upload)

text \<open>A report that the cloud controller takes: one more request there, and the job is gone.\<close>

lemma report_taken:
  assumes "kube_cluster cl \<alpha> I ch" and "I (ew_cluster w)" and "ns \<noteq> ''''" and "slash_free g"
    and "\<alpha> (ew_cluster w) = c\<lparr>c_Jobs := (c_Jobs c)((ns, g) \<mapsto> job)\<rparr>" and "c_Jobs c (ns, g) = None"
  obtains w' where "hc_Do (st_HTTPClient (cycle_stager ord cl ns ip cfg code)) r w
      = (Return \<lparr>rsp_StatusCode = code, rsp_Body = '''', rsp_ReadError = None\<rparr>, w\<lparr>ew_callbacks := ew_callbacks w @ [r]\<rparr>)"
    and "otd_Delete (st_Desirer (cycle_stager ord cl ns ip cfg code)) g (w\<lparr>ew_callbacks := ew_callbacks w @ [r]\<rparr>) = (Return (), w')"
    and "ew_callbacks w' = ew_callbacks w @ [r]" and "\<alpha> (ew_cluster w') = c"
proof -
  let ?w = "w\<lparr>ew_callbacks := ew_callbacks w @ [r]\<rparr>"
  have g: "g \<noteq> ''''" and job: "c_Jobs (\<alpha> (ew_cluster ?w)) (ns, g) = Some job" using assms(4,5) by (simp_all add: slash_free_def)
  have inv: "I (ew_cluster ?w)" using assms(2) by simp
  obtain k where k: "otd_Delete (st_Desirer (cycle_stager ord cl ns ip cfg code)) g ?w = (Return (), ?w\<lparr>ew_cluster := k\<rparr>)"
    and \<alpha>: "\<alpha> k = (\<alpha> (ew_cluster ?w))\<lparr>c_Jobs := (c_Jobs (\<alpha> (ew_cluster ?w)))((ns, g) := None)\<rparr>"
    using job_is_removed [OF assms(1) inv assms(3) g job] .
  have "(c_Jobs c)((ns, g) := None) = c_Jobs c" using assms(6) by auto
  with \<alpha> assms(5) have "\<alpha> k = c" by simp
  with k show thesis by (intro that [of "?w\<lparr>ew_cluster := k\<rparr>"]) (simp_all add: cycle_stager_def cloud_controller_def)
qed

text \<open>The request up to the report: the job is in the cluster, its environment is that of the request, and the steps of the recipe leave the cluster alone.\<close>

lemma staging_until_report:
  fixes b pm other ord cl ns ip cfg code g body request data start and w :: "'k eirini_world"
  defines "eirini \<equiv> Handler_New b (eirini_stager (cycle_stager ord cl ns ip cfg code)) pm other"
  defines "job \<equiv> staging_job ord ns ip (staging_env cfg g request data)"
  defines "w1 \<equiv> start job (snd (eirini (stage_post g body) w))"
  assumes "kube_cluster cl \<alpha> I ch" and "I (ew_cluster w)" and "ns \<noteq> ''''" and "slash_free g" and "c_Jobs (\<alpha> (ew_cluster w)) (ns, g) = None"
    and "decode_stream dec_StagingRequestFromCC zero_StagingRequestFromCC body = Inr request" and "sr_LifecycleData request = Some j"
    and "unmarshal_raw dec_BuildpackStagingData zero_BuildpackStagingData j = Inr data" and "range_order ord" and "starts_jobs start"
    and "\<And>a. files_only (cf_GetAppBitsByAppGuid cfclient a)" and "\<And>c. files_only (run c)" and "\<And>r. files_only (hc_Do client r)"
    and "recipe_steps (recipe_executor unzip run cfclient client buildpacks) conf w1 = (r, w2)"
  shows "fst (eirini (stage_post g body) w) = Return (WriteHeader StatusAccepted new_writer)" and "c_Jobs (\<alpha> (ew_cluster w1)) (ns, g) = Some job"
    and "os_Getenv x w1 = map_index (staging_env cfg g request data) x" and "I (ew_cluster w2)"
    and "\<alpha> (ew_cluster w2) = (\<alpha> (ew_cluster w))\<lparr>c_Jobs := (c_Jobs (\<alpha> (ew_cluster w)))((ns, g) \<mapsto> job)\<rparr>" and "ew_callbacks w2 = ew_callbacks w"
proof -
  obtain k where post: "eirini (stage_post g body) w = (Return (WriteHeader StatusAccepted new_writer), w\<lparr>ew_cluster := k\<rparr>)" and k: "I k"
    "\<alpha> k = (\<alpha> (ew_cluster w))\<lparr>c_Jobs := (c_Jobs (\<alpha> (ew_cluster w)))((ns, g) \<mapsto> job)\<rparr>"
    unfolding eirini_def job_def by (rule request_is_staged [OF assms(4-11)])
  have w1: "ew_cluster w1 = k" "ew_callbacks w1 = ew_callbacks w"
    using assms(13) by (simp_all add: w1_def post starts_jobs_def)
  show "os_Getenv x w1 = map_index (staging_env cfg g request data) x"
    using assms(13) container_env_staging [OF assms(12)] by (simp add: w1_def starts_jobs_def job_def)
  obtain fs where "w2 = w1\<lparr>os_files := fs\<rparr>"
    by (rule files_onlyE [OF files_only_recipe_steps [OF assms(14-16)] assms(17)])
  with w1 k post show "fst (eirini (stage_post g body) w) = Return (WriteHeader StatusAccepted new_writer)"
    "c_Jobs (\<alpha> (ew_cluster w1)) (ns, g) = Some job" "I (ew_cluster w2)"
    "\<alpha> (ew_cluster w2) = (\<alpha> (ew_cluster w))\<lparr>c_Jobs := (c_Jobs (\<alpha> (ew_cluster w)))((ns, g) \<mapsto> job)\<rparr>" "ew_callbacks w2 = ew_callbacks w"
    by simp_all
qed

section \<open>Properties\<close>

text \<open>
  C11. The life of a staging task that succeeds. The request is answered with 202 and its job is in the cluster; the recipe, started in
  the container of that job, ends with status 0; the cloud controller got exactly one request, at the callback of the staging request,
  with the result of the builder in which every buildpack is named by its key; and the cluster is what it was before the request.
\<close>

theorem staging_life_cycle:
  fixes b pm other ord cl ns ip cfg code g body request data start and w :: "'k eirini_world"
  defines "eirini \<equiv> Handler_New b (eirini_stager (cycle_stager ord cl ns ip cfg code)) pm other"
  defines "job \<equiv> staging_job ord ns ip (staging_env cfg g request data)"
  defines "w1 \<equiv> start job (snd (eirini (stage_post g body) w))"
  assumes "kube_cluster cl \<alpha> I ch" and "I (ew_cluster w)" and "ns \<noteq> ''''" and "slash_free g" and "c_Jobs (\<alpha> (ew_cluster w)) (ns, g) = None"
    and "decode_stream dec_StagingRequestFromCC zero_StagingRequestFromCC body = Inr request" and "sr_LifecycleData request = Some j"
    and "unmarshal_raw dec_BuildpackStagingData zero_BuildpackStagingData j = Inr data" and "range_order ord" and "starts_jobs start"
    and "\<And>a. files_only (cf_GetAppBitsByAppGuid cfclient a)" and "\<And>c. files_only (run c)" and "\<And>r. files_only (hc_Do client r)"
    and "createHTTPClient texts x509 w1 = (Return client, w1)"
    and "newClient \<lparr>cf_SkipSslValidation = True, cf_Username = sc_CfUsername cfg, cf_Password = sc_CfPassword cfg, cf_ApiAddress = sc_APIAddress cfg,
      cf_HttpClient = Some client\<rparr> w1 = (Return cfclient, w1)"
    and "bsd_Buildpacks data = Some bps" and "\<forall>b \<in> set bps. buildpack_ok b" and "utf8_valid g" and "utf8_valid (sr_CompletionCallback request)"
    and "recipe_steps (recipe_executor unzip run cfclient client (print_json (json_list json_Buildpack (Some bps))))
      (staging_conf cfg g request data) w1 = (Return (), w2)" and "code < 300"
    and "ioutil_ReadFile (pbc_OutputMetadataLocation packsConf) w2 = (Return contents, w2)"
    and "unmarshal dec_StagingResult zero_StagingResult contents = Inr result" and "missing_name bps (result_names result) = None"
    and "json_ok (json_StagingResult (rename_result (buildpack_key bps) result))"
  shows "fst (eirini (stage_post g body) w) = Return (WriteHeader StatusAccepted new_writer)
    \<and> c_Jobs (\<alpha> (ew_cluster w1)) (ns, g) = Some job
    \<and> (\<exists>w3. recipe_main texts x509 newClient unzip run (in_process (sc_EiriniAddress cfg) eirini) w1 = (Return 0, w3)
        \<and> ew_callbacks w3 = ew_callbacks w @ [callback_request (sr_CompletionCallback request)
            (print_json (JObject [(''result'', json_StagingResult (rename_result (buildpack_key bps) result))]))]
        \<and> \<alpha> (ew_cluster w3) = \<alpha> (ew_cluster w))"
proof -
  let ?s = "cycle_stager ord cl ns ip cfg code" and ?conf = "staging_conf cfg g request data"
  let ?e = "recipe_executor unzip run cfclient client (print_json (json_list json_Buildpack (Some bps)))"
  let ?result = "rename_result (buildpack_key bps) result"
  let ?r = "callback_request (sr_CompletionCallback request) (print_json (JObject [(''result'', json_StagingResult ?result)]))"
  note until = staging_until_report [where run = run, OF assms(4-16) assms(23) [unfolded w1_def eirini_def job_def], folded eirini_def job_def, folded w1_def]
  obtain w3 where sent: "hc_Do (st_HTTPClient ?s) ?r w2
      = (Return \<lparr>rsp_StatusCode = code, rsp_Body = '''', rsp_ReadError = None\<rparr>, w2\<lparr>ew_callbacks := ew_callbacks w2 @ [?r]\<rparr>)"
    and gone: "otd_Delete (st_Desirer ?s) g (w2\<lparr>ew_callbacks := ew_callbacks w2 @ [?r]\<rparr>) = (Return (), w3)"
    and w3: "ew_callbacks w3 = ew_callbacks w2 @ [?r]" "\<alpha> (ew_cluster w3) = \<alpha> (ew_cluster w)"
    by (rule report_taken [OF assms(4) until(4) assms(6,7) until(5) assms(8)])
  obtain v1 v2 where steps: "in_Install (pe_Installer ?e) (cfg_AppID ?conf) workspaceDir w1 = (Return (), v1)"
    "cm_Exec (pe_Commander ?e) ''/packs/builder'' (builder_args (pe_Conf ?e)) v1 = (Return (), v2)"
    "up_Upload (pe_Uploader ?e) (pbc_OutputDropletLocation (pe_Conf ?e)) (cfg_DropletUploadURL ?conf) v2 = (Return (), w2)"
    by (rule recipe_steps_done [OF assms(23)])
  have modified: "sm_Modify (pe_ResultModifier ?e) result w2 = (Return ?result, w2)"
    using Modify_eq [OF provided_written [OF assms(20)]] assms(27) by (simp add: recipe_executor_def)
  have "ExecuteRecipe texts (in_process (cfg_EiriniAddr ?conf) (Handler_New b (eirini_stager ?s) pm other)) ?e ?conf w1 = (Return (), w3)"
    by (rule staging_result_reaches_cloud_controller [where resp = "\<lparr>rsp_StatusCode = code, rsp_Body = '''', rsp_ReadError = None\<rparr>",
          OF steps _ assms(26) modified assms(28)])
      (use assms(7,21,22,24,25) sent gone in \<open>simp_all add: staging_conf_def recipe_executor_def cycle_stager_def cloud_controller_def\<close>)
  then have "recipe_main texts x509 newClient unzip run (in_process (sc_EiriniAddress cfg) eirini) w1 = (Return 0, w3)"
    using recipe_main_staging [where newClient = newClient, OF until(3) assms(17-20)] by (simp add: eirini_def staging_conf_def)
  with w3 until show ?thesis by auto
qed

text \<open>
  C12. The life of a staging task that fails. If a step of the recipe fails, the cloud controller gets exactly one request, a staging error with the
  text of the failure, the recipe ends with status 1, and the cluster is again what it was before the request.
\<close>

theorem staging_failure_life_cycle:
  fixes b pm other ord cl ns ip cfg code g body request data start and w :: "'k eirini_world"
  defines "eirini \<equiv> Handler_New b (eirini_stager (cycle_stager ord cl ns ip cfg code)) pm other"
  defines "job \<equiv> staging_job ord ns ip (staging_env cfg g request data)"
  defines "w1 \<equiv> start job (snd (eirini (stage_post g body) w))"
  assumes "kube_cluster cl \<alpha> I ch" and "I (ew_cluster w)" and "ns \<noteq> ''''" and "slash_free g" and "c_Jobs (\<alpha> (ew_cluster w)) (ns, g) = None"
    and "decode_stream dec_StagingRequestFromCC zero_StagingRequestFromCC body = Inr request" and "sr_LifecycleData request = Some j"
    and "unmarshal_raw dec_BuildpackStagingData zero_BuildpackStagingData j = Inr data" and "range_order ord" and "starts_jobs start"
    and "\<And>a. files_only (cf_GetAppBitsByAppGuid cfclient a)" and "\<And>c. files_only (run c)" and "\<And>r. files_only (hc_Do client r)"
    and "createHTTPClient texts x509 w1 = (Return client, w1)"
    and "newClient \<lparr>cf_SkipSslValidation = True, cf_Username = sc_CfUsername cfg, cf_Password = sc_CfPassword cfg, cf_ApiAddress = sc_APIAddress cfg,
      cf_HttpClient = Some client\<rparr> w1 = (Return cfclient, w1)"
    and "bsd_Buildpacks data = Some bps" and "\<forall>b \<in> set bps. buildpack_ok b" and "utf8_valid g" and "utf8_valid (sr_CompletionCallback request)"
    and "recipe_steps (recipe_executor unzip run cfclient client (print_json (json_list json_Buildpack (Some bps))))
      (staging_conf cfg g request data) w1 = (Error err, w2)" and "code < 300"
    and "utf8_valid (Error_text texts err)"
  shows "fst (eirini (stage_post g body) w) = Return (WriteHeader StatusAccepted new_writer)
    \<and> (\<exists>w3. recipe_main texts x509 newClient unzip run (in_process (sc_EiriniAddress cfg) eirini) w1 = (Return 1, w3)
        \<and> ew_callbacks w3 = ew_callbacks w @ [callback_request (sr_CompletionCallback request) (print_json (JObject [(''error'',
            JObject [(''id'', JString STAGING_ERROR), (''message'', JString (Error_text texts err))])]))]
        \<and> \<alpha> (ew_cluster w3) = \<alpha> (ew_cluster w))"
proof -
  let ?s = "cycle_stager ord cl ns ip cfg code" and ?conf = "staging_conf cfg g request data"
  let ?e = "recipe_executor unzip run cfclient client (print_json (json_list json_Buildpack (Some bps)))"
  let ?r = "callback_request (sr_CompletionCallback request) (print_json (JObject [(''error'',
      JObject [(''id'', JString STAGING_ERROR), (''message'', JString (Error_text texts err))])]))"
  note until = staging_until_report [where run = run, OF assms(4-16) assms(23) [unfolded w1_def eirini_def job_def], folded eirini_def job_def, folded w1_def]
  obtain w3 where sent: "hc_Do (st_HTTPClient ?s) ?r w2
      = (Return \<lparr>rsp_StatusCode = code, rsp_Body = '''', rsp_ReadError = None\<rparr>, w2\<lparr>ew_callbacks := ew_callbacks w2 @ [?r]\<rparr>)"
    and gone: "otd_Delete (st_Desirer ?s) g (w2\<lparr>ew_callbacks := ew_callbacks w2 @ [?r]\<rparr>) = (Return (), w3)"
    and w3: "ew_callbacks w3 = ew_callbacks w2 @ [?r]" "\<alpha> (ew_cluster w3) = \<alpha> (ew_cluster w)"
    by (rule report_taken [OF assms(4) until(4) assms(6,7) until(5) assms(8)])
  have "ExecuteRecipe texts (in_process (cfg_EiriniAddr ?conf) (Handler_New b (eirini_stager ?s) pm other)) ?e ?conf w1 = (Error err, w3)"
    by (rule staging_failure_reaches_cloud_controller [where resp = "\<lparr>rsp_StatusCode = code, rsp_Body = '''', rsp_ReadError = None\<rparr>",
          OF recipe_steps_failed [OF assms(23)]])
      (use assms(7,21,22,24,25) sent gone in \<open>simp_all add: staging_conf_def cycle_stager_def cloud_controller_def\<close>)
  then have "recipe_main texts x509 newClient unzip run (in_process (sc_EiriniAddress cfg) eirini) w1 = (Return 1, w3)"
    using recipe_main_staging [where newClient = newClient, OF until(3) assms(17-20)] by (simp add: eirini_def staging_conf_def)
  with w3 until show ?thesis by auto
qed

section \<open>A concrete run\<close>

text \<open>A request for one buildpack, in a cluster without objects; the container has the certificates and a workspace.\<close>

definition cycle_lifecycle_data :: json where
  "cycle_lifecycle_data = JObject [(''buildpacks'', JArray [json_Buildpack ruby]), (''droplet_upload_uri'', JString ''http://cc/up'')]"

definition cycle_body :: string where
  "cycle_body = print_json (JObject [(''log_guid'', JString ''app''), (''lifecycle_data'', cycle_lifecycle_data),
     (''completion_callback'', JString ''http://cc/done'')])"

definition cycle_request :: StagingRequestFromCC where
  "cycle_request = zero_StagingRequestFromCC\<lparr>sr_LogGuid := ''app'', sr_LifecycleData := Some cycle_lifecycle_data, sr_CompletionCallback := ''http://cc/done''\<rparr>"

definition cycle_data :: BuildpackStagingData where
  "cycle_data = zero_BuildpackStagingData\<lparr>bsd_Buildpacks := Some [ruby], bsd_DropletUploadUri := ''http://cc/up''\<rparr>"

lemma cycle_decoded:
  "decode_stream dec_StagingRequestFromCC zero_StagingRequestFromCC cycle_body = Inr cycle_request"
  "unmarshal_raw dec_BuildpackStagingData zero_BuildpackStagingData cycle_lifecycle_data = Inr cycle_data"
  "utf8_valid ''g''" "slash_free ''g''" "utf8_valid ''http://cc/done''" "utf8_valid ''exit status 1''"
  by code_simp+

definition cycle_world :: "tracker eirini_world" where
  "cycle_world = \<lparr>os_env = [], os_cwd = [], os_umask = 0x12, os_files = Map.empty, ew_cluster = empty_tracker, ew_callbacks = []\<rparr>"

definition cycle_start :: "Job \<Rightarrow> 'k eirini_world \<Rightarrow> 'k eirini_world" where
  "cycle_start job w = w\<lparr>os_env := container_env job, os_files := (os_files job_disk)([''workspace''] \<mapsto> Directory 0x1ED)\<rparr>"

definition cycle_certs :: "'m os_world_scheme x509_library" where
  "cycle_certs = \<lparr>x5_Pair = (\<lambda>_ _. None), x5_AppendCerts = (\<lambda>_. True), x5_Client = (\<lambda>_. answering StatusOK)\<rparr>"

text \<open>The builder leaves a droplet and the result of staging.\<close>

definition built_files :: "string list \<rightharpoonup> node" where
  "built_files = [[''out''] \<mapsto> Directory 0x1ED, [''out'', ''droplet.tgz''] \<mapsto> File ''droplet'' 0x1A4,
     [''out'', ''result.json''] \<mapsto> File (print_json (json_StagingResult sample_result)) 0x1A4]"

definition cycle_builder :: "stream Cmd \<Rightarrow> ('k eirini_world, unit) go" where
  "cycle_builder c w = (Return (), w\<lparr>os_files := built_files\<rparr>)"

abbreviation cycle_eirini :: "HTTPRequest \<Rightarrow> (tracker eirini_world, ResponseWriter) go" where
  "cycle_eirini \<equiv> Handler_New idle_bifrost (eirini_stager (cycle_stager id tracker_client ''eirini'' ''10.0.0.1'' sample_config 200)) no_printers
     (\<lambda>_. go_return new_writer)"

abbreviation cycle_job :: Job where
  "cycle_job \<equiv> staging_job id ''eirini'' ''10.0.0.1'' (staging_env sample_config ''g'' cycle_request cycle_data)"

abbreviation cycle_container :: "tracker eirini_world" where
  "cycle_container \<equiv> cycle_start cycle_job (snd (cycle_eirini (stage_post ''g'' cycle_body) cycle_world))"

lemma starts_cycle: "starts_jobs cycle_start"
  by (simp add: starts_jobs_def cycle_start_def os_Getenv_def)

lemma files_only_cycle: "files_only (cf_GetAppBitsByAppGuid sample_cf_bits a)" "files_only (cycle_builder c)" "files_only (hc_Do (answering code) r)"
proof -
  show "files_only (cycle_builder c)" by (auto simp: files_only_def cycle_builder_def)
qed (simp_all add: sample_cf_bits_def answering_def files_only_return)

lemma read_certs:
  assumes "n \<in> {''cc_cert'', ''cc_ca'', ''cc_priv''}" and "os_files w = (os_files job_disk)([''workspace''] \<mapsto> Directory 0x1ED)"
  shows "ioutil_ReadFile (Join [CCCertsMountPath, n]) w = (Return ''pem'', w)"
proof -
  let ?q = "[''etc'', ''config'', ''certs'', n]"
  have plain: "list_all plain_segment ?q" using assms(1) by (auto simp: plain_segment_def)
  have dirs: "\<exists>m. os_files w p = Some (Directory m)" if "p \<noteq> []" "strict_prefix p ?q" for p
    using that by (auto simp: assms(2) job_disk_def strict_prefix_def prefix_Cons)
  have "Join [CCCertsMountPath, n] = abs_path ?q"
    using assms(1) by (auto simp: plain_segment_def) (code_simp)+
  then show ?thesis
    using read_abs_path [OF plain _ dirs, of "''pem''" "0x1A4"] by (simp add: assms(2) job_disk_def del: Join.simps)
qed

lemma cycle_client:
  assumes "os_files w = (os_files job_disk)([''workspace''] \<mapsto> Directory 0x1ED)"
  shows "createHTTPClient (\<lambda>_. '''') cycle_certs w = (Return (answering StatusOK), w)"
proof -
  note read = read_certs [OF _ assms]
  from read [of "''cc_cert''"] read [of "''cc_ca''"] read [of "''cc_priv''"] show ?thesis
    by (simp add: createHTTPClient_def LoadX509KeyPair_def or_panic_def cycle_certs_def Let_def go_simps del: Join.simps)
qed

lemma built_read:
  assumes "f \<in> {''droplet.tgz'', ''result.json''}" and "os_files w = built_files"
  shows "ioutil_ReadFile (''/out/'' @ f) w = (Return (case built_files [''out'', f] of Some (File c m) \<Rightarrow> c | _ \<Rightarrow> ''''), w)"
    and "os_Open (''/out/'' @ f) w = (Return \<lparr>rd_Rest = (case built_files [''out'', f] of Some (File c m) \<Rightarrow> c | _ \<Rightarrow> ''''), rd_Error = None\<rparr>, w)"
proof -
  have plain: "list_all plain_segment [''out'', f]" and path: "abs_path [''out'', f] = ''/out/'' @ f" using assms(1) by (auto simp: plain_segment_def abs_path_def)
  have dirs: "\<exists>m. os_files w p = Some (Directory m)" if "p \<noteq> []" "strict_prefix p [''out'', f]" for p
    using that by (auto simp: assms(2) built_files_def strict_prefix_def prefix_Cons)
  from assms(1) show "ioutil_ReadFile (''/out/'' @ f) w = (Return (case built_files [''out'', f] of Some (File c m) \<Rightarrow> c | _ \<Rightarrow> ''''), w)"
    using read_abs_path [OF plain _ dirs, of _ "0x1A4"] path by (auto simp: assms(2) built_files_def)
  from assms(1) resolve_abs_path [OF plain, of w] path
  show "os_Open (''/out/'' @ f) w = (Return \<lparr>rd_Rest = (case built_files [''out'', f] of Some (File c m) \<Rightarrow> c | _ \<Rightarrow> ''''), rd_Error = None\<rparr>, w)"
    by (auto simp: os_Open_def open_node_def assms(2) built_files_def)
qed

lemma cycle_install:
  assumes "os_files w = (os_files job_disk)([''workspace''] \<mapsto> Directory 0x1ED)"
  obtains fs where "PackageInstaller_Install \<lparr>pi_Cfclient = sample_cf_bits, pi_Extractor = \<lparr>ex_Extract = Unzipper_Extract (\<lambda>_. Inr [])\<rparr>\<rparr> ''app'' ''/workspace'' w
    = (Return (), w\<lparr>os_files := fs\<rparr>)"
proof -
  let ?d = "\<lparr>pi_Cfclient = sample_cf_bits, pi_Extractor = \<lparr>ex_Extract = Unzipper_Extract (\<lambda>_. Inr [])\<rparr>\<rparr>"
  have plain: "list_all plain_segment [''workspace'']" "abs_path [''workspace''] = ''/workspace''" "plain_segment ''app''" by code_simp+
  have "directory w [''workspace'']" by (auto simp: directory_def assms prefix_Cons)
  then obtain w' where w': "PackageInstaller_Install ?d ''app'' (abs_path [''workspace'']) w = (Return (), w')"
    using unzipper.installs [of "[''workspace'']" "''app''" w sample_cf_bits "''zip''" "\<lambda>_. Inr []" "[]"] plain
    by (auto simp: assms job_disk_def sample_cf_bits_def fits_def)
  then obtain fs where "w' = w\<lparr>os_files := fs\<rparr>"
    by (rule files_onlyE [OF files_only_Install, rotated 2]) (simp_all add: files_only_cycle files_only_Extract)
  with w' plain(2) show thesis by (intro that [of fs]) simp
qed

lemma cycle_steps:
  assumes "os_files w = (os_files job_disk)([''workspace''] \<mapsto> Directory 0x1ED)"
  shows "recipe_steps (recipe_executor (\<lambda>_. Inr []) cycle_builder sample_cf_bits (answering StatusOK) buildpacks)
    (staging_conf sample_config ''g'' cycle_request cycle_data) w = (Return (), w\<lparr>os_files := built_files\<rparr>)"
proof -
  obtain fs where install: "PackageInstaller_Install \<lparr>pi_Cfclient = sample_cf_bits, pi_Extractor = \<lparr>ex_Extract = Unzipper_Extract (\<lambda>_. Inr [])\<rparr>\<rparr> ''app'' ''/workspace'' w
    = (Return (), w\<lparr>os_files := fs\<rparr>)"
    by (rule cycle_install [OF assms])
  have "os_Open ''/out/droplet.tgz'' (w\<lparr>os_files := built_files\<rparr>) = (Return \<lparr>rd_Rest = ''droplet'', rd_Error = None\<rparr>, w\<lparr>os_files := built_files\<rparr>)"
    using built_read(2) [of "''droplet.tgz''" "w\<lparr>os_files := built_files\<rparr>"] by (simp add: built_files_def)
  with install show ?thesis
    by (simp add: recipe_steps_def recipe_executor_def staging_conf_def cycle_request_def cycle_data_def packsConf_def IOCommander_Exec_def cycle_builder_def
        DropletUploader_Upload_def uploadFile_def DropletUploader_do_def NewRequest_def set_header_def Let_def go_simps)
qed

lemma cycle_result:
  "unmarshal dec_StagingResult zero_StagingResult (print_json (json_StagingResult sample_result)) = Inr sample_result"
  "missing_name [ruby] (result_names sample_result) = None" "json_ok (json_StagingResult (rename_result (buildpack_key [ruby]) sample_result))"
  by code_simp+

theorem staging_life_cycle_witness:
  "\<exists>w3. recipe_main (\<lambda>_. '''') cycle_certs (\<lambda>_. go_return sample_cf_bits) (\<lambda>_. Inr []) cycle_builder
      (in_process (sc_EiriniAddress sample_config) cycle_eirini) cycle_container = (Return 0, w3)
    \<and> map rq_URL (ew_callbacks w3) = [''http://cc/done''] \<and> tracker_abs (ew_cluster w3) = tracker_abs empty_tracker"
proof -
  let ?w = cycle_container
  have files: "os_files ?w = (os_files job_disk)([''workspace''] \<mapsto> Directory 0x1ED)" by (simp add: cycle_start_def)
  have read: "ioutil_ReadFile (pbc_OutputMetadataLocation packsConf) (?w\<lparr>os_files := built_files\<rparr>)
      = (Return (print_json (json_StagingResult sample_result)), ?w\<lparr>os_files := built_files\<rparr>)"
    using built_read(1) [of "''result.json''" "?w\<lparr>os_files := built_files\<rparr>"] by (simp add: packsConf_def built_files_def)
  have "fst (cycle_eirini (stage_post ''g'' cycle_body) cycle_world) = Return (WriteHeader StatusAccepted new_writer)
    \<and> c_Jobs (tracker_abs (ew_cluster ?w)) (''eirini'', ''g'') = Some cycle_job
    \<and> (\<exists>w3. recipe_main (\<lambda>_. '''') cycle_certs (\<lambda>_. go_return sample_cf_bits) (\<lambda>_. Inr []) cycle_builder
      (in_process (sc_EiriniAddress sample_config) cycle_eirini) ?w = (Return 0, w3)
      \<and> ew_callbacks w3 = ew_callbacks cycle_world @ [callback_request (sr_CompletionCallback cycle_request)
          (print_json (JObject [(''result'', json_StagingResult (rename_result (buildpack_key [ruby]) sample_result))]))]
      \<and> tracker_abs (ew_cluster w3) = tracker_abs (ew_cluster cycle_world))"
    by (rule staging_life_cycle [where cfclient = sample_cf_bits and client = "answering StatusOK", OF tk.kube_cluster_axioms _ _ _ _ cycle_decoded(1) _ cycle_decoded(2)
          range_order_id starts_cycle files_only_cycle cycle_client [OF files] _ _ _ _ _ cycle_steps [OF files] _ read cycle_result])
      (simp_all add: cycle_world_def tracker_inv_empty [unfolded empty_tracker_def] cycle_decoded cycle_request_def cycle_data_def ruby_ok tracker_abs_def empty_tracker_def)
  then show ?thesis
    by (auto simp: cycle_world_def callback_request_def cycle_request_def)
qed

theorem staging_failure_life_cycle_witness:
  "\<exists>w3. recipe_main (\<lambda>_. '''') cycle_certs (\<lambda>_. go_return sample_cf_bits) (\<lambda>_. Inr []) (\<lambda>_. go_throw (ErrorString ''exit status 1''))
      (in_process (sc_EiriniAddress sample_config) cycle_eirini) cycle_container = (Return 1, w3)
    \<and> map rq_URL (ew_callbacks w3) = [''http://cc/done''] \<and> tracker_abs (ew_cluster w3) = tracker_abs empty_tracker"
proof -
  let ?w = cycle_container and ?err = "ErrorString ''exit status 1''"
  have files: "os_files ?w = (os_files job_disk)([''workspace''] \<mapsto> Directory 0x1ED)" by (simp add: cycle_start_def)
  obtain fs where "PackageInstaller_Install \<lparr>pi_Cfclient = sample_cf_bits, pi_Extractor = \<lparr>ex_Extract = Unzipper_Extract (\<lambda>_. Inr [])\<rparr>\<rparr> ''app'' ''/workspace'' ?w
    = (Return (), ?w\<lparr>os_files := fs\<rparr>)"
    by (rule cycle_install [OF files])
  then have steps: "recipe_steps (recipe_executor (\<lambda>_. Inr []) (\<lambda>_. go_throw ?err) sample_cf_bits (answering StatusOK) (print_json (json_list json_Buildpack (Some [ruby]))))
    (staging_conf sample_config ''g'' cycle_request cycle_data) ?w = (Error ?err, ?w\<lparr>os_files := fs\<rparr>)"
    by (simp add: recipe_steps_def recipe_executor_def staging_conf_def cycle_request_def IOCommander_Exec_def go_simps)
  have "fst (cycle_eirini (stage_post ''g'' cycle_body) cycle_world) = Return (WriteHeader StatusAccepted new_writer)
    \<and> (\<exists>w3. recipe_main (\<lambda>_. '''') cycle_certs (\<lambda>_. go_return sample_cf_bits) (\<lambda>_. Inr []) (\<lambda>_. go_throw ?err)
      (in_process (sc_EiriniAddress sample_config) cycle_eirini) ?w = (Return 1, w3)
      \<and> ew_callbacks w3 = ew_callbacks cycle_world @ [callback_request (sr_CompletionCallback cycle_request) (print_json (JObject [(''error'',
          JObject [(''id'', JString STAGING_ERROR), (''message'', JString (Error_text (\<lambda>_. '''') ?err))])]))]
      \<and> tracker_abs (ew_cluster w3) = tracker_abs (ew_cluster cycle_world))"
    by (rule staging_failure_life_cycle [where cfclient = sample_cf_bits and client = "answering StatusOK", OF tk.kube_cluster_axioms _ _ _ _ cycle_decoded(1) _ cycle_decoded(2)
          range_order_id starts_cycle files_only_cycle(1) files_only_throw files_only_cycle(3) cycle_client [OF files] _ _ _ _ _ steps])
      (simp_all add: cycle_world_def tracker_inv_empty [unfolded empty_tracker_def] cycle_decoded cycle_request_def cycle_data_def ruby_ok tracker_abs_def empty_tracker_def)
  then show ?thesis
    by (auto simp: cycle_world_def callback_request_def cycle_request_def)
qed

end
