(* ===== verification/App_Push.thy ===== *)
theory App_Push
  imports Handler Registry Kube_Parts
begin

text \<open>
  From the desire request to the image that runs: the bridge fetches the droplet of an app and posts it to the registry, the desirer
  creates the stateful set, and the container runtime pulls the image that the stateful set names from the registry.

  The registry and the cluster are two parts of one world. The HTTP client of the bridge is connected to the registry's
  handlers; it cuts the address off the URL and takes path and query apart, for queries with one parameter and no escapes.
\<close>

section \<open>The system\<close>

record 'k push_world =
  pw_registry :: registry_world
  pw_cluster :: 'k

interpretation pw_registry: world_part pw_registry pw_registry_update
  by unfold_locales (auto simp: comp_def)

interpretation pw_cluster: world_part pw_cluster pw_cluster_update
  by unfold_locales (auto simp: comp_def)

type_synonym 'w registry_handler = "string \<Rightarrow> string list \<Rightarrow> string \<Rightarrow> string \<Rightarrow> ('w, ResponseWriter) go"

definition guid_param :: "string \<Rightarrow> string" where
  "guid_param query = (if take 6 query = ''?guid='' then drop 6 query else '''')"

definition registry_client :: "string \<Rightarrow> 'w registry_handler \<Rightarrow> 'w http_client" where
  "registry_client base h = \<lparr>hc_CheckURL = (\<lambda>_. None),
     hc_Do = (\<lambda>r w. let url = drop (length base) (rq_URL r);
         p = takeWhile (\<lambda>c. c \<noteq> CHR ''?'') url; query = dropWhile (\<lambda>c. c \<noteq> CHR ''?'') url in
       case h (rq_Method r) (tl (split_on (CHR ''/'') p)) (guid_param query) (rq_Body r) w of
         (Return rw, w') \<Rightarrow> (Return \<lparr>rsp_StatusCode = status_of rw, rsp_Body = rw_Body rw, rsp_ReadError = None\<rparr>, w')
       | (_, w') \<Rightarrow> (Error EOF, w')),
     hc_Format = (\<lambda>_. '''')\<rparr>"

lemma registry_client_check [simp]: "hc_CheckURL (registry_client base h) u = None"
  by (simp add: registry_client_def)

definition push_kube :: "'k kubernetes_Interface \<Rightarrow> 'k push_world kubernetes_Interface" where
  "push_kube cl = zoom_kubernetes pw_cluster pw_cluster_update cl"

definition push_chan :: "(Routes list, 'k) chan \<Rightarrow> (Routes list, 'k push_world) chan" where
  "push_chan ch = zoom_chan pw_cluster_update ch"

definition in_registry :: "registry_world registry_handler \<Rightarrow> 'k push_world registry_handler" where
  "in_registry h m p q body = zoom pw_registry pw_registry_update (h m p q body)"

text \<open>A segment of a path that needs no escape, and a parameter that needs none.\<close>

definition plain_name :: "string \<Rightarrow> bool" where
  "plain_name s \<longleftrightarrow> s \<noteq> '''' \<and> (\<forall>c \<in> set s. label_char c \<or> c = CHR ''-'' \<or> c = CHR ''_'' \<or> c = CHR ''.'')"

lemma special_chars: "\<not> label_char (CHR ''/'')" "\<not> label_char (CHR ''?'')" "\<not> label_char (CHR '':'')"
  by code_simp+

lemma plain_name_facts:
  assumes "plain_name s"
  shows "s \<noteq> ''''" and "CHR ''/'' \<notin> set s" and "CHR ''?'' \<notin> set s" and "CHR '':'' \<notin> set s"
  using assms special_chars by (auto simp: plain_name_def)

lemma split_at_char:
  assumes "x \<notin> set p"
  shows "takeWhile (\<lambda>c. c \<noteq> x) (p @ x # q) = p" and "dropWhile (\<lambda>c. c \<noteq> x) (p @ x # q) = x # q"
  using assms by (induction p) auto

lemma stage_uri_parts:
  assumes "plain_name space" and "plain_name app" and "rq_URL r = registryStageURI base space app g"
  shows "hc_Do (registry_client base h) r w = (case h (rq_Method r) [''v2'', space, app, ''blobs'', ''''] g (rq_Body r) w of
         (Return rw, w') \<Rightarrow> (Return \<lparr>rsp_StatusCode = status_of rw, rsp_Body = rw_Body rw, rsp_ReadError = None\<rparr>, w')
       | (_, w') \<Rightarrow> (Error EOF, w'))"
proof -
  let ?p = "''/v2/'' @ space @ ''/'' @ app @ ''/blobs/''"
  have url: "drop (length base) (rq_URL r) = ?p @ CHR ''?'' # ''guid='' @ g" using assms(3) by (simp add: registryStageURI_def)
  have "CHR ''?'' \<notin> set ?p" using plain_name_facts(3) [OF assms(1)] plain_name_facts(3) [OF assms(2)] by simp
  note parts = split_at_char [OF this, of "''guid='' @ g"]
  have "split_on (CHR ''/'') ?p = ['''', ''v2'', space, app, ''blobs'', '''']"
    using plain_name_facts(2) [OF assms(1)] plain_name_facts(2) [OF assms(2)] by (simp add: split_on_append)
  then show ?thesis by (simp only: registry_client_def url parts Let_def http_client.simps) (simp add: guid_param_def)
qed

section \<open>Its parts\<close>

text \<open>The conversion of a request without an image, when the registry takes the droplet.\<close>

lemma convert_with_droplet:
  assumes "req_DockerImageURL request = ''''" and "parseVcapApplication (nilmap_index (req_Environment request) ''VCAP_APPLICATION'') = Inr vcap"
    and "cf_GetDropletByAppGuid cf (vcap_AppID vcap) w = (Return droplet, w)" and "plain_name (vcap_SpaceName vcap)" and "plain_name (vcap_AppName vcap)"
    and "h ''POST'' [''v2'', vcap_SpaceName vcap, vcap_AppName vcap, ''blobs'', ''''] (req_DropletHash request) droplet w = (Return rw, w1)"
    and "status_of rw = StatusCreated"
  obtains lrp where "Convert eord (NewConverter cf (registry_client base h) ip base) request w = (Return lrp, w1)"
    and "Name lrp = vcap_AppID vcap" and "Image lrp = ip @ ''/cloudfoundry/app-name:'' @ req_DropletHash request"
    and "lrp_uris lrp = marshal_strings (vcap_AppUris vcap)"
proof -
  let ?c = "NewConverter cf (registry_client base h) ip base"
  have "hc_Do (registry_client base h) r w = (Return \<lparr>rsp_StatusCode = StatusCreated, rsp_Body = rw_Body rw, rsp_ReadError = None\<rparr>, w1)"
    if "rq_URL r = registryStageURI base (vcap_SpaceName vcap) (vcap_AppName vcap) (req_DropletHash request)" "rq_Method r = ''POST''" "rq_Body r = droplet" for r
    using stage_uri_parts [OF assms(4,5) that(1), of h w] that(2,3) assms(6,7) by simp
  then have "dropletToImageURI ?c request vcap w = (Return (ip @ ''/cloudfoundry/app-name:'' @ req_DropletHash request), w1)"
    using assms(1,3)
    by (simp add: dropletToImageURI_def stageRequest_def NewConverter_def NewRequest_def set_header_def Let_def go_simps)
  with that assms(2) show thesis
    by (auto simp: Convert_def Let_def go_simps simp del: marshal_strings.simps)
qed

text \<open>The cluster in the world, for the worlds that differ in the cluster only.\<close>

lemma cluster_in_push_world:
  assumes "kube_cluster cl \<alpha> I ch"
  shows "kube_cluster (push_kube cl) (\<lambda>w. \<alpha> (pw_cluster w)) (\<lambda>w'. I (pw_cluster w') \<and> pw_registry w' = reg) (push_chan ch)"
  unfolding push_kube_def push_chan_def by (rule kube_cluster_zoom [OF pw_cluster.world_part_axioms assms]) auto

section \<open>Properties\<close>

text \<open>
  C13. An app that is pushed can run. A desire request for an app without an image of its own is answered with 202; its droplet is in
  the registry, and the stateful set names the image under which the registry serves it: the manifest of that image lists the layer of the droplet, with
  its files below the home directory, and the layer is served under the digest of the manifest.
\<close>

theorem pushed_app_is_served:
  fixes lib hdrs rootfs sha256 request cfclient base ip eord urls rord ord cl ns ch st pm otherh texts tf other
  defines "tar \<equiv> tl_Pack lib (map relocate hdrs)"
  defines "digest \<equiv> ''sha256:'' @ sha256 tar"
  defines "ref \<equiv> \<lparr>br_Digest = digest, br_Size = of_nat (length tar)\<rparr>"
  defines "config \<equiv> print_json (config_json rootfs ref)"
  defines "registry \<equiv> mem_registry sha256 texts lib tf rootfs other"
  defines "eirini \<equiv> Handler_New (eirini_bifrost (k8s_bifrost
      \<lparr>co_Convert = Convert eord (NewConverter cfclient (registry_client base (in_registry registry)) ip base)\<rparr>
      (k8s_desirer urls rord ord (push_kube cl) ns (push_chan ch)))) st pm otherh"
  assumes "kube_cluster cl \<alpha> I ch" and "I (pw_cluster w)" and "\<And>k. range_order (rord k)"
    and "request_ok request" and "slash_free (req_ProcessGUID request)" and "req_DockerImageURL request = ''''" and "plain_name (req_DropletHash request)"
    and "parseVcapApplication (nilmap_index (req_Environment request) ''VCAP_APPLICATION'') = Inr vcap"
    and "plain_name (vcap_SpaceName vcap)" and "plain_name (vcap_AppName vcap)"
    and "cf_GetDropletByAppGuid cfclient (vcap_AppID vcap) w = (Return droplet, w)"
    and "\<forall>lrp. Name lrp = vcap_AppID vcap \<and> lrp_uris lrp = marshal_strings (vcap_AppUris vcap) \<longrightarrow> desirable urls ns lrp uris rs (\<alpha> (pw_cluster w))"
    and "blob_inv (pw_registry w)" and "tl_Gunzip lib droplet = Inr archive" and "tl_Entries lib archive = (hdrs, None)"
    and "\<forall>h \<in> set hdrs. te_Error h = None" and "tl_Close lib (map relocate hdrs) = None"
    and "tf_Create tf (pw_registry w) = (Return (), pw_registry w)" and "tf_Open tf (pw_registry w) = (Return (), pw_registry w)" and "quiet (tf_Remove tf)"
    and "sha256 config \<noteq> sha256 tar"
  shows "\<exists>w' s ct r1 r2 rw1 rw2.
      eirini (request_to ''PUT'' (''/apps/'' @ req_ProcessGUID request) (print_json (json_DesireLRPRequest request))) w
        = (Return (WriteHeader StatusAccepted new_writer), w')
    \<and> c_StatefulSets (\<alpha> (pw_cluster w')) (ns, vcap_AppID vcap) = Some s
    \<and> ps_Containers (pt_Spec (ss_Template s)) = [ct] \<and> ct_Image ct = ip @ ''/cloudfoundry/app-name:'' @ req_DropletHash request
    \<and> registry ''GET'' [''v2'', ''cloudfoundry'', ''app-name'', ''manifests'', req_DropletHash request] '''' '''' (pw_registry w') = (Return rw1, r1)
    \<and> status_of rw1 = StatusOK
    \<and> rw_Body rw1 = print_json (manifest_json rootfs ref (''sha256:'' @ sha256 config) (of_nat (length config))) @ [CHR 0x0A]
    \<and> registry ''GET'' [''v2'', ''cloudfoundry'', ''app-name'', ''blobs'', digest] '''' '''' r1 = (Return rw2, r2)
    \<and> status_of rw2 = StatusOK \<and> rw_Body rw2 = tar"
proof -
  let ?g = "req_DropletHash request"
  have digest: "digest \<noteq> ''''" "CHR '':'' \<in> set digest" by (simp_all add: digest_def)
  then have g: "?g \<noteq> ''''" "?g \<noteq> digest" using plain_name_facts [OF assms(13)] by auto
  note names = plain_name_facts(1) [OF assms(15)] plain_name_facts(1) [OF assms(16)]
  obtain reg where staged: "Stager_ServeHTTP texts lib tf \<lparr>ls_blobs = in_memory_store sha256, ls_droplets = in_memory_droplets\<rparr> new_writer ?g droplet (pw_registry w)
      = (Return (Write digest (WriteHeader StatusCreated new_writer)), reg)" and reg: "blob_inv reg"
    "blob_content reg = (blob_content (pw_registry w))(digest \<mapsto> tar, ?g \<mapsto> '''')" "droplet_refs reg = (droplet_refs (pw_registry w))(?g \<mapsto> ref)"
    using mem.serve_stage [OF assms(19) g(1) assms(20-26)] unfolding tar_def digest_def ref_def by blast
  let ?w1 = "w\<lparr>pw_registry := reg\<rparr>"
  have post: "in_registry registry ''POST'' [''v2'', vcap_SpaceName vcap, vcap_AppName vcap, ''blobs'', ''''] ?g droplet w
      = (Return (Write digest (WriteHeader StatusCreated new_writer)), ?w1)"
    using staged names g(1) by (simp add: in_registry_def zoom_def registry_def registry_routes)
  obtain lrp where lrp: "Convert eord (NewConverter cfclient (registry_client base (in_registry registry)) ip base) request w = (Return lrp, ?w1)"
    "Name lrp = vcap_AppID vcap" "Image lrp = ip @ ''/cloudfoundry/app-name:'' @ ?g" "lrp_uris lrp = marshal_strings (vcap_AppUris vcap)"
    by (rule convert_with_droplet [where h = "in_registry registry", OF assms(12,14,17,15,16) post]) (simp add: new_writer_def)
  have inv: "I (pw_cluster ?w1) \<and> pw_registry ?w1 = reg" and desirable: "desirable urls ns lrp uris rs (\<alpha> (pw_cluster ?w1))"
    using assms(8,18) lrp(2,4) by simp_all
  let ?d = "k8s_desirer urls rord ord (push_kube cl) ns (push_chan ch)"
  obtain w' where run: "Desirer_Desire ?d lrp ?w1 = (Return (), w')" and w': "I (pw_cluster w') \<and> pw_registry w' = reg"
    and rep: "replaces_rules ns (Name lrp) rs (desired (push_kube cl) ord ns lrp uris (\<alpha> (pw_cluster ?w1))) (\<alpha> (pw_cluster w'))"
    by (rule Desire_run [where rord = rord and ord = ord, OF cluster_in_push_world [OF assms(7)] inv desirable assms(9)])
  let ?s = "ss_with_ns ns (toStatefulSet ord (newStatefulSetManager (push_kube cl) ns) lrp)"
  have "eirini (request_to ''PUT'' (''/apps/'' @ req_ProcessGUID request) (print_json (json_DesireLRPRequest request))) w
      = (Return (WriteHeader StatusAccepted new_writer), w')"
    unfolding eirini_def using run lrp(1)
    by (simp add: dispatch(1) [OF assms(11)] App_Desire_def decode_DesireLRPRequest [OF assms(10)] Bifrost_Transfer_def go_simps)
  moreover have "c_StatefulSets (\<alpha> (pw_cluster w')) (ns, vcap_AppID vcap) = Some ?s"
    using replaces_rules_frame(1) [OF rep] by (simp add: desired_stores lrp(2))
  moreover have "\<exists>ct. ps_Containers (pt_Spec (ss_Template ?s)) = [ct] \<and> ct_Image ct = ip @ ''/cloudfoundry/app-name:'' @ ?g"
    by (simp add: toStatefulSet_def ss_with_ns_def Let_def lrp(3))
  moreover obtain r1 where r1: "ManifestHandler_ServeHTTP \<lparr>mh_Rootfs = rootfs, mh_DropletStore = in_memory_droplets, mh_BlobStore = in_memory_store sha256\<rparr> new_writer ?g reg
      = (Return (Write (print_json (manifest_json rootfs ref (''sha256:'' @ sha256 config) (of_nat (length config))) @ [CHR 0x0A])
          (Header_Set ''Content-Type'' ''application/vnd.docker.distribution.manifest.v2+json'' new_writer)), r1)" "blob_inv r1"
    "blob_content r1 = (blob_content reg)(''sha256:'' @ sha256 config \<mapsto> config)"
    using mem.serve_manifest [OF reg(1), of ?g ref rootfs sha256 new_writer] reg(3) unfolding config_def by auto
  moreover have "blob_content r1 digest = Some tar" using reg(2) r1(3) g(2) assms(27) by (simp add: digest_def)
  then obtain r2 where "BlobHandler_ServeHTTP \<lparr>bh_blobs = in_memory_store sha256\<rparr> new_writer digest r1 = (Return (Write tar new_writer), r2)"
    using mem.serve_blob [OF r1(2)] by blast
  ultimately show ?thesis
    using g(1) digest(1) w' unfolding registry_def by (fastforce simp: registry_routes)
qed

text \<open>A concrete push into an empty registry and an empty cluster.\<close>

definition push_vcap :: string where
  "push_vcap = print_json (JObject [(''application_id'', JString ''app''), (''application_name'', JString ''dora''), (''space_name'', JString ''dev''),
     (''application_uris'', JArray [JString ''a.io''])])"

definition push_request :: DesireLRPRequest where
  "push_request = sample_request\<lparr>req_DockerImageURL := '''', req_DropletHash := ''hash'', req_Environment := Some [(''VCAP_APPLICATION'', push_vcap)]\<rparr>"

definition push_cf :: "'w CfClient" where
  "push_cf = \<lparr>cf_GetDropletByAppGuid = (\<lambda>_. go_return ''run''), cf_PushDroplet = (\<lambda>_ _. go_throw EOF), cf_GetAppBitsByAppGuid = (\<lambda>_. go_throw EOF)\<rparr>"

definition empty_push_world :: "tracker push_world" where
  "empty_push_world = \<lparr>pw_registry = empty_registry, pw_cluster = empty_tracker\<rparr>"

abbreviation push_registry :: "registry_world registry_handler" where
  "push_registry \<equiv> mem_registry (\<lambda>s. s) (\<lambda>_. '''') sample_tar no_file sample_rootfs (go_return new_writer)"

lemma push_facts:
  "request_ok push_request" "slash_free (req_ProcessGUID push_request)" "req_DockerImageURL push_request = ''''" "plain_name (req_DropletHash push_request)"
  "parseVcapApplication (nilmap_index (req_Environment push_request) ''VCAP_APPLICATION'')
     = Inr \<lparr>vcap_AppName = ''dora'', vcap_AppID = ''app'', vcap_Version = '''', vcap_AppUris = Some [''a.io''], vcap_SpaceName = ''dev''\<rparr>"
  "plain_name ''dev''" "plain_name ''dora''" "valid_label_value ''app''" "Join [''/home/vcap'', ''run''] = ''/home/vcap/run''"
  by code_simp+

theorem pushed_app_is_served_witness:
  "\<exists>w' s ct. Handler_New (eirini_bifrost (k8s_bifrost
        \<lparr>co_Convert = Convert id (NewConverter push_cf (registry_client ''http://r'' (in_registry push_registry)) ''10.0.0.2'' ''http://r'')\<rparr>
        (k8s_desirer plain_urls (\<lambda>_. id) id (push_kube tracker_client) ''eirini'' (push_chan tracker_chan))))
        no_stager no_printers (\<lambda>_. go_return new_writer)
      (request_to ''PUT'' (''/apps/'' @ req_ProcessGUID push_request) (print_json (json_DesireLRPRequest push_request))) empty_push_world
      = (Return (WriteHeader StatusAccepted new_writer), w')
    \<and> c_StatefulSets (tracker_abs (pw_cluster w')) (''eirini'', ''app'') = Some s
    \<and> ps_Containers (pt_Spec (ss_Template s)) = [ct] \<and> ct_Image ct = ''10.0.0.2/cloudfoundry/app-name:hash''
    \<and> (\<exists>rw1 r1. push_registry ''GET'' [''v2'', ''cloudfoundry'', ''app-name'', ''manifests'', ''hash''] '''' '''' (pw_registry w') = (Return rw1, r1)
        \<and> status_of rw1 = StatusOK)"
proof -
  let ?vcap = "\<lparr>vcap_AppName = ''dora'', vcap_AppID = ''app'', vcap_Version = '''', vcap_AppUris = Some [''a.io''], vcap_SpaceName = ''dev''\<rparr>"
  let ?layer = "[\<lparr>te_Name = ''run'', te_Content = ''x'', te_Error = None\<rparr>]"
  have desirable: "\<forall>lrp. Name lrp = vcap_AppID ?vcap \<and> lrp_uris lrp = marshal_strings (vcap_AppUris ?vcap) \<longrightarrow>
      desirable plain_urls ''eirini'' lrp [''a.io''] [plain_rule ''app'' ''a.io''] (tracker_abs (pw_cluster empty_push_world))"
    using push_facts(8)
    by (simp add: desirable_def instances_exist_def names_free_def ingress_ok_def tracker_abs_def empty_tracker_def empty_push_world_def
        sample_new_rules sample_decoded del: marshal_strings.simps new_rules.simps)
  have vcap_id: "vcap_AppID ?vcap = ''app''" by simp
  have hash: "req_DropletHash push_request = ''hash''" by (simp add: push_request_def)
  have world: "pw_registry empty_push_world = empty_registry" "tracker_inv (pw_cluster empty_push_world)"
    by (simp_all add: empty_push_world_def tracker_inv_empty)
  have config: "(\<lambda>s. s) (print_json (config_json sample_rootfs ref)) \<noteq> (\<lambda>s. s) (tl_Pack sample_tar (map relocate ?layer))" for ref
    using sample_digests by (simp add: sample_tar_def relocate_def push_facts(9) config_json_def del: Join.simps)
  note served = pushed_app_is_served [where urls = plain_urls and rord = "\<lambda>_. id" and ord = id and eord = id and cfclient = push_cf and lib = sample_tar and hdrs = ?layer
      and tf = no_file and rootfs = sample_rootfs and ?sha256.0 = "\<lambda>s. s" and st = no_stager and pm = no_printers and otherh = "\<lambda>_. go_return new_writer" and droplet = "''run''"
      and archive = "''run''" and texts = "\<lambda>_. ''''" and other = "go_return new_writer" and base = "''http://r''" and ip = "''10.0.0.2''",
      OF tk.kube_cluster_axioms world(2) range_order_id push_facts(1-5)]
  have tar: "tl_Gunzip sample_tar ''run'' = Inr ''run''" "tl_Entries sample_tar ''run'' = (?layer, None)" "\<forall>h \<in> set ?layer. te_Error h = None"
    "tl_Close sample_tar (map relocate ?layer) = None"
    "tf_Create no_file (pw_registry empty_push_world) = (Return (), pw_registry empty_push_world)"
    "tf_Open no_file (pw_registry empty_push_world) = (Return (), pw_registry empty_push_world)"
    by (simp_all add: sample_tar_def no_file_def)
  have vcap: "plain_name (vcap_SpaceName ?vcap)" "plain_name (vcap_AppName ?vcap)" and inv: "blob_inv (pw_registry empty_push_world)"
    and droplet: "cf_GetDropletByAppGuid push_cf (vcap_AppID ?vcap) empty_push_world = (Return ''run'', empty_push_world)"
    using push_facts(6,7) by (simp_all add: world(1) push_cf_def)
  from served [OF vcap droplet desirable inv tar no_file_quiet(3) config] show ?thesis
    unfolding hash vcap_id by (elim exE conjE) (intro exI conjI, assumption+, simp)
qed

end
