(* ===== verification/Cluster_Typing.thy ===== *)
theory Cluster_Typing
  imports K8s_Desirer
begin

text \<open>
  A type system for the objects that the desirer keeps in a namespace, and its soundness. The objects of an app refer to each
  other by text only: a rule of the ingress names a service and a port, a service selects pods by a label, a
  stateful set labels its pods. The types say that these texts fit together, and that the
  fields the code reads without a check are there.

  The locale \<open>typed_resource\<close> is a kind of objects with a type for every name; \<open>typed_cluster\<close> is a cluster in which the
  stateful sets and the services are such kinds. Programs are typed by \<open>safe\<close>: run in a world that has the
  invariant they keep it, do not panic, do not block, and return values of a given type.
\<close>

section \<open>Safe programs\<close>

definition safe :: "('w \<Rightarrow> bool) \<Rightarrow> ('w, 'a) go \<Rightarrow> ('a \<Rightarrow> bool) \<Rightarrow> bool" where
  "safe J m Q \<longleftrightarrow> (\<forall>w. J w \<longrightarrow> J (snd (m w)) \<and> settled (fst (m w)) \<and> (\<forall>a. fst (m w) = Return a \<longrightarrow> Q a))"

lemma safe_return: "Q a \<Longrightarrow> safe J (go_return a) Q"
  by (simp add: safe_def)

lemma safe_lift: "(\<And>a. r = Inr a \<Longrightarrow> Q a) \<Longrightarrow> safe J (go_lift r) Q"
  by (cases r) (simp_all add: safe_def)

lemma safe_bind:
  assumes "safe J m Q" and "\<And>a. Q a \<Longrightarrow> safe J (k a) R"
  shows "safe J (go_bind m k) R"
  unfolding safe_def
proof (intro allI impI)
  fix w assume "J w"
  obtain r w1 where run: "m w = (r, w1)" by fastforce
  with assms(1) \<open>J w\<close> have J: "J w1" and r: "settled r" "\<And>a. r = Return a \<Longrightarrow> Q a"
    unfolding safe_def by (metis fst_conv snd_conv)+
  show "J (snd (go_bind m k w)) \<and> settled (fst (go_bind m k w)) \<and> (\<forall>a. fst (go_bind m k w) = Return a \<longrightarrow> R a)"
  proof (cases r)
    case (Return a)
    with assms(2) r(2) J run show ?thesis by (simp add: go_simps safe_def)
  qed (use run J r(1) in \<open>simp_all add: go_simps\<close>)
qed

lemma safe_weaken:
  assumes "safe J m Q" and "\<And>a. Q a \<Longrightarrow> R a"
  shows "safe J m R"
  using assms unfolding safe_def by blast

lemma safe_bind_lift: "(\<And>a. r = Inr a \<Longrightarrow> safe J (k a) R) \<Longrightarrow> safe J (go_bind (go_lift r) k) R"
  by (rule safe_bind [OF safe_lift [where Q = "\<lambda>a. r = Inr a"]])

lemma safe_assign: "m \<noteq> None \<Longrightarrow> safe J (nilmap_assign k v m) (\<lambda>m'. m' \<noteq> None)"
  by (auto simp: safe_def)

section \<open>A kind of objects with types\<close>

locale typed_resource = kube_resource rc meta with_ns sel upd abs inv
  for rc :: "('o, 'w) resource_interface" and meta :: "'o \<Rightarrow> ObjectMeta" and with_ns :: "string \<Rightarrow> 'o \<Rightarrow> 'o"
    and sel :: "cluster \<Rightarrow> 'o store" and upd :: "('o store \<Rightarrow> 'o store) \<Rightarrow> cluster \<Rightarrow> cluster"
    and abs :: "'w \<Rightarrow> cluster" and inv :: "'w \<Rightarrow> bool" +
  fixes ns :: string and T :: "string \<Rightarrow> 'o \<Rightarrow> bool" and K :: "cluster \<Rightarrow> bool"
  assumes ns_named: "ns \<noteq> ''''"
    and lookup_typed: "K c \<Longrightarrow> sel c (ns, n) = Some ob \<Longrightarrow> T n ob"
    and store_typed: "K c \<Longrightarrow> T n ob \<Longrightarrow> K (upd (\<lambda>st. st((ns, n) \<mapsto> ob)) c)"
    and remove_typed: "K c \<Longrightarrow> K (upd (\<lambda>st. st((ns, n) := None)) c)"
    and placed_typed: "T n ob \<Longrightarrow> T n (with_ns ns ob)"
begin

abbreviation J where "J w \<equiv> inv w \<and> K (abs w)"

lemma Get_safe:
  assumes "n \<noteq> ''''"
  shows "safe J (rc_Get rc ns n) (\<lambda>ob. T n ob \<and> om_Name (meta ob) = n \<and> om_Namespace (meta ob) = ns)"
  unfolding safe_def using Get_law [OF _ ns_named assms] lookup_typed stored_name
  by (auto split: option.splits)

lemma List_safe: "safe J (rc_List rc ns '''') (\<lambda>obs. \<forall>ob \<in> set obs. T (om_Name (meta ob)) ob)"
  unfolding safe_def
proof (intro allI impI)
  fix w assume w: "J w"
  then obtain obs where "rc_List rc ns '''' w = (Return obs, w)" and "set obs = {ob. \<exists>n. sel (abs w) (ns, n) = Some ob}"
    using List_law [OF _ ns_named] by blast
  moreover have "T (om_Name (meta ob)) ob" if "sel (abs w) (ns, n) = Some ob" for n ob
    using that w lookup_typed stored_name by metis
  ultimately show "J (snd (rc_List rc ns '''' w)) \<and> settled (fst (rc_List rc ns '''' w))
      \<and> (\<forall>obs. fst (rc_List rc ns '''' w) = Return obs \<longrightarrow> (\<forall>ob \<in> set obs. T (om_Name (meta ob)) ob))"
    using w by auto
qed

lemma List_name_safe:
  assumes "valid_label_value v"
  shows "safe J (rc_List rc ns (''name='' @ v)) (\<lambda>_. True)"
  unfolding safe_def using List_name_law [OF _ ns_named assms] by fastforce

lemma Create_safe:
  assumes "om_Name (meta ob) \<noteq> ''''" and "om_Namespace (meta ob) \<in> {'''', ns}" and "T (om_Name (meta ob)) ob"
  shows "safe J (rc_Create rc ns ob) (\<lambda>ob'. ob' = with_ns ns ob)"
  unfolding safe_def using Create_law [OF _ ns_named assms(1,2)] store_typed [OF _ placed_typed [OF assms(3)]]
  by (auto split: option.splits)

lemma Update_safe:
  assumes "om_Name (meta ob) \<noteq> ''''" and "om_Namespace (meta ob) \<in> {'''', ns}" and "T (om_Name (meta ob)) ob"
  shows "safe J (rc_Update rc ns ob) (\<lambda>_. True)"
  unfolding safe_def using Update_law [OF _ ns_named assms(1,2)] store_typed [OF _ placed_typed [OF assms(3)]]
  by (auto split: option.splits)

lemma Delete_safe:
  assumes "n \<noteq> ''''"
  shows "safe J (rc_Delete rc ns n pol) (\<lambda>_. True)"
  unfolding safe_def using Delete_law [OF _ ns_named assms, of _ pol] remove_typed
  by (auto split: option.splits)

end

section \<open>The types of the program's objects\<close>

text \<open>A stateful set of app \<open>a\<close>: its labels agree, and one container listens on the port of the services.\<close>

definition ss_typed :: "string \<Rightarrow> StatefulSet \<Rightarrow> bool" where
  "ss_typed a s \<longleftrightarrow> map_of (om_Labels (ss_Meta s)) ''name'' = Some a \<and> om_Annotations (ss_Meta s) \<noteq> None
     \<and> ss_MatchLabels s = [(''name'', a)] \<and> pt_Labels (ss_Template s) = [(''name'', a)]
     \<and> (\<exists>ct. ps_Containers (pt_Spec (ss_Template s)) = [ct] \<and> map cp_ContainerPort (ct_Ports ct) = [8080])"

text \<open>One of the two services of an app, by its name.\<close>

definition svc_typed :: "string \<Rightarrow> Service \<Rightarrow> bool" where
  "svc_typed n v \<longleftrightarrow> map sp_Port (svc_Ports v) = [8080]
     \<and> (\<exists>a. n \<in> {GetInternalServiceName a, GetInternalHeadlessServiceName a} \<and> svc_Selector v = [(''name'', a)])"

definition rule_typed :: "IngressRule \<Rightarrow> bool" where
  "rule_typed r \<longleftrightarrow> (\<exists>a p. HTTP r
     = Some [\<lparr>hip_Path = p, Backend = \<lparr>ServiceName = GetInternalServiceName a, ServicePort = 8080\<rparr>\<rparr>])"

definition well_typed :: "string \<Rightarrow> cluster \<Rightarrow> bool" where
  "well_typed ns c \<longleftrightarrow> (\<forall>n s. c_StatefulSets c (ns, n) = Some s \<longrightarrow> ss_typed n s)
     \<and> (\<forall>n v. c_Services c (ns, n) = Some v \<longrightarrow> svc_typed n v)
     \<and> ingress_ok ns c \<and> (\<forall>r \<in> set (ingress_rules c ns). rule_typed r)"

lemma well_typed_ingress: "well_typed ns c \<Longrightarrow> ingress_ok ns c"
  by (simp add: well_typed_def)

lemma well_typed_stores:
  assumes "well_typed ns c"
  shows "ss_typed n s \<Longrightarrow> well_typed ns (c_StatefulSets_update (\<lambda>st. st((ns, n) \<mapsto> s)) c)"
    and "well_typed ns (c_StatefulSets_update (\<lambda>st. st((ns, n) := None)) c)"
    and "svc_typed n v \<Longrightarrow> well_typed ns (c_Services_update (\<lambda>st. st((ns, n) \<mapsto> v)) c)"
    and "well_typed ns (c_Services_update (\<lambda>st. st((ns, n) := None)) c)"
    and "well_typed ns (c\<lparr>c_sent := sent\<rparr>)"
  using assms by (auto simp: well_typed_def ingress_ok_def ingress_rules_def)

lemma new_rules_typed: "new_rules lib a uris = Inr rs \<Longrightarrow> r \<in> set rs \<Longrightarrow> rule_typed r"
  by (induction uris arbitrary: rs) (auto split: sum.splits simp: rule_typed_def)

lemma replaces_rules_typed:
  assumes "well_typed ns c" and "replaces_rules ns a new c c'" and "\<And>r. r \<in> set new \<Longrightarrow> rule_typed r"
  shows "well_typed ns c'"
proof -
  have "set_mset (mset (ingress_rules c' ns)) \<subseteq> set (ingress_rules c ns) \<union> set new"
    using assms(2) by (auto simp: replaces_rules_def)
  with assms show ?thesis
    by (auto simp: well_typed_def replaces_rules_frame [OF assms(2)])
qed

lemma built_objects_typed:
  "Metadata lrp \<noteq> None \<Longrightarrow> ss_typed (Name lrp) (toStatefulSet ord m lrp)"
  "svc_typed (GetInternalServiceName (Name lrp)) (toService lrp)"
  "svc_typed (GetInternalHeadlessServiceName (Name lrp)) (toHeadlessService lrp)"
  by (auto simp: ss_typed_def svc_typed_def toStatefulSet_def toService_def toHeadlessService_def Let_def)

section \<open>Typed operations\<close>

locale typed_cluster = kube_cluster cl abs inv ch
  for cl :: "'w kubernetes_Interface" and abs :: "'w \<Rightarrow> cluster" and inv :: "'w \<Rightarrow> bool"
    and ch :: "(Routes list, 'w) chan" +
  fixes ns :: string
  assumes namespace_named: "ns \<noteq> ''''"

sublocale typed_cluster \<subseteq> sst: typed_resource
  "StatefulSets cl" ss_Meta ss_with_ns c_StatefulSets c_StatefulSets_update abs inv ns ss_typed "well_typed ns"
proof unfold_locales
  show "ns \<noteq> ''''" by (rule namespace_named)
  show "ss_typed n ob" if "well_typed ns c" "c_StatefulSets c (ns, n) = Some ob" for c n ob
    using that by (simp add: well_typed_def)
  show "well_typed ns (c_StatefulSets_update (\<lambda>st. st((ns, n) \<mapsto> ob)) c)" if "well_typed ns c" "ss_typed n ob" for c n ob
    by (rule well_typed_stores(1) [OF that])
  show "well_typed ns (c_StatefulSets_update (\<lambda>st. st((ns, n) := None)) c)" if "well_typed ns c" for c n
    by (rule well_typed_stores(2) [OF that])
  show "ss_typed n (ss_with_ns ns ob)" if "ss_typed n ob" for n ob
    using that by (simp add: ss_typed_def ss_with_ns_def)
qed

sublocale typed_cluster \<subseteq> svt: typed_resource
  "Services cl" svc_Meta svc_with_ns c_Services c_Services_update abs inv ns svc_typed "well_typed ns"
proof unfold_locales
  show "svc_typed n ob" if "well_typed ns c" "c_Services c (ns, n) = Some ob" for c n ob
    using that by (simp add: well_typed_def)
  show "well_typed ns (c_Services_update (\<lambda>st. st((ns, n) \<mapsto> ob)) c)" if "well_typed ns c" "svc_typed n ob" for c n ob
    by (rule well_typed_stores(3) [OF that])
  show "well_typed ns (c_Services_update (\<lambda>st. st((ns, n) := None)) c)" if "well_typed ns c" for c n
    by (rule well_typed_stores(4) [OF that])
  show "svc_typed n (svc_with_ns ns ob)" if "svc_typed n ob" for n ob
    using that by (simp add: svc_typed_def svc_with_ns_def)
qed (rule namespace_named)

context typed_cluster
begin

abbreviation W where "W w \<equiv> inv w \<and> well_typed ns (abs w)"

lemma send_safe: "safe W (chan_send ch m) (\<lambda>_. True)"
  unfolding safe_def using send_law well_typed_stores(5) by fastforce

lemma ingress_update_safe:
  assumes "decodeRoutes (lrp_uris lrp) = Inr uris" and ord: "\<And>k. range_order (rord k)"
  shows "safe W (igm_Update (NewIngressManager lib rord cl ns) lrp) (\<lambda>_. True)"
  unfolding safe_def
proof (intro allI impI)
  fix w assume w: "W w"
  show "W (snd (igm_Update (NewIngressManager lib rord cl ns) lrp w)) \<and> settled (fst (igm_Update (NewIngressManager lib rord cl ns) lrp w))
    \<and> (\<forall>a. fst (igm_Update (NewIngressManager lib rord cl ns) lrp w) = Return a \<longrightarrow> True)"
  proof (cases "new_rules lib (Name lrp) uris")
    case (Inl e)
    with w show ?thesis
      using Update_rules_invalid [OF _ namespace_named assms(1)] by simp
  next
    case (Inr rs)
    obtain w' where "igm_Update (NewIngressManager lib rord cl ns) lrp w = (Return (), w')" and "inv w'"
      and "replaces_rules ns (Name lrp) rs (abs w) (abs w')"
      by (rule Update_rules_all [where ord = rord, OF _ namespace_named _ ord assms(1) Inr])
        (use w well_typed_ingress in auto)
    with w show ?thesis
      using replaces_rules_typed new_rules_typed [OF Inr] by simp blast
  qed
qed

lemma ingress_delete_safe: "safe W (igm_Delete (NewIngressManager lib rord cl ns) a) (\<lambda>_. True)"
  unfolding safe_def
proof (intro allI impI)
  fix w assume w: "W w"
  show "W (snd (igm_Delete (NewIngressManager lib rord cl ns) a w)) \<and> settled (fst (igm_Delete (NewIngressManager lib rord cl ns) a w))
    \<and> (\<forall>b. fst (igm_Delete (NewIngressManager lib rord cl ns) a w) = Return b \<longrightarrow> True)"
  proof (cases "c_Ingresses (abs w) (ns, ingressName)")
    case None
    with w show ?thesis
      using Delete_rules_missing [OF _ namespace_named] by simp
  next
    case (Some i)
    obtain w' where "igm_Delete (NewIngressManager lib rord cl ns) a w = (Return (), w')" and "inv w'"
      and "replaces_rules ns a [] (abs w) (abs w')"
      by (rule Delete_rules [OF _ namespace_named _ Some]) (use w well_typed_ingress in auto)
    with w show ?thesis
      using replaces_rules_typed [of ns "abs w" a "[]" "abs w'"] by simp
  qed
qed

lemma create_service_safe:
  "safe W (svm_Create (NewServiceManager cl ns ch) lrp) (\<lambda>_. \<exists>uris. decodeRoutes (lrp_uris lrp) = Inr uris)"
  unfolding NewServiceManager_def serviceManager_Create_def Let_def ServiceManager.simps serviceManager.simps
  by (rule safe_bind [OF svt.Create_safe], simp_all add: built_objects_typed, rule safe_bind [OF safe_lift])
    (auto intro: safe_weaken [OF send_safe])

lemma update_service_safe:
  "safe W (svm_Update (NewServiceManager cl ns ch) lrp) (\<lambda>_. \<exists>uris. decodeRoutes (lrp_uris lrp) = Inr uris)"
proof -
  let ?n = "GetInternalServiceName (Name lrp)"
  have "safe W (go_bind (rc_Update (Services cl) ns (v\<lparr>svc_Meta := (svc_Meta v)\<lparr>om_Annotations := m\<rparr>\<rparr>)) (\<lambda>_. chan_send ch msg))
      (\<lambda>_. \<exists>uris. decodeRoutes (lrp_uris lrp) = Inr uris)"
    if "svc_typed ?n v" "om_Name (svc_Meta v) = ?n" "om_Namespace (svc_Meta v) = ns" "decodeRoutes (lrp_uris lrp) = Inr uris"
    for v m msg uris
    by (rule safe_bind [OF svt.Update_safe safe_weaken [OF send_safe]]) (use that in \<open>simp_all add: svc_typed_def\<close>)
  moreover have "om_Annotations (svc_Meta v) \<noteq> None"
    if "decodeRoutes (nilmap_index (om_Annotations (svc_Meta v)) RegisteredRoutes) = Inr routes" for v routes
    using that by (cases "om_Annotations (svc_Meta v)") (auto simp: decodeRoutes_empty_text)
  ultimately show ?thesis
    unfolding NewServiceManager_def serviceManager_Update_def Let_def ServiceManager.simps serviceManager.simps
    by (intro safe_bind [OF svt.Get_safe] safe_bind_lift safe_bind [OF safe_assign]) simp_all
qed

lemma delete_service_safe: "safe W (svm_Delete (NewServiceManager cl ns ch) a) (\<lambda>_. True)"
  unfolding NewServiceManager_def serviceManager_Delete_def Let_def ServiceManager.simps serviceManager.simps
  by (intro safe_bind [OF svt.Get_safe] safe_bind_lift safe_bind [OF send_safe] svt.Delete_safe) simp_all

lemma headless_service_safe:
  "safe W (svm_CreateHeadless (NewServiceManager cl ns c) lrp) (\<lambda>_. True)"
  "safe W (svm_DeleteHeadless (NewServiceManager cl ns c) a) (\<lambda>_. True)"
  unfolding NewServiceManager_def serviceManager_CreateHeadless_def serviceManager_DeleteHeadless_def Let_def
    ServiceManager.simps serviceManager.simps
  by (intro safe_bind [OF svt.Create_safe] safe_return svt.Delete_safe; simp add: built_objects_typed)+

lemma instances_safe:
  assumes "valid_label_value a"
  shows "safe W (StatefulSetManager_Exists (newStatefulSetManager cl ns) a) (\<lambda>_. True)"
    and "safe W (StatefulSetManager_Get (newStatefulSetManager cl ns) a) (\<lambda>_. True)"
    and "safe W (StatefulSetManager_Delete (newStatefulSetManager cl ns) a) (\<lambda>_. True)"
    and "Name lrp = a \<Longrightarrow> safe W (StatefulSetManager_Update (newStatefulSetManager cl ns) lrp) (\<lambda>_. True)"
    and "Name lrp = a \<Longrightarrow> Metadata lrp \<noteq> None \<Longrightarrow>
      safe W (StatefulSetManager_Create ord (newStatefulSetManager cl ns) lrp) (\<lambda>_. True)"
proof -
  have a: "a \<noteq> ''''" using assms by (simp add: valid_label_value_def)
  show "safe W (StatefulSetManager_Exists (newStatefulSetManager cl ns) a) (\<lambda>_. True)"
    unfolding StatefulSetManager_Exists_def Let_def newStatefulSetManager_fields
    by (rule safe_bind [OF sst.List_name_safe [OF assms] safe_return]) simp
  show "safe W (StatefulSetManager_Get (newStatefulSetManager cl ns) a) (\<lambda>_. True)"
    unfolding StatefulSetManager_Get_def newStatefulSetManager_fields
    by (rule safe_bind [OF sst.Get_safe [OF a]]) (auto simp: statefulSetToLRP_def ss_typed_def intro: safe_return)
  show "safe W (StatefulSetManager_Delete (newStatefulSetManager cl ns) a) (\<lambda>_. True)"
    unfolding StatefulSetManager_Delete_def newStatefulSetManager_fields
    by (rule safe_bind [OF sst.Delete_safe [OF a] headless_service_safe(2)])
  show "safe W (StatefulSetManager_Update (newStatefulSetManager cl ns) lrp) (\<lambda>_. True)" if "Name lrp = a"
    unfolding StatefulSetManager_Update_def newStatefulSetManager_fields that Let_def
    by (intro safe_bind [OF sst.Get_safe [OF a]] safe_bind [OF safe_assign] safe_bind [OF sst.Update_safe] safe_return)
      (use a in \<open>auto simp: ss_typed_def\<close>)
  show "safe W (StatefulSetManager_Create ord (newStatefulSetManager cl ns) lrp) (\<lambda>_. True)"
    if "Name lrp = a" "Metadata lrp \<noteq> None"
    unfolding StatefulSetManager_Create_def newStatefulSetManager_fields
    by (rule safe_bind [OF sst.Create_safe headless_service_safe(1)])
      (use a that built_objects_typed(1) [of lrp] in simp_all)
qed

lemma listed_instances_safe: "\<forall>s \<in> set ss. \<exists>a. ss_typed a s \<Longrightarrow> safe W (statefulSetsToLRPs ss lrps) (\<lambda>_. True)"
proof (induction ss arbitrary: lrps)
  case (Cons s ss)
  then obtain ct where "ps_Containers (pt_Spec (ss_Template s)) = [ct]"
    by (auto simp: ss_typed_def)
  with Cons show ?case
    by (auto intro!: safe_bind [OF safe_return [where Q = "\<lambda>_. True"]] simp: statefulSetToLRP_def)
qed (simp add: safe_return)

end

section \<open>Calls of the desirer\<close>

datatype desirer_call = CallDesire LRP | CallUpdate LRP | CallStop string | CallGet string | CallList

fun make_call :: "'w Desirer \<Rightarrow> desirer_call \<Rightarrow> ('w, unit) go" where
  "make_call d (CallDesire lrp) = Desirer_Desire d lrp"
| "make_call d (CallUpdate lrp) = Desirer_Update d lrp"
| "make_call d (CallStop a) = Desirer_Stop d a"
| "make_call d (CallGet a) = go_bind (Desirer_Get d a) (\<lambda>_. go_return ())"
| "make_call d CallList = go_bind (Desirer_List d) (\<lambda>_. go_return ())"

text \<open>The calls one after the other, whatever the outcomes of those before.\<close>

fun make_calls :: "'w Desirer \<Rightarrow> desirer_call list \<Rightarrow> 'w \<Rightarrow> unit outcome list \<times> 'w" where
  "make_calls d [] w = ([], w)"
| "make_calls d (p # ps) w =
     (let (r, w1) = make_call d p w; (rs, w2) = make_calls d ps w1 in (r # rs, w2))"

text \<open>The names are label values, and what is desired has metadata.\<close>

fun call_ok :: "desirer_call \<Rightarrow> bool" where
  "call_ok (CallDesire lrp) \<longleftrightarrow> valid_label_value (Name lrp) \<and> Metadata lrp \<noteq> None"
| "call_ok (CallUpdate lrp) \<longleftrightarrow> valid_label_value (Name lrp)"
| "call_ok (CallStop a) \<longleftrightarrow> valid_label_value a"
| "call_ok (CallGet a) \<longleftrightarrow> valid_label_value a"
| "call_ok CallList \<longleftrightarrow> True"

context typed_cluster
begin

lemma call_safe:
  assumes "call_ok p" and ord: "\<And>k. range_order (rord k)"
  shows "safe W (make_call (k8s_desirer lib rord ord cl ns ch) p) (\<lambda>_. True)"
proof (cases p)
  case (CallDesire lrp)
  have "safe W (go_bind (StatefulSetManager_Create ord (newStatefulSetManager cl ns) lrp) (\<lambda>_.
      go_bind (svm_Create (NewServiceManager cl ns ch) lrp) (\<lambda>_. igm_Update (NewIngressManager lib rord cl ns) lrp))) (\<lambda>_. True)"
    using assms(1) CallDesire ingress_update_safe [where rord = rord, OF _ ord]
    by (intro safe_bind [OF instances_safe(5) [OF _ refl]] safe_bind [OF create_service_safe]) auto
  with assms(1) CallDesire show ?thesis
    by (auto simp: Desirer_Desire_def intro!: safe_bind [OF instances_safe(1)] safe_return)
next
  case (CallUpdate lrp)
  with assms(1) ingress_update_safe [where rord = rord, OF _ ord] show ?thesis
    by (auto simp: Desirer_Update_def intro!: safe_bind [OF instances_safe(4) [OF _ refl]] safe_bind [OF update_service_safe])
next
  case (CallStop a)
  with assms(1) show ?thesis
    by (auto simp: Desirer_Stop_def intro!: safe_bind [OF instances_safe(3)] safe_bind [OF ingress_delete_safe delete_service_safe])
next
  case (CallGet a)
  with assms(1) show ?thesis
    by (auto simp: Desirer_Get_def intro!: safe_bind [OF instances_safe(2)] safe_return)
next
  case CallList
  then show ?thesis
    by (auto simp: Desirer_List_def StatefulSetManager_List_def
        intro!: safe_bind [OF safe_bind [OF sst.List_safe listed_instances_safe] safe_return])
qed

lemma calls_safe:
  assumes "W w" and "\<forall>p \<in> set ps. call_ok p" and ord: "\<And>k. range_order (rord k)"
    and "make_calls (k8s_desirer lib rord ord cl ns ch) ps w = (rs, w')"
  shows "(\<forall>r \<in> set rs. settled r) \<and> well_typed ns (abs w')"
  using assms(1,2,4)
proof (induction ps arbitrary: w rs)
  case (Cons p ps)
  let ?d = "k8s_desirer lib rord ord cl ns ch"
  obtain r w1 where p: "make_call ?d p w = (r, w1)" by fastforce
  obtain rs' where ps: "make_calls ?d ps w1 = (rs', w')" and rs: "rs = r # rs'"
    using Cons.prems(3) by (auto simp: p Let_def split: prod.splits)
  have "settled r" and "W w1"
    using call_safe [where rord = rord, OF _ ord, of p lib ord] Cons.prems(1,2) p unfolding safe_def by force+
  with Cons.IH [OF _ _ ps] Cons.prems(2) rs show ?case by simp
qed simp

end

section \<open>Where the traffic of a rule goes\<close>

definition selects :: "gomap \<Rightarrow> gomap \<Rightarrow> bool" where
  "selects selector labels \<longleftrightarrow> (\<forall>(k, v) \<in> set selector. map_of labels k = Some v)"

text \<open>
  The pods of the stateful set \<open>n\<close> get traffic of the rule \<open>r\<close>: a path of the rule leads to a service that selects them. It
  arrives if the service has the port of the path and a container of the pods listens on that port.
\<close>

definition rule_target :: "cluster \<Rightarrow> string \<Rightarrow> IngressRule \<Rightarrow> string \<Rightarrow> bool" where
  "rule_target c ns r n \<longleftrightarrow> (case (HTTP r, c_StatefulSets c (ns, n)) of
      (Some ps, Some s) \<Rightarrow> (\<exists>p \<in> set ps. case c_Services c (ns, ServiceName (Backend p)) of
          Some v \<Rightarrow> selects (svc_Selector v) (pt_Labels (ss_Template s)) | None \<Rightarrow> False)
    | _ \<Rightarrow> False)"

definition port_open :: "cluster \<Rightarrow> string \<Rightarrow> IngressRule \<Rightarrow> string \<Rightarrow> bool" where
  "port_open c ns r n \<longleftrightarrow> (case (HTTP r, c_StatefulSets c (ns, n)) of
      (Some ps, Some s) \<Rightarrow> (\<forall>p \<in> set ps. case c_Services c (ns, ServiceName (Backend p)) of
          Some v \<Rightarrow> ServicePort (Backend p) \<in> set (map sp_Port (svc_Ports v))
            \<and> (\<exists>ct \<in> set (ps_Containers (pt_Spec (ss_Template s))). ServicePort (Backend p) \<in> set (map cp_ContainerPort (ct_Ports ct)))
        | None \<Rightarrow> False)
    | _ \<Rightarrow> False)"

lemma typed_target:
  assumes "well_typed ns c" and "r \<in> set (ingress_rules c ns)" and "rule_target c ns r n"
  shows "port_open c ns r n" and "routes_to (GetInternalServiceName n) r \<or> routes_to (GetInternalHeadlessServiceName n) r"
proof -
  obtain a p where r: "HTTP r = Some [p]" "p = \<lparr>hip_Path = hip_Path p, Backend = \<lparr>ServiceName = GetInternalServiceName a, ServicePort = 8080\<rparr>\<rparr>"
    using assms(1,2) by (force simp: well_typed_def rule_typed_def)
  then obtain v s where v: "c_Services c (ns, ServiceName (Backend p)) = Some v" and s: "c_StatefulSets c (ns, n) = Some s"
    and sel: "selects (svc_Selector v) (pt_Labels (ss_Template s))"
    using assms(3) by (auto simp: rule_target_def split: option.splits)
  have "svc_typed (ServiceName (Backend p)) v" and typed: "ss_typed n s"
    using assms(1) v s by (auto simp: well_typed_def)
  then obtain b where b: "ServiceName (Backend p) \<in> {GetInternalServiceName b, GetInternalHeadlessServiceName b}"
      "svc_Selector v = [(''name'', b)]" "map sp_Port (svc_Ports v) = [8080]"
    by (auto simp: svc_typed_def)
  have "b = n"
    using sel typed b(2) by (simp add: selects_def ss_typed_def)
  with r(1) b(1) show "routes_to (GetInternalServiceName n) r \<or> routes_to (GetInternalHeadlessServiceName n) r"
    by (auto simp: routes_to_def)
  have "ServicePort (Backend p) = 8080"
    using r(2) by (metis HTTPIngressPath.select_convs(2) IngressBackend.select_convs(2))
  with r(1) v s b(3) typed show "port_open c ns r n"
    by (auto simp: port_open_def ss_typed_def simp del: set_map)
qed

section \<open>Soundness\<close>

lemma typed_clusterI: "kube_cluster cl \<alpha> I ch \<Longrightarrow> ns \<noteq> '''' \<Longrightarrow> typed_cluster cl \<alpha> I ch ns"
  by (simp add: typed_cluster_def typed_cluster_axioms_def)

interpretation tkt: typed_cluster tracker_client tracker_abs tracker_inv tracker_chan "''eirini''"
  by (rule typed_clusterI [OF tk.kube_cluster_axioms]) simp

text \<open>
  C5. Type soundness. From a well-typed namespace, such as an empty one, no sequence of calls of the desirer panics or blocks, whichever
  of them fail, and the namespace stays well-typed: the traffic of a rule of the ingress only ever gets to pods of the app whose
  service the rule names, and arrives there on a port that the service forwards and a container listens on.
\<close>

theorem desirer_type_soundness:
  assumes "kube_cluster cl \<alpha> I ch" and "I w" and "ns \<noteq> ''''" and "well_typed ns (\<alpha> w)"
    and "\<And>k. range_order (rord k)" and "\<forall>p \<in> set calls. call_ok p"
    and "make_calls (k8s_desirer lib rord ord cl ns ch) calls w = (rs, w')"
  shows "(\<forall>r \<in> set rs. settled r) \<and> well_typed ns (\<alpha> w')
    \<and> (\<forall>r \<in> set (ingress_rules (\<alpha> w') ns). \<forall>n. rule_target (\<alpha> w') ns r n \<longrightarrow> port_open (\<alpha> w') ns r n
        \<and> (routes_to (GetInternalServiceName n) r \<or> routes_to (GetInternalHeadlessServiceName n) r))"
  using typed_cluster.calls_safe [where rord = rord, OF typed_clusterI [OF assms(1,3)] _ assms(6,5,7)] assms(2,4)
    typed_target [of ns "\<alpha> w'"] by blast

definition typing_calls :: "desirer_call list" where
  "typing_calls = [CallDesire (sample_lrp ''dora'' [''a.io'']), CallDesire (sample_lrp ''dora'' [''b.io'']),
     CallUpdate (sample_lrp ''dora'' [''b.io'']), CallStop ''other'', CallDesire (sample_lrp ''other'' [''c.io'']), CallList, CallGet ''other'']"

abbreviation typing_desirer :: "tracker Desirer" where
  "typing_desirer \<equiv> k8s_desirer plain_urls (\<lambda>_. id) id tracker_client ''eirini'' tracker_chan"

definition typing_end :: tracker where
  "typing_end = snd (make_calls typing_desirer typing_calls empty_tracker)"

lemma typing_outcomes:
  "fst (make_calls typing_desirer typing_calls empty_tracker)
     = [Return (), Return (), Return (), Error (NotFound ''other''), Return (), Return (), Return ()]"
  by code_simp

lemma typing_targets:
  "map (\<lambda>r. (Host r, filter (rule_target (tracker_abs typing_end) ''eirini'' r) [''dora'', ''other'']))
      (ingress_rules (tracker_abs typing_end) ''eirini'')
    = [(''b.io'', [''dora'']), (''c.io'', [''other''])]"
  by code_simp

theorem desirer_type_soundness_witness:
  "make_calls typing_desirer typing_calls empty_tracker
      = ([Return (), Return (), Return (), Error (NotFound ''other''), Return (), Return (), Return ()], typing_end)
    \<and> well_typed ''eirini'' (tracker_abs typing_end)
    \<and> (\<exists>r \<in> set (ingress_rules (tracker_abs typing_end) ''eirini''). Host r = ''b.io''
        \<and> rule_target (tracker_abs typing_end) ''eirini'' r ''dora'' \<and> port_open (tracker_abs typing_end) ''eirini'' r ''dora'')"
proof -
  have ok: "\<forall>p \<in> set typing_calls. call_ok p"
    by (simp add: typing_calls_def sample_lrp_def) code_simp
  have run: "make_calls typing_desirer typing_calls empty_tracker
      = ([Return (), Return (), Return (), Error (NotFound ''other''), Return (), Return (), Return ()], typing_end)"
    unfolding typing_end_def typing_outcomes [symmetric] by simp
  have "well_typed ''eirini'' (tracker_abs empty_tracker)"
    by (simp add: well_typed_def tracker_abs_def empty_tracker_def ingress_ok_def ingress_rules_def)
  note sound = desirer_type_soundness [where rord = "\<lambda>_. id", OF tk.kube_cluster_axioms tracker_inv_empty _ this range_order_id ok run]
  have "\<exists>r \<in> set (ingress_rules (tracker_abs typing_end) ''eirini''). Host r = ''b.io''
      \<and> rule_target (tracker_abs typing_end) ''eirini'' r ''dora''"
    using typing_targets by (auto simp: map_eq_Cons_conv split: if_splits)
  with sound run show ?thesis by auto
qed

end
