(* ===== verification/App_Spec.thy ===== *)
theory App_Spec
  imports Cluster_Typing
begin

text \<open>
  What the desirer promises, without Kubernetes: a store of apps that knows for every app the number of its instances, whether it has a
  headless service, the text of its routes, the rules of the ingress and the batches handed to the route emitter. Every call has one
  outcome and one effect on this store, the calls that fail half way included.

  The calls on a cluster are shown to simulate those on the store: \<open>sim\<close> relates a program on the world with one on the store through the
  function that reads the store off a cluster. It has rules for the sequence of two programs and for a choice, so that the operations of
  the desirer follow from those of its managers.
\<close>

section \<open>The store\<close>

record app_store =
  as_instances :: "string \<Rightarrow> int32 option"
  as_headless :: "string \<Rightarrow> bool"
  as_routes :: "string \<Rightarrow> string option"
  as_rules :: "IngressRule multiset"
  as_sent :: "Routes list list"

definition empty_store :: app_store where
  "empty_store = \<lparr>as_instances = Map.empty, as_headless = (\<lambda>_. False), as_routes = Map.empty, as_rules = {#}, as_sent = []\<rparr>"

definition announce :: "string \<Rightarrow> string list \<Rightarrow> string list \<Rightarrow> app_store \<Rightarrow> app_store" where
  "announce a uris gone s = s\<lparr>as_sent := as_sent s
     @ [[\<lparr>r_Routes = uris, r_UnregisteredRoutes = gone, r_Name = GetInternalServiceName a\<rparr>]]\<rparr>"

subsection \<open>Instances\<close>

definition spec_create :: "LRP \<Rightarrow> (app_store, unit) go" where
  "spec_create lrp s = (let a = Name lrp; s1 = s\<lparr>as_instances := (as_instances s)(a \<mapsto> to_int32 (TargetInstances lrp))\<rparr> in
     if as_instances s a \<noteq> None then (Error (AlreadyExists a), s)
     else if as_headless s a then (Error (AlreadyExists (GetInternalHeadlessServiceName a)), s1)
     else (Return (), s1\<lparr>as_headless := (as_headless s)(a := True)\<rparr>))"

definition spec_scale :: "LRP \<Rightarrow> (app_store, unit) go" where
  "spec_scale lrp s = (let a = Name lrp in
     if as_instances s a = None then (Error (NotFound a), s)
     else (Return (), s\<lparr>as_instances := (as_instances s)(a \<mapsto> to_int32 (TargetInstances lrp))\<rparr>))"

definition spec_remove :: "string \<Rightarrow> (app_store, unit) go" where
  "spec_remove a s = (let s1 = s\<lparr>as_instances := (as_instances s)(a := None)\<rparr> in
     if as_instances s a = None then (Error (NotFound a), s)
     else if \<not> as_headless s a then (Error (NotFound (GetInternalHeadlessServiceName a)), s1)
     else (Return (), s1\<lparr>as_headless := (as_headless s)(a := False)\<rparr>))"

subsection \<open>Routes\<close>

text \<open>A text that is not a list of URIs is stored, and nothing is announced.\<close>

definition spec_register :: "LRP \<Rightarrow> (app_store, unit) go" where
  "spec_register lrp s = (let a = Name lrp; s1 = s\<lparr>as_routes := (as_routes s)(a \<mapsto> lrp_uris lrp)\<rparr> in
     if as_routes s a \<noteq> None then (Error (AlreadyExists (GetInternalServiceName a)), s)
     else (case decodeRoutes (lrp_uris lrp) of
         Inl e \<Rightarrow> (Error e, s1)
       | Inr uris \<Rightarrow> (Return (), announce a uris [] s1)))"

definition spec_reroute :: "LRP \<Rightarrow> (app_store, unit) go" where
  "spec_reroute lrp s = (let a = Name lrp in
     case as_routes s a of
       None \<Rightarrow> (Error (NotFound (GetInternalServiceName a)), s)
     | Some old \<Rightarrow> (case decodeRoutes old of
         Inl e \<Rightarrow> (Error e, s)
       | Inr before \<Rightarrow> (case decodeRoutes (lrp_uris lrp) of
           Inl e \<Rightarrow> (Error e, s)
         | Inr uris \<Rightarrow> (Return (), announce a uris (filter (\<lambda>u. u \<notin> set uris) before)
             (s\<lparr>as_routes := (as_routes s)(a \<mapsto> lrp_uris lrp)\<rparr>)))))"

definition spec_withdraw :: "string \<Rightarrow> (app_store, unit) go" where
  "spec_withdraw a s = (case as_routes s a of
       None \<Rightarrow> (Error (NotFound (GetInternalServiceName a)), s)
     | Some old \<Rightarrow> (case decodeRoutes old of
         Inl e \<Rightarrow> (Error e, s)
       | Inr before \<Rightarrow> (Return (), announce a [] before (s\<lparr>as_routes := (as_routes s)(a := None)\<rparr>))))"

subsection \<open>Rules\<close>

definition other_rules :: "string \<Rightarrow> IngressRule multiset \<Rightarrow> IngressRule multiset" where
  "other_rules a R = filter_mset (\<lambda>r. \<not> routes_to (GetInternalServiceName a) r) R"

definition spec_rules :: "url_library \<Rightarrow> LRP \<Rightarrow> (app_store, unit) go" where
  "spec_rules lib lrp s = (case decodeRoutes (lrp_uris lrp) of
       Inl e \<Rightarrow> (Panic ''json'', s)
     | Inr uris \<Rightarrow> (case new_rules lib (Name lrp) uris of
         Inl e \<Rightarrow> (Error e, s)
       | Inr rs \<Rightarrow> (Return (), s\<lparr>as_rules := other_rules (Name lrp) (as_rules s) + mset rs\<rparr>)))"

text \<open>Without any rules there is no ingress to remove rules from.\<close>

definition spec_unrule :: "string \<Rightarrow> (app_store, unit) go" where
  "spec_unrule a s = (if as_rules s = {#} then (Error (NotFound ingressName), s)
     else (Return (), s\<lparr>as_rules := other_rules a (as_rules s)\<rparr>))"

subsection \<open>Calls\<close>

fun spec_call :: "url_library \<Rightarrow> desirer_call \<Rightarrow> (app_store, unit) go" where
  "spec_call lib (CallDesire lrp) s = (if as_instances s (Name lrp) \<noteq> None then (Return (), s)
     else go_bind (spec_create lrp) (\<lambda>_. go_bind (spec_register lrp) (\<lambda>_. spec_rules lib lrp)) s)"
| "spec_call lib (CallUpdate lrp) s =
     go_bind (spec_scale lrp) (\<lambda>_. go_bind (spec_reroute lrp) (\<lambda>_. spec_rules lib lrp)) s"
| "spec_call lib (CallStop a) s = go_bind (spec_remove a) (\<lambda>_. go_bind (spec_unrule a) (\<lambda>_. spec_withdraw a)) s"
| "spec_call lib (CallGet a) s = (if as_instances s a = None then Error (NotFound a) else Return (), s)"
| "spec_call lib CallList s = (Return (), s)"

fun spec_calls :: "url_library \<Rightarrow> desirer_call list \<Rightarrow> app_store \<Rightarrow> unit outcome list \<times> app_store" where
  "spec_calls lib [] s = ([], s)"
| "spec_calls lib (p # ps) s =
     (let (r, s1) = spec_call lib p s; (rs, s2) = spec_calls lib ps s1 in (r # rs, s2))"

section \<open>Reading the store off a cluster\<close>

text \<open>Apps whose names end in \<^verbatim>\<open>-headless\<close> have no routes of their own: their services have the names of other apps' headless services.\<close>

definition store_of_cluster :: "string \<Rightarrow> cluster \<Rightarrow> app_store" where
  "store_of_cluster ns c = \<lparr>
     as_instances = (\<lambda>a. map_option (\<lambda>s. the (ss_Replicas s)) (c_StatefulSets c (ns, a))),
     as_headless = (\<lambda>a. c_Services c (ns, GetInternalHeadlessServiceName a) \<noteq> None),
     as_routes = (\<lambda>a. if suffix ''-headless'' a then None
       else map_option (\<lambda>v. nilmap_index (om_Annotations (svc_Meta v)) RegisteredRoutes) (c_Services c (ns, GetInternalServiceName a))),
     as_rules = mset (ingress_rules c ns),
     as_sent = c_sent c\<rparr>"

lemma store_of_cluster_fields [simp]:
  "as_instances (store_of_cluster ns c) a = map_option (\<lambda>s. the (ss_Replicas s)) (c_StatefulSets c (ns, a))"
  "as_headless (store_of_cluster ns c) a = (c_Services c (ns, GetInternalHeadlessServiceName a) \<noteq> None)"
  "\<not> suffix ''-headless'' a \<Longrightarrow> as_routes (store_of_cluster ns c) a
     = map_option (\<lambda>v. nilmap_index (om_Annotations (svc_Meta v)) RegisteredRoutes) (c_Services c (ns, GetInternalServiceName a))"
  "as_rules (store_of_cluster ns c) = mset (ingress_rules c ns)"
  "as_sent (store_of_cluster ns c) = c_sent c"
  by (simp_all add: store_of_cluster_def)

lemma store_of_instances:
  "store_of_cluster ns (c_StatefulSets_update (\<lambda>st. st((ns, a) := x)) c)
     = (store_of_cluster ns c)\<lparr>as_instances := (as_instances (store_of_cluster ns c))(a := map_option (\<lambda>s. the (ss_Replicas s)) x)\<rparr>"
  by (simp add: store_of_cluster_def ingress_rules_def fun_eq_iff)

lemma store_of_headless:
  "store_of_cluster ns (c_Services_update (\<lambda>st. st((ns, GetInternalHeadlessServiceName a) := y)) c)
     = (store_of_cluster ns c)\<lparr>as_headless := (as_headless (store_of_cluster ns c))(a := y \<noteq> None)\<rparr>"
  by (simp add: store_of_cluster_def ingress_rules_def fun_eq_iff) (use routable_not_headless in blast)

lemma store_of_routes:
  "\<not> suffix ''-headless'' a \<Longrightarrow> store_of_cluster ns (c_Services_update (\<lambda>st. st((ns, GetInternalServiceName a) := y)) c)
     = (store_of_cluster ns c)\<lparr>as_routes := (as_routes (store_of_cluster ns c))
         (a := map_option (\<lambda>v. nilmap_index (om_Annotations (svc_Meta v)) RegisteredRoutes) y)\<rparr>"
  by (simp add: store_of_cluster_def ingress_rules_def fun_eq_iff routable_not_headless [symmetric])

lemma store_of_sent: "store_of_cluster ns (c\<lparr>c_sent := sent\<rparr>) = (store_of_cluster ns c)\<lparr>as_sent := sent\<rparr>"
  by (simp add: store_of_cluster_def ingress_rules_def fun_eq_iff)

lemma store_of_rules:
  assumes "replaces_rules ns a new c c'"
  shows "store_of_cluster ns c' = (store_of_cluster ns c)\<lparr>as_rules := other_rules a (mset (ingress_rules c ns)) + mset new\<rparr>"
  using assms replaces_rules_frame [OF assms] by (simp add: store_of_cluster_def replaces_rules_def other_rules_def fun_eq_iff)

lemmas store_simps = store_of_instances store_of_headless store_of_routes store_of_sent

section \<open>Simulation\<close>

definition sim :: "('w \<Rightarrow> bool) \<Rightarrow> ('w \<Rightarrow> 's) \<Rightarrow> ('w, 'a) go \<Rightarrow> ('s, 'a) go \<Rightarrow> bool" where
  "sim J f m m' \<longleftrightarrow> (\<forall>w. J w \<longrightarrow> J (snd (m w)) \<and> m' (f w) = (fst (m w), f (snd (m w))))"

lemma simI:
  assumes "safe J m Q" and "\<And>w. J w \<Longrightarrow> m' (f w) = (fst (m w), f (snd (m w)))"
  shows "sim J f m m'"
  using assms by (simp add: sim_def safe_def)

lemma simD: "sim J f m m' \<Longrightarrow> J w \<Longrightarrow> m w = (r, w') \<Longrightarrow> J w' \<and> m' (f w) = (r, f w')"
  unfolding sim_def by (metis fst_conv snd_conv)

lemma sim_bind:
  assumes "sim J f m m'" and "\<And>a. sim J f (k a) (k' a)"
  shows "sim J f (go_bind m k) (go_bind m' k')"
  unfolding sim_def
proof (intro allI impI)
  fix w assume "J w"
  obtain r w1 where m: "m w = (r, w1)" by fastforce
  with simD [OF assms(1) \<open>J w\<close>] have "J w1" "m' (f w) = (r, f w1)" by simp_all
  with m show "J (snd (go_bind m k w)) \<and> go_bind m' k' (f w) = (fst (go_bind m k w), f (snd (go_bind m k w)))"
    using assms(2) by (cases r) (auto simp: go_simps sim_def)
qed

section \<open>The managers simulate their parts of the store\<close>

context typed_cluster
begin

abbreviation store where "store w \<equiv> store_of_cluster ns (abs w)"

lemma sim_create:
  assumes "valid_label_value (Name lrp)" and "Metadata lrp \<noteq> None"
  shows "sim W store (StatefulSetManager_Create ord (newStatefulSetManager cl ns) lrp) (spec_create lrp)"
proof (rule simI [OF instances_safe(5) [OF assms(1) refl assms(2)]])
  fix w assume w: "W w"
  let ?a = "Name lrp" and ?s = "toStatefulSet ord (newStatefulSetManager cl ns) lrp"
  obtain r w1 where create: "rc_Create (StatefulSets cl) ns ?s w = (r, w1)" by fastforce
  have "?a \<noteq> ''''" using assms(1) by (simp add: valid_label_value_def)
  then have law: "r = (case c_StatefulSets (abs w) (ns, ?a) of None \<Rightarrow> Return (ss_with_ns ns ?s) | Some _ \<Rightarrow> Error (AlreadyExists ?a))"
    "abs w1 = (case c_StatefulSets (abs w) (ns, ?a) of
       None \<Rightarrow> c_StatefulSets_update (\<lambda>st. st((ns, ?a) \<mapsto> ss_with_ns ns ?s)) (abs w) | Some _ \<Rightarrow> abs w)" "inv w1"
    using ss.Create_law [OF _ namespace_named, of w ?s] w create by (auto split: option.split)
  obtain r2 w2 where headless: "rc_Create (Services cl) ns (toHeadlessService lrp) w1 = (r2, w2)" by fastforce
  then have law2: "r2 = (case c_Services (abs w1) (ns, GetInternalHeadlessServiceName ?a) of
       None \<Rightarrow> Return (svc_with_ns ns (toHeadlessService lrp)) | Some _ \<Rightarrow> Error (AlreadyExists (GetInternalHeadlessServiceName ?a)))"
    "abs w2 = (case c_Services (abs w1) (ns, GetInternalHeadlessServiceName ?a) of
       None \<Rightarrow> c_Services_update (\<lambda>st. st((ns, GetInternalHeadlessServiceName ?a) \<mapsto> svc_with_ns ns (toHeadlessService lrp))) (abs w1)
     | Some _ \<Rightarrow> abs w1)"
    using svc.Create_law [OF law(3) namespace_named, of "toHeadlessService lrp"] by (auto split: option.split)
  have count: "ss_Replicas (ss_with_ns ns ?s) = Some (to_int32 (TargetInstances lrp))"
    by (simp add: ss_with_ns_def toStatefulSet_def int32ptr_def Let_def)
  show "spec_create lrp (store w) = (fst (StatefulSetManager_Create ord (newStatefulSetManager cl ns) lrp w),
      store (snd (StatefulSetManager_Create ord (newStatefulSetManager cl ns) lrp w)))"
    using create headless law law2 count
    by (auto simp: spec_create_def StatefulSetManager_Create_def NewServiceManager_def serviceManager_CreateHeadless_def Let_def
        go_bind_def store_simps split: option.splits)
qed

lemma sim_scale:
  assumes "valid_label_value (Name lrp)"
  shows "sim W store (StatefulSetManager_Update (newStatefulSetManager cl ns) lrp) (spec_scale lrp)"
proof (rule simI [OF instances_safe(4) [OF assms refl]])
  fix w assume w: "W w"
  let ?a = "Name lrp"
  have a: "?a \<noteq> ''''" using assms by (simp add: valid_label_value_def)
  show "spec_scale lrp (store w) = (fst (StatefulSetManager_Update (newStatefulSetManager cl ns) lrp w),
      store (snd (StatefulSetManager_Update (newStatefulSetManager cl ns) lrp w)))"
  proof (cases "c_StatefulSets (abs w) (ns, ?a)")
    case None
    then show ?thesis
      using ss.Get_missing [OF _ namespace_named a None] w by (simp add: spec_scale_def StatefulSetManager_Update_def go_simps)
  next
    case (Some s)
    then have "ss_typed ?a s"
      using w by (simp add: well_typed_def)
    then obtain m where m: "om_Annotations (ss_Meta s) = Some m"
      by (auto simp: ss_typed_def)
    obtain w' where "StatefulSetManager_Update (newStatefulSetManager cl ns) lrp w = (Return (), w')"
      and "abs w' = (abs w)\<lparr>c_StatefulSets := (c_StatefulSets (abs w))((ns, ?a) \<mapsto>
        s\<lparr>ss_Replicas := Some (to_int32 (TargetInstances lrp)),
          ss_Meta := (ss_Meta s)\<lparr>om_Annotations := Some (map_assign LastUpdated (nilmap_index (Metadata lrp) LastUpdated) m)\<rparr>\<rparr>)\<rparr>"
      by (rule Update_instances [OF _ namespace_named a Some m]) (use w in auto)
    with Some show ?thesis
      by (simp add: spec_scale_def store_of_cluster_def ingress_rules_def fun_eq_iff)
  qed
qed

lemma sim_remove:
  assumes "valid_label_value a"
  shows "sim W store (StatefulSetManager_Delete (newStatefulSetManager cl ns) a) (spec_remove a)"
proof (rule simI [OF instances_safe(3) [OF assms]])
  fix w assume w: "W w"
  obtain r w1 where delete: "rc_Delete (StatefulSets cl) ns a (Some DeletePropagationBackground) w = (r, w1)" by fastforce
  have "a \<noteq> ''''" using assms by (simp add: valid_label_value_def)
  then have law: "r = (case c_StatefulSets (abs w) (ns, a) of None \<Rightarrow> Error (NotFound a) | Some _ \<Rightarrow> Return ())"
    "abs w1 = (case c_StatefulSets (abs w) (ns, a) of None \<Rightarrow> abs w | Some _ \<Rightarrow> c_StatefulSets_update (\<lambda>st. st((ns, a) := None)) (abs w))" "inv w1"
    using ss.Delete_law [OF _ namespace_named, of w a "Some DeletePropagationBackground"] w delete by auto
  let ?n = "GetInternalHeadlessServiceName a"
  obtain r2 w2 where headless: "rc_Delete (Services cl) ns ?n None w1 = (r2, w2)" by fastforce
  then have law2: "r2 = (case c_Services (abs w1) (ns, ?n) of None \<Rightarrow> Error (NotFound ?n) | Some _ \<Rightarrow> Return ())"
    "abs w2 = (case c_Services (abs w1) (ns, ?n) of None \<Rightarrow> abs w1 | Some _ \<Rightarrow> c_Services_update (\<lambda>st. st((ns, ?n) := None)) (abs w1))"
    using svc.Delete_law [OF law(3) namespace_named, of ?n None] by auto
  show "spec_remove a (store w) = (fst (StatefulSetManager_Delete (newStatefulSetManager cl ns) a w),
      store (snd (StatefulSetManager_Delete (newStatefulSetManager cl ns) a w)))"
    using delete headless law law2
    by (auto simp: spec_remove_def StatefulSetManager_Delete_def NewServiceManager_def serviceManager_DeleteHeadless_def Let_def
        go_bind_def store_simps split: option.splits)
qed

lemma sim_register:
  assumes "\<not> suffix ''-headless'' (Name lrp)"
  shows "sim W store (svm_Create (NewServiceManager cl ns ch) lrp) (spec_register lrp)"
proof (rule simI [OF create_service_safe])
  fix w assume w: "W w"
  let ?n = "GetInternalServiceName (Name lrp)"
  obtain r w1 where create: "rc_Create (Services cl) ns (toService lrp) w = (r, w1)" by fastforce
  then have law: "r = (case c_Services (abs w) (ns, ?n) of None \<Rightarrow> Return (svc_with_ns ns (toService lrp)) | Some _ \<Rightarrow> Error (AlreadyExists ?n))"
    "abs w1 = (case c_Services (abs w) (ns, ?n) of
       None \<Rightarrow> c_Services_update (\<lambda>st. st((ns, ?n) \<mapsto> svc_with_ns ns (toService lrp))) (abs w) | Some _ \<Rightarrow> abs w)" "inv w1"
    using svc.Create_law [OF _ namespace_named, of w "toService lrp"] w by (auto split: option.split)
  have sent: "fst (chan_send ch m w1) = Return ()"
    "store (snd (chan_send ch m w1)) = (store w1)\<lparr>as_sent := as_sent (store w1) @ [m]\<rparr>" for m
    using send_law [OF law(3), of m] by (simp_all add: store_of_sent)
  show "spec_register lrp (store w) = (fst (svm_Create (NewServiceManager cl ns ch) lrp w), store (snd (svm_Create (NewServiceManager cl ns ch) lrp w)))"
    using create law assms sent
    by (auto simp: spec_register_def NewServiceManager_def serviceManager_Create_def Let_def announce_def go_bind_def store_simps
        split: option.splits sum.splits prod.splits outcome.splits)
qed

lemma sim_reroute:
  assumes "\<not> suffix ''-headless'' (Name lrp)"
  shows "sim W store (svm_Update (NewServiceManager cl ns ch) lrp) (spec_reroute lrp)"
proof (rule simI [OF update_service_safe])
  fix w assume w: "W w"
  let ?n = "GetInternalServiceName (Name lrp)" and ?m = "NewServiceManager cl ns ch"
  show "spec_reroute lrp (store w) = (fst (svm_Update ?m lrp w), store (snd (svm_Update ?m lrp w)))"
  proof (cases "c_Services (abs w) (ns, ?n)")
    case None
    with w assms show ?thesis
      using Update_service_missing [OF _ namespace_named None] by (simp add: spec_reroute_def)
  next
    case (Some v)
    let ?old = "nilmap_index (om_Annotations (svc_Meta v)) RegisteredRoutes"
    have get: "rc_Get (Services cl) ns ?n w = (Return v, w)"
      using svc.Get_found [OF _ namespace_named _ Some] w by simp
    consider e where "decodeRoutes ?old = Inl e"
      | before e where "decodeRoutes ?old = Inr before" "decodeRoutes (lrp_uris lrp) = Inl e"
      | before uris where "decodeRoutes ?old = Inr before" "decodeRoutes (lrp_uris lrp) = Inr uris"
      by (metis sum.exhaust)
    then show ?thesis
    proof cases
      case (3 before uris)
      then obtain m where m: "om_Annotations (svc_Meta v) = Some m"
        by (cases "om_Annotations (svc_Meta v)") (simp_all add: decodeRoutes_empty_text)
      obtain w' where "svm_Update ?m lrp w = (Return (), w')" and "abs w' = (abs w)\<lparr>
          c_Services := (c_Services (abs w))((ns, ?n) \<mapsto>
            v\<lparr>svc_Meta := (svc_Meta v)\<lparr>om_Annotations := Some (map_assign RegisteredRoutes (lrp_uris lrp) m)\<rparr>\<rparr>),
          c_sent := c_sent (abs w) @ [[\<lparr>r_Routes = uris, r_UnregisteredRoutes = getUnregisteredRoutes before uris, r_Name = ?n\<rparr>]]\<rparr>"
        by (rule Update_service [OF _ namespace_named Some m _ 3(2)]) (use w 3(1) m in auto)
      moreover have "(abs w)\<lparr>c_Services := (c_Services (abs w))((ns, ?n) \<mapsto> x), c_sent := sent\<rparr>
          = (c_Services_update (\<lambda>st. st((ns, ?n) \<mapsto> x)) (abs w))\<lparr>c_sent := sent\<rparr>" for x sent
        by simp
      ultimately show ?thesis
        using assms Some 3 by (simp add: spec_reroute_def announce_def store_simps getUnregisteredRoutes_eq Let_def)
    qed (use Some get assms in \<open>simp_all add: spec_reroute_def NewServiceManager_def serviceManager_Update_def Let_def go_simps\<close>)
  qed
qed

lemma sim_withdraw:
  assumes "\<not> suffix ''-headless'' a"
  shows "sim W store (svm_Delete (NewServiceManager cl ns ch) a) (spec_withdraw a)"
proof (rule simI [OF delete_service_safe])
  fix w assume w: "W w"
  let ?n = "GetInternalServiceName a" and ?m = "NewServiceManager cl ns ch"
  show "spec_withdraw a (store w) = (fst (svm_Delete ?m a w), store (snd (svm_Delete ?m a w)))"
  proof (cases "c_Services (abs w) (ns, ?n)")
    case None
    with w assms show ?thesis
      using Delete_service_missing [OF _ namespace_named None] by (simp add: spec_withdraw_def)
  next
    case (Some v)
    have get: "rc_Get (Services cl) ns ?n w = (Return v, w)"
      using svc.Get_found [OF _ namespace_named _ Some] w by simp
    show ?thesis
    proof (cases "decodeRoutes (nilmap_index (om_Annotations (svc_Meta v)) RegisteredRoutes)")
      case (Inl e)
      with Some get assms show ?thesis
        by (simp add: spec_withdraw_def NewServiceManager_def serviceManager_Delete_def Let_def go_simps)
    next
      case (Inr before)
      obtain w' where "svm_Delete ?m a w = (Return (), w')" and "abs w' = (abs w)\<lparr>c_Services := (c_Services (abs w))((ns, ?n) := None),
          c_sent := c_sent (abs w) @ [[\<lparr>r_Routes = [], r_UnregisteredRoutes = before, r_Name = ?n\<rparr>]]\<rparr>"
        by (rule Delete_service [OF _ namespace_named Some Inr]) (use w in auto)
      moreover have "(abs w)\<lparr>c_Services := (c_Services (abs w))((ns, ?n) := None), c_sent := sent\<rparr>
          = (c_Services_update (\<lambda>st. st((ns, ?n) := None)) (abs w))\<lparr>c_sent := sent\<rparr>" for sent
        by simp
      ultimately show ?thesis
        using assms Some Inr by (simp add: spec_withdraw_def announce_def store_simps)
    qed
  qed
qed

lemma sim_rules:
  assumes ord: "\<And>k. range_order (rord k)"
  shows "sim W store (igm_Update (NewIngressManager lib rord cl ns) lrp) (spec_rules lib lrp)"
proof (cases "decodeRoutes (lrp_uris lrp)")
  case (Inl e)
  then show ?thesis
    by (simp add: sim_def spec_rules_def NewIngressManager_def KubeIngressManager_Update_def Let_def)
next
  case dec: (Inr uris)
  show ?thesis
  proof (rule simI [OF ingress_update_safe [where rord = rord, OF dec ord]])
    fix w assume w: "W w"
    show "spec_rules lib lrp (store w) = (fst (igm_Update (NewIngressManager lib rord cl ns) lrp w),
        store (snd (igm_Update (NewIngressManager lib rord cl ns) lrp w)))"
    proof (cases "new_rules lib (Name lrp) uris")
      case (Inl e)
      with w dec show ?thesis
        using Update_rules_invalid [OF _ namespace_named dec Inl] by (simp add: spec_rules_def)
    next
      case (Inr rs)
      obtain w' where "igm_Update (NewIngressManager lib rord cl ns) lrp w = (Return (), w')"
        and "replaces_rules ns (Name lrp) rs (abs w) (abs w')"
        by (rule Update_rules_all [where ord = rord, OF _ namespace_named _ ord dec Inr]) (use w well_typed_ingress in auto)
      with dec Inr show ?thesis
        by (simp add: spec_rules_def store_of_rules)
    qed
  qed
qed

lemma sim_unrule: "sim W store (igm_Delete (NewIngressManager lib rord cl ns) a) (spec_unrule a)"
proof (rule simI [OF ingress_delete_safe])
  fix w assume w: "W w"
  show "spec_unrule a (store w) = (fst (igm_Delete (NewIngressManager lib rord cl ns) a w),
      store (snd (igm_Delete (NewIngressManager lib rord cl ns) a w)))"
  proof (cases "c_Ingresses (abs w) (ns, ingressName)")
    case None
    with w show ?thesis
      using Delete_rules_missing [OF _ namespace_named None] by (simp add: spec_unrule_def ingress_rules_def)
  next
    case (Some i)
    with w have "ingress_rules (abs w) ns \<noteq> []"
      using well_typed_ingress [of ns "abs w"] by (simp add: ingress_ok_def ingress_rules_def)
    moreover obtain w' where "igm_Delete (NewIngressManager lib rord cl ns) a w = (Return (), w')"
      and "replaces_rules ns a [] (abs w) (abs w')"
      by (rule Delete_rules [OF _ namespace_named _ Some]) (use w well_typed_ingress in auto)
    ultimately show ?thesis
      by (simp add: spec_unrule_def store_of_rules)
  qed
qed

end

section \<open>The desirer\<close>

definition spec_known :: "string \<Rightarrow> (app_store, bool) go" where
  "spec_known a s = (Return (as_instances s a \<noteq> None), s)"

lemma spec_Desire_bind:
  "spec_call lib (CallDesire lrp) = go_bind (spec_known (Name lrp)) (\<lambda>known. if known then go_return ()
     else go_bind (spec_create lrp) (\<lambda>_. go_bind (spec_register lrp) (\<lambda>_. spec_rules lib lrp)))"
  by (rule ext) (simp add: spec_known_def go_bind_def)

lemma spec_stop_update_bind:
  "spec_call lib (CallUpdate lrp) = go_bind (spec_scale lrp) (\<lambda>_. go_bind (spec_reroute lrp) (\<lambda>_. spec_rules lib lrp))"
  "spec_call lib (CallStop a) = go_bind (spec_remove a) (\<lambda>_. go_bind (spec_unrule a) (\<lambda>_. spec_withdraw a))"
  by (simp_all add: fun_eq_iff)

text \<open>The apps of the calls: their names do not end in \<^verbatim>\<open>-headless\<close>.\<close>

fun call_app :: "desirer_call \<Rightarrow> string" where
  "call_app (CallDesire lrp) = Name lrp"
| "call_app (CallUpdate lrp) = Name lrp"
| "call_app (CallStop a) = a"
| "call_app (CallGet a) = a"
| "call_app CallList = ''''"

definition spec_ok :: "desirer_call \<Rightarrow> bool" where
  "spec_ok p \<longleftrightarrow> call_ok p \<and> \<not> suffix ''-headless'' (call_app p)"

lemma sim_return: "sim J f (go_return a) (go_return a)"
  by (simp add: sim_def)

context typed_cluster
begin

lemma sim_known:
  assumes "valid_label_value a"
  shows "sim W store (StatefulSetManager_Exists (newStatefulSetManager cl ns) a) (spec_known a)"
proof (rule simI [OF instances_safe(1) [OF assms]])
  fix w assume w: "W w"
  have "(\<exists>n s. c_StatefulSets (abs w) (ns, n) = Some s \<and> map_of (om_Labels (ss_Meta s)) ''name'' = Some a)
      \<longleftrightarrow> c_StatefulSets (abs w) (ns, a) \<noteq> None"
  proof
    assume "\<exists>n s. c_StatefulSets (abs w) (ns, n) = Some s \<and> map_of (om_Labels (ss_Meta s)) ''name'' = Some a"
    then obtain n s where s: "c_StatefulSets (abs w) (ns, n) = Some s" "map_of (om_Labels (ss_Meta s)) ''name'' = Some a" by blast
    with w have "ss_typed n s" by (simp add: well_typed_def)
    with s show "c_StatefulSets (abs w) (ns, a) \<noteq> None" by (simp add: ss_typed_def)
  next
    assume "c_StatefulSets (abs w) (ns, a) \<noteq> None"
    then obtain s where s: "c_StatefulSets (abs w) (ns, a) = Some s" by blast
    with w have "ss_typed a s" by (simp add: well_typed_def)
    with s show "\<exists>n s. c_StatefulSets (abs w) (ns, n) = Some s \<and> map_of (om_Labels (ss_Meta s)) ''name'' = Some a"
      by (auto simp: ss_typed_def)
  qed
  with w show "spec_known a (store w) = (fst (StatefulSetManager_Exists (newStatefulSetManager cl ns) a w),
      store (snd (StatefulSetManager_Exists (newStatefulSetManager cl ns) a w)))"
    using Exists_instances [OF _ namespace_named assms] by (simp add: spec_known_def)
qed

lemma sim_get:
  assumes "valid_label_value a"
  shows "sim W store (go_bind (StatefulSetManager_Get (newStatefulSetManager cl ns) a) (\<lambda>_. go_return ())) (spec_call lib (CallGet a))"
proof (rule simI [OF safe_bind [OF instances_safe(2) [OF assms] safe_return [where Q = "\<lambda>_. True", simplified]]])
  fix w assume w: "W w"
  have a: "a \<noteq> ''''" using assms by (simp add: valid_label_value_def)
  show "spec_call lib (CallGet a) (store w) = (fst (go_bind (StatefulSetManager_Get (newStatefulSetManager cl ns) a) (\<lambda>_. go_return ()) w),
      store (snd (go_bind (StatefulSetManager_Get (newStatefulSetManager cl ns) a) (\<lambda>_. go_return ()) w)))"
  proof (cases "c_StatefulSets (abs w) (ns, a)")
    case None
    with w show ?thesis
      using ss.Get_missing [OF _ namespace_named a None] by (simp add: StatefulSetManager_Get_def go_simps)
  next
    case (Some s)
    with w have "ss_typed a s" by (simp add: well_typed_def)
    then obtain ct where "ps_Containers (pt_Spec (ss_Template s)) = [ct]" by (auto simp: ss_typed_def)
    with Some w show ?thesis
      using ss.Get_found [OF _ namespace_named a Some] by (simp add: StatefulSetManager_Get_def statefulSetToLRP_def go_simps)
  qed
qed

lemma sim_list:
  "sim W store (go_bind (StatefulSetManager_List (newStatefulSetManager cl ns)) (\<lambda>_. go_return ())) (spec_call lib CallList)"
proof -
  let ?list = "StatefulSetManager_List (newStatefulSetManager cl ns)"
  have reads: "\<exists>lrps. statefulSetsToLRPs ss acc w = (Return lrps, w)" if "\<forall>s \<in> set ss. \<exists>a. ss_typed a s" for ss acc and w :: 'w
    using that
  proof (induction ss arbitrary: acc)
    case (Cons s ss)
    then obtain ct where "ps_Containers (pt_Spec (ss_Template s)) = [ct]" by (auto simp: ss_typed_def)
    with Cons show ?case by (auto simp: statefulSetToLRP_def go_bind_def)
  qed simp
  have "go_bind ?list (\<lambda>_. go_return ()) w = (Return (), w)" if w: "W w" for w
  proof -
    obtain obs where list: "rc_List (StatefulSets cl) ns '''' w = (Return obs, w)" and obs: "set obs = {ob. \<exists>n. c_StatefulSets (abs w) (ns, n) = Some ob}"
      using ss.List_law [OF _ namespace_named, of w] w by blast
    have "\<forall>s \<in> set obs. \<exists>a. ss_typed a s"
      using w obs by (auto simp: well_typed_def)
    with reads [of obs "[]" w] list show ?thesis
      by (auto simp: StatefulSetManager_List_def go_simps)
  qed
  then show ?thesis
    unfolding sim_def by simp
qed

lemma sim_call:
  assumes "spec_ok p" and ord: "\<And>k. range_order (rord k)"
  shows "sim W store (make_call (k8s_desirer lib rord ord cl ns ch) p) (spec_call lib p)"
proof -
  note rules = sim_rules [where rord = rord, OF ord]
  show ?thesis
  proof (cases p)
    case (CallDesire lrp)
    with assms(1) have lrp: "valid_label_value (Name lrp)" "Metadata lrp \<noteq> None" "\<not> suffix ''-headless'' (Name lrp)"
      by (simp_all add: spec_ok_def)
    have "sim W store (go_bind (StatefulSetManager_Create ord (newStatefulSetManager cl ns) lrp) (\<lambda>_.
        go_bind (svm_Create (NewServiceManager cl ns ch) lrp) (\<lambda>_. igm_Update (NewIngressManager lib rord cl ns) lrp)))
      (go_bind (spec_create lrp) (\<lambda>_. go_bind (spec_register lrp) (\<lambda>_. spec_rules lib lrp)))"
      by (rule sim_bind [OF sim_create [OF lrp(1,2)] sim_bind [OF sim_register [OF lrp(3)] rules]])
    with CallDesire show ?thesis
      unfolding CallDesire spec_Desire_bind make_call.simps Desirer_Desire_def
      by (intro sim_bind) (auto intro: sim_known [OF lrp(1)] sim_return)
  next
    case (CallUpdate lrp)
    with assms(1) have "valid_label_value (Name lrp)" "\<not> suffix ''-headless'' (Name lrp)" by (simp_all add: spec_ok_def)
    then show ?thesis
      unfolding CallUpdate spec_stop_update_bind make_call.simps Desirer_Update_def
      by (intro sim_bind) (auto intro: sim_scale sim_reroute rules)
  next
    case (CallStop a)
    with assms(1) have "valid_label_value a" "\<not> suffix ''-headless'' a" by (simp_all add: spec_ok_def)
    then show ?thesis
      unfolding CallStop spec_stop_update_bind make_call.simps Desirer_Stop_def
      by (intro sim_bind) (auto intro: sim_remove sim_unrule sim_withdraw)
  next
    case (CallGet a)
    with assms(1) sim_get [of a lib] show ?thesis by (simp add: Desirer_Get_def spec_ok_def)
  next
    case CallList
    with sim_list [of lib] show ?thesis by (simp add: Desirer_List_def)
  qed
qed

lemma sim_calls:
  assumes "W w" and "\<forall>p \<in> set ps. spec_ok p" and ord: "\<And>k. range_order (rord k)"
    and "make_calls (k8s_desirer lib rord ord cl ns ch) ps w = (rs, w')"
  shows "spec_calls lib ps (store w) = (rs, store w')"
  using assms(1,2,4)
proof (induction ps arbitrary: w rs)
  case (Cons p ps)
  let ?d = "k8s_desirer lib rord ord cl ns ch"
  obtain r w1 where p: "make_call ?d p w = (r, w1)" by fastforce
  obtain rs' where ps: "make_calls ?d ps w1 = (rs', w')" and rs: "rs = r # rs'"
    using Cons.prems(3) by (auto simp: p Let_def split: prod.splits)
  have "W w1 \<and> spec_call lib p (store w) = (r, store w1)"
    using simD [OF sim_call [where rord = rord, OF _ ord] Cons.prems(1) p] Cons.prems(2) by simp
  with Cons.IH [OF _ _ ps] Cons.prems(2) rs show ?case by simp
qed simp

end

section \<open>The contract\<close>

text \<open>
  C2. The desirer implements the store of apps. For every sequence of calls from a well-typed namespace, whichever of them fail, each
  call has the outcome that the store gives it, and the store read off the cluster at the end is the one the calls lead to: the
  instances, services and routes of every app, the rules of the ingress, and the batches handed to the route emitter in their order.
\<close>

theorem desirer_refines_store:
  assumes "kube_cluster cl \<alpha> I ch" and "I w" and "ns \<noteq> ''''" and "well_typed ns (\<alpha> w)"
    and "\<And>k. range_order (rord k)" and "\<forall>p \<in> set calls. spec_ok p"
    and "make_calls (k8s_desirer lib rord ord cl ns ch) calls w = (rs, w')"
  shows "spec_calls lib calls (store_of_cluster ns (\<alpha> w)) = (rs, store_of_cluster ns (\<alpha> w'))"
  using typed_cluster.sim_calls [where rord = rord, OF typed_clusterI [OF assms(1,3)] _ assms(6,5,7)] assms(2,4) by simp

lemma empty_namespace:
  "well_typed ''eirini'' (tracker_abs empty_tracker)" "store_of_cluster ''eirini'' (tracker_abs empty_tracker) = empty_store"
  by (simp_all add: well_typed_def tracker_abs_def empty_tracker_def ingress_ok_def ingress_rules_def store_of_cluster_def empty_store_def fun_eq_iff)

text \<open>Calls of which two fail: stopping an unknown app, and stopping one after the last rule is gone, which leaves its routes.\<close>

definition spec_sample :: "desirer_call list" where
  "spec_sample = [CallStop ''dora'', CallDesire (sample_lrp ''dora'' [''a.io'']), CallDesire (sample_lrp ''other'' []),
     CallUpdate (sample_lrp ''dora'' []), CallStop ''other'']"

lemma spec_sample_run:
  "fst (spec_calls plain_urls spec_sample empty_store) = [Error (NotFound ''dora''), Return (), Return (), Return (), Error (NotFound ''eirini'')]"
  "as_routes (snd (spec_calls plain_urls spec_sample empty_store)) ''other'' = Some (marshal_strings (Some []))"
  by code_simp+

theorem desirer_refines_store_witness:
  "fst (make_calls typing_desirer spec_sample empty_tracker)
      = [Error (NotFound ''dora''), Return (), Return (), Return (), Error (NotFound ''eirini'')]
    \<and> as_routes (store_of_cluster ''eirini'' (tracker_abs (snd (make_calls typing_desirer spec_sample empty_tracker)))) ''other''
      = Some (marshal_strings (Some []))"
proof -
  have ok: "\<forall>p \<in> set spec_sample. spec_ok p"
    by (simp add: spec_sample_def sample_lrp_def spec_ok_def suffix_def) code_simp
  have "spec_calls plain_urls spec_sample empty_store = (fst (make_calls typing_desirer spec_sample empty_tracker),
      store_of_cluster ''eirini'' (tracker_abs (snd (make_calls typing_desirer spec_sample empty_tracker))))"
    unfolding empty_namespace(2) [symmetric]
    by (rule desirer_refines_store [where rord = "\<lambda>_. id", OF tk.kube_cluster_axioms tracker_inv_empty _ empty_namespace(1) range_order_id ok])
      simp_all
  with spec_sample_run show ?thesis by simp
qed

section \<open>Apps are isolated from each other\<close>

text \<open>Everything the store has of one app: instances, headless service, routes, rules, and the batches about it.\<close>

definition app_view :: "string \<Rightarrow> app_store \<Rightarrow> int32 option \<times> bool \<times> string option \<times> IngressRule multiset \<times> Routes list list" where
  "app_view a s = (as_instances s a, as_headless s a, as_routes s a, filter_mset (routes_to (GetInternalServiceName a)) (as_rules s),
     filter (\<lambda>batch. \<exists>r \<in> set batch. r_Name r = GetInternalServiceName a) (as_sent s))"

lemma view_bind:
  assumes "\<And>s. V (snd (m s)) = V s" and "\<And>x s. V (snd (k x s)) = V s"
  shows "V (snd (go_bind m k s)) = V s"
  using assms(1) [of s] assms(2) by (cases "m s"; cases "fst (m s)") (auto simp: go_bind_def)

lemma other_rules_view:
  "a \<noteq> b \<Longrightarrow> filter_mset (routes_to (GetInternalServiceName a)) (other_rules b R) = filter_mset (routes_to (GetInternalServiceName a)) R"
  unfolding other_rules_def filter_filter_mset
  by (rule filter_mset_cong [OF refl]) (use routes_to_unique in fastforce)

lemma new_rules_view:
  assumes "new_rules lib b uris = Inr rs" and "a \<noteq> b"
  shows "filter_mset (routes_to (GetInternalServiceName a)) (mset rs) = {#}"
  using new_rules_wf [OF assms(1)] routes_to_unique [of "GetInternalServiceName b" _ "GetInternalServiceName a"] assms(2)
  by (auto simp: filter_mset_eq_conv)

lemma spec_views:
  assumes "a \<noteq> b"
  shows "Name lrp = b \<Longrightarrow> app_view a (snd (spec_create lrp s)) = app_view a s"
    and "Name lrp = b \<Longrightarrow> app_view a (snd (spec_scale lrp s)) = app_view a s"
    and "Name lrp = b \<Longrightarrow> app_view a (snd (spec_register lrp s)) = app_view a s"
    and "Name lrp = b \<Longrightarrow> app_view a (snd (spec_reroute lrp s)) = app_view a s"
    and "Name lrp = b \<Longrightarrow> app_view a (snd (spec_rules lib lrp s)) = app_view a s"
    and "app_view a (snd (spec_remove b s)) = app_view a s"
    and "app_view a (snd (spec_withdraw b s)) = app_view a s"
    and "app_view a (snd (spec_unrule b s)) = app_view a s"
  using assms
  by (auto simp: app_view_def spec_create_def spec_scale_def spec_register_def spec_reroute_def spec_rules_def spec_remove_def
      spec_withdraw_def spec_unrule_def announce_def Let_def other_rules_view new_rules_view split: option.split sum.split)

lemma spec_call_view:
  assumes "call_app p \<noteq> a"
  shows "app_view a (snd (spec_call lib p s)) = app_view a s"
proof (cases p)
  case (CallDesire lrp)
  with assms have "a \<noteq> Name lrp" by simp
  with CallDesire show ?thesis
    by (auto simp: spec_views intro!: view_bind)
next
  case (CallUpdate lrp)
  with assms have "a \<noteq> Name lrp" by simp
  with CallUpdate show ?thesis
    by (auto simp: spec_views intro!: view_bind)
next
  case (CallStop b)
  with assms have "a \<noteq> b" by simp
  with CallStop show ?thesis
    by (auto simp: spec_views intro!: view_bind)
qed simp_all

lemma spec_calls_view:
  "\<forall>p \<in> set ps. call_app p \<noteq> a \<Longrightarrow> app_view a (snd (spec_calls lib ps s)) = app_view a s"
  by (induction ps arbitrary: s) (auto simp: Let_def split_beta spec_call_view)


text \<open>The rules and routes of the app \<^verbatim>\<open>dora\<close> survive what is done to another app.\<close>

definition neighbour_calls :: "desirer_call list" where
  "neighbour_calls = [CallDesire (sample_lrp ''other'' [''a.io'']), CallUpdate (sample_lrp ''other'' [''b.io'']), CallStop ''other'', CallStop ''other'']"

definition dora_tracker :: tracker where
  "dora_tracker = snd (make_calls typing_desirer [CallDesire (sample_lrp ''dora'' [''a.io''])] empty_tracker)"

lemma dora_store:
  "(as_instances (store_of_cluster ''eirini'' (tracker_abs dora_tracker)) ''dora'',
    as_routes (store_of_cluster ''eirini'' (tracker_abs dora_tracker)) ''dora'') = (Some 2, Some (marshal_strings (Some [''a.io''])))"
  by code_simp


end
