(* ===== verification/Request_Safety.thy ===== *)
theory Request_Safety
  imports Handler Cluster_Typing
begin

text \<open>
  What a request can do to the running program: from the route table over the bridge, the desirer and the stager down to the cluster, the
  programs of these parts are safe in the sense of \<open>Cluster_Typing\<close>. Any method on any path of an app or of a staging task, with any body, is
  answered and leaves the namespace well-typed, if the names in it are label values, an update has the fields that the
  bridge reads through pointers, and a staging request has its data; without these the program panics.

  The clients that the bridge and the stager call answer and leave the cluster alone (\<open>answers\<close>).
\<close>

section \<open>More rules for safe programs\<close>

lemma safe_try: "safe J m Q \<Longrightarrow> safe J (go_try m) (\<lambda>r. case r of Inl _ \<Rightarrow> True | Inr a \<Rightarrow> Q a)"
  unfolding safe_def
proof (intro allI impI)
  fix w assume m: "\<forall>w. J w \<longrightarrow> J (snd (m w)) \<and> settled (fst (m w)) \<and> (\<forall>a. fst (m w) = Return a \<longrightarrow> Q a)" and "J w"
  obtain r w' where "m w = (r, w')" by fastforce
  with m \<open>J w\<close> have "J w'" "settled r" "\<forall>a. r = Return a \<longrightarrow> Q a" by (metis fst_conv snd_conv)+
  with \<open>m w = (r, w')\<close> show "J (snd (go_try m w)) \<and> settled (fst (go_try m w))
      \<and> (\<forall>a. fst (go_try m w) = Return a \<longrightarrow> (case a of Inl _ \<Rightarrow> True | Inr a \<Rightarrow> Q a))"
    by (cases r) (simp_all add: go_simps)
qed

lemma safe_try_bind:
  assumes "safe J m Q" and "\<And>e. safe J (k (Inl e)) R" and "\<And>a. Q a \<Longrightarrow> safe J (k (Inr a)) R"
  shows "safe J (go_bind (go_try m) k) R"
  by (rule safe_bind [OF safe_try [OF assms(1)]]) (use assms(2,3) in \<open>auto split: sum.splits\<close>)

lemma safe_deref: "p \<noteq> None \<Longrightarrow> safe J (deref p) (\<lambda>a. p = Some a)"
  by (auto simp: safe_def)

lemma safe_throw: "safe J (go_throw e) Q"
  by (simp add: safe_def)

section \<open>What is asked of clients and requests\<close>

definition answers :: "('w \<Rightarrow> bool) \<Rightarrow> ('w \<Rightarrow> cluster) \<Rightarrow> ('w, 'a) go \<Rightarrow> bool" where
  "answers I \<alpha> m \<longleftrightarrow> (\<forall>w. I w \<longrightarrow> settled (fst (m w)) \<and> I (snd (m w)) \<and> \<alpha> (snd (m w)) = \<alpha> w)"

definition clients_answer :: "('w \<Rightarrow> bool) \<Rightarrow> ('w \<Rightarrow> cluster) \<Rightarrow> 'w DropletToImageConverter \<Rightarrow> bool" where
  "clients_answer I \<alpha> c \<longleftrightarrow> (\<forall>g. answers I \<alpha> (cf_GetDropletByAppGuid (cv_cfClient c) g))
     \<and> (\<forall>r. answers I \<alpha> (hc_Do (cv_client c) r)) \<and> (\<forall>url. hc_CheckURL (cv_client c) url = None)"

text \<open>The app a desire request names in its environment.\<close>

definition names_app :: "DesireLRPRequest \<Rightarrow> bool" where
  "names_app request \<longleftrightarrow> (case parseVcapApplication (nilmap_index (req_Environment request) ''VCAP_APPLICATION'') of
      Inl _ \<Rightarrow> True | Inr vcap \<Rightarrow> valid_label_value (vcap_AppID vcap))"

text \<open>An update with the fields that the bridge follows.\<close>

definition update_complete :: "UpdateDesiredLRPRequest \<Rightarrow> bool" where
  "update_complete request \<longleftrightarrow> (case ur_Update request of None \<Rightarrow> False
     | Some u \<Rightarrow> du_Instances u \<noteq> None \<and> du_Annotation u \<noteq> None
         \<and> (case du_Routes u of None \<Rightarrow> True | Some m \<Rightarrow> map_of m ''cf-router'' \<noteq> Some None))"

text \<open>The body of a request, by its method.\<close>

definition body_ok :: "string \<Rightarrow> string \<Rightarrow> bool" where
  "body_ok meth body \<longleftrightarrow>
     (meth = ''PUT'' \<longrightarrow> (case decode_stream dec_DesireLRPRequest zero_DesireLRPRequest body of
        Inl _ \<Rightarrow> True | Inr request \<Rightarrow> names_app request))
     \<and> (meth = ''POST'' \<longrightarrow> (case decode_stream dec_UpdateDesiredLRPRequest \<lparr>ur_ProcessGuid = '''', ur_Update = None\<rparr> body of
          Inl _ \<Rightarrow> True | Inr request \<Rightarrow> update_complete request))"

lemma answers_safe:
  "answers I \<alpha> m \<Longrightarrow> safe (\<lambda>w. I w \<and> well_typed ns (\<alpha> w)) m (\<lambda>_. True)"
  by (simp add: answers_def safe_def)

section \<open>The bridge\<close>

lemma getURIs_safe:
  assumes "case du_Routes u of None \<Rightarrow> True | Some m \<Rightarrow> map_of m ''cf-router'' \<noteq> Some None"
  shows "safe J (getURIs u) (\<lambda>_. True)"
  using assms unfolding getURIs_def routesAvailable_def
  by (auto split: option.splits intro!: safe_return safe_bind [OF safe_deref] safe_bind_lift)

context typed_cluster
begin

lemma convert_safe:
  assumes "clients_answer inv abs c" and "names_app request"
  shows "safe W (Convert ord c request) (\<lambda>lrp. valid_label_value (Name lrp) \<and> Metadata lrp \<noteq> None)"
proof -
  have stage: "safe W (stageRequest c vcap h bytes) (\<lambda>_. True)" for vcap h bytes
    using assms(1) unfolding stageRequest_def Let_def NewRequest_def clients_answer_def
    by (auto intro!: safe_bind [OF answers_safe] safe_return safe_throw)
  have "safe W (dropletToImageURI c request vcap) (\<lambda>_. True)" for vcap
    using assms(1) unfolding dropletToImageURI_def clients_answer_def
    by (auto intro!: safe_return safe_bind [OF answers_safe] safe_bind [OF stage])
  then show ?thesis
    using assms(2) unfolding Convert_def Let_def names_app_def
    by (intro safe_bind_lift safe_bind [where Q = "\<lambda>_. True"] safe_return) auto
qed

abbreviation bridge where
  "bridge lib rord ord eord c \<equiv> k8s_bifrost \<lparr>co_Convert = Convert eord c\<rparr> (k8s_desirer lib rord ord cl ns ch)"

lemma transfer_safe:
  assumes "clients_answer inv abs c" and "names_app request" and ord: "\<And>k. range_order (rord k)"
  shows "safe W (Bifrost_Transfer (bridge lib rord ord eord c) request) (\<lambda>_. True)"
proof -
  have "safe W (Desirer_Desire (k8s_desirer lib rord ord cl ns ch) lrp) (\<lambda>_. True)"
    if "valid_label_value (Name lrp)" "Metadata lrp \<noteq> None" for lrp
    using call_safe [where rord = rord, OF _ ord, of "CallDesire lrp"] that by simp
  then show ?thesis
    unfolding Bifrost_Transfer_def k8s_bifrost_fields Converter.simps by (intro safe_bind [OF convert_safe [OF assms(1,2)]]) simp
qed

lemma get_safe:
  assumes "valid_label_value a"
  shows "safe W (Desirer_Get (k8s_desirer lib rord ord cl ns ch) a) (\<lambda>lrp. Name lrp = a \<and> Metadata lrp \<noteq> None)"
proof -
  have "a \<noteq> ''''" using assms by (simp add: valid_label_value_def)
  then show ?thesis
    unfolding Desirer_Get_def k8s_desirer_fields NewStatefulSetManager_fields StatefulSetManager_Get_def newStatefulSetManager_fields
    by (intro safe_bind [OF sst.Get_safe]) (auto simp: statefulSetToLRP_def ss_typed_def intro!: safe_return)
qed

lemma update_safe:
  assumes "valid_label_value (ur_ProcessGuid request)" and "update_complete request" and ord: "\<And>k. range_order (rord k)"
  shows "safe W (Bifrost_Update (bridge lib rord ord eord c) request) (\<lambda>_. True)"
proof -
  obtain u where u: "ur_Update request = Some u" "du_Instances u \<noteq> None" "du_Annotation u \<noteq> None"
    "case du_Routes u of None \<Rightarrow> True | Some m \<Rightarrow> map_of m ''cf-router'' \<noteq> Some None"
    using assms(2) by (auto simp: update_complete_def split: option.splits)
  have "safe W (Desirer_Update (k8s_desirer lib rord ord cl ns ch) lrp) (\<lambda>_. True)" if "valid_label_value (Name lrp)" for lrp
    using call_safe [where rord = rord, OF _ ord, of "CallUpdate lrp"] that by simp
  with assms(1) u show ?thesis
    unfolding Bifrost_Update_def Let_def k8s_bifrost_fields
    by (intro safe_bind [OF get_safe] safe_bind [OF safe_deref] safe_bind [OF safe_assign] safe_bind [OF getURIs_safe])
      (auto simp: deref_def intro!: safe_return)
qed

lemma read_safe:
  assumes "valid_label_value a"
  shows "safe W (Bifrost_Stop (bridge lib rord ord eord c) a) (\<lambda>_. True)"
    and "safe W (Bifrost_GetApp (bridge lib rord ord eord c) a) (\<lambda>_. True)"
    and "safe W (Bifrost_GetInstances (bridge lib rord ord eord c) a) (\<lambda>_. True)"
proof -
  have "safe W (make_call (k8s_desirer lib rord ord cl ns ch) (CallStop a)) (\<lambda>_. True)"
    unfolding make_call.simps Desirer_Stop_def k8s_desirer_fields NewStatefulSetManager_fields
    by (rule safe_bind [OF instances_safe(3) [OF assms] safe_bind [OF ingress_delete_safe delete_service_safe]])
  then show "safe W (Bifrost_Stop (bridge lib rord ord eord c) a) (\<lambda>_. True)"
    by (simp add: Bifrost_Stop_def)
  show "safe W (Bifrost_GetApp (bridge lib rord ord eord c) a) (\<lambda>_. True)"
    unfolding Bifrost_GetApp_def k8s_bifrost_fields by (rule safe_try_bind [OF get_safe [OF assms]]) (simp_all add: safe_return)
  show "safe W (Bifrost_GetInstances (bridge lib rord ord eord c) a) (\<lambda>_. True)"
    unfolding Bifrost_GetInstances_def k8s_bifrost_fields by (rule safe_bind [OF get_safe [OF assms]]) (simp add: safe_return)
qed

lemma list_safe: "safe W (Bifrost_List (bridge lib rord ord eord c)) (\<lambda>_. True)"
proof -
  have "safe W (Desirer_List (k8s_desirer lib rord ord cl ns ch)) (\<lambda>_. True)"
    unfolding Desirer_List_def k8s_desirer_fields NewStatefulSetManager_fields StatefulSetManager_List_def newStatefulSetManager_fields
    by (rule safe_bind [OF sst.List_safe listed_instances_safe]) auto
  then show ?thesis
    unfolding Bifrost_List_def k8s_bifrost_fields by (rule safe_try_bind) (simp_all add: safe_return safe_throw)
qed

end

section \<open>The stager\<close>

sublocale typed_cluster \<subseteq> jbt: typed_resource
  "Jobs cl" job_Meta job_with_ns c_Jobs c_Jobs_update abs inv ns "\<lambda>_ _. True" "well_typed ns"
proof unfold_locales
  show "well_typed ns (c_Jobs_update (\<lambda>st. st((ns, n) \<mapsto> ob)) c)" if "well_typed ns c" for c n ob
    using that by (simp add: well_typed_def ingress_ok_def ingress_rules_def)
  show "well_typed ns (c_Jobs_update (\<lambda>st. st((ns, n) := None)) c)" if "well_typed ns c" for c n
    using that by (simp add: well_typed_def ingress_ok_def ingress_rules_def)
qed (simp_all add: namespace_named)

context typed_cluster
begin

lemma stage_safe:
  assumes "sr_LifecycleData request \<noteq> None" and "g \<noteq> ''''"
  shows "safe W (Stager_Stage (k8s_stager jord cl ns ip cfg client) g request) (\<lambda>_. True)"
proof -
  have "safe W (createStagingTask (k8s_stager jord cl ns ip cfg client) g request) (\<lambda>task. map_index (task_Env task) EnvStagingGUID = g)"
    unfolding createStagingTask_def Let_def using assms(1)
    by (intro safe_bind [OF safe_deref] safe_bind_lift safe_return) auto
  then show ?thesis
    unfolding Stager_Stage_def k8s_stager_fields TaskDesirer_DesireStaging_def Let_def TaskDesirer.simps
    by (rule safe_bind) (intro safe_bind [OF jbt.Create_safe] safe_return, use assms(2) in simp_all)
qed

lemma complete_safe:
  assumes "\<And>r. answers inv abs (hc_Do client r)" and "tcr_TaskGuid task \<noteq> ''''"
  shows "safe W (Stager_CompleteStaging (k8s_stager jord cl ns ip cfg client) task) (\<lambda>_. True)"
proof -
  have "safe W (executeRequest (k8s_stager jord cl ns ip cfg client) r) (\<lambda>_. True)" for r
    unfolding executeRequest_def k8s_stager_fields
    by (rule safe_bind [OF answers_safe [OF assms(1)]]) (simp add: safe_return safe_throw)
  then show ?thesis
    unfolding Stager_CompleteStaging_def k8s_stager_fields TaskDesirer_Delete_def TaskDesirer.simps
    by (intro safe_bind_lift) (rule safe_bind, assumption, rule jbt.Delete_safe [OF assms(2)])
qed

end

section \<open>The handlers\<close>

context typed_cluster
begin

lemma app_handlers_safe:
  fixes lib rord ord eord c pm g
  defines "a \<equiv> NewAppHandler (eirini_bifrost (bridge lib rord ord eord c)) pm"
  assumes "clients_answer inv abs c" and "body_ok m body" and "valid_label_value g" and "valid_label_value (take 36 g)"
    and ord: "\<And>k. range_order (rord k)"
  shows "m = ''PUT'' \<Longrightarrow> safe W (App_Desire a rw body g) (\<lambda>_. True)" and "m = ''POST'' \<Longrightarrow> safe W (App_Update a rw body g) (\<lambda>_. True)"
    and "safe W (App_Stop a rw g) (\<lambda>_. True)" and "safe W (App_GetApp a rw g) (\<lambda>_. True)"
    and "safe W (App_GetInstances a rw g) (\<lambda>_. True)" and "safe W (App_List a rw) (\<lambda>_. True)"
proof -
  have a: "app_bifrost a = eirini_bifrost (bridge lib rord ord eord c)" "app_printers a = pm"
    by (simp_all add: a_def NewAppHandler_def)
  show "safe W (App_Desire a rw body g) (\<lambda>_. True)" if "m = ''PUT''"
    using assms(3) that unfolding App_Desire_def a k8s_eirini_bifrost body_ok_def
    by (auto split: sum.splits intro!: safe_return safe_try_bind [OF transfer_safe [where rord = rord, OF assms(2) _ ord]])
  show "safe W (App_Update a rw body g) (\<lambda>_. True)" if "m = ''POST''"
    using assms(3,4) that unfolding App_Update_def a k8s_eirini_bifrost body_ok_def
    by (auto split: sum.splits intro!: safe_return safe_try_bind [OF update_safe [where rord = rord, OF _ _ ord]])
  have "valid_label_value (if length g > 36 then take 36 g else g)"
    using assms(4,5) by simp
  then show "safe W (App_Stop a rw g) (\<lambda>_. True)"
    unfolding App_Stop_def a k8s_eirini_bifrost Let_def by (intro safe_try_bind [OF read_safe(1)]) (simp_all add: safe_return)
  show "safe W (App_GetApp a rw g) (\<lambda>_. True)"
    unfolding App_GetApp_def a k8s_eirini_bifrost
    by (intro safe_bind [OF read_safe(2) [OF assms(4)]]) (auto split: option.split sum.split intro: safe_return)
  show "safe W (App_GetInstances a rw g) (\<lambda>_. True)"
    unfolding App_GetInstances_def a k8s_eirini_bifrost Let_def
    by (intro safe_try_bind [OF read_safe(3) [OF assms(4)]]) (simp_all add: safe_return)
  show "safe W (App_List a rw) (\<lambda>_. True)"
    unfolding App_List_def a k8s_eirini_bifrost Let_def
    by (intro safe_try_bind [OF list_safe]) (auto split: sum.split intro: safe_return)
qed

end

text \<open>A handler has no error result: the errors of the bridge become statuses.\<close>

definition no_error :: "('w, 'a) go \<Rightarrow> bool" where
  "no_error m \<longleftrightarrow> (\<forall>w e. fst (m w) \<noteq> Error e)"

lemma no_error_rules:
  "no_error (go_return a)" "no_error (go_try m)"
  "no_error m \<Longrightarrow> (\<And>a. no_error (k a)) \<Longrightarrow> no_error (go_bind m k)"
  unfolding no_error_def go_try_def go_bind_def by (auto split: prod.splits outcome.splits) (metis fst_conv)

lemma app_handlers_no_error:
  "no_error (App_Desire a rw body g)" "no_error (App_Update a rw body g)" "no_error (App_Stop a rw g)"
  "no_error (App_GetInstances a rw g)" "no_error (App_List a rw)"
  unfolding App_Desire_def App_Update_def App_Stop_def App_GetInstances_def App_List_def Let_def
  by (auto split: sum.split intro!: no_error_rules)

lemma get_app_no_error: "no_error (App_GetApp (NewAppHandler (eirini_bifrost b) pm) rw g)"
  unfolding App_GetApp_def NewAppHandler_def App.simps k8s_eirini_bifrost Bifrost_GetApp_def
  by (auto split: sum.split option.split intro!: no_error_rules)

section \<open>Requests\<close>

text \<open>A request on a path of the apps, or of one app, by its GUID.\<close>

definition app_path :: "string \<Rightarrow> string \<Rightarrow> bool" where
  "app_path g url \<longleftrightarrow> url \<in> {''/apps'', ''/apps/'' @ g, ''/apps/'' @ g @ ''/stop'', ''/apps/'' @ g @ ''/instances''}"

definition app_request :: "HTTPRequest \<Rightarrow> bool" where
  "app_request r \<longleftrightarrow> body_ok (rq_Method r) (rq_Body r)
     \<and> (\<exists>g. valid_label_value g \<and> valid_label_value (take 36 g) \<and> app_path g (rq_URL r))"

text \<open>A request on a path of a staging task: a staging request has data, and a completion names its task.\<close>

definition stage_body_ok :: "string \<Rightarrow> string \<Rightarrow> bool" where
  "stage_body_ok meth body \<longleftrightarrow>
     (meth = ''POST'' \<longrightarrow> (case decode_stream dec_StagingRequestFromCC zero_StagingRequestFromCC body of
        Inl _ \<Rightarrow> True | Inr request \<Rightarrow> sr_LifecycleData request \<noteq> None))
     \<and> (meth = ''PUT'' \<longrightarrow> (case decode_stream dec_TaskCallbackResponse zero_TaskCallbackResponse body of
          Inl _ \<Rightarrow> True | Inr task \<Rightarrow> tcr_TaskGuid task \<noteq> ''''))"

definition stage_request :: "HTTPRequest \<Rightarrow> bool" where
  "stage_request r \<longleftrightarrow> stage_body_ok (rq_Method r) (rq_Body r)
     \<and> (\<exists>g. slash_free g \<and> rq_URL r \<in> {''/stage/'' @ g, ''/stage/'' @ g @ ''/completed''})"

lemma label_slash_free: "valid_label_value g \<Longrightarrow> slash_free g"
  by (auto simp: valid_label_value_def slash_free_def label_char_def byte_of_def)

fun serve :: "(HTTPRequest \<Rightarrow> ('w, ResponseWriter) go) \<Rightarrow> HTTPRequest list \<Rightarrow> 'w \<Rightarrow> ResponseWriter outcome list \<times> 'w" where
  "serve h [] w = ([], w)"
| "serve h (r # rs) w = (let (x, w1) = h r w; (xs, w2) = serve h rs w1 in (x # xs, w2))"

text \<open>Which handler a request on such a path reaches.\<close>

lemma app_routes:
  assumes "slash_free g" and "app_path g (rq_URL r)"
  shows "Handler_New b st pm other r \<in> {App_List (NewAppHandler b pm) new_writer, App_GetApp (NewAppHandler b pm) new_writer g,
      App_Stop (NewAppHandler b pm) new_writer g, App_GetInstances (NewAppHandler b pm) new_writer g, other r}
    \<or> rq_Method r = ''PUT'' \<and> Handler_New b st pm other r = App_Desire (NewAppHandler b pm) new_writer (rq_Body r) g
    \<or> rq_Method r = ''POST'' \<and> Handler_New b st pm other r = App_Update (NewAppHandler b pm) new_writer (rq_Body r) g"
proof -
  have "split_on (CHR ''/'') ''/apps'' = ['''', ''apps'']" by simp
  with assms(2) split_path [OF assms(1)] obtain ss where ss: "split_on (CHR ''/'') (rq_URL r) = '''' # ss"
    and path: "ss = [''apps''] \<or> ss = [''apps'', g] \<or> ss = [''apps'', g, ''stop''] \<or> ss = [''apps'', g, ''instances'']"
    unfolding app_path_def by (metis empty_iff insert_iff)
  consider "rq_Method r = ''GET''" | "rq_Method r = ''PUT''" | "rq_Method r = ''POST''" | "rq_Method r \<notin> {''GET'', ''PUT'', ''POST''}" by blast
  then show ?thesis
    unfolding Handler_New_split [OF ss] using path assms(1)
    by cases (auto simp: registerAppsEndpoints_def registerStageEndpoints_def slash_free_def)
qed

lemma stage_routes:
  assumes "slash_free g" and "rq_URL r \<in> {''/stage/'' @ g, ''/stage/'' @ g @ ''/completed''}"
  shows "Handler_New b st pm other r = other r
    \<or> rq_Method r = ''POST'' \<and> Handler_New b st pm other r = Stage_Stage (NewStageHandler st) new_writer (rq_Body r) g
    \<or> rq_Method r = ''PUT'' \<and> Handler_New b st pm other r = Stage_StagingComplete (NewStageHandler st) new_writer (rq_Body r) g"
proof -
  obtain ss where ss: "split_on (CHR ''/'') (rq_URL r) = '''' # ss" and path: "ss = [''stage'', g] \<or> ss = [''stage'', g, ''completed'']"
    using assms(2) split_path [OF assms(1)] by blast
  consider "rq_Method r = ''GET''" | "rq_Method r = ''PUT''" | "rq_Method r = ''POST''" | "rq_Method r \<notin> {''GET'', ''PUT'', ''POST''}" by blast
  then show ?thesis
    unfolding Handler_New_split [OF ss] using path assms(1)
    by cases (auto simp: registerAppsEndpoints_def registerStageEndpoints_def slash_free_def)
qed

lemma stage_handlers_no_error:
  "no_error (Stage_Stage s rw body g)" "no_error (Stage_StagingComplete s rw body g)"
  unfolding Stage_Stage_def Stage_StagingComplete_def by (auto split: sum.split intro!: no_error_rules)

context typed_cluster
begin

abbreviation program where
  "program lib rord ord eord c jord ip cfg client pm other \<equiv>
     Handler_New (eirini_bifrost (bridge lib rord ord eord c)) (eirini_stager (k8s_stager jord cl ns ip cfg client)) pm other"

lemma stage_handlers_safe:
  fixes jord ip cfg client
  defines "s \<equiv> NewStageHandler (eirini_stager (k8s_stager jord cl ns ip cfg client))"
  assumes "\<And>r. answers inv abs (hc_Do client r)" and "stage_body_ok m body" and "g \<noteq> ''''"
  shows "m = ''POST'' \<Longrightarrow> safe W (Stage_Stage s rw body g) (\<lambda>_. True)" and "m = ''PUT'' \<Longrightarrow> safe W (Stage_StagingComplete s rw body g) (\<lambda>_. True)"
  using assms(3,4) unfolding s_def Stage_Stage_def Stage_StagingComplete_def stage_body_ok_def NewStageHandler_def Stage.simps
    eirini_stager_def eirini_Stager.simps
  by (auto split: sum.splits intro!: safe_return safe_try_bind [OF stage_safe] safe_try_bind [OF complete_safe [OF assms(2)]])

lemma request_answered:
  assumes "clients_answer inv abs c" and "\<And>r. answers inv abs (hc_Do client r)"
    and other: "\<And>r. safe W (other r) (\<lambda>_. True) \<and> no_error (other r)" and ord: "\<And>k. range_order (rord k)"
    and "app_request r \<or> stage_request r" and "W w"
    and run: "program lib rord ord eord c jord ip cfg client pm other r w = (x, w')"
  shows "(\<exists>rw. x = Return rw) \<and> W w'"
proof -
  let ?h = "program lib rord ord eord c jord ip cfg client pm other r"
  have "safe W ?h (\<lambda>_. True) \<and> no_error ?h"
    using assms(5)
  proof
    assume "app_request r"
    then obtain g where g: "body_ok (rq_Method r) (rq_Body r)" "valid_label_value g" "valid_label_value (take 36 g)" "app_path g (rq_URL r)"
      by (auto simp: app_request_def)
    show ?thesis
      using app_routes [OF label_slash_free [OF g(2)] g(4), of "eirini_bifrost (bridge lib rord ord eord c)"
          "eirini_stager (k8s_stager jord cl ns ip cfg client)" pm other]
        app_handlers_safe [where rord = rord, OF assms(1) g(1-3) ord] app_handlers_no_error get_app_no_error other
      by auto
  next
    assume "stage_request r"
    then obtain g where g: "stage_body_ok (rq_Method r) (rq_Body r)" "slash_free g" "rq_URL r \<in> {''/stage/'' @ g, ''/stage/'' @ g @ ''/completed''}"
      by (auto simp: stage_request_def)
    then have "g \<noteq> ''''" by (simp add: slash_free_def)
    show ?thesis
      using stage_routes [OF g(2,3), of "eirini_bifrost (bridge lib rord ord eord c)"
          "eirini_stager (k8s_stager jord cl ns ip cfg client)" pm other]
        stage_handlers_safe [OF assms(2) g(1) \<open>g \<noteq> ''''\<close>, where jord = jord and ip = ip and cfg = cfg] stage_handlers_no_error other
      by auto
  qed
  with \<open>W w\<close> run show ?thesis
    unfolding safe_def no_error_def by (cases x) (metis fst_conv snd_conv settled.simps)+
qed

lemma requests_answered:
  assumes "clients_answer inv abs c" and "\<And>r. answers inv abs (hc_Do client r)"
    and "\<And>r. safe W (other r) (\<lambda>_. True) \<and> no_error (other r)" and ord: "\<And>k. range_order (rord k)"
    and "W w" and "\<forall>r \<in> set rs. app_request r \<or> stage_request r"
    and "serve (program lib rord ord eord c jord ip cfg client pm other) rs w = (xs, w')"
  shows "(\<forall>x \<in> set xs. \<exists>rw. x = Return rw) \<and> W w'"
  using assms(5-7)
proof (induction rs arbitrary: w xs)
  case (Cons r rs)
  let ?h = "program lib rord ord eord c jord ip cfg client pm other"
  obtain x w1 where x: "?h r w = (x, w1)" by fastforce
  obtain xs' where xs: "serve ?h rs w1 = (xs', w')" "xs = x # xs'"
    using Cons.prems(3) by (auto simp: x Let_def split: prod.splits)
  have "(\<exists>rw. x = Return rw) \<and> W w1"
    using request_answered [where rord = rord, OF assms(1-3) ord _ Cons.prems(1) x] Cons.prems(2) by simp
  with Cons.IH [OF _ _ xs(1)] Cons.prems(2) xs(2) show ?case by simp
qed simp

end

section \<open>Properties\<close>


text \<open>
  The fields of an update are not checked: if the app is there, an update without the number of instances or without an annotation is not
  rejected, the pointer is followed and the program panics.
\<close>

theorem incomplete_update_panics:
  assumes "kube_cluster cl \<alpha> I ch" and "I w" and "ns \<noteq> ''''" and "well_typed ns (\<alpha> w)" and "valid_label_value g"
    and "c_StatefulSets (\<alpha> w) (ns, g) = Some s" and "decode_stream dec_UpdateDesiredLRPRequest \<lparr>ur_ProcessGuid = '''', ur_Update = None\<rparr> body = Inr request"
    and "ur_ProcessGuid request = g" and "case ur_Update request of None \<Rightarrow> True | Some u \<Rightarrow> du_Instances u = None \<or> du_Annotation u = None"
  shows "\<exists>msg. fst (Handler_New (eirini_bifrost (k8s_bifrost conv (k8s_desirer lib rord ord cl ns ch))) st pm other
    (request_to ''POST'' (''/apps/'' @ g) body) w) = Panic msg"
proof -
  have g: "g \<noteq> ''''" using assms(5) by (simp add: valid_label_value_def)
  have get: "rc_Get (StatefulSets cl) ns g w = (Return s, w)"
    using kube_resource.Get_found [OF kube_cluster.axioms(1) [OF assms(1)] assms(2,3) g assms(6)] .
  have "ss_typed g s" using assms(4,6) by (simp add: well_typed_def)
  then obtain ct where "ps_Containers (pt_Spec (ss_Template s)) = [ct]" by (auto simp: ss_typed_def)
  with get have lrp: "\<exists>lrp. Desirer_Get (k8s_desirer lib rord ord cl ns ch) g w = (Return lrp, w) \<and> Metadata lrp \<noteq> None"
    by (simp add: Desirer_Get_def StatefulSetManager_Get_def statefulSetToLRP_def go_simps)
  then have "\<exists>msg. Bifrost_Update (k8s_bifrost conv (k8s_desirer lib rord ord cl ns ch)) request w = (Panic msg, w)"
    using assms(8,9)
    by (cases "ur_Update request"; cases "du_Instances (the (ur_Update request))") (auto simp: Bifrost_Update_def go_bind_def Let_def)
  with assms(7,8) show ?thesis
    by (auto simp: dispatch(2) [OF label_slash_free [OF assms(5)]] App_Update_def NewAppHandler_def go_simps)
qed

section \<open>Witnesses\<close>

definition silent_http :: "tracker http_client" where
  "silent_http = \<lparr>hc_CheckURL = (\<lambda>_. None), hc_Do = (\<lambda>_. go_throw EOF), hc_Format = (\<lambda>_. '''')\<rparr>"

definition silent_clients :: "tracker DropletToImageConverter" where
  "silent_clients = NewConverter \<lparr>cf_GetDropletByAppGuid = (\<lambda>_. go_throw EOF), cf_PushDroplet = (\<lambda>_ _. go_throw EOF),
     cf_GetAppBitsByAppGuid = (\<lambda>_. go_throw EOF)\<rparr> silent_http ''10.0.0.2'' ''http://r''"

definition sample_config :: StagerConfig where
  "sample_config = \<lparr>sc_CfUsername = ''me'', sc_CfPassword = ''pw'', sc_APIAddress = ''api'', sc_EiriniAddress = ''e'', sc_SkipSslValidation = False\<rparr>"

definition sample_program :: "HTTPRequest \<Rightarrow> (tracker, ResponseWriter) go" where
  "sample_program = Handler_New (eirini_bifrost (k8s_bifrost \<lparr>co_Convert = Convert id silent_clients\<rparr> typing_desirer))
     (eirini_stager (k8s_stager id tracker_client ''eirini'' ''10.0.0.3'' sample_config silent_http)) no_printers
     (\<lambda>_. go_return (WriteHeader StatusNotFound new_writer))"

definition desire_body :: string where
  "desire_body = print_json (JObject [(''process_guid'', JString ''g''), (''docker_image'', JString ''img''),
     (''environment'', JObject [(''VCAP_APPLICATION'', JString (print_json (JObject [(''application_id'', JString ''g''),
       (''application_uris'', JArray [JString ''a.io''])])))]), (''instances'', json_int 3)])"

definition update_body :: string where
  "update_body = print_json (JObject [(''process_guid'', JString ''g''), (''update'', JObject [(''instances'', json_int 5),
     (''annotation'', JString ''2''), (''routes'', JObject [(''cf-router'', JArray [JObject [(''hostnames'', JArray [JString ''b.io''])]])])])])"

definition stage_body :: string where
  "stage_body = print_json (JObject [(''app_id'', JString ''g''), (''lifecycle_data'', JObject [])])"

definition complete_body :: string where
  "complete_body = print_json (JObject [(''task_guid'', JString ''t''), (''failed'', JBool True)])"

definition sample_requests :: "HTTPRequest list" where
  "sample_requests = [request_to ''PUT'' ''/apps/g'' desire_body, request_to ''POST'' ''/apps/g'' update_body, request_to ''GET'' ''/apps/g/instances'' ''null'',
     request_to ''PUT'' ''/apps/g'' ''junk'', request_to ''DELETE'' ''/apps/g'' ''junk'', request_to ''POST'' ''/stage/t'' stage_body,
     request_to ''PUT'' ''/stage/t/completed'' complete_body, request_to ''PUT'' ''/apps/g/stop'' ''junk'']"

lemma sample_bodies:
  "body_ok ''PUT'' desire_body" "body_ok ''POST'' update_body" "body_ok ''GET'' ''null''" "body_ok ''PUT'' ''junk''" "body_ok ''DELETE'' ''junk''"
  "stage_body_ok ''POST'' stage_body" "stage_body_ok ''PUT'' complete_body"
  by code_simp+

lemma sample_requests_ok: "\<forall>r \<in> set sample_requests. app_request r \<or> stage_request r"
proof -
  have "valid_label_value ''g''" by code_simp
  then have app: "app_request (request_to m url body)" if "body_ok m body" "app_path ''g'' url" for m url body
    using that by (auto simp: app_request_def intro!: exI [of _ "''g''"])
  have stage: "stage_request (request_to m url body)" if "stage_body_ok m body" "url \<in> {''/stage/'' @ ''t'', ''/stage/'' @ ''t'' @ ''/completed''}" for m url body
    using that by (auto simp: stage_request_def slash_free_def intro!: exI [of _ "''t''"])
  have "body_ok ''PUT'' ''junk''" "app_path ''g'' ''/apps/g''" "app_path ''g'' ''/apps/g/instances''" "app_path ''g'' ''/apps/g/stop''"
    using sample_bodies by (simp_all add: app_path_def)
  then have apps: "list_all app_request [request_to ''PUT'' ''/apps/g'' desire_body, request_to ''POST'' ''/apps/g'' update_body,
      request_to ''GET'' ''/apps/g/instances'' ''null'', request_to ''PUT'' ''/apps/g'' ''junk'', request_to ''DELETE'' ''/apps/g'' ''junk'',
      request_to ''PUT'' ''/apps/g/stop'' ''junk'']"
    unfolding list.pred_inject using sample_bodies by (intro conjI app list.pred_inject(1))
  have stages: "list_all stage_request [request_to ''POST'' ''/stage/t'' stage_body, request_to ''PUT'' ''/stage/t/completed'' complete_body]"
    unfolding list.pred_inject using sample_bodies by (intro conjI stage list.pred_inject(1)) simp_all
  show ?thesis
    using apps stages unfolding sample_requests_def list_all_iff list.set ball_simps by blast
qed

lemma desire_accepted:
  "(case fst (sample_program (request_to ''PUT'' ''/apps/g'' desire_body) empty_tracker) of Return rw \<Rightarrow> status_of rw | _ \<Rightarrow> 0) = StatusAccepted"
  by code_simp


end
