(* ===== verification/Spec2Isabelle.thy ===== *)
theory Spec2Isabelle
  imports Opi_Main Launch_Cmd Component_Doubles Staging_Cycle App_Push App_Spec Request_Safety
begin

text \<open>
  A verification development of Eirini, which runs Cloud Foundry apps on Kubernetes. All paths below are relative to
  \<^verbatim>\<open>src/\<close>.

  \<^bold>\<open>The program.\<close> The cloud controller sends HTTP requests to the handlers (\<^verbatim>\<open>handler/\<close>). Requests about apps go over the bridge
  (\<^verbatim>\<open>bifrost/\<close>), which converts them to long-running processes (\<^verbatim>\<open>opi/model.go\<close>), to the desirer (\<^verbatim>\<open>k8s/desire.go\<close>), which keeps a stateful
  set, two services and ingress rules per app by three managers. The service manager sends changes of routes over a channel to
  the route emitter (\<^verbatim>\<open>route/\<close>), which publishes them to the router; a collector sends all routes again at every tick. Staging requests go to the
  stager (\<^verbatim>\<open>stager/\<close>), which creates a job by the task desirer (\<^verbatim>\<open>k8s/desiretask.go\<close>); the recipe (\<^verbatim>\<open>recipe/\<close>) runs in that job, builds a droplet, and
  reports to the handlers; the stager tells the cloud controller and deletes the job. Droplets are served as image layers by a registry
  (\<^verbatim>\<open>registry/\<close>, \<^verbatim>\<open>blobondemand/\<close>). The commands (\<^verbatim>\<open>cmd/opi/\<close>, \<^verbatim>\<open>recipe/cmd/\<close>, \<^verbatim>\<open>launcher/\<close>) put the parts together.

  \<^bold>\<open>How Go is read.\<close> \<open>Prelude\<close>: a function that may fail or touch the world is a state transformer with an outcome (return, error, panic,
  blocked for ever); maps are association lists, and where a \<^verbatim>\<open>range\<close> visits a map its order is an argument; integers are words of their width.
  What is used of the standard library is modelled: \<open>Go_Json\<close> and \<open>Json_Print\<close> (\<^verbatim>\<open>encoding/json\<close>: parser, decoders over the zero value of a struct,
  printer, UTF-8), \<open>Go_Http\<close> (\<^verbatim>\<open>net/http\<close>: requests, responses, response writers), \<open>Go_Path\<close> (\<^verbatim>\<open>path/filepath\<close>), \<open>Go_Os\<close> (\<^verbatim>\<open>os\<close>: environment and
  file system). The JSON parser has fuel; twice the length of the text and one more is enough, which is proved by \<open>parse_value_fuel\<close> and used in
  \<open>json_text\<close>. No other definition has fuel: the other loops are structural or have a termination proof.

  \<^bold>\<open>Theories and sources.\<close>
  \<^item> \<open>Eirini_Models\<close>: \<^verbatim>\<open>models.go\<close>, \<^verbatim>\<open>models/cf/models.go\<close>, \<^verbatim>\<open>opi/model.go\<close>. Names of services are injective and do not collide.
  \<^item> \<open>Kube_Api\<close>, \<open>Object_Tracker\<close>: the Kubernetes client as an interface (the locale \<open>kube_cluster\<close>: what each call returns and does to an abstract
    cluster), and the object tracker of the vendored \<^verbatim>\<open>client-go\<close>, on which the locale is interpreted.
  \<^item> \<open>Probe_Creator\<close> (\<^verbatim>\<open>k8s/probe.go\<close>, \<^verbatim>\<open>helpers.go\<close>), \<open>Service_Manager\<close> (\<^verbatim>\<open>k8s/service.go\<close>, \<^verbatim>\<open>routes.go\<close>), \<open>Stateful_Set\<close> (\<^verbatim>\<open>k8s/statefulset.go\<close>),
    \<open>Ingress_Manager\<close> (\<^verbatim>\<open>k8s/ingress.go\<close>, with rules on a heap because its maps are keyed by pointers), \<open>K8s_Desirer\<close> (\<^verbatim>\<open>k8s/desire.go\<close>): what each operation does to the
    cluster on every branch; the router's view follows the services; ingress updates refine an abstract set of rules; desiring and stopping
    undo each other.
  \<^item> \<open>Cluster_Typing\<close>: a type system for the objects of a namespace (locales \<open>typed_resource\<close> and \<open>typed_cluster\<close>); the calls of the desirer neither
    panic nor block in a well-typed namespace and keep it well-typed, so that traffic gets to the right pods.
  \<^item> \<open>App_Spec\<close>: what the desirer promises without Kubernetes, a store of apps with an outcome and an effect for every call; the calls on a cluster simulate
    those on the store (\<open>sim\<close>, with a rule for sequences), on every branch, and apps are isolated from each other.
  \<^item> \<open>Route_Emitter\<close>, \<open>Route_System\<close>: \<^verbatim>\<open>route/\<close>, with the recording publisher of its tests (\<open>Route_Fakes\<close>) as a message bus. Goroutines are a step relation;
    every batch is taken once, every message is published, and a router that decodes the messages knows the routes.
  \<^item> \<open>Bifrost\<close> (\<^verbatim>\<open>bifrost/\<close>, \<^verbatim>\<open>launcher/launcher.go\<close>), \<open>Task_Desirer\<close> (\<^verbatim>\<open>k8s/desiretask.go\<close>), \<open>Cc_Messages\<close> (the vendored message structs of staging),
    \<open>Stager\<close> (\<^verbatim>\<open>stager/\<close>), \<open>Handler\<close> (\<^verbatim>\<open>handler/\<close>): from the JSON on the wire to the cluster and back. \<open>Request_Safety\<close>: every request about apps and staging tasks is
    answered, whatever its body, and keeps the namespace well-typed; which requests are excepted, and why.
  \<^item> \<open>Blob_Store\<close> (\<^verbatim>\<open>blobondemand/\<close>), \<open>Registry\<close> (\<^verbatim>\<open>registry/\<close>): the locales \<open>blob_store\<close> and \<open>registry_stores\<close>, interpreted on the stores in memory; a droplet
    that is posted is served, and references always resolve.
  \<^item> \<open>Unzipper\<close>, \<open>Recipe\<close> (\<^verbatim>\<open>recipe/\<close>), \<open>Staging_System\<close> (recipe, handlers and stager connected), \<open>Recipe_Cmd\<close> (\<^verbatim>\<open>recipe/cmd/\<close>), \<open>Launch_Cmd\<close>
    (\<^verbatim>\<open>launcher/launchcmd/\<close>), \<open>Opi_Cmd\<close> and \<open>Opi_Main\<close> (\<^verbatim>\<open>cmd/opi/\<close>): the extraction of archives, the steps of the recipe and their reports, the environment of the
    staging job, the index of an instance, what the commands serve and how the command line gets to them.
  \<^item> \<open>World_Parts\<close>, \<open>Kube_Parts\<close>, \<open>Files_Only\<close>: programs on a part of a larger world (locale \<open>world_part\<close>), a cluster as a part that keeps its promises, and
    programs that touch files only. On these stand the two systems in which the programs run together: \<open>Staging_Cycle\<close>, the life of a
    staging task from the request of the cloud controller over the job in the cluster to the report and the removal of the job, and \<open>App_Push\<close>, from the
    desire request over the registry to the image that the stateful set names.
  \<^item> \<open>Counterfeiter\<close>: what the generated test doubles have in common (locale \<open>spy_method\<close>: every call is recorded, and answered by the stub, the result for
    that call, or the default); \<open>Interface_Values\<close>, \<open>K8s_Fakes\<close>, \<open>Opi_Fakes\<close>, \<open>Eirini_Fakes\<close>, \<open>Recipe_Fakes\<close>, \<open>Route_Fakes\<close>: the doubles themselves, with
    their methods. \<open>Component_Doubles\<close>: the desirer and the recipe on doubles, so that the calls they make, their order and arguments and what becomes of
    every error are theorems for every script of answers.

  \<^bold>\<open>Arguments of the model.\<close> Code that is not in the repository's own packages is an argument where it is used, with what is relied on as a
  hypothesis: the Kubernetes API server, the cloud controller client, HTTP clients, NATS, the URL parser of \<^verbatim>\<open>net/url\<close>, SHA-256, gzip, tar and zip, X.509,
  YAML, the command line library, the Protocol Buffers printer, the router's answers to unknown paths, the texts of library errors, processes, and how a
  container is started.

  \<^bold>\<open>What the code does otherwise than meant.\<close> Some theorems state behaviour that is a defect: stopping an app can leak its service, the listing reports
  GUIDs the other calls do not find, a blob can be read once, requests for unknown blobs and droplets panic, a staging request
  without data and an update without instances or annotation panic, errors of the result are not reported, archives can write outside their directory, and times wrap at 32 bits.

  \<^bold>\<open>Not modelled.\<close> Log messages, scripts, Helm charts and vendored code other than the object tracker. The mutexes and stacks of the doubles: their calls are
  steps of one thread. Permissions of the file system are recorded and not enforced; symbolic links do not exist in it.
\<close>

end
